(* ===== verification/Prelude.thy ===== *)
theory Prelude
  imports Main "HOL-Library.Word" "HOL-Library.Monad_Syntax"
begin

unbundle bit_operations_syntax

text \<open>
  Shared vocabulary of the development: the widths of the integers, object addresses,
  undefined behaviour as \<open>None\<close>, the loops of the handlers as monadic list
  functions, and the total-correctness predicate \<open>wp\<close> the component proofs are
  written in.

  \<^item> An address is a \<open>nat\<close>; 0 is the null pointer, as in the code's \<open>== NULL\<close> tests.
  \<^item> A value of type \<open>'a option\<close> is the outcome of code that may run into undefined
    behaviour (a dereference of freed memory, \<open>erase(end())\<close>, an index out of range):
    \<open>None\<close> says that it does. It never stands for an error the code handles.
\<close>

type_synonym u8 = "8 word"
type_synonym u16 = "16 word"
type_synonym u32 = "32 word"
type_synonym u64 = "64 word"
type_synonym bytes = "8 word list"
type_synonym ptr = nat

named_theorems wp_intro \<open>rules that reduce a \<open>wp\<close> goal to the steps of the program\<close>
named_theorems codec_simps \<open>what the packet readers and writers do on byte lists\<close>

section \<open>Undefined behaviour and total correctness\<close>

definition wp :: "'a option \<Rightarrow> ('a \<Rightarrow> bool) \<Rightarrow> bool" where
  "wp m P = (case m of None \<Rightarrow> False | Some x \<Rightarrow> P x)"

lemma wp_Some [simp]: "wp (Some x) P = P x"
  by (simp add: wp_def)

lemma wp_None [simp]: "\<not> wp None P"
  by (simp add: wp_def)

lemma wp_bind [simp]: "wp (Option.bind m f) P = wp m (\<lambda>x. wp (f x) P)"
  by (cases m) (simp_all add: wp_def)

lemma wp_if [simp]: "wp (if b then m else n) P = (if b then wp m P else wp n P)"
  by simp

lemma wp_mono: "wp m P \<Longrightarrow> (\<And>x. m = Some x \<Longrightarrow> P x \<Longrightarrow> Q x) \<Longrightarrow> wp m Q"
  by (cases m) (simp_all add: wp_def)

lemma wp_conj: "wp m P \<Longrightarrow> wp m Q \<Longrightarrow> wp m (\<lambda>x. P x \<and> Q x)"
  by (cases m) (simp_all add: wp_def)

lemma wp_iff: "wp m P \<longleftrightarrow> (\<exists>x. m = Some x \<and> P x)"
  by (cases m) (simp_all add: wp_def)

lemma wpI: "m = Some x \<Longrightarrow> P x \<Longrightarrow> wp m P"
  by simp

lemma wp_bindI [wp_intro]: "wp m (\<lambda>x. wp (f x) P) \<Longrightarrow> wp (Option.bind m f) P"
  by simp

section \<open>Loops of the handlers\<close>

text \<open>A range-for loop whose body may meet undefined behaviour.\<close>

fun foldM :: "('a \<Rightarrow> 's \<Rightarrow> 's option) \<Rightarrow> 'a list \<Rightarrow> 's \<Rightarrow> 's option" where
  "foldM f [] s = Some s"
| "foldM f (x # xs) s = Option.bind (f x s) (foldM f xs)"

text \<open>\<open>erase(remove_if(..))\<close>: the elements for which the test, which may dereference, fails.\<close>

fun filterM :: "('a \<Rightarrow> bool option) \<Rightarrow> 'a list \<Rightarrow> 'a list option" where
  "filterM p [] = Some []"
| "filterM p (x # xs) =
     Option.bind (p x) (\<lambda>b. Option.bind (filterM p xs) (\<lambda>ys. Some (if b then x # ys else ys)))"

text \<open>A list built by a step that may be undefined.\<close>

fun mapM :: "('a \<Rightarrow> 'b option) \<Rightarrow> 'a list \<Rightarrow> 'b list option" where
  "mapM f [] = Some []"
| "mapM f (x # xs) = do { y \<leftarrow> f x; ys \<leftarrow> mapM f xs; Some (y # ys) }"

text \<open>\<open>find_if\<close>: the first element that passes; 0 (NULL) where the code returns NULL.\<close>

fun findM :: "(ptr \<Rightarrow> bool option) \<Rightarrow> ptr list \<Rightarrow> ptr option" where
  "findM p [] = Some 0"
| "findM p (x # xs) = Option.bind (p x) (\<lambda>b. if b then Some x else findM p xs)"

text \<open>\<open>v.erase(find(v.begin(), v.end(), x))\<close>: undefined when \<open>x\<close> is not in \<open>v\<close>.\<close>

definition vec_erase :: "'a \<Rightarrow> 'a list \<Rightarrow> 'a list option" where
  "vec_erase x v = (if x \<in> set v then Some (remove1 x v) else None)"

text \<open>\<open>v[i]\<close>: undefined out of range.\<close>

definition vec_at :: "'a list \<Rightarrow> nat \<Rightarrow> 'a option" where
  "vec_at v i = (if i < length v then Some (v ! i) else None)"

lemma foldM_inv:
  assumes "I s" and "\<And>x s. x \<in> set xs \<Longrightarrow> I s \<Longrightarrow> wp (f x s) I"
  shows "wp (foldM f xs s) I"
  using assms
proof (induction xs arbitrary: s)
  case (Cons x xs)
  have "wp (f x s) I" using Cons.prems by simp
  then have "wp (f x s) (\<lambda>s'. wp (foldM f xs s') I)"
    by (rule wp_mono) (rule Cons.IH, auto intro: Cons.prems(2))
  then show ?case by simp
qed simp

lemma foldM_same:
  assumes "\<And>x s s'. f x s = Some s' \<Longrightarrow> g s' = g s" and "foldM f xs s = Some s'"
  shows "g s' = g s"
  using assms(2)
proof (induction xs arbitrary: s)
  case (Cons x xs)
  then obtain t where "f x s = Some t" "foldM f xs t = Some s'" by (auto simp: bind_eq_Some_conv)
  then show ?case using assms(1) [of x s t] Cons.IH [of t] by simp
qed simp

lemma foldM_append: "foldM f (xs @ ys) s = Option.bind (foldM f xs s) (foldM f ys)"
  by (induction xs arbitrary: s) (auto simp: bind_eq_Some_conv split: bind_split)

lemma mapM_total: "(\<And>x. x \<in> set xs \<Longrightarrow> f x \<noteq> None) \<Longrightarrow> wp (mapM f xs) (\<lambda>ys. length ys = length xs)"
proof (induction xs)
  case (Cons x xs)
  have "wp (mapM f xs) (\<lambda>ys. length ys = length xs)" using Cons by simp
  moreover obtain y where "f x = Some y" using Cons.prems [of x] by auto
  ultimately show ?case by (auto simp: wp_iff)
qed simp

lemma filterM_total:
  "(\<And>x. x \<in> set xs \<Longrightarrow> p x = Some (q x)) \<Longrightarrow> filterM p xs = Some (filter q xs)"
  by (induction xs) auto

lemma findM_total:
  "(\<And>x. x \<in> set xs \<Longrightarrow> p x = Some (q x)) \<Longrightarrow>
    findM p xs = Some (case find q xs of None \<Rightarrow> 0 | Some x \<Rightarrow> x)"
  by (induction xs) auto

lemma vec_erase_in [simp]: "x \<in> set v \<Longrightarrow> vec_erase x v = Some (remove1 x v)"
  by (simp add: vec_erase_def)

lemma vec_at_in [simp]: "i < length v \<Longrightarrow> vec_at v i = Some (v ! i)"
  by (simp add: vec_at_def)

lemma find_SomeD: "find q xs = Some x \<Longrightarrow> x \<in> set xs \<and> q x"
  by (auto simp: find_Some_iff)

lemma find_unique:
  assumes "x \<in> set xs" and "q x" and "\<And>y. y \<in> set xs \<Longrightarrow> q y \<Longrightarrow> y = x"
  shows "find q xs = Some x"
  using assms
proof (induction xs)
  case (Cons y ys)
  show ?case
  proof (cases "q y")
    case True
    then have "y = x" by (intro Cons.prems(3)) simp_all
    with True show ?thesis by simp
  next
    case False
    then have "x \<in> set ys" using Cons.prems(1,2) by auto
    then have "find q ys = Some x"
      by (rule Cons.IH) (use Cons.prems(2) in simp, rule Cons.prems(3), simp_all)
    then show ?thesis using False by simp
  qed
qed simp

end
