(* ===== verification/Packet.thy ===== *)
theory Packet
  imports Prelude
begin

text \<open>
  \<open>TCPConnection::Packet\<close> of \<open>networking/tcp_connection.h\<close> and its constructor in
  \<open>networking/tcp_connection.cpp\<close>: a byte buffer with a read and a write offset, the
  little and big endian accessors, strings, arrays and the four byte header.
  The locale \<open>codec\<close> is the contract between what a handler writes and what a
  handler reads; it is interpreted for every scalar the packets carry.
\<close>

section \<open>The object\<close>

datatype PacketSource = Client | Server

record packet =
  p_source :: PacketSource
  p_connection :: ptr
  p_buffer :: bytes
  p_signature :: u8
  p_sequence :: u8
  p_length :: u16
  p_readOffset :: nat
  p_writeOffset :: nat

definition TCP_PACKET_SIGNATURE :: u8 where "TCP_PACKET_SIGNATURE = 85"
definition PACKET_HEADER_SIZE :: nat where "PACKET_HEADER_SIZE = 4"
definition TCP_PACKET_MAX_SIZE :: nat where "TCP_PACKET_MAX_SIZE = 65536"

section \<open>Bytes of an integer\<close>

text \<open>\<open>le_bytes n v\<close>: the bytes \<open>(unsigned char)(v >> mask)\<close> for \<open>mask = 0, 8, ..\<close>.\<close>

fun le_bytes :: "nat \<Rightarrow> 'a::len word \<Rightarrow> bytes" where
  "le_bytes 0 v = []"
| "le_bytes (Suc n) v = ucast v # le_bytes n (drop_bit 8 v)"

text \<open>The integer whose object representation, in a little endian memory, is a byte list.\<close>

fun le_word :: "bytes \<Rightarrow> 'a::len word" where
  "le_word [] = 0"
| "le_word (b # bs) = ucast b OR push_bit 8 (le_word bs)"

definition byte_of :: "char \<Rightarrow> u8" where "byte_of c = of_nat (of_char c)"
definition char_of_byte :: "u8 \<Rightarrow> char" where "char_of_byte b = char_of (unat b)"

section \<open>Reading\<close>

definition ReadBytes :: "nat \<Rightarrow> bool \<Rightarrow> packet \<Rightarrow> bytes \<times> packet" where
  "ReadBytes n LE p =
     (if p_readOffset p + n > length (p_buffer p) then (replicate n 0, p)
      else (let src = take n (drop (p_readOffset p) (p_buffer p));
                dst = (if LE then src else rev src)
            in (dst, p\<lparr>p_readOffset := p_readOffset p + n\<rparr>)))"

definition ReadInt8 :: "packet \<Rightarrow> u8 \<times> packet" where
  "ReadInt8 p = (let (bs, p) = ReadBytes 1 True p in (le_word bs, p))"

definition ReadUInt8 :: "packet \<Rightarrow> u8 \<times> packet" where
  "ReadUInt8 p = (let (bs, p) = ReadBytes 1 True p in (le_word bs, p))"

definition ReadBool :: "packet \<Rightarrow> bool \<times> packet" where
  "ReadBool p = (let (bs, p) = ReadBytes 1 True p in ((le_word bs :: u8) \<noteq> 0, p))"

definition ReadUInt16_LE :: "packet \<Rightarrow> u16 \<times> packet" where
  "ReadUInt16_LE p = (let (bs, p) = ReadBytes 2 True p in (le_word bs, p))"

definition ReadUInt16_BE :: "packet \<Rightarrow> u16 \<times> packet" where
  "ReadUInt16_BE p = (let (bs, p) = ReadBytes 2 False p in (le_word bs, p))"

definition ReadUInt32_LE :: "packet \<Rightarrow> u32 \<times> packet" where
  "ReadUInt32_LE p = (let (bs, p) = ReadBytes 4 True p in (le_word bs, p))"

definition ReadUInt32_BE :: "packet \<Rightarrow> u32 \<times> packet" where
  "ReadUInt32_BE p = (let (bs, p) = ReadBytes 4 False p in (le_word bs, p))"

definition ReadUInt64_LE :: "packet \<Rightarrow> u64 \<times> packet" where
  "ReadUInt64_LE p = (let (bs, p) = ReadBytes 8 True p in (le_word bs, p))"

definition ReadUInt64_BE :: "packet \<Rightarrow> u64 \<times> packet" where
  "ReadUInt64_BE p = (let (bs, p) = ReadBytes 8 False p in (le_word bs, p))"

text \<open>
  A signed integer is the word with the same bits, read with \<open>sint\<close>; a \<open>float\<close> or \<open>double\<close> is its
  bit pattern: the class only moves the bytes of its object representation.
\<close>

definition ReadInt16_LE :: "packet \<Rightarrow> u16 \<times> packet" where
  "ReadInt16_LE p = (let (bs, p) = ReadBytes 2 True p in (le_word bs, p))"

definition ReadInt16_BE :: "packet \<Rightarrow> u16 \<times> packet" where
  "ReadInt16_BE p = (let (bs, p) = ReadBytes 2 False p in (le_word bs, p))"

definition ReadInt32_LE :: "packet \<Rightarrow> u32 \<times> packet" where
  "ReadInt32_LE p = (let (bs, p) = ReadBytes 4 True p in (le_word bs, p))"

definition ReadInt32_BE :: "packet \<Rightarrow> u32 \<times> packet" where
  "ReadInt32_BE p = (let (bs, p) = ReadBytes 4 False p in (le_word bs, p))"

definition ReadInt64_LE :: "packet \<Rightarrow> u64 \<times> packet" where
  "ReadInt64_LE p = (let (bs, p) = ReadBytes 8 True p in (le_word bs, p))"

definition ReadInt64_BE :: "packet \<Rightarrow> u64 \<times> packet" where
  "ReadInt64_BE p = (let (bs, p) = ReadBytes 8 False p in (le_word bs, p))"

definition ReadFloat_LE :: "packet \<Rightarrow> u32 \<times> packet" where
  "ReadFloat_LE p = (let (bs, p) = ReadBytes 4 True p in (le_word bs, p))"

definition ReadFloat_BE :: "packet \<Rightarrow> u32 \<times> packet" where
  "ReadFloat_BE p = (let (bs, p) = ReadBytes 4 False p in (le_word bs, p))"

definition ReadDouble_LE :: "packet \<Rightarrow> u64 \<times> packet" where
  "ReadDouble_LE p = (let (bs, p) = ReadBytes 8 True p in (le_word bs, p))"

definition ReadDouble_BE :: "packet \<Rightarrow> u64 \<times> packet" where
  "ReadDouble_BE p = (let (bs, p) = ReadBytes 8 False p in (le_word bs, p))"

text \<open>
  \<open>ReadString\<close> loops until \<open>ReadInt8\<close> yields 0. Past the end of the buffer
  \<open>ReadInt8\<close> yields 0 without moving, so the loop ends there too; the number of bytes
  left is the measure.
\<close>

lemma ReadInt8_nonzero:
  "ReadInt8 p = (c, p') \<Longrightarrow> c \<noteq> 0 \<Longrightarrow>
    p_readOffset p < length (p_buffer p) \<and> p_buffer p' = p_buffer p \<and>
    p_readOffset p' = Suc (p_readOffset p)"
  by (auto simp: ReadInt8_def ReadBytes_def split: if_splits)

function ReadString :: "packet \<Rightarrow> string \<times> packet" where
  "ReadString p =
     (let (curChar, p') = ReadInt8 p
      in if curChar = 0 then ([], p')
         else let (rest, p'') = ReadString p' in (char_of_byte curChar # rest, p''))"
  by pat_completeness auto
termination
proof (relation "measure (\<lambda>p. length (p_buffer p) - p_readOffset p)", goal_cases)
  case (2 p x c p')
  then have "ReadInt8 p = (c, p')" and "c \<noteq> 0" by simp_all
  from ReadInt8_nonzero [OF this] show ?case by auto
qed simp

declare ReadString.simps [simp del]

primrec ReadArray_UInt8 :: "nat \<Rightarrow> packet \<Rightarrow> bytes \<times> packet" where
  "ReadArray_UInt8 0 p = ([], p)"
| "ReadArray_UInt8 (Suc len) p =
     (let (b, p) = ReadUInt8 p; (bs, p) = ReadArray_UInt8 len p in (b # bs, p))"

primrec ReadArray_Int8 :: "nat \<Rightarrow> packet \<Rightarrow> bytes \<times> packet" where
  "ReadArray_Int8 0 p = ([], p)"
| "ReadArray_Int8 (Suc len) p =
     (let (b, p) = ReadInt8 p; (bs, p) = ReadArray_Int8 len p in (b # bs, p))"

section \<open>Writing\<close>

definition insert_byte :: "u8 \<Rightarrow> packet \<Rightarrow> packet" where
  "insert_byte b p = p\<lparr>
     p_buffer := take (p_writeOffset p) (p_buffer p) @ b # drop (p_writeOffset p) (p_buffer p),
     p_writeOffset := p_writeOffset p + 1\<rparr>"

definition WriteBytes :: "nat \<Rightarrow> 'a::len word \<Rightarrow> bool \<Rightarrow> packet \<Rightarrow> packet" where
  "WriteBytes n v LE p =
     (let p' = fold insert_byte (if LE then le_bytes n v else rev (le_bytes n v)) p
      in p'\<lparr>p_length := p_length p' + of_nat n\<rparr>)"

text \<open>
  The write methods of the class. A packet is built by a sequence of calls, so a
  builder of the program is a list of them and \<open>run_writes\<close> executes it.
\<close>

datatype wcall =
    WriteBool bool
  | WriteString string
  | WriteInt8 u8
  | WriteUInt8 u8
  | WriteUInt16_LE u16
  | WriteUInt16_BE u16
  | WriteUInt32_LE u32
  | WriteUInt32_BE u32
  | WriteUInt64_LE u64
  | WriteUInt64_BE u64
  | WriteInt16_LE u16
  | WriteInt16_BE u16
  | WriteInt32_LE u32
  | WriteInt32_BE u32
  | WriteInt64_LE u64
  | WriteInt64_BE u64
  | WriteFloat_LE u32
  | WriteFloat_BE u32
  | WriteDouble_LE u64
  | WriteDouble_BE u64
  | WriteArray_Int8 bytes
  | WriteArray_UInt8 bytes

fun run_write :: "wcall \<Rightarrow> packet \<Rightarrow> packet" where
  "run_write (WriteBool b) p = WriteBytes 1 (if b then 1 else 0 :: u8) True p"
| "run_write (WriteString s) p =
     WriteBytes 1 (0 :: u8) True (fold (\<lambda>c. WriteBytes 1 (byte_of c) True) s p)"
| "run_write (WriteInt8 v) p = WriteBytes 1 v True p"
| "run_write (WriteUInt8 v) p = WriteBytes 1 v True p"
| "run_write (WriteUInt16_LE v) p = WriteBytes 2 v True p"
| "run_write (WriteUInt16_BE v) p = WriteBytes 2 v False p"
| "run_write (WriteUInt32_LE v) p = WriteBytes 4 v True p"
| "run_write (WriteUInt32_BE v) p = WriteBytes 4 v False p"
| "run_write (WriteUInt64_LE v) p = WriteBytes 8 v True p"
| "run_write (WriteUInt64_BE v) p = WriteBytes 8 v False p"
| "run_write (WriteInt16_LE v) p = WriteBytes 2 v True p"
| "run_write (WriteInt16_BE v) p = WriteBytes 2 v False p"
| "run_write (WriteInt32_LE v) p = WriteBytes 4 v True p"
| "run_write (WriteInt32_BE v) p = WriteBytes 4 v False p"
| "run_write (WriteInt64_LE v) p = WriteBytes 8 v True p"
| "run_write (WriteInt64_BE v) p = WriteBytes 8 v False p"
| "run_write (WriteFloat_LE v) p = WriteBytes 4 v True p"
| "run_write (WriteFloat_BE v) p = WriteBytes 4 v False p"
| "run_write (WriteDouble_LE v) p = WriteBytes 8 v True p"
| "run_write (WriteDouble_BE v) p = WriteBytes 8 v False p"
| "run_write (WriteArray_Int8 vs) p = fold (\<lambda>v. WriteBytes 1 v True) vs p"
| "run_write (WriteArray_UInt8 vs) p = fold (\<lambda>v. WriteBytes 1 v True) vs p"

definition run_writes :: "wcall list \<Rightarrow> packet \<Rightarrow> packet" where
  "run_writes ws p = fold run_write ws p"

section \<open>Hexadecimal dump\<close>

definition hex_digit :: "nat \<Rightarrow> char" where
  "hex_digit n = ''0123456789abcdef'' ! n"

definition hex_byte :: "u8 \<Rightarrow> string" where
  "hex_byte b = [hex_digit (unat b div 16), hex_digit (unat b mod 16), CHR '' '']"

definition ByteStr :: "bool \<Rightarrow> packet \<Rightarrow> string" where
  "ByteStr LE p = concat (map hex_byte (if LE then p_buffer p else rev (p_buffer p)))"

section \<open>Construction and header\<close>

text \<open>The constructor for a packet of the server.\<close>

definition Packet_Server :: "ptr \<Rightarrow> bytes \<Rightarrow> packet" where
  "Packet_Server connection buffer = \<lparr>
     p_source = Server, p_connection = connection, p_buffer = buffer,
     p_signature = TCP_PACKET_SIGNATURE, p_sequence = 0, p_length = of_nat (length buffer),
     p_readOffset = 0, p_writeOffset = length buffer\<rparr>"

text \<open>
  The constructor for a packet of a client: the header is read off the buffer. (The
  increment of the connection's incoming sequence is in \<open>Connection\<close>.)
\<close>

definition Packet_Client :: "ptr \<Rightarrow> bytes \<Rightarrow> packet" where
  "Packet_Client connection buffer =
     (let p = \<lparr>p_source = Client, p_connection = connection, p_buffer = buffer,
               p_signature = 0, p_sequence = 0, p_length = 0,
               p_readOffset = 0, p_writeOffset = length buffer\<rparr>;
          (sg, p) = ReadUInt8 p;
          (sq, p) = ReadUInt8 p;
          (ln, p) = ReadUInt16_LE p
      in p\<lparr>p_signature := sg, p_sequence := sq, p_length := ln\<rparr>)"

definition WriteHeader :: "packet \<Rightarrow> packet" where
  "WriteHeader p = p\<lparr>p_buffer :=
     p_signature p # p_sequence p # ucast (p_length p) # ucast (drop_bit 8 (p_length p)) #
     p_buffer p\<rparr>"

definition IsValid :: "packet \<Rightarrow> bool" where
  "IsValid p \<longleftrightarrow> p_signature p = TCP_PACKET_SIGNATURE"

section \<open>Integers and their bytes\<close>

lemma length_le_bytes [simp]: "length (le_bytes n v) = n"
  by (induction n arbitrary: v) auto

lemma le_word_le_bytes_take: "le_word (le_bytes n v) = take_bit (8 * n) (v :: 'a::len word)"
proof (induction n arbitrary: v)
  case (Suc n)
  show ?case by (rule bit_word_eqI) (auto simp: Suc.IH bit_simps)
qed simp

lemma le_word_le_bytes [codec_simps]:
  "LENGTH('a) \<le> 8 * n \<Longrightarrow> le_word (le_bytes n v) = (v :: 'a::len word)"
  by (simp add: le_word_le_bytes_take take_bit_word_eq_self)

lemma le_bytes_byte [simp]: "le_bytes (Suc 0) (v :: u8) = [v]"
  by simp

lemma byte_of_inverse [simp]: "char_of_byte (byte_of c) = c"
  by (simp add: char_of_byte_def byte_of_def unat_of_nat)

lemma byte_of_0: "byte_of CHR 0x00 = 0"
  by (simp add: byte_of_def)

lemma char_of_byte_0: "char_of_byte 0 = CHR 0x00"
  by (metis byte_of_0 byte_of_inverse)

lemma byte_of_eq_0 [simp]: "byte_of c = 0 \<longleftrightarrow> c = CHR 0x00"
  by (metis byte_of_0 byte_of_inverse char_of_byte_0)

section \<open>Writing appends\<close>

text \<open>
  A packet is only ever written at its end: the builders never move the write offset.
  There a write call appends the bytes \<open>encode\<close> gives and counts them in the length.
\<close>

fun encode :: "wcall \<Rightarrow> bytes" where
  "encode (WriteBool b) = [if b then 1 else 0]"
| "encode (WriteString s) = map byte_of s @ [0]"
| "encode (WriteInt8 v) = [v]"
| "encode (WriteUInt8 v) = [v]"
| "encode (WriteUInt16_LE v) = le_bytes 2 v"
| "encode (WriteUInt16_BE v) = rev (le_bytes 2 v)"
| "encode (WriteUInt32_LE v) = le_bytes 4 v"
| "encode (WriteUInt32_BE v) = rev (le_bytes 4 v)"
| "encode (WriteUInt64_LE v) = le_bytes 8 v"
| "encode (WriteUInt64_BE v) = rev (le_bytes 8 v)"
| "encode (WriteInt16_LE v) = le_bytes 2 v"
| "encode (WriteInt16_BE v) = rev (le_bytes 2 v)"
| "encode (WriteInt32_LE v) = le_bytes 4 v"
| "encode (WriteInt32_BE v) = rev (le_bytes 4 v)"
| "encode (WriteInt64_LE v) = le_bytes 8 v"
| "encode (WriteInt64_BE v) = rev (le_bytes 8 v)"
| "encode (WriteFloat_LE v) = le_bytes 4 v"
| "encode (WriteFloat_BE v) = rev (le_bytes 4 v)"
| "encode (WriteDouble_LE v) = le_bytes 8 v"
| "encode (WriteDouble_BE v) = rev (le_bytes 8 v)"
| "encode (WriteArray_Int8 vs) = vs"
| "encode (WriteArray_UInt8 vs) = vs"

definition encodes :: "wcall list \<Rightarrow> bytes" where
  "encodes ws = concat (map encode ws)"

definition append_bytes :: "bytes \<Rightarrow> packet \<Rightarrow> packet" where
  "append_bytes bs p = p\<lparr>p_buffer := p_buffer p @ bs,
     p_writeOffset := p_writeOffset p + length bs, p_length := p_length p + of_nat (length bs)\<rparr>"

definition at_end :: "packet \<Rightarrow> bool" where
  "at_end p \<longleftrightarrow> p_writeOffset p = length (p_buffer p)"

lemma at_end_append [simp]: "at_end p \<Longrightarrow> at_end (append_bytes bs p)"
  by (simp add: at_end_def append_bytes_def)

lemma append_bytes_append: "append_bytes cs (append_bytes bs p) = append_bytes (bs @ cs) p"
  by (simp add: append_bytes_def)

lemma append_bytes_Nil [simp]: "append_bytes [] p = p"
  by (simp add: append_bytes_def)

lemma fold_insert_byte:
  "at_end p \<Longrightarrow> fold insert_byte bs p =
    p\<lparr>p_buffer := p_buffer p @ bs, p_writeOffset := p_writeOffset p + length bs\<rparr>"
proof (induction bs arbitrary: p)
  case (Cons b bs)
  have "insert_byte b p = p\<lparr>p_buffer := p_buffer p @ [b], p_writeOffset := p_writeOffset p + 1\<rparr>"
    and "at_end (insert_byte b p)"
    using Cons.prems by (simp_all add: insert_byte_def at_end_def)
  then show ?case by (simp add: Cons.IH)
qed simp

lemma WriteBytes_append:
  "at_end p \<Longrightarrow> WriteBytes n v LE p =
    append_bytes (if LE then le_bytes n v else rev (le_bytes n v)) p"
  by (simp add: WriteBytes_def fold_insert_byte append_bytes_def)

lemma fold_WriteBytes_append:
  "at_end p \<Longrightarrow> fold (\<lambda>c. WriteBytes (Suc 0) (f c :: u8) True) cs p = append_bytes (map f cs) p"
  by (induction cs arbitrary: p) (simp_all add: WriteBytes_append append_bytes_append)

lemma run_write_append: "at_end p \<Longrightarrow> run_write w p = append_bytes (encode w) p"
  by (cases w)
    (simp_all add: WriteBytes_append fold_WriteBytes_append append_bytes_append
      fold_WriteBytes_append [where f = "\<lambda>v. v", simplified])

lemma run_writes_append: "at_end p \<Longrightarrow> run_writes ws p = append_bytes (encodes ws) p"
  unfolding run_writes_def encodes_def
  by (induction ws arbitrary: p) (simp_all add: run_write_append append_bytes_append)

lemma at_end_Packet_Server [simp]: "at_end (Packet_Server c bs)"
  by (simp add: at_end_def Packet_Server_def)

lemma encodes_Nil [simp]: "encodes [] = []"
  and encodes_Cons [simp]: "encodes (w # ws) = encode w @ encodes ws"
  and encodes_append [simp]: "encodes (ws @ vs) = encodes ws @ encodes vs"
  by (simp_all add: encodes_def)

section \<open>Reading what was written\<close>

text \<open>
  \<open>pos pre post p\<close> is the packet \<open>p\<close> with the buffer \<open>pre @ post\<close> and the
  read offset between the two: a reader moves bytes from the front of \<open>post\<close> to the end of
  \<open>pre\<close>. The rules below rewrite any sequence of reads over a buffer of known layout.
\<close>

definition pos :: "bytes \<Rightarrow> bytes \<Rightarrow> packet \<Rightarrow> packet" where
  "pos pre post p = p\<lparr>p_buffer := pre @ post, p_readOffset := length pre\<rparr>"

definition unread :: "packet \<Rightarrow> bytes" where
  "unread p = drop (p_readOffset p) (p_buffer p)"

lemma unread_pos [simp]: "unread (pos pre post p) = post"
  by (simp add: unread_def pos_def)

lemma ReadBytes_pos:
  "length bs = n \<Longrightarrow> ReadBytes n LE (pos pre (bs @ post) p) =
    (if LE then bs else rev bs, pos (pre @ bs) post p)"
  by (auto simp: ReadBytes_def pos_def)

text \<open>
  A field that is on the wire exactly when its flag is set, and a run of values of a
  known number: the two shapes the handlers' reads have.
\<close>

definition opt_bytes :: "bool \<Rightarrow> bytes \<Rightarrow> bytes" where
  "opt_bytes c bs = (if c then bs else [])"

definition read_if ::
  "bool \<Rightarrow> (packet \<Rightarrow> 'a \<times> packet) \<Rightarrow> ('a \<Rightarrow> 's \<Rightarrow> 's) \<Rightarrow> 's \<times> packet \<Rightarrow> 's \<times> packet" where
  "read_if c rd upd sp =
     (if c then let (x, p) = rd (snd sp) in (upd x (fst sp), p) else sp)"

definition upd_if :: "bool \<Rightarrow> ('s \<Rightarrow> 's) \<Rightarrow> 's \<Rightarrow> 's" where
  "upd_if c f s = (if c then f s else s)"

primrec read_many :: "(packet \<Rightarrow> 'a \<times> packet) \<Rightarrow> nat \<Rightarrow> packet \<Rightarrow> 'a list \<times> packet" where
  "read_many rd 0 p = ([], p)"
| "read_many rd (Suc n) p = (let (x, p) = rd p; (xs, p) = read_many rd n p in (x # xs, p))"

locale codec =
  fixes enc :: "'a \<Rightarrow> bytes"
    and rd :: "packet \<Rightarrow> 'a \<times> packet"
    and ok :: "'a \<Rightarrow> bool"
  assumes read_back: "ok x \<Longrightarrow> rd (pos pre (enc x @ post) p) = (x, pos (pre @ enc x) post p)"
begin

lemma read_if_back:
  "(c \<Longrightarrow> ok x) \<Longrightarrow> read_if c rd upd (s, pos pre (opt_bytes c (enc x) @ post) p) =
    (upd_if c (upd x) s, pos (pre @ opt_bytes c (enc x)) post p)"
  by (simp add: read_if_def upd_if_def opt_bytes_def read_back)

lemma read_many_back:
  "list_all ok xs \<Longrightarrow> read_many rd (length xs) (pos pre (concat (map enc xs) @ post) p) =
    (xs, pos (pre @ concat (map enc xs)) post p)"
proof (induction xs arbitrary: pre)
  case (Cons x xs)
  then show ?case
    using read_back [of x pre "concat (map enc xs) @ post" p] by simp
qed simp

end

lemma list_1 [simp]: "le_bytes (Suc 0) v = [ucast v]"
  by simp

lemma ReadUInt8_pos [codec_simps]: "ReadUInt8 (pos pre (x # post) p) = (x, pos (pre @ [x]) post p)"
  using ReadBytes_pos [of "[x]" 1 True] by (simp add: ReadUInt8_def)

lemma ReadInt8_pos [codec_simps]: "ReadInt8 (pos pre (x # post) p) = (x, pos (pre @ [x]) post p)"
  using ReadBytes_pos [of "[x]" 1 True] by (simp add: ReadInt8_def)

lemma ReadString_pos [codec_simps]:
  "CHR 0x00 \<notin> set s \<Longrightarrow> ReadString (pos pre (map byte_of s @ 0 # post) p) =
    (s, pos (pre @ map byte_of s @ [0]) post p)"
proof (induction s arbitrary: pre)
  case Nil
  then show ?case by (subst ReadString.simps) (simp add: codec_simps)
next
  case (Cons c s)
  then have "c \<noteq> CHR 0x00" and "CHR 0x00 \<notin> set s" by auto
  with Cons.IH [of "pre @ [byte_of c]"] show ?case
    by (subst ReadString.simps) (simp add: codec_simps)
qed

interpretation u8: codec "\<lambda>x. [x]" ReadUInt8 "\<lambda>_. True"
  by unfold_locales (simp add: codec_simps)

interpretation bool: codec "\<lambda>b. [if b then 1 else 0]" ReadBool "\<lambda>_. True"
proof
  fix x pre post p
  show "ReadBool (pos pre ([if x then 1 else 0] @ post) p) =
      (x, pos (pre @ [if x then 1 else 0]) post p)"
    using ReadBytes_pos [of "[if x then 1 else 0]" 1 True pre post p]
    by (simp add: ReadBool_def split: if_splits)
qed

interpretation u16: codec "le_bytes 2" ReadUInt16_LE "\<lambda>_. True"
  by unfold_locales (simp add: ReadUInt16_LE_def ReadBytes_pos le_word_le_bytes)

interpretation u16be: codec "\<lambda>v. rev (le_bytes 2 v)" ReadUInt16_BE "\<lambda>_. True"
  by unfold_locales (simp add: ReadUInt16_BE_def ReadBytes_pos le_word_le_bytes)

interpretation u32: codec "le_bytes 4" ReadUInt32_LE "\<lambda>_. True"
  by unfold_locales (simp add: ReadUInt32_LE_def ReadBytes_pos le_word_le_bytes)

interpretation u32be: codec "\<lambda>v. rev (le_bytes 4 v)" ReadUInt32_BE "\<lambda>_. True"
  by unfold_locales (simp add: ReadUInt32_BE_def ReadBytes_pos le_word_le_bytes)

interpretation u64: codec "le_bytes 8" ReadUInt64_LE "\<lambda>_. True"
  by unfold_locales (simp add: ReadUInt64_LE_def ReadBytes_pos le_word_le_bytes)

interpretation u64be: codec "\<lambda>v. rev (le_bytes 8 v)" ReadUInt64_BE "\<lambda>_. True"
  by unfold_locales (simp add: ReadUInt64_BE_def ReadBytes_pos le_word_le_bytes)

interpretation i16: codec "le_bytes 2" ReadInt16_LE "\<lambda>_. True"
  by unfold_locales (simp add: ReadInt16_LE_def ReadBytes_pos le_word_le_bytes)

interpretation i16be: codec "\<lambda>v. rev (le_bytes 2 v)" ReadInt16_BE "\<lambda>_. True"
  by unfold_locales (simp add: ReadInt16_BE_def ReadBytes_pos le_word_le_bytes)

interpretation i32: codec "le_bytes 4" ReadInt32_LE "\<lambda>_. True"
  by unfold_locales (simp add: ReadInt32_LE_def ReadBytes_pos le_word_le_bytes)

interpretation i32be: codec "\<lambda>v. rev (le_bytes 4 v)" ReadInt32_BE "\<lambda>_. True"
  by unfold_locales (simp add: ReadInt32_BE_def ReadBytes_pos le_word_le_bytes)

interpretation i64: codec "le_bytes 8" ReadInt64_LE "\<lambda>_. True"
  by unfold_locales (simp add: ReadInt64_LE_def ReadBytes_pos le_word_le_bytes)

interpretation i64be: codec "\<lambda>v. rev (le_bytes 8 v)" ReadInt64_BE "\<lambda>_. True"
  by unfold_locales (simp add: ReadInt64_BE_def ReadBytes_pos le_word_le_bytes)

interpretation float: codec "le_bytes 4" ReadFloat_LE "\<lambda>_. True"
  by unfold_locales (simp add: ReadFloat_LE_def ReadBytes_pos le_word_le_bytes)

interpretation floatbe: codec "\<lambda>v. rev (le_bytes 4 v)" ReadFloat_BE "\<lambda>_. True"
  by unfold_locales (simp add: ReadFloat_BE_def ReadBytes_pos le_word_le_bytes)

interpretation double: codec "le_bytes 8" ReadDouble_LE "\<lambda>_. True"
  by unfold_locales (simp add: ReadDouble_LE_def ReadBytes_pos le_word_le_bytes)

interpretation doublebe: codec "\<lambda>v. rev (le_bytes 8 v)" ReadDouble_BE "\<lambda>_. True"
  by unfold_locales (simp add: ReadDouble_BE_def ReadBytes_pos le_word_le_bytes)

interpretation i8: codec "\<lambda>x. [x]" ReadInt8 "\<lambda>_. True"
  by unfold_locales (simp add: codec_simps)

interpretation cstring: codec "\<lambda>s. map byte_of s @ [0]" ReadString "\<lambda>s. CHR 0x00 \<notin> set s"
  by unfold_locales (simp add: codec_simps)

lemma ReadArray_UInt8_read_many: "ReadArray_UInt8 n = read_many ReadUInt8 n"
  by (rule ext, induction n) (auto simp: fun_eq_iff split: prod.split)

lemma ReadArray_Int8_read_many: "ReadArray_Int8 n = read_many ReadInt8 n"
  by (rule ext, induction n) (auto simp: fun_eq_iff split: prod.split)

lemma ReadArray_UInt8_pos [codec_simps]:
  "ReadArray_UInt8 (length bs) (pos pre (bs @ post) p) = (bs, pos (pre @ bs) post p)"
proof -
  have "concat (map (\<lambda>x. [x]) bs) = bs" by (induction bs) auto
  then show ?thesis
    using u8.read_many_back [of bs pre post p]
    by (simp add: ReadArray_UInt8_read_many list_all_iff)
qed

lemma ReadArray_Int8_pos [codec_simps]:
  "ReadArray_Int8 (length bs) (pos pre (bs @ post) p) = (bs, pos (pre @ bs) post p)"
proof -
  have "concat (map (\<lambda>x. [x]) bs) = bs" by (induction bs) auto
  then show ?thesis
    using i8.read_many_back [of bs pre post p]
    by (simp add: ReadArray_Int8_read_many list_all_iff)
qed

text \<open>The number of bytes an array read returns is always the number asked for.\<close>

lemma length_ReadArray_UInt8: "ReadArray_UInt8 n p = (bs, p') \<Longrightarrow> length bs = n"
  by (induction n arbitrary: p bs p') (auto split: prod.splits)

section \<open>Properties\<close>

lemma byte_of_char_of_byte: "byte_of (char_of_byte b) = b"
proof -
  have "unat b < 256" using unsigned_less [of b] by simp
  then show ?thesis by (simp add: byte_of_def char_of_byte_def)
qed

lemma char_of_byte_eq_0: "char_of_byte b = CHR 0x00 \<longleftrightarrow> b = 0"
  by (metis byte_of_char_of_byte byte_of_0 char_of_byte_0)

definition in_bounds :: "packet \<Rightarrow> packet \<Rightarrow> bool" where
  "in_bounds p p' \<longleftrightarrow> p_buffer p' = p_buffer p \<and> p_readOffset p \<le> p_readOffset p' \<and>
     p_readOffset p' \<le> length (p_buffer p)"

lemma in_bounds_trans: "in_bounds p q \<Longrightarrow> in_bounds q r \<Longrightarrow> in_bounds p r"
  by (simp add: in_bounds_def)

lemma in_bounds_ReadBytes:
  "p_readOffset p \<le> length (p_buffer p) \<Longrightarrow> in_bounds p (snd (ReadBytes n LE p))"
  by (auto simp: ReadBytes_def in_bounds_def Let_def)

lemma in_bounds_ReadString:
  "p_readOffset p \<le> length (p_buffer p) \<Longrightarrow>
    in_bounds p (snd (ReadString p)) \<and> CHR 0x00 \<notin> set (fst (ReadString p))"
proof (induction p rule: ReadString.induct)
  case (1 p)
  obtain c p1 where c: "ReadInt8 p = (c, p1)" by (cases "ReadInt8 p")
  then have b: "in_bounds p p1"
    using in_bounds_ReadBytes [OF 1(2), of 1 True]
    by (auto simp: ReadInt8_def split: prod.splits)
  show ?case
  proof (cases "c = 0")
    case True
    then show ?thesis using b c by (subst (1 2) ReadString.simps) simp
  next
    case False
    then have "in_bounds p1 (snd (ReadString p1)) \<and> CHR 0x00 \<notin> set (fst (ReadString p1))"
      using 1(1) [OF c [symmetric] refl False] b by (simp add: in_bounds_def)
    moreover have "char_of_byte c \<noteq> CHR 0x00"
      using False by (simp add: char_of_byte_eq_0)
    ultimately show ?thesis
      using b c False in_bounds_trans [OF b]
      by (subst (1 2) ReadString.simps) (auto split: prod.splits)
  qed
qed

lemma in_bounds_ReadArray:
  "p_readOffset p \<le> length (p_buffer p) \<Longrightarrow>
    in_bounds p (snd (ReadArray_UInt8 n p)) \<and> length (fst (ReadArray_UInt8 n p)) = n"
proof (induction n arbitrary: p)
  case (Suc n)
  obtain b p1 where b: "ReadUInt8 p = (b, p1)" by (cases "ReadUInt8 p")
  then have p1: "in_bounds p p1"
    using in_bounds_ReadBytes [OF Suc.prems, of 1 True]
    by (auto simp: ReadUInt8_def split: prod.splits)
  then show ?case
    using Suc.IH [of p1] in_bounds_trans [OF p1] b by (auto simp: in_bounds_def split: prod.splits)
qed (simp add: in_bounds_def)

text \<open>
  C40: parsing is memory safe and total on any bytes a client sends. Starting with a read
  offset inside the buffer, every read leaves the buffer alone and the offset inside it; a
  string read ends, without a NUL in its result, and an array read yields as many bytes as
  were asked for, however short the packet is.
\<close>

theorem reads_in_bounds:
  assumes "p_readOffset p \<le> length (p_buffer p)"
  shows "in_bounds p (snd (ReadBytes n LE p)) \<and> length (fst (ReadBytes n LE p)) = n \<and>
    in_bounds p (snd (ReadString p)) \<and> CHR 0x00 \<notin> set (fst (ReadString p)) \<and>
    in_bounds p (snd (ReadArray_UInt8 n p)) \<and> length (fst (ReadArray_UInt8 n p)) = n"
  using in_bounds_ReadBytes [OF assms] in_bounds_ReadString [OF assms] in_bounds_ReadArray [OF assms]
  by (auto simp: ReadBytes_def Let_def)

lemma reads_in_bounds_witness:
  "p_readOffset (Packet_Server 1 [65, 66]) \<le> length (p_buffer (Packet_Server 1 [65, 66])) \<and>
   length (fst (ReadArray_UInt8 5 (Packet_Server 1 [65, 66]))) = 5 \<and>
   in_bounds (Packet_Server 1 [65, 66]) (snd (ReadString (Packet_Server 1 [65, 66])))"
proof -
  have "p_readOffset (Packet_Server 1 [65, 66]) \<le> length (p_buffer (Packet_Server 1 [65, 66]))"
    by (simp add: Packet_Server_def)
  with reads_in_bounds [OF this] show ?thesis by blast
qed

end
