(* ===== verification/Environment.thy ===== *)
theory Environment
  imports Prelude
begin

text \<open>
  The services the server calls and whose code is not in the repository: the MySQL client,
  OpenSSL's ciphers and random generator, bcrypt and the clock. They are the fields of an \<open>env\<close>
  that every definition using them takes as an argument; \<open>'e\<close> is their state (tables,
  stream positions, entropy), threaded through every call in the order the code makes them.

  A query yields \<open>Inl errno\<close> (a non-zero \<open>mysql_errno\<close>) or \<open>Inr rows\<close>; a row is
  the list of its columns as text, \<open>None\<close> for SQL's NULL. \<open>bcrypt_gensalt\<close> fails with
  \<open>None\<close>, \<open>inet_pton\<close> reads an IPv4 address in network order, and \<open>localtime_s\<close> splits a
  time stamp into day, month (from 0) and year (from 1900) of the machine's time zone.
\<close>

datatype CipherMethod = CleanUp | CleanUp2 | RC4 | RC4_40 | CipherNull

fun CipherMethod_num :: "CipherMethod \<Rightarrow> u8" where
  "CipherMethod_num CleanUp = 0"
| "CipherMethod_num CleanUp2 = 1"
| "CipherMethod_num RC4 = 2"
| "CipherMethod_num RC4_40 = 3"
| "CipherMethod_num CipherNull = 4"

datatype EVP = EVP_rc4_40 | EVP_rc4 | EVP_enc_null

type_synonym row = "string option list"

record 'e env =
  mysql_query :: "string \<Rightarrow> 'e \<Rightarrow> (nat + row list) \<times> 'e"
  mysql_real_escape_string :: "string \<Rightarrow> string"
  bcrypt_checkpw :: "string \<Rightarrow> string \<Rightarrow> int"
  bcrypt_gensalt :: "nat \<Rightarrow> 'e \<Rightarrow> string option \<times> 'e"
  inet_pton :: "string \<Rightarrow> u32 option"
  localtime_s :: "u32 \<Rightarrow> nat \<times> nat \<times> nat"
  time_now :: "'e \<Rightarrow> int \<times> 'e"
  EVP_CIPHER_CTX_new :: "'e \<Rightarrow> bool \<times> 'e"
  RAND_bytes :: "nat \<Rightarrow> 'e \<Rightarrow> bytes option \<times> 'e"
  EVP_DecryptInit :: "EVP \<Rightarrow> bytes \<Rightarrow> bytes \<Rightarrow> 'e \<Rightarrow> bool \<times> 'e"
  EVP_EncryptInit :: "EVP \<Rightarrow> bytes \<Rightarrow> bytes \<Rightarrow> 'e \<Rightarrow> bool \<times> 'e"
  EVP_DecryptUpdate :: "bytes \<Rightarrow> 'e \<Rightarrow> bytes option \<times> 'e"
  EVP_EncryptUpdate :: "bytes \<Rightarrow> 'e \<Rightarrow> bytes option \<times> 'e"

end
