(* ===== verification/Connection.thy ===== *)
theory Connection
  imports Packet Environment
begin

text \<open>
  \<open>TCPConnection\<close> of \<open>networking/tcp_connection.{h,cpp}\<close>: sequence numbers, the
  outgoing and incoming queues, cipher set-up, and the completion handlers of the
  asynchronous reads and writes. A completion handler is a function of the connection; where
  the code calls \<open>userManager.DisconnectUserByConnection\<close> it returns an outcome that
  says so. \<open>_mutex\<close>es are left out: a handler is one atomic step.
\<close>

section \<open>State\<close>

definition KEY_SIZE :: nat where "KEY_SIZE = 32"
definition BLOCK_SIZE :: nat where "BLOCK_SIZE = 32"

record Cipher =
  ci_method :: CipherMethod
  ci_ctx :: bool
  ci_key :: bytes
  ci_iv :: bytes

definition new_Cipher :: Cipher where
  "new_Cipher = \<lparr>ci_method = CleanUp, ci_ctx = False,
     ci_key = replicate KEY_SIZE 0, ci_iv = replicate BLOCK_SIZE 0\<rparr>"

record conn =
  c_ipAddress :: string
  c_port :: u16
  c_is_open :: bool
  c_outgoingPackets :: "bytes list"
  c_outgoingSequence :: u8
  c_incomingPackets :: "packet list"
  c_incomingSequence :: u8
  c_versionReceived :: bool
  c_decrypt :: bool
  c_decryptCipher :: Cipher
  c_encrypt :: bool
  c_encryptCipher :: Cipher

definition new_conn :: "string \<Rightarrow> u16 \<Rightarrow> conn" where
  "new_conn ip port = \<lparr>c_ipAddress = ip, c_port = port, c_is_open = True,
     c_outgoingPackets = [], c_outgoingSequence = 0, c_incomingPackets = [],
     c_incomingSequence = 0, c_versionReceived = False, c_decrypt = False,
     c_decryptCipher = new_Cipher, c_encrypt = False, c_encryptCipher = new_Cipher\<rparr>"

section \<open>Sending\<close>

definition WritePacket :: "packet \<Rightarrow> conn \<Rightarrow> conn" where
  "WritePacket packet c =
     (if \<not> c_is_open c then c
      else
        let sequence = c_outgoingSequence c + 1;
            packet = WriteHeader (packet\<lparr>p_sequence := sequence\<rparr>);
            buffer = p_buffer packet
        in if length buffer > TCP_PACKET_MAX_SIZE then c
           else c\<lparr>c_outgoingSequence := sequence,
                  c_outgoingPackets := c_outgoingPackets c @ [buffer]\<rparr>)"

text \<open>\<open>DisconnectClient(bool)\<close>: the socket is closed; the error handler is the server's.\<close>

definition DisconnectClient :: "conn \<Rightarrow> conn" where
  "DisconnectClient c = c\<lparr>c_is_open := False\<rparr>"

text \<open>
  \<open>asyncWrite\<close>: what is handed to the socket for the packet at the front of the queue.
  \<open>Wire ssl bytes\<close> is a write of \<open>bytes\<close>, through the TLS stream iff \<open>ssl\<close>.
  The index 4 is the packet id, right after the header.
\<close>

datatype write_outcome = WriteIdle | Wire bool bytes | WriteDisconnect

definition PacketID_Crypt :: u8 where "PacketID_Crypt = 7"
definition PacketID_RecvCrypt :: u8 where "PacketID_RecvCrypt = 12"

definition asyncWrite ::
  "'e env \<Rightarrow> bool \<Rightarrow> conn \<Rightarrow> 'e \<Rightarrow> (write_outcome \<times> conn \<times> 'e) option" where
  "asyncWrite E ssl c e =
     (case c_outgoingPackets c of
        [] \<Rightarrow> Some (WriteIdle, c, e)
      | buffer # _ \<Rightarrow>
          (let noSSL = c_encrypt c in
           if ci_ctx (c_encryptCipher c) then
             if c_encrypt c then
               (case EVP_EncryptUpdate E buffer e of
                  (None, e') \<Rightarrow> Some (WriteDisconnect, c, e')
                | (Some out, e') \<Rightarrow> Some (Wire (ssl \<and> \<not> noSSL) out, c, e'))
             else do {
               b \<leftarrow> vec_at buffer 4;
               Some (Wire (ssl \<and> \<not> noSSL) buffer,
                     (if b = PacketID_Crypt then c\<lparr>c_encrypt := True\<rparr> else c), e)
             }
           else Some (Wire (ssl \<and> \<not> noSSL) buffer, c, e)))"

text \<open>\<open>onWrite\<close> without an error: the packet leaves the queue; true when more is queued.\<close>

definition onWrite :: "conn \<Rightarrow> bool \<times> conn" where
  "onWrite c = (let c' = c\<lparr>c_outgoingPackets := tl (c_outgoingPackets c)\<rparr>
                in (c_outgoingPackets c' \<noteq> [], c'))"

section \<open>Receiving\<close>

datatype read_outcome = ReadDisconnect | ReadBody packet | ReadDone bool

text \<open>
  \<open>onReadHeader\<close> after four bytes were read without an error: decryption, then the
  checks of the signature, the sequence and the length, in the code's order.
\<close>

definition onReadHeader ::
  "'e env \<Rightarrow> ptr \<Rightarrow> bytes \<Rightarrow> conn \<Rightarrow> 'e \<Rightarrow> read_outcome \<times> conn \<times> 'e" where
  "onReadHeader E self buffer c e =
     (let (r, e) = (if ci_ctx (c_decryptCipher c) \<and> c_decrypt c
                    then EVP_DecryptUpdate E buffer e else (Some buffer, e))
      in case r of
           None \<Rightarrow> (ReadDisconnect, c, e)
         | Some buffer \<Rightarrow>
             (let c = c\<lparr>c_incomingSequence := c_incomingSequence c + 1\<rparr>;
                  packet = Packet_Client self buffer
              in if \<not> IsValid packet then (ReadDisconnect, c, e)
                 else if p_sequence packet \<noteq> c_incomingSequence c then (ReadDisconnect, c, e)
                 else if p_length packet = 0 then (ReadDisconnect, c, e)
                 else (ReadBody packet, c, e)))"

text \<open>
  \<open>onReadBody\<close>: the body is decrypted (or starts the decryption of what follows), put
  behind its header and queued; \<open>ReadDone idle\<close> says whether the queue was empty, in which
  case the code processes it.
\<close>

definition onReadBody ::
  "'e env \<Rightarrow> packet \<Rightarrow> bytes \<Rightarrow> conn \<Rightarrow> 'e \<Rightarrow> (read_outcome \<times> conn \<times> 'e) option" where
  "onReadBody E packet buffer c e =
     (let enqueue = (\<lambda>buffer c e.
            let packet = packet\<lparr>p_buffer := p_buffer packet @ buffer\<rparr>
            in (ReadDone (c_incomingPackets c = []),
                c\<lparr>c_incomingPackets := c_incomingPackets c @ [packet]\<rparr>, e))
      in if ci_ctx (c_decryptCipher c) then
           if c_decrypt c then
             (case EVP_DecryptUpdate E buffer e of
                (None, e') \<Rightarrow> Some (ReadDisconnect, c, e')
              | (Some out, e') \<Rightarrow> Some (enqueue out c e'))
           else do {
             b \<leftarrow> vec_at buffer 0;
             Some (enqueue buffer (if b = PacketID_RecvCrypt then c\<lparr>c_decrypt := True\<rparr> else c) e)
           }
         else Some (enqueue buffer c e))"

section \<open>Cipher set-up\<close>

definition EVP_of :: "CipherMethod \<Rightarrow> EVP" where
  "EVP_of m = (if m = RC4_40 then EVP_rc4_40 else if m = RC4 then EVP_rc4 else EVP_enc_null)"

definition SetupDecryptCipher ::
  "'e env \<Rightarrow> CipherMethod \<Rightarrow> conn \<Rightarrow> 'e \<Rightarrow> bool \<times> conn \<times> 'e" where
  "SetupDecryptCipher E method c e =
     (let failed = (\<lambda>ci e. (False, c\<lparr>c_decryptCipher := ci\<lparr>ci_ctx := False\<rparr>\<rparr>, e));
          ci = c_decryptCipher c;
          (ok, e) = EVP_CIPHER_CTX_new E e
      in if \<not> ok then failed ci e
         else case RAND_bytes E KEY_SIZE e of
           (None, e) \<Rightarrow> failed ci e
         | (Some key, e) \<Rightarrow>
             (let ci = ci\<lparr>ci_key := key\<rparr> in
              case RAND_bytes E BLOCK_SIZE e of
                (None, e) \<Rightarrow> failed ci e
              | (Some iv, e) \<Rightarrow>
                  (let ci = ci\<lparr>ci_iv := iv, ci_method := method\<rparr>;
                       (ok, e) = EVP_DecryptInit E (EVP_of method) key iv e
                   in if \<not> ok then failed ci e
                      else (True, c\<lparr>c_decryptCipher := ci\<lparr>ci_ctx := True\<rparr>\<rparr>, e))))"

definition SetupEncryptCipher ::
  "'e env \<Rightarrow> CipherMethod \<Rightarrow> conn \<Rightarrow> 'e \<Rightarrow> bool \<times> conn \<times> 'e" where
  "SetupEncryptCipher E method c e =
     (let failed = (\<lambda>ci e. (False, c\<lparr>c_encryptCipher := ci\<lparr>ci_ctx := False\<rparr>\<rparr>, e));
          ci = c_encryptCipher c;
          (ok, e) = EVP_CIPHER_CTX_new E e
      in if \<not> ok then failed ci e
         else case RAND_bytes E KEY_SIZE e of
           (None, e) \<Rightarrow> failed ci e
         | (Some key, e) \<Rightarrow>
             (let ci = ci\<lparr>ci_key := key\<rparr> in
              case RAND_bytes E BLOCK_SIZE e of
                (None, e) \<Rightarrow> failed ci e
              | (Some iv, e) \<Rightarrow>
                  (let ci = ci\<lparr>ci_iv := iv, ci_method := method\<rparr>;
                       (ok, e) = EVP_EncryptInit E (EVP_of method) key iv e
                   in if \<not> ok then failed ci e
                      else (True, c\<lparr>c_encryptCipher := ci\<lparr>ci_ctx := True\<rparr>\<rparr>, e))))"

section \<open>Frames\<close>

text \<open>
  \<open>frame sq payload\<close> is the wire format: signature, sequence, length (little
  endian), payload. A packet the server builds is queued as the frame of its bytes, unless it
  is too long, in which case nothing changes, the sequence number included.
\<close>

definition frame :: "u8 \<Rightarrow> bytes \<Rightarrow> bytes" where
  "frame sq payload =
     TCP_PACKET_SIGNATURE # sq # le_bytes 2 (of_nat (length payload) :: u16) @ payload"

definition server_packet :: "packet \<Rightarrow> bool" where
  "server_packet p \<longleftrightarrow> p_signature p = TCP_PACKET_SIGNATURE \<and>
     p_length p = of_nat (length (p_buffer p)) \<and> p_buffer p \<noteq> []"

definition fits :: "bytes \<Rightarrow> bool" where
  "fits payload \<longleftrightarrow> length payload + PACKET_HEADER_SIZE \<le> TCP_PACKET_MAX_SIZE"

lemma length_frame [simp]: "length (frame sq payload) = length payload + 4"
  by (simp add: frame_def)

lemma le_bytes_2: "le_bytes 2 v = [ucast v, ucast (drop_bit 8 v)]"
  by (simp add: numeral_2_eq_2)

lemma server_packet_run_writes:
  "server_packet (run_writes ws (Packet_Server self [pid]))"
  "p_buffer (run_writes ws (Packet_Server self [pid])) = pid # encodes ws"
  unfolding run_writes_append [OF at_end_Packet_Server]
  by (simp_all add: append_bytes_def server_packet_def Packet_Server_def)

lemma WritePacket_frame:
  assumes "server_packet p"
  shows "WritePacket p c =
    (if c_is_open c \<and> fits (p_buffer p)
     then c\<lparr>c_outgoingSequence := c_outgoingSequence c + 1,
            c_outgoingPackets := c_outgoingPackets c @ [frame (c_outgoingSequence c + 1) (p_buffer p)]\<rparr>
     else c)"
  using assms
  by (simp add: WritePacket_def WriteHeader_def server_packet_def frame_def le_bytes_2 fits_def
      PACKET_HEADER_SIZE_def Let_def)

lemma fits_length: "fits bs \<Longrightarrow> unat (of_nat (length bs) :: u16) = length bs"
  by (simp add: fits_def PACKET_HEADER_SIZE_def TCP_PACKET_MAX_SIZE_def unat_of_nat)

lemma Packet_Client_header:
  "Packet_Client self (sg # sq # le_bytes 2 ln @ body) =
    (let p = Packet_Client self [] in
     p\<lparr>p_buffer := sg # sq # le_bytes 2 ln @ body, p_readOffset := 4,
       p_writeOffset := 4 + length body, p_signature := sg, p_sequence := sq, p_length := ln\<rparr>)"
proof -
  let ?bs = "sg # sq # le_bytes 2 ln @ body"
  let ?p = "\<lparr>p_source = Client, p_connection = self, p_buffer = ?bs, p_signature = 0,
    p_sequence = 0, p_length = 0, p_readOffset = 0, p_writeOffset = length ?bs\<rparr>"
  have p: "?p = pos [] ?bs ?p" by (simp add: pos_def)
  have "ReadUInt8 ?p = (sg, pos [sg] (sq # le_bytes 2 ln @ body) ?p)"
    by (subst p) (simp add: ReadUInt8_pos)
  moreover have "ReadUInt8 (pos [sg] (sq # le_bytes 2 ln @ body) ?p) =
      (sq, pos [sg, sq] (le_bytes 2 ln @ body) ?p)"
    by (simp add: ReadUInt8_pos)
  moreover have "ReadUInt16_LE (pos [sg, sq] (le_bytes 2 ln @ body) ?p) =
      (ln, pos ([sg, sq] @ le_bytes 2 ln) body ?p)"
    by (rule u16.read_back) simp
  ultimately show ?thesis
    by (simp add: Packet_Client_def ReadBytes_def ReadUInt8_def ReadUInt16_LE_def pos_def Let_def)
qed

lemma Packet_Client_frame:
  "p_signature (Packet_Client self (take 4 (frame sq payload))) = TCP_PACKET_SIGNATURE"
  "p_sequence (Packet_Client self (take 4 (frame sq payload))) = sq"
  "p_length (Packet_Client self (take 4 (frame sq payload))) = of_nat (length payload)"
  "p_buffer (Packet_Client self (take 4 (frame sq payload))) = take 4 (frame sq payload)"
proof -
  have "take 4 (frame sq payload) =
      TCP_PACKET_SIGNATURE # sq # le_bytes 2 (of_nat (length payload) :: u16) @ []"
    by (simp add: frame_def le_bytes_2)
  then show
    "p_signature (Packet_Client self (take 4 (frame sq payload))) = TCP_PACKET_SIGNATURE"
    "p_sequence (Packet_Client self (take 4 (frame sq payload))) = sq"
    "p_length (Packet_Client self (take 4 (frame sq payload))) = of_nat (length payload)"
    "p_buffer (Packet_Client self (take 4 (frame sq payload))) = take 4 (frame sq payload)"
    by (simp_all only: Packet_Client_header) (simp_all add: Let_def)
qed

section \<open>Delivery\<close>

text \<open>
  A receiver without a cipher that is handed frames one after the other: header, then as
  many bytes as it asked for. \<open>deliver\<close> runs the code's two completion handlers on each.
\<close>

fun deliver :: "'e env \<Rightarrow> ptr \<Rightarrow> bytes list \<Rightarrow> conn \<times> 'e \<Rightarrow> (conn \<times> 'e) option" where
  "deliver E self [] (c, e) = Some (c, e)"
| "deliver E self (f # fs) (c, e) =
     (case onReadHeader E self (take PACKET_HEADER_SIZE f) c e of
        (ReadBody packet, c, e) \<Rightarrow> do {
          (r, c, e) \<leftarrow> onReadBody E packet
             (take (unat (p_length packet)) (drop PACKET_HEADER_SIZE f)) c e;
          (if r = ReadDisconnect then None else deliver E self fs (c, e))
        }
      | _ \<Rightarrow> None)"

lemma onReadHeader_frame:
  assumes "\<not> ci_ctx (c_decryptCipher c)" and "fits payload" and "payload \<noteq> []"
  shows "onReadHeader E self (take 4 (frame sq payload)) c e =
    (if sq = c_incomingSequence c + 1
     then ReadBody (Packet_Client self (take 4 (frame sq payload))) else ReadDisconnect,
     c\<lparr>c_incomingSequence := c_incomingSequence c + 1\<rparr>, e)"
proof -
  have "(of_nat (length payload) :: u16) \<noteq> 0"
    using fits_length [OF assms(2)] assms(3) by auto
  then show ?thesis
    using assms(1)
    by (simp add: onReadHeader_def Packet_Client_frame IsValid_def)
qed

lemma Packet_Client_fields:
  fixes ln :: u16
  shows "p_signature (Packet_Client self (sg # sq # le_bytes 2 ln)) = sg"
    and "p_sequence (Packet_Client self (sg # sq # le_bytes 2 ln)) = sq"
    and "p_length (Packet_Client self (sg # sq # le_bytes 2 ln)) = ln"
  using Packet_Client_header [of self sg sq ln "[]"] by (simp_all add: Let_def)

lemma onReadHeader_accepts_iff:
  assumes "\<not> ci_ctx (c_decryptCipher c)"
  shows "fst (onReadHeader E self (sg # sq # le_bytes 2 (ln :: u16)) c e) \<noteq> ReadDisconnect \<longleftrightarrow>
    sg = TCP_PACKET_SIGNATURE \<and> sq = c_incomingSequence c + 1 \<and> ln \<noteq> 0"
  using assms by (simp add: onReadHeader_def IsValid_def Let_def Packet_Client_fields)

lemma onReadBody_plain:
  assumes "\<not> ci_ctx (c_decryptCipher c)"
  shows "onReadBody E packet body c e =
    Some (ReadDone (c_incomingPackets c = []),
          c\<lparr>c_incomingPackets := c_incomingPackets c @
             [packet\<lparr>p_buffer := p_buffer packet @ body\<rparr>]\<rparr>, e)"
  using assms by (simp add: onReadBody_def)

lemma deliver_frame:
  assumes "\<not> ci_ctx (c_decryptCipher c)" and "fits payload" and "payload \<noteq> []"
    and "sq = c_incomingSequence c + 1"
  shows "deliver E self (frame sq payload # fs) (c, e) =
    deliver E self fs
      (c\<lparr>c_incomingSequence := c_incomingSequence c + 1,
         c_incomingPackets := c_incomingPackets c @
           [(Packet_Client self (take 4 (frame sq payload)))\<lparr>p_buffer := frame sq payload\<rparr>]\<rparr>, e)"
proof -
  have d: "drop 4 (frame sq payload) = payload"
    by (simp add: frame_def le_bytes_2)
  have "take 4 (frame sq payload) @ payload = frame sq payload"
    by (metis append_take_drop_id d)
  then show ?thesis
    using assms
    by (simp add: PACKET_HEADER_SIZE_def onReadHeader_frame onReadBody_plain Packet_Client_frame
        fits_length d)
qed

text \<open>
  What is left to read of a delivered packet is the payload: the constructor has
  consumed the header.
\<close>

lemma unread_delivered:
  "unread ((Packet_Client self (take 4 (frame sq payload)))\<lparr>p_buffer := frame sq payload\<rparr>) = payload"
proof -
  have "take 4 (frame sq payload) =
      TCP_PACKET_SIGNATURE # sq # le_bytes 2 (of_nat (length payload) :: u16) @ []"
    by (simp add: frame_def le_bytes_2)
  then show ?thesis
    by (simp only: Packet_Client_header) (simp add: unread_def Let_def frame_def le_bytes_2)
qed

lemma deliver_sent:
  assumes "c_is_open c" and "\<not> ci_ctx (c_decryptCipher d)"
    and "c_outgoingSequence c = c_incomingSequence d"
    and "\<forall>p \<in> set ps. server_packet p \<and> fits (p_buffer p)"
  shows "\<exists>fs d'. c_outgoingPackets (fold WritePacket ps c) = c_outgoingPackets c @ fs \<and>
    deliver E self fs (d, e) = Some (d', e) \<and>
    map unread (c_incomingPackets d') = map unread (c_incomingPackets d) @ map p_buffer ps \<and>
    c_incomingSequence d' = c_outgoingSequence (fold WritePacket ps c)"
  using assms
proof (induction ps arbitrary: c d)
  case (Cons p ps)
  let ?f = "frame (c_outgoingSequence c + 1) (p_buffer p)"
  let ?c = "c\<lparr>c_outgoingSequence := c_outgoingSequence c + 1,
    c_outgoingPackets := c_outgoingPackets c @ [?f]\<rparr>"
  let ?d = "d\<lparr>c_incomingSequence := c_incomingSequence d + 1,
    c_incomingPackets := c_incomingPackets d @
      [(Packet_Client self (take 4 ?f))\<lparr>p_buffer := ?f\<rparr>]\<rparr>"
  have p: "server_packet p" "fits (p_buffer p)" using Cons.prems(4) by auto
  then have w: "WritePacket p c = ?c" using Cons.prems(1) by (simp add: WritePacket_frame)
  obtain fs d' where IH:
    "c_outgoingPackets (fold WritePacket ps ?c) = c_outgoingPackets ?c @ fs"
    "deliver E self fs (?d, e) = Some (d', e)"
    "map unread (c_incomingPackets d') = map unread (c_incomingPackets ?d) @ map p_buffer ps"
    "c_incomingSequence d' = c_outgoingSequence (fold WritePacket ps ?c)"
    using Cons.IH [of ?c ?d] Cons.prems by auto
  have "deliver E self (?f # fs) (d, e) = Some (d', e)"
    using deliver_frame [of d "p_buffer p" "c_outgoingSequence c + 1" E self fs e] Cons.prems p IH(2)
    by (simp add: server_packet_def del: deliver.simps)
  moreover have "map unread (c_incomingPackets d') =
      map unread (c_incomingPackets d) @ map p_buffer (p # ps)"
    using IH(3) by (simp add: unread_delivered)
  ultimately show ?case
    using IH(1,4) w by (intro exI [of _ "?f # fs"] exI [of _ d']) (simp del: deliver.simps)
qed simp

section \<open>Properties\<close>

text \<open>
  What sending does. A packet built by any sequence of write calls on
  \<open>Packet::Create(Server, c, {pid})\<close> is queued, on an open connection and when its payload
  fits, as one frame with the next sequence number and an exact length field; otherwise the
  connection is unchanged: no sequence number is lost on a packet that is not sent.
\<close>

lemma send_queues_frame:
  "let payload = pid # encodes ws;
       c' = WritePacket (run_writes ws (Packet_Server self [pid])) c;
       f = frame (c_outgoingSequence c + 1) payload
   in if c_is_open c \<and> length payload \<le> 65532
      then c' = c\<lparr>c_outgoingSequence := c_outgoingSequence c + 1,
                   c_outgoingPackets := c_outgoingPackets c @ [f]\<rparr> \<and>
           drop 4 f = payload \<and> unat (le_word (take 2 (drop 2 f)) :: u16) = length payload
      else c' = c"
proof -
  define payload where "payload = pid # encodes ws"
  have "p_buffer (run_writes ws (Packet_Server self [pid])) = payload"
    by (simp add: payload_def server_packet_run_writes)
  moreover have "fits payload \<longleftrightarrow> length payload \<le> 65532"
    by (auto simp: fits_def PACKET_HEADER_SIZE_def TCP_PACKET_MAX_SIZE_def)
  moreover have "drop 4 (frame sq payload) = payload" for sq
    by (simp add: frame_def le_bytes_2)
  moreover have "take 2 (drop 2 (frame sq payload)) = le_bytes 2 (of_nat (length payload) :: u16)" for sq
    by (simp add: frame_def)
  ultimately show ?thesis
    using fits_length [of payload] unfolding Let_def payload_def [symmetric]
    by (simp add: WritePacket_frame server_packet_run_writes le_word_le_bytes)
qed

text \<open>
  Which headers a server accepts. Without a cipher, \<open>onReadHeader\<close> goes on to read a
  body exactly when the signature is 'U', the sequence number is the successor (modulo 256)
  of the last one, and the length is not 0; in every other case the client is disconnected.
\<close>

lemma header_accepted_iff:
  assumes "\<not> ci_ctx (c_decryptCipher c)"
  shows "fst (onReadHeader E self (sg # sq # le_bytes 2 (ln :: u16)) c e) \<noteq> ReadDisconnect \<longleftrightarrow>
    sg = TCP_PACKET_SIGNATURE \<and> sq = c_incomingSequence c + 1 \<and> ln \<noteq> 0"
  using assms by (rule onReadHeader_accepts_iff)

definition null_env :: "unit env" where
  "null_env = \<lparr>mysql_query = (\<lambda>q e. (Inr [], e)),
     mysql_real_escape_string = (\<lambda>s. s), bcrypt_checkpw = (\<lambda>p h. if p = h then 0 else 1),
     bcrypt_gensalt = (\<lambda>n e. (Some ''salt'', e)), inet_pton = (\<lambda>s. None),
     localtime_s = (\<lambda>t. (11, 5, 108)),
     time_now = (\<lambda>e. (0, e)), EVP_CIPHER_CTX_new = (\<lambda>e. (True, e)),
     RAND_bytes = (\<lambda>n e. (Some (replicate n 0), e)),
     EVP_DecryptInit = (\<lambda>m k i e. (True, e)), EVP_EncryptInit = (\<lambda>m k i e. (True, e)),
     EVP_DecryptUpdate = (\<lambda>bs e. (Some bs, e)), EVP_EncryptUpdate = (\<lambda>bs e. (Some bs, e))\<rparr>"

lemma header_accepted_iff_witness:
  "fst (onReadHeader null_env 1 (TCP_PACKET_SIGNATURE # 1 # le_bytes 2 (5 :: u16)) (new_conn [] 0) ())
     \<noteq> ReadDisconnect \<and>
   fst (onReadHeader null_env 1 (TCP_PACKET_SIGNATURE # 2 # le_bytes 2 (5 :: u16)) (new_conn [] 0) ())
     = ReadDisconnect"
  using header_accepted_iff [of "new_conn [] 0" null_env 1 TCP_PACKET_SIGNATURE 1 5 "()"]
    header_accepted_iff [of "new_conn [] 0" null_env 1 TCP_PACKET_SIGNATURE 2 5 "()"]
  by (simp add: new_conn_def new_Cipher_def)

text \<open>
  C9: the transport works. Whatever messages are sent over an open connection, handing the
  frames queued for them to a receiver whose sequence number is in step makes it accept
  every one: it ends with exactly the payloads, in order, and in step again.
\<close>

theorem transport_roundtrip:
  assumes "c_is_open c" and "\<not> ci_ctx (c_decryptCipher d)"
    and "c_outgoingSequence c = c_incomingSequence d"
    and "\<forall>(pid, ws) \<in> set ms. fits (pid # encodes ws)"
  shows "\<exists>fs d'.
    c_outgoingPackets (fold WritePacket (map (\<lambda>(pid, ws). run_writes ws (Packet_Server a [pid])) ms) c) =
      c_outgoingPackets c @ fs \<and>
    deliver E b fs (d, e) = Some (d', e) \<and>
    map unread (c_incomingPackets d') =
      map unread (c_incomingPackets d) @ map (\<lambda>(pid, ws). pid # encodes ws) ms \<and>
    c_incomingSequence d' = c_outgoingSequence c + of_nat (length ms)"
proof -
  let ?ps = "map (\<lambda>(pid, ws). run_writes ws (Packet_Server a [pid])) ms"
  have ok: "\<forall>p \<in> set ?ps. server_packet p \<and> fits (p_buffer p)"
    using assms(4) by (auto simp: server_packet_run_writes)
  have buf: "map p_buffer ?ps = map (\<lambda>(pid, ws). pid # encodes ws) ms"
    by (auto simp: server_packet_run_writes)
  have sq: "c_outgoingSequence (fold WritePacket ps c) = c_outgoingSequence c + of_nat (length ps)"
    if "\<forall>p \<in> set ps. server_packet p \<and> fits (p_buffer p)" and "c_is_open c" for ps and c :: conn
    using that by (induction ps arbitrary: c) (simp_all add: WritePacket_frame algebra_simps)
  show ?thesis
    using deliver_sent [OF assms(1-3) ok, of E b e] sq [OF ok assms(1)] unfolding buf length_map
    by simp
qed

definition sample_messages :: "(u8 \<times> wcall list) list" where
  "sample_messages = [(65, [WriteUInt8 2, WriteString ''ab'']), (7, [])]"

lemma transport_roundtrip_witness:
  "\<exists>fs d'. c_outgoingPackets (fold WritePacket
      (map (\<lambda>(pid, ws). run_writes ws (Packet_Server 1 [pid])) sample_messages) (new_conn [] 0)) =
      c_outgoingPackets (new_conn [] 0) @ fs \<and>
    deliver null_env 2 fs (new_conn [] 0, ()) = Some (d', ()) \<and>
    map unread (c_incomingPackets d') = map unread (c_incomingPackets (new_conn [] 0)) @
      map (\<lambda>(pid, ws). pid # encodes ws) sample_messages \<and>
    c_incomingSequence d' = c_outgoingSequence (new_conn [] 0) + of_nat (length sample_messages)"
proof (rule transport_roundtrip)
  show "c_is_open (new_conn [] 0)" and "\<not> ci_ctx (c_decryptCipher (new_conn [] 0))"
    and "c_outgoingSequence (new_conn [] 0) = c_incomingSequence (new_conn [] 0)"
    by (simp_all add: new_conn_def new_Cipher_def)
  show "\<forall>(pid, ws) \<in> set sample_messages. fits (pid # encodes ws)"
    by (simp add: sample_messages_def fits_def PACKET_HEADER_SIZE_def TCP_PACKET_MAX_SIZE_def)
qed

end
