(* ===== verification/Transport.thy ===== *)
theory Transport
  imports Connection
begin

unbundle bit_operations_syntax

text \<open>
  The transport under a cipher: \<open>asyncWrite\<close>/\<open>onWrite\<close> and \<open>onReadHeader\<close>/\<open>onReadBody\<close> of
  \<open>networking/tcp_connection.cpp\<close> once \<open>SetupEncryptCipher\<close> and \<open>SetupDecryptCipher\<close> have
  succeeded. OpenSSL's update functions are parameters; what is assumed of them is what a
  stream cipher is (RC4, and the null cipher with a key stream of zeros): the bytes come back
  combined with the next bytes of a key stream, and the position in it advances by as many.
\<close>

section \<open>Stream ciphers\<close>

primrec apply_stream :: "(nat \<Rightarrow> u8) \<Rightarrow> nat \<Rightarrow> bytes \<Rightarrow> bytes" where
  "apply_stream ks n [] = []"
| "apply_stream ks n (b # bs) = (b XOR ks n) # apply_stream ks (Suc n) bs"

text \<open>\<open>off\<close> reads the position in the key stream off the state of the environment.\<close>

definition stream_cipher ::
  "(nat \<Rightarrow> u8) \<Rightarrow> ('e \<Rightarrow> nat) \<Rightarrow> (bytes \<Rightarrow> 'e \<Rightarrow> bytes option \<times> 'e) \<Rightarrow> bool" where
  "stream_cipher ks off update \<longleftrightarrow>
     (\<forall>bs e. fst (update bs e) = Some (apply_stream ks (off e) bs) \<and>
             off (snd (update bs e)) = off e + length bs)"

lemma length_apply_stream [simp]: "length (apply_stream ks n bs) = length bs"
  by (induction bs arbitrary: n) auto

lemma apply_stream_twice [simp]: "apply_stream ks n (apply_stream ks n bs) = bs"
  by (induction bs arbitrary: n) (auto simp: xor.assoc)

lemma take_apply_stream: "take k (apply_stream ks n bs) = apply_stream ks n (take k bs)"
  by (induction bs arbitrary: n k) (auto simp: take_Cons split: nat.splits)

lemma drop_apply_stream: "drop k (apply_stream ks n bs) = apply_stream ks (n + k) (drop k bs)"
  by (induction bs arbitrary: n k) (auto simp: drop_Cons split: nat.splits)

lemma stream_cipher_update:
  assumes "stream_cipher ks off update"
  obtains e' where "update bs e = (Some (apply_stream ks (off e) bs), e')"
    and "off e' = off e + length bs"
  using assms by (metis prod.collapse stream_cipher_def)

section \<open>The wire\<close>

fun frames :: "u8 \<Rightarrow> bytes list \<Rightarrow> bytes list" where
  "frames sq [] = []"
| "frames sq (payload # ps) = frame (sq + 1) payload # frames (sq + 1) ps"

text \<open>
  What the code promises to put on the wire for a queue of frames: whether each goes through
  TLS, and its bytes. \<open>marker\<close> is the id of the packet after which the cipher is on, \<open>on\<close> says
  that it is already, \<open>n\<close> is the position in the key stream.
\<close>

fun wire :: "u8 \<Rightarrow> (nat \<Rightarrow> u8) \<Rightarrow> bool \<Rightarrow> bool \<Rightarrow> nat \<Rightarrow> bytes list \<Rightarrow> (bool \<times> bytes) list" where
  "wire marker ks ssl on n [] = []"
| "wire marker ks ssl on n (f # fs) =
     (if on then (False, apply_stream ks n f) # wire marker ks ssl True (n + length f) fs
      else (ssl, f) # wire marker ks ssl (f ! 4 = marker) n fs)"

text \<open>\<open>n\<close> completed writes, one after the other: \<open>asyncWrite\<close> and its handler \<open>onWrite\<close>.\<close>

fun drain :: "'e env \<Rightarrow> bool \<Rightarrow> nat \<Rightarrow> conn \<times> 'e \<Rightarrow> ((bool \<times> bytes) list \<times> conn \<times> 'e) option" where
  "drain E ssl 0 (c, e) = Some ([], c, e)"
| "drain E ssl (Suc n) (c, e) = do {
     (r, c, e) \<leftarrow> asyncWrite E ssl c e;
     case r of
       Wire tls bs \<Rightarrow> do {
         (ws, c, e) \<leftarrow> drain E ssl n (snd (onWrite c), e);
         Some ((tls, bs) # ws, c, e)
       }
     | _ \<Rightarrow> None
   }"

lemma frame_marker [simp]: "payload \<noteq> [] \<Longrightarrow> frame sq payload ! 4 = hd payload"
  by (cases payload) (simp_all add: frame_def le_bytes_2)

lemma drop_frame [simp]: "drop 4 (frame sq payload) = payload"
  by (simp add: frame_def le_bytes_2)

lemma frames_long: "\<forall>p \<in> set ps. p \<noteq> [] \<Longrightarrow> \<forall>f \<in> set (frames sq ps). 4 < length f"
  by (induction ps arbitrary: sq) simp_all

lemma frames_marker:
  "\<forall>p \<in> set ps. p \<noteq> [] \<Longrightarrow> (\<exists>f \<in> set (frames sq ps). f ! 4 = m) \<longleftrightarrow> (\<exists>p \<in> set ps. hd p = m)"
  by (induction ps arbitrary: sq) simp_all

lemma length_frames [simp]: "length (frames sq ps) = length ps"
  by (induction ps arbitrary: sq) simp_all

lemma drain_wire:
  assumes "stream_cipher ks off (EVP_EncryptUpdate E)" and "ci_ctx (c_encryptCipher c)"
    and "\<forall>f \<in> set (c_outgoingPackets c). 4 < length f"
  shows "\<exists>c' e'. drain E ssl (length (c_outgoingPackets c)) (c, e) =
      Some (wire PacketID_Crypt ks ssl (c_encrypt c) (off e) (c_outgoingPackets c), c', e') \<and>
    c_outgoingPackets c' = [] \<and> c_outgoingSequence c' = c_outgoingSequence c \<and>
    (c_encrypt c' \<longleftrightarrow> c_encrypt c \<or> (\<exists>f \<in> set (c_outgoingPackets c). f ! 4 = PacketID_Crypt))"
  using assms(2,3)
proof (induction "c_outgoingPackets c" arbitrary: c e)
  case Nil
  then show ?case by simp
next
  case (Cons f fs)
  note q = Cons.hyps(2) [symmetric]
  consider "c_encrypt c" | "\<not> c_encrypt c" "f ! 4 = PacketID_Crypt" | "\<not> c_encrypt c" "f ! 4 \<noteq> PacketID_Crypt"
    by blast
  then show ?case
  proof cases
    case 1
    obtain e1 where "EVP_EncryptUpdate E f e = (Some (apply_stream ks (off e) f), e1)"
      and "off e1 = off e + length f"
      using stream_cipher_update [OF assms(1)] .
    then show ?thesis
      using Cons.hyps(1) [of "c\<lparr>c_outgoingPackets := fs\<rparr>" e1] Cons.prems 1
      by (auto simp: q asyncWrite_def onWrite_def)
  next
    case 2
    then show ?thesis
      using Cons.hyps(1) [of "c\<lparr>c_encrypt := True, c_outgoingPackets := fs\<rparr>" e] Cons.prems
      by (auto simp: q asyncWrite_def onWrite_def)
  next
    case 3
    then show ?thesis
      using Cons.hyps(1) [of "c\<lparr>c_outgoingPackets := fs\<rparr>" e] Cons.prems
      by (auto simp: q asyncWrite_def onWrite_def)
  qed
qed

lemma WritePackets_frames:
  assumes "c_is_open c" and "\<forall>p \<in> set ps. server_packet p \<and> fits (p_buffer p)"
  shows "fold WritePacket ps c =
    c\<lparr>c_outgoingSequence := c_outgoingSequence c + of_nat (length ps),
      c_outgoingPackets := c_outgoingPackets c @ frames (c_outgoingSequence c) (map p_buffer ps)\<rparr>"
  using assms by (induction ps arbitrary: c) (simp_all add: WritePacket_frame algebra_simps)

section \<open>Reading what is on the wire\<close>

text \<open>What one delivered frame does to the receiver.\<close>

definition received :: "bytes \<Rightarrow> conn \<Rightarrow> conn \<Rightarrow> bool" where
  "received payload d d' \<longleftrightarrow>
     c_incomingSequence d' = c_incomingSequence d + 1 \<and>
     map unread (c_incomingPackets d') = map unread (c_incomingPackets d) @ [payload] \<and>
     c_decryptCipher d' = c_decryptCipher d \<and>
     (c_decrypt d' \<longleftrightarrow> c_decrypt d \<or> hd payload = PacketID_RecvCrypt)"

lemma frame_parts:
  assumes "fits payload" and "payload \<noteq> []"
  shows "(of_nat (length payload) :: u16) \<noteq> 0"
    and "take 4 (frame sq payload) @ payload = frame sq payload"
  using fits_length [OF assms(1)] assms(2)
  by (auto, metis append_take_drop_id drop_frame)

lemma deliver_plain:
  assumes "ci_ctx (c_decryptCipher d)" and "\<not> c_decrypt d" and "fits payload" and "payload \<noteq> []"
  obtains d' where "received payload d d'"
    and "\<And>fs. deliver E self (frame (c_incomingSequence d + 1) payload # fs) (d, e) =
      deliver E self fs (d', e)"
proof -
  let ?sq = "c_incomingSequence d + 1"
  let ?p = "(Packet_Client self (take 4 (frame ?sq payload)))\<lparr>p_buffer := frame ?sq payload\<rparr>"
  let ?d = "d\<lparr>c_incomingSequence := ?sq\<rparr>"
  let ?d' = "(if hd payload = PacketID_RecvCrypt then ?d\<lparr>c_decrypt := True\<rparr> else ?d)
    \<lparr>c_incomingPackets := c_incomingPackets d @ [?p]\<rparr>"
  have "received payload d ?d'"
    using assms(2) by (simp add: received_def unread_delivered)
  moreover have "deliver E self (frame ?sq payload # fs) (d, e) = deliver E self fs (?d', e)" for fs
    using assms frame_parts [OF assms(3,4)]
    by (simp add: onReadHeader_def onReadBody_def Packet_Client_frame IsValid_def
        PACKET_HEADER_SIZE_def fits_length hd_conv_nth)
  ultimately show thesis by (rule that)
qed

lemma deliver_encrypted:
  assumes "stream_cipher ks off (EVP_DecryptUpdate E)"
    and "ci_ctx (c_decryptCipher d)" and "c_decrypt d" and "fits payload" and "payload \<noteq> []"
  obtains d' e' where "received payload d d'" and "off e' = off e + (length payload + 4)"
    and "\<And>fs. deliver E self
        (apply_stream ks (off e) (frame (c_incomingSequence d + 1) payload) # fs) (d, e) =
      deliver E self fs (d', e')"
proof -
  let ?sq = "c_incomingSequence d + 1"
  let ?f = "frame ?sq payload"
  let ?p = "(Packet_Client self (take 4 ?f))\<lparr>p_buffer := ?f\<rparr>"
  let ?d' = "d\<lparr>c_incomingSequence := ?sq, c_incomingPackets := c_incomingPackets d @ [?p]\<rparr>"
  obtain e1 where e1: "EVP_DecryptUpdate E (apply_stream ks (off e) (take 4 ?f)) e =
      (Some (take 4 ?f), e1)" "off e1 = off e + 4"
    using stream_cipher_update [OF assms(1), of "apply_stream ks (off e) (take 4 ?f)" e] by auto
  obtain e2 where e2: "EVP_DecryptUpdate E (apply_stream ks (off e + 4) payload) e1 =
      (Some payload, e2)" "off e2 = off e + 4 + length payload"
    using stream_cipher_update [OF assms(1), of "apply_stream ks (off e + 4) payload" e1] e1(2)
    by auto
  have "received payload d ?d'"
    using assms(3) by (simp add: received_def unread_delivered)
  moreover have "deliver E self (apply_stream ks (off e) ?f # fs) (d, e) =
      deliver E self fs (?d', e2)" for fs
    using assms e1 e2 frame_parts [OF assms(4,5)]
    by (simp add: onReadHeader_def onReadBody_def Packet_Client_frame IsValid_def
        PACKET_HEADER_SIZE_def fits_length take_apply_stream drop_apply_stream)
  ultimately show thesis using e2(2) by (intro that) simp_all
qed

lemma deliver_wire:
  assumes "stream_cipher ks off (EVP_DecryptUpdate E)" and "ci_ctx (c_decryptCipher d)"
    and "\<forall>payload \<in> set ps. fits payload \<and> payload \<noteq> []"
  shows "\<exists>d' e'. deliver E self
      (map snd (wire PacketID_RecvCrypt ks ssl (c_decrypt d) (off e) (frames (c_incomingSequence d) ps)))
      (d, e) = Some (d', e') \<and>
    map unread (c_incomingPackets d') = map unread (c_incomingPackets d) @ ps \<and>
    c_incomingSequence d' = c_incomingSequence d + of_nat (length ps) \<and>
    (c_decrypt d' \<longleftrightarrow> c_decrypt d \<or> (\<exists>payload \<in> set ps. hd payload = PacketID_RecvCrypt))"
  using assms(2,3)
proof (induction ps arbitrary: d e)
  case (Cons payload ps)
  have p: "fits payload" "payload \<noteq> []" using Cons.prems by auto
  obtain d1 e1 where d1: "received payload d d1" and
    step: "deliver E self (map snd (wire PacketID_RecvCrypt ks ssl (c_decrypt d) (off e)
        (frames (c_incomingSequence d) (payload # ps)))) (d, e) =
      deliver E self (map snd (wire PacketID_RecvCrypt ks ssl (c_decrypt d1) (off e1)
        (frames (c_incomingSequence d1) ps))) (d1, e1)"
  proof (cases "c_decrypt d")
    case True
    obtain d1 e1 where d1: "received payload d d1" "off e1 = off e + (length payload + 4)"
      "\<And>fs. deliver E self
          (apply_stream ks (off e) (frame (c_incomingSequence d + 1) payload) # fs) (d, e) =
        deliver E self fs (d1, e1)"
      by (rule deliver_encrypted [OF assms(1) Cons.prems(1) True p, of e self], rule that)
    then show thesis
      using True by (intro that [OF d1(1), of e1]) (simp add: received_def del: deliver.simps)
  next
    case False
    obtain d1 where d1: "received payload d d1"
      "\<And>fs. deliver E self (frame (c_incomingSequence d + 1) payload # fs) (d, e) =
        deliver E self fs (d1, e)"
      by (rule deliver_plain [OF Cons.prems(1) False p, of E self e], rule that)
    have "c_incomingSequence d1 = c_incomingSequence d + 1"
      and "c_decrypt d1 \<longleftrightarrow> hd payload = PacketID_RecvCrypt"
      using d1(1) False by (auto simp: received_def)
    then show thesis
      using False p by (intro that [OF d1(1), of e]) (simp only: frames.simps wire.simps if_False
        list.map snd_conv d1(2) frame_marker [OF p(2)])
  qed
  have "ci_ctx (c_decryptCipher d1)" using d1 Cons.prems(1) by (simp add: received_def)
  from Cons.IH [OF this, of e1] Cons.prems(2) obtain d' e' where
    "deliver E self (map snd (wire PacketID_RecvCrypt ks ssl (c_decrypt d1) (off e1)
      (frames (c_incomingSequence d1) ps))) (d1, e1) = Some (d', e')"
    "map unread (c_incomingPackets d') = map unread (c_incomingPackets d1) @ ps"
    "c_incomingSequence d' = c_incomingSequence d1 + of_nat (length ps)"
    "c_decrypt d' \<longleftrightarrow> c_decrypt d1 \<or> (\<exists>payload \<in> set ps. hd payload = PacketID_RecvCrypt)"
    by auto
  then show ?case
    using d1 unfolding step by (intro exI [of _ d'] exI [of _ e']) (auto simp: received_def)
qed simp

section \<open>Properties\<close>

definition stream_env :: "(nat \<Rightarrow> u8) \<Rightarrow> nat env" where
  "stream_env ks = \<lparr>mysql_query = (\<lambda>q e. (Inr [], e)),
     mysql_real_escape_string = (\<lambda>s. s), bcrypt_checkpw = (\<lambda>p h. if p = h then 0 else 1),
     bcrypt_gensalt = (\<lambda>n e. (Some ''salt'', e)), inet_pton = (\<lambda>s. None),
     localtime_s = (\<lambda>t. (11, 5, 108)),
     time_now = (\<lambda>e. (0, e)), EVP_CIPHER_CTX_new = (\<lambda>e. (True, e)),
     RAND_bytes = (\<lambda>n e. (Some (replicate n 0), e)),
     EVP_DecryptInit = (\<lambda>m k i e. (True, e)), EVP_EncryptInit = (\<lambda>m k i e. (True, e)),
     EVP_DecryptUpdate = (\<lambda>bs n. (Some (apply_stream ks n bs), n + length bs)),
     EVP_EncryptUpdate = (\<lambda>bs n. (Some (apply_stream ks n bs), n + length bs))\<rparr>"

lemma stream_env_cipher:
  "stream_cipher ks (\<lambda>n. n) (EVP_EncryptUpdate (stream_env ks))"
  "stream_cipher ks (\<lambda>n. n) (EVP_DecryptUpdate (stream_env ks))"
  by (simp_all add: stream_cipher_def stream_env_def)

definition cipher_conn :: conn where
  "cipher_conn = (new_conn [] 0)\<lparr>c_encryptCipher := new_Cipher\<lparr>ci_ctx := True\<rparr>,
     c_decryptCipher := new_Cipher\<lparr>ci_ctx := True\<rparr>\<rparr>"

text \<open>
  C11: what sending puts on the wire once a cipher is set up. The messages sent over an open,
  idle connection leave it as frames with consecutive sequence numbers, in order; the frames
  up to and including the first Crypt packet go out in the clear (through TLS when it is on),
  every later one under the cipher's key stream and never through TLS; the queue is empty
  afterwards, and what is sent later is encrypted iff a Crypt packet has been sent.
\<close>

theorem sent_encrypted_after_crypt:
  assumes "stream_cipher ks off (EVP_EncryptUpdate E)"
    and "c_is_open c" and "ci_ctx (c_encryptCipher c)" and "c_outgoingPackets c = []"
    and "\<forall>(pid, ws) \<in> set ms. fits (pid # encodes ws)"
  shows "\<exists>c' e'.
    drain E ssl (length ms)
      (fold WritePacket (map (\<lambda>(pid, ws). run_writes ws (Packet_Server a [pid])) ms) c, e) =
    Some (wire PacketID_Crypt ks ssl (c_encrypt c) (off e)
            (frames (c_outgoingSequence c) (map (\<lambda>(pid, ws). pid # encodes ws) ms)), c', e') \<and>
    c_outgoingPackets c' = [] \<and>
    c_outgoingSequence c' = c_outgoingSequence c + of_nat (length ms) \<and>
    (c_encrypt c' \<longleftrightarrow> c_encrypt c \<or> PacketID_Crypt \<in> fst ` set ms)"
proof -
  let ?ps = "map (\<lambda>(pid, ws). run_writes ws (Packet_Server a [pid])) ms"
  let ?c = "fold WritePacket ?ps c"
  have "\<forall>p \<in> set ?ps. server_packet p \<and> fits (p_buffer p)"
    using assms(5) by (auto simp: server_packet_run_writes)
  moreover have buf: "map p_buffer ?ps = map (\<lambda>(pid, ws). pid # encodes ws) ms"
    by (auto simp: server_packet_run_writes)
  moreover have "?c = c\<lparr>c_outgoingSequence := c_outgoingSequence c + of_nat (length ?ps),
      c_outgoingPackets := c_outgoingPackets c @ frames (c_outgoingSequence c) (map p_buffer ?ps)\<rparr>"
    if "\<forall>p \<in> set ?ps. server_packet p \<and> fits (p_buffer p)"
    using that by (rule WritePackets_frames [OF assms(2)])
  ultimately have c: "?c = c\<lparr>c_outgoingSequence := c_outgoingSequence c + of_nat (length ms),
      c_outgoingPackets := frames (c_outgoingSequence c) (map (\<lambda>(pid, ws). pid # encodes ws) ms)\<rparr>"
    by (simp only: assms(4) length_map append_Nil)
  have long: "\<forall>f \<in> set (frames sq (map (\<lambda>(pid, ws). pid # encodes ws) ms)). 4 < length f" for sq
    by (rule frames_long) auto
  have marker: "(\<exists>f \<in> set (frames sq (map (\<lambda>(pid, ws). pid # encodes ws) ms)). f ! 4 = m) \<longleftrightarrow>
      m \<in> fst ` set ms" for sq m
    by (subst frames_marker) force+
  show ?thesis
    using drain_wire [OF assms(1), of ?c ssl e] assms(3) long
    unfolding c by (simp add: marker)
qed

text \<open>A Crypt packet in the clear, then an encrypted one, whatever the key stream.\<close>

lemma sent_encrypted_after_crypt_witness:
  "\<forall>ks. \<exists>c' e'.
    drain (stream_env ks) True 2 (fold WritePacket (map (\<lambda>(pid, ws). run_writes ws (Packet_Server 1 [pid]))
      [(PacketID_Crypt, []), (65, [WriteUInt8 2])]) cipher_conn, 0) =
    Some ([(True, frame 1 [PacketID_Crypt]), (False, apply_stream ks 0 (frame 2 [65, 2]))], c', e') \<and>
    c_encrypt c'"
proof
  fix ks
  show "\<exists>c' e'.
    drain (stream_env ks) True 2 (fold WritePacket (map (\<lambda>(pid, ws). run_writes ws (Packet_Server 1 [pid]))
      [(PacketID_Crypt, []), (65, [WriteUInt8 2])]) cipher_conn, 0) =
    Some ([(True, frame 1 [PacketID_Crypt]), (False, apply_stream ks 0 (frame 2 [65, 2]))], c', e') \<and>
    c_encrypt c'"
    using sent_encrypted_after_crypt [OF stream_env_cipher(1), of cipher_conn
        "[(PacketID_Crypt, []), (65, [WriteUInt8 2])]" ks True 1 0]
    by (auto simp: cipher_conn_def new_conn_def fits_def PACKET_HEADER_SIZE_def TCP_PACKET_MAX_SIZE_def
        numeral_2_eq_2 simp del: drain.simps)
qed

text \<open>
  C10: the receiving side of the cipher. Frames in step that are in the clear up to and
  including the first RecvCrypt packet and under the cipher's key stream from there on are
  all accepted: the receiver ends with exactly the payloads, in order, in step, and
  decrypting iff a RecvCrypt packet has arrived.
\<close>

theorem encrypted_transport_roundtrip:
  assumes "stream_cipher ks off (EVP_DecryptUpdate E)" and "ci_ctx (c_decryptCipher d)"
    and "\<forall>payload \<in> set ps. fits payload \<and> payload \<noteq> []"
  shows "\<exists>d' e'. deliver E self
      (map snd (wire PacketID_RecvCrypt ks ssl (c_decrypt d) (off e) (frames (c_incomingSequence d) ps)))
      (d, e) = Some (d', e') \<and>
    map unread (c_incomingPackets d') = map unread (c_incomingPackets d) @ ps \<and>
    c_incomingSequence d' = c_incomingSequence d + of_nat (length ps) \<and>
    (c_decrypt d' \<longleftrightarrow> c_decrypt d \<or> PacketID_RecvCrypt \<in> hd ` set ps)"
  using deliver_wire [OF assms] by (simp add: image_iff eq_commute)

lemma encrypted_transport_roundtrip_witness:
  "\<forall>ks. \<exists>d' e'. deliver (stream_env ks) 1
      [frame 1 [PacketID_RecvCrypt], apply_stream ks 0 (frame 2 [65, 2])] (cipher_conn, 0) =
      Some (d', e') \<and>
    map unread (c_incomingPackets d') = [[PacketID_RecvCrypt], [65, 2]] \<and> c_decrypt d'"
proof
  fix ks
  show "\<exists>d' e'. deliver (stream_env ks) 1
      [frame 1 [PacketID_RecvCrypt], apply_stream ks 0 (frame 2 [65, 2])] (cipher_conn, 0) =
      Some (d', e') \<and>
    map unread (c_incomingPackets d') = [[PacketID_RecvCrypt], [65, 2]] \<and> c_decrypt d'"
    using encrypted_transport_roundtrip [OF stream_env_cipher(2), of cipher_conn
        "[[PacketID_RecvCrypt], [65, 2]]" ks 1 True 0]
    by (auto simp: cipher_conn_def new_conn_def fits_def PACKET_HEADER_SIZE_def TCP_PACKET_MAX_SIZE_def
        simp del: deliver.simps)
qed

end
