(* ===== verification/Config.thy ===== *)
theory Config
  imports Connection
begin

text \<open>
  The data of \<open>serverconfig.h\<close> and the small structures of \<open>networking/tcp_connection.h\<close>
  that the managers exchange. The theory LoadConfig fills a configuration from a file.
\<close>

definition BUYMENU_MAX_CATEGORY :: u8 where "BUYMENU_MAX_CATEGORY = 7"
definition BUYMENU_MAX_SLOT :: nat where "BUYMENU_MAX_SLOT = 9"
definition BOOKMARK_MAX_SLOT :: nat where "BOOKMARK_MAX_SLOT = 5"
definition LIMIT_NEWBIE_LEVEL :: u8 where "LIMIT_NEWBIE_LEVEL = 9"

record BuyMenu =
  bm_categoryID :: u8
  bm_items :: "u8 list"

record BookMark =
  bk_slotID :: u8
  bk_name :: string
  bk_primaryItemID :: u8
  bk_primaryAmmo :: bool
  bk_secondaryItemID :: u8
  bk_secondaryAmmo :: bool
  bk_flashbang :: u8
  bk_hegrenade :: bool
  bk_smokegrenade :: bool
  bk_defusekit :: bool
  bk_nightvision :: bool
  bk_kevlar :: u8
  bk_unk1 :: u8

record InventoryItem =
  ii_slotID :: u8
  ii_itemID :: u8
  ii_count :: u8
  ii_inUse :: bool
  ii_obtainTime :: u32
  ii_expirationTime :: u32

datatype ServerType = Normal | Newbie
datatype ServerStatus = NotReady | Ready

record Channel =
  ch_id :: u8
  ch_name :: string
  ch_numPlayers :: u16
  ch_maxPlayers :: u16
  ch_ip :: string
  ch_port :: u16
  ch_isOnline :: bool
  ch_lastHeartbeat :: u64

record Server =
  sv_id :: u8
  sv_status :: ServerStatus
  sv_type :: ServerType
  sv_name :: string
  sv_channels :: "Channel list"

record ServerConfig =
  cfg_ip :: u32
  cfg_port :: u16
  cfg_ssl :: bool
  cfg_decryptCipherMethod :: CipherMethod
  cfg_encryptCipherMethod :: CipherMethod
  cfg_udpAuthKey :: string
  cfg_maxPlayers :: u16
  cfg_serverID :: u8
  cfg_channelID :: u8
  cfg_serverList :: "Server list"
  cfg_sqlServer :: string
  cfg_sqlUser :: string
  cfg_sqlPassword :: string
  cfg_sqlDatabase :: string
  cfg_prohibitedNames :: "string list"
  cfg_defaultBuyMenus :: "BuyMenu list"
  cfg_defaultInventory :: "u8 list"

text \<open>
  \<open>serverList[(unsigned char)(serverID - 1)].channels[(unsigned char)(channelID - 1)]\<close>:
  undefined when either index is out of range.
\<close>

definition server_at :: "ServerConfig \<Rightarrow> u8 \<Rightarrow> Server option" where
  "server_at cfg serverID = vec_at (cfg_serverList cfg) (unat (serverID - 1))"

definition channel_at :: "ServerConfig \<Rightarrow> u8 \<Rightarrow> u8 \<Rightarrow> Channel option" where
  "channel_at cfg serverID channelID = do {
     server \<leftarrow> server_at cfg serverID;
     vec_at (sv_channels server) (unat (channelID - 1))
   }"

section \<open>Reply codes\<close>

text \<open>\<open>Packet_ReplyType\<close>, whose values double as results of \<open>char\<close> type.\<close>

definition NoReply :: int where "NoReply = -1"
definition LoginSuccess :: int where "LoginSuccess = 0"
definition CreateCharacterSuccess :: int where "CreateCharacterSuccess = 1"
definition InvalidName :: int where "InvalidName = 3"
definition Playing :: int where "Playing = 4"
definition NotExist :: int where "NotExist = 5"
definition WrongPassword :: int where "WrongPassword = 7"
definition InvalidPassword :: int where "InvalidPassword = 8"
definition SysError :: int where "SysError = 10"
definition INVALID_USERINFO :: int where "INVALID_USERINFO = 18"
definition TRANSFER_ERR :: int where "TRANSFER_ERR = 19"
definition EXCEED_MAX_CONNECTION :: int where "EXCEED_MAX_CONNECTION = 27"

lemmas reply_defs = NoReply_def LoginSuccess_def CreateCharacterSuccess_def InvalidName_def Playing_def
  NotExist_def WrongPassword_def InvalidPassword_def SysError_def INVALID_USERINFO_def
  TRANSFER_ERR_def EXCEED_MAX_CONNECTION_def

end
