(* ===== verification/RoomSettings.thy ===== *)
theory RoomSettings
  imports Packet
begin

text \<open>
  \<open>RoomSettings\<close> of \<open>room/room.h\<close>: the record, \<open>Room::UpdateRoomSettings\<close>
  (\<open>room/room.cpp\<close>), the wire format \<open>buildRoomSettings\<close> and the reads of
  \<open>parsePacket_Room_UpdateRoomSettings\<close> (\<open>managers/packet_roommanager.cpp\<close>). A settings
  value is partial: \<open>lowFlag\<close> and \<open>highFlag\<close> say which of its fields are present.
\<close>

section \<open>Flags\<close>

definition has :: "'a::len word \<Rightarrow> 'a word \<Rightarrow> bool" where
  "has flags fl \<longleftrightarrow> flags AND fl \<noteq> 0"

definition ROOMSETTINGS_LFLAG_ROOMNAME :: u32 where "ROOMSETTINGS_LFLAG_ROOMNAME = 0x1"
definition ROOMSETTINGS_LFLAG_UNK2 :: u32 where "ROOMSETTINGS_LFLAG_UNK2 = 0x2"
definition ROOMSETTINGS_LFLAG_UNK4 :: u32 where "ROOMSETTINGS_LFLAG_UNK4 = 0x4"
definition ROOMSETTINGS_LFLAG_PASSWORD :: u32 where "ROOMSETTINGS_LFLAG_PASSWORD = 0x8"
definition ROOMSETTINGS_LFLAG_LEVELLIMIT :: u32 where "ROOMSETTINGS_LFLAG_LEVELLIMIT = 0x10"
definition ROOMSETTINGS_LFLAG_UNK20 :: u32 where "ROOMSETTINGS_LFLAG_UNK20 = 0x20"
definition ROOMSETTINGS_LFLAG_GAMEMODEID :: u32 where "ROOMSETTINGS_LFLAG_GAMEMODEID = 0x40"
definition ROOMSETTINGS_LFLAG_MAPID :: u32 where "ROOMSETTINGS_LFLAG_MAPID = 0x80"
definition ROOMSETTINGS_LFLAG_MAXPLAYERS :: u32 where "ROOMSETTINGS_LFLAG_MAXPLAYERS = 0x100"
definition ROOMSETTINGS_LFLAG_WINLIMIT :: u32 where "ROOMSETTINGS_LFLAG_WINLIMIT = 0x200"
definition ROOMSETTINGS_LFLAG_KILLLIMIT :: u32 where "ROOMSETTINGS_LFLAG_KILLLIMIT = 0x400"
definition ROOMSETTINGS_LFLAG_TIMELIMIT :: u32 where "ROOMSETTINGS_LFLAG_TIMELIMIT = 0x800"
definition ROOMSETTINGS_LFLAG_ROUNDTIME :: u32 where "ROOMSETTINGS_LFLAG_ROUNDTIME = 0x1000"
definition ROOMSETTINGS_LFLAG_WEAPONLIMIT :: u32 where "ROOMSETTINGS_LFLAG_WEAPONLIMIT = 0x2000"
definition ROOMSETTINGS_LFLAG_HOSTAGEPENALTY :: u32 where "ROOMSETTINGS_LFLAG_HOSTAGEPENALTY = 0x4000"
definition ROOMSETTINGS_LFLAG_FREEZETIME :: u32 where "ROOMSETTINGS_LFLAG_FREEZETIME = 0x8000"
definition ROOMSETTINGS_LFLAG_BUYTIME :: u32 where "ROOMSETTINGS_LFLAG_BUYTIME = 0x10000"
definition ROOMSETTINGS_LFLAG_NICKNAMEDISPLAY :: u32 where "ROOMSETTINGS_LFLAG_NICKNAMEDISPLAY = 0x20000"
definition ROOMSETTINGS_LFLAG_UNK40000 :: u32 where "ROOMSETTINGS_LFLAG_UNK40000 = 0x40000"
definition ROOMSETTINGS_LFLAG_UNK80000 :: u32 where "ROOMSETTINGS_LFLAG_UNK80000 = 0x80000"
definition ROOMSETTINGS_LFLAG_FRIENDLYFIRE :: u32 where "ROOMSETTINGS_LFLAG_FRIENDLYFIRE = 0x100000"
definition ROOMSETTINGS_LFLAG_FLASHLIGHT :: u32 where "ROOMSETTINGS_LFLAG_FLASHLIGHT = 0x200000"
definition ROOMSETTINGS_LFLAG_FOOTSTEPS :: u32 where "ROOMSETTINGS_LFLAG_FOOTSTEPS = 0x400000"
definition ROOMSETTINGS_LFLAG_UNK800000 :: u32 where "ROOMSETTINGS_LFLAG_UNK800000 = 0x800000"
definition ROOMSETTINGS_LFLAG_UNK1000000 :: u32 where "ROOMSETTINGS_LFLAG_UNK1000000 = 0x1000000"
definition ROOMSETTINGS_LFLAG_UNK2000000 :: u32 where "ROOMSETTINGS_LFLAG_UNK2000000 = 0x2000000"
definition ROOMSETTINGS_LFLAG_UNK4000000 :: u32 where "ROOMSETTINGS_LFLAG_UNK4000000 = 0x4000000"
definition ROOMSETTINGS_LFLAG_UNK8000000 :: u32 where "ROOMSETTINGS_LFLAG_UNK8000000 = 0x8000000"
definition ROOMSETTINGS_LFLAG_DEATHCAMERATYPE :: u32 where "ROOMSETTINGS_LFLAG_DEATHCAMERATYPE = 0x10000000"
definition ROOMSETTINGS_LFLAG_VOICECHAT :: u32 where "ROOMSETTINGS_LFLAG_VOICECHAT = 0x20000000"
definition ROOMSETTINGS_LFLAG_ROOMSTATE :: u32 where "ROOMSETTINGS_LFLAG_ROOMSTATE = 0x40000000"
definition ROOMSETTINGS_LFLAG_UNK80000000 :: u32 where "ROOMSETTINGS_LFLAG_UNK80000000 = 0x80000000"
definition ROOMSETTINGS_LFLAG_ALL :: u32 where "ROOMSETTINGS_LFLAG_ALL = 0xFFFFFFFF"
definition ROOMSETTINGS_HFLAG_UNK1 :: u8 where "ROOMSETTINGS_HFLAG_UNK1 = 0x1"
definition ROOMSETTINGS_HFLAG_UNK2 :: u8 where "ROOMSETTINGS_HFLAG_UNK2 = 0x2"
definition ROOMSETTINGS_HFLAG_ALL :: u8 where "ROOMSETTINGS_HFLAG_ALL = 0xFF"

lemmas lflag_defs =
  ROOMSETTINGS_LFLAG_ROOMNAME_def
  ROOMSETTINGS_LFLAG_UNK2_def
  ROOMSETTINGS_LFLAG_UNK4_def
  ROOMSETTINGS_LFLAG_PASSWORD_def
  ROOMSETTINGS_LFLAG_LEVELLIMIT_def
  ROOMSETTINGS_LFLAG_UNK20_def
  ROOMSETTINGS_LFLAG_GAMEMODEID_def
  ROOMSETTINGS_LFLAG_MAPID_def
  ROOMSETTINGS_LFLAG_MAXPLAYERS_def
  ROOMSETTINGS_LFLAG_WINLIMIT_def
  ROOMSETTINGS_LFLAG_KILLLIMIT_def
  ROOMSETTINGS_LFLAG_TIMELIMIT_def
  ROOMSETTINGS_LFLAG_ROUNDTIME_def
  ROOMSETTINGS_LFLAG_WEAPONLIMIT_def
  ROOMSETTINGS_LFLAG_HOSTAGEPENALTY_def
  ROOMSETTINGS_LFLAG_FREEZETIME_def
  ROOMSETTINGS_LFLAG_BUYTIME_def
  ROOMSETTINGS_LFLAG_NICKNAMEDISPLAY_def
  ROOMSETTINGS_LFLAG_UNK40000_def
  ROOMSETTINGS_LFLAG_UNK80000_def
  ROOMSETTINGS_LFLAG_FRIENDLYFIRE_def
  ROOMSETTINGS_LFLAG_FLASHLIGHT_def
  ROOMSETTINGS_LFLAG_FOOTSTEPS_def
  ROOMSETTINGS_LFLAG_UNK800000_def
  ROOMSETTINGS_LFLAG_UNK1000000_def
  ROOMSETTINGS_LFLAG_UNK2000000_def
  ROOMSETTINGS_LFLAG_UNK4000000_def
  ROOMSETTINGS_LFLAG_UNK8000000_def
  ROOMSETTINGS_LFLAG_DEATHCAMERATYPE_def
  ROOMSETTINGS_LFLAG_VOICECHAT_def
  ROOMSETTINGS_LFLAG_ROOMSTATE_def
  ROOMSETTINGS_LFLAG_UNK80000000_def

definition ROOMLIST_FLAG_ROOMNAME :: u16 where "ROOMLIST_FLAG_ROOMNAME = 0x1"
definition ROOMLIST_FLAG_UNK2 :: u16 where "ROOMLIST_FLAG_UNK2 = 0x2"
definition ROOMLIST_FLAG_ISPASSWORDED :: u16 where "ROOMLIST_FLAG_ISPASSWORDED = 0x4"
definition ROOMLIST_FLAG_LEVELLIMIT :: u16 where "ROOMLIST_FLAG_LEVELLIMIT = 0x8"
definition ROOMLIST_FLAG_GAMEMODEID :: u16 where "ROOMLIST_FLAG_GAMEMODEID = 0x10"
definition ROOMLIST_FLAG_MAPID :: u16 where "ROOMLIST_FLAG_MAPID = 0x20"
definition ROOMLIST_FLAG_CURRENTPLAYERS :: u16 where "ROOMLIST_FLAG_CURRENTPLAYERS = 0x40"
definition ROOMLIST_FLAG_MAXPLAYERS :: u16 where "ROOMLIST_FLAG_MAXPLAYERS = 0x80"
definition ROOMLIST_FLAG_WEAPONLIMIT :: u16 where "ROOMLIST_FLAG_WEAPONLIMIT = 0x100"
definition ROOMLIST_FLAG_ROOMHOST :: u16 where "ROOMLIST_FLAG_ROOMHOST = 0x200"
definition ROOMLIST_FLAG_UNK400 :: u16 where "ROOMLIST_FLAG_UNK400 = 0x400"
definition ROOMLIST_FLAG_ROOMHOSTNETWORK :: u16 where "ROOMLIST_FLAG_ROOMHOSTNETWORK = 0x800"
definition ROOMLIST_FLAG_UNK1000 :: u16 where "ROOMLIST_FLAG_UNK1000 = 0x1000"
definition ROOMLIST_FLAG_UNK2000 :: u16 where "ROOMLIST_FLAG_UNK2000 = 0x2000"
definition ROOMLIST_FLAG_ROOMSTATE :: u16 where "ROOMLIST_FLAG_ROOMSTATE = 0x4000"
definition ROOMLIST_FLAG_ALL :: u16 where "ROOMLIST_FLAG_ALL = 0xFFFF"

lemmas roomlist_flag_defs =
  ROOMLIST_FLAG_ROOMNAME_def
  ROOMLIST_FLAG_UNK2_def
  ROOMLIST_FLAG_ISPASSWORDED_def
  ROOMLIST_FLAG_LEVELLIMIT_def
  ROOMLIST_FLAG_GAMEMODEID_def
  ROOMLIST_FLAG_MAPID_def
  ROOMLIST_FLAG_CURRENTPLAYERS_def
  ROOMLIST_FLAG_MAXPLAYERS_def
  ROOMLIST_FLAG_WEAPONLIMIT_def
  ROOMLIST_FLAG_ROOMHOST_def
  ROOMLIST_FLAG_UNK400_def
  ROOMLIST_FLAG_ROOMHOSTNETWORK_def
  ROOMLIST_FLAG_UNK1000_def
  ROOMLIST_FLAG_UNK2000_def
  ROOMLIST_FLAG_ROOMSTATE_def

section \<open>The record\<close>

text \<open>
  \<open>enum class RoomState\<close> is cast from any byte a client sends, so a room state is a
  byte; the enumerators are two of its values.
\<close>

type_synonym RoomState = u8
definition RoomState_Waiting :: RoomState where "RoomState_Waiting = 0"
definition RoomState_Playing :: RoomState where "RoomState_Playing = 2"

record unk80000000_vec =
  vec_1 :: u32
  vec_2 :: u32
  vec_3 :: u8
  vec_4 :: u8
  vec_5 :: u8
  vec_6 :: u8
  vec_7 :: u16
  vec_8 :: u8
  vec_9 :: u8

definition new_vec :: unk80000000_vec where
  "new_vec = \<lparr>vec_1 = 0, vec_2 = 0, vec_3 = 0, vec_4 = 0, vec_5 = 0, vec_6 = 0,
     vec_7 = 0, vec_8 = 0, vec_9 = 0\<rparr>"

record RoomSettings =
  lowFlag :: u32
  highFlag :: u8
  roomName :: string
  unk2 :: u8
  unk4_1 :: u8
  unk4_2 :: u8
  unk4_3 :: u8
  unk4_4 :: u32
  password :: string
  levelLimit :: u8
  unk20 :: u8
  gameModeID :: u8
  mapID :: u8
  maxPlayers :: u8
  winLimit :: u8
  killLimit :: u16
  timeLimit :: u8
  roundTime :: u8
  weaponLimit :: u8
  hostagePenalty :: u8
  freezeTime :: u8
  buyTime :: u8
  nickNameDisplay :: u8
  unk40000 :: u8
  unk80000 :: u8
  friendlyFire :: bool
  flashLight :: bool
  footSteps :: bool
  unk800000 :: u8
  unk1000000 :: u8
  unk2000000 :: u8
  unk4000000 :: u8
  unk8000000 :: u8
  deathCameraType :: u8
  voiceChat :: bool
  roomState :: RoomState
  unk80000000_1 :: u8
  unk80000000_2_0 :: unk80000000_vec
  unk80000000_2_1 :: unk80000000_vec
  unkh1_1 :: u32
  unkh1_2 :: string
  unkh1_3 :: u8
  unkh1_4 :: u8
  unkh1_5 :: u8
  unkh2 :: u8

definition new_RoomSettings :: RoomSettings where
  "new_RoomSettings = \<lparr>
     lowFlag = 0, highFlag = 0, roomName = [], unk2 = 0, unk4_1 = 0, unk4_2 = 0,
     unk4_3 = 0, unk4_4 = 0, password = [], levelLimit = 0, unk20 = 0, gameModeID = 0,
     mapID = 0, maxPlayers = 0, winLimit = 0, killLimit = 0, timeLimit = 0,
     roundTime = 0, weaponLimit = 0, hostagePenalty = 0, freezeTime = 0, buyTime = 0,
     nickNameDisplay = 0, unk40000 = 0, unk80000 = 0, friendlyFire = False,
     flashLight = False, footSteps = False, unk800000 = 0, unk1000000 = 0,
     unk2000000 = 0, unk4000000 = 0, unk8000000 = 0, deathCameraType = 0,
     voiceChat = False, roomState = RoomState_Waiting, unk80000000_1 = 0,
     unk80000000_2_0 = new_vec, unk80000000_2_1 = new_vec, unkh1_1 = 0, unkh1_2 = [],
     unkh1_3 = 0, unkh1_4 = 0, unkh1_5 = 0, unkh2 = 0\<rparr>"

section \<open>Merging a partial update\<close>

text \<open>
  \<open>copy_if c f s t\<close>: the assignments \<open>f\<close> from \<open>s\<close> to \<open>t\<close> under the test \<open>c\<close>.
\<close>

definition copy_if :: "bool \<Rightarrow> ('s \<Rightarrow> 't \<Rightarrow> 't) \<Rightarrow> 's \<Rightarrow> 't \<Rightarrow> 't" where
  "copy_if c f s t = upd_if c (f s) t"

definition UpdateRoomSettings :: "RoomSettings \<Rightarrow> RoomSettings \<Rightarrow> RoomSettings" where
  "UpdateRoomSettings s t = (let
     t = copy_if (has (lowFlag s) ROOMSETTINGS_LFLAG_ROOMNAME)
           (\<lambda>s t. t\<lparr>roomName := roomName s\<rparr>) s t;
     t = copy_if (has (lowFlag s) ROOMSETTINGS_LFLAG_UNK2)
           (\<lambda>s t. t\<lparr>unk2 := unk2 s\<rparr>) s t;
     t = copy_if (has (lowFlag s) ROOMSETTINGS_LFLAG_UNK4)
           (\<lambda>s t. t\<lparr>unk4_1 := unk4_1 s, unk4_2 := unk4_2 s, unk4_3 := unk4_3 s, unk4_4 := unk4_4 s\<rparr>) s t;
     t = copy_if (has (lowFlag s) ROOMSETTINGS_LFLAG_PASSWORD)
           (\<lambda>s t. t\<lparr>password := password s\<rparr>) s t;
     t = copy_if (has (lowFlag s) ROOMSETTINGS_LFLAG_LEVELLIMIT)
           (\<lambda>s t. t\<lparr>levelLimit := levelLimit s\<rparr>) s t;
     t = copy_if (has (lowFlag s) ROOMSETTINGS_LFLAG_UNK20)
           (\<lambda>s t. t\<lparr>unk20 := unk20 s\<rparr>) s t;
     t = copy_if (has (lowFlag s) ROOMSETTINGS_LFLAG_GAMEMODEID)
           (\<lambda>s t. t\<lparr>gameModeID := gameModeID s\<rparr>) s t;
     t = copy_if (has (lowFlag s) ROOMSETTINGS_LFLAG_MAPID)
           (\<lambda>s t. t\<lparr>mapID := mapID s\<rparr>) s t;
     t = copy_if (has (lowFlag s) ROOMSETTINGS_LFLAG_MAXPLAYERS)
           (\<lambda>s t. t\<lparr>maxPlayers := maxPlayers s\<rparr>) s t;
     t = copy_if (has (lowFlag s) ROOMSETTINGS_LFLAG_WINLIMIT)
           (\<lambda>s t. t\<lparr>winLimit := winLimit s\<rparr>) s t;
     t = copy_if (has (lowFlag s) ROOMSETTINGS_LFLAG_KILLLIMIT)
           (\<lambda>s t. t\<lparr>killLimit := killLimit s\<rparr>) s t;
     t = copy_if (has (lowFlag s) ROOMSETTINGS_LFLAG_TIMELIMIT)
           (\<lambda>s t. t\<lparr>timeLimit := timeLimit s\<rparr>) s t;
     t = copy_if (has (lowFlag s) ROOMSETTINGS_LFLAG_ROUNDTIME)
           (\<lambda>s t. t\<lparr>roundTime := roundTime s\<rparr>) s t;
     t = copy_if (has (lowFlag s) ROOMSETTINGS_LFLAG_WEAPONLIMIT)
           (\<lambda>s t. t\<lparr>weaponLimit := weaponLimit s\<rparr>) s t;
     t = copy_if (has (lowFlag s) ROOMSETTINGS_LFLAG_HOSTAGEPENALTY)
           (\<lambda>s t. t\<lparr>hostagePenalty := hostagePenalty s\<rparr>) s t;
     t = copy_if (has (lowFlag s) ROOMSETTINGS_LFLAG_FREEZETIME)
           (\<lambda>s t. t\<lparr>freezeTime := freezeTime s\<rparr>) s t;
     t = copy_if (has (lowFlag s) ROOMSETTINGS_LFLAG_BUYTIME)
           (\<lambda>s t. t\<lparr>buyTime := buyTime s\<rparr>) s t;
     t = copy_if (has (lowFlag s) ROOMSETTINGS_LFLAG_NICKNAMEDISPLAY)
           (\<lambda>s t. t\<lparr>nickNameDisplay := nickNameDisplay s\<rparr>) s t;
     t = copy_if (has (lowFlag s) ROOMSETTINGS_LFLAG_UNK40000)
           (\<lambda>s t. t\<lparr>unk40000 := unk40000 s\<rparr>) s t;
     t = copy_if (has (lowFlag s) ROOMSETTINGS_LFLAG_UNK80000)
           (\<lambda>s t. t\<lparr>unk80000 := unk80000 s\<rparr>) s t;
     t = copy_if (has (lowFlag s) ROOMSETTINGS_LFLAG_FRIENDLYFIRE)
           (\<lambda>s t. t\<lparr>friendlyFire := friendlyFire s\<rparr>) s t;
     t = copy_if (has (lowFlag s) ROOMSETTINGS_LFLAG_FLASHLIGHT)
           (\<lambda>s t. t\<lparr>flashLight := flashLight s\<rparr>) s t;
     t = copy_if (has (lowFlag s) ROOMSETTINGS_LFLAG_FOOTSTEPS)
           (\<lambda>s t. t\<lparr>footSteps := footSteps s\<rparr>) s t;
     t = copy_if (has (lowFlag s) ROOMSETTINGS_LFLAG_UNK800000)
           (\<lambda>s t. t\<lparr>unk800000 := unk800000 s\<rparr>) s t;
     t = copy_if (has (lowFlag s) ROOMSETTINGS_LFLAG_UNK1000000)
           (\<lambda>s t. t\<lparr>unk1000000 := unk1000000 s\<rparr>) s t;
     t = copy_if (has (lowFlag s) ROOMSETTINGS_LFLAG_UNK2000000)
           (\<lambda>s t. t\<lparr>unk2000000 := unk2000000 s\<rparr>) s t;
     t = copy_if (has (lowFlag s) ROOMSETTINGS_LFLAG_UNK4000000)
           (\<lambda>s t. t\<lparr>unk4000000 := unk4000000 s\<rparr>) s t;
     t = copy_if (has (lowFlag s) ROOMSETTINGS_LFLAG_UNK8000000)
           (\<lambda>s t. t\<lparr>unk8000000 := unk8000000 s\<rparr>) s t;
     t = copy_if (has (lowFlag s) ROOMSETTINGS_LFLAG_DEATHCAMERATYPE)
           (\<lambda>s t. t\<lparr>deathCameraType := deathCameraType s\<rparr>) s t;
     t = copy_if (has (lowFlag s) ROOMSETTINGS_LFLAG_VOICECHAT)
           (\<lambda>s t. t\<lparr>voiceChat := voiceChat s\<rparr>) s t;
     t = copy_if (has (lowFlag s) ROOMSETTINGS_LFLAG_ROOMSTATE)
           (\<lambda>s t. t\<lparr>roomState := roomState s\<rparr>) s t;
     t = copy_if (has (lowFlag s) ROOMSETTINGS_LFLAG_UNK80000000)
           (\<lambda>s t. t\<lparr>unk80000000_1 := unk80000000_1 s, unk80000000_2_0 := unk80000000_2_0 s, unk80000000_2_1 := unk80000000_2_1 s\<rparr>) s t;
     t = copy_if (has (highFlag s) ROOMSETTINGS_HFLAG_UNK1)
           (\<lambda>s t. t\<lparr>unkh1_1 := unkh1_1 s, unkh1_2 := unkh1_2 s, unkh1_3 := unkh1_3 s, unkh1_4 := unkh1_4 s, unkh1_5 := unkh1_5 s\<rparr>) s t;
     t = copy_if (has (highFlag s) ROOMSETTINGS_HFLAG_UNK2)
           (\<lambda>s t. t\<lparr>unkh2 := unkh2 s\<rparr>) s t
   in t)"

section \<open>Wire format\<close>

definition send_if :: "bool \<Rightarrow> 'a list \<Rightarrow> 'a list" where
  "send_if c xs = (if c then xs else [])"

definition build_vec :: "unk80000000_vec \<Rightarrow> wcall list" where
  "build_vec v =
     [WriteUInt32_LE (vec_1 v), WriteUInt32_LE (vec_2 v), WriteUInt8 (vec_3 v),
      WriteUInt8 (vec_4 v), WriteUInt8 (vec_5 v), WriteUInt8 (vec_6 v),
      WriteUInt16_LE (vec_7 v), WriteUInt8 (vec_8 v), WriteUInt8 (vec_9 v)]"

definition buildRoomSettings :: "RoomSettings \<Rightarrow> wcall list" where
  "buildRoomSettings rs =
     [WriteUInt32_LE (lowFlag rs), WriteUInt8 (highFlag rs)]
     @ send_if (has (lowFlag rs) ROOMSETTINGS_LFLAG_ROOMNAME) [WriteString (roomName rs)]
     @ send_if (has (lowFlag rs) ROOMSETTINGS_LFLAG_UNK2) [WriteUInt8 (unk2 rs)]
     @ send_if (has (lowFlag rs) ROOMSETTINGS_LFLAG_UNK4) 
         [WriteUInt8 (unk4_1 rs), WriteUInt8 (unk4_2 rs), WriteUInt8 (unk4_3 rs), WriteUInt32_LE (unk4_4 rs)]
     @ send_if (has (lowFlag rs) ROOMSETTINGS_LFLAG_PASSWORD) [WriteString (password rs)]
     @ send_if (has (lowFlag rs) ROOMSETTINGS_LFLAG_LEVELLIMIT) [WriteUInt8 (levelLimit rs)]
     @ send_if (has (lowFlag rs) ROOMSETTINGS_LFLAG_UNK20) [WriteUInt8 (unk20 rs)]
     @ send_if (has (lowFlag rs) ROOMSETTINGS_LFLAG_GAMEMODEID) [WriteUInt8 (gameModeID rs)]
     @ send_if (has (lowFlag rs) ROOMSETTINGS_LFLAG_MAPID) [WriteUInt8 (mapID rs)]
     @ send_if (has (lowFlag rs) ROOMSETTINGS_LFLAG_MAXPLAYERS) [WriteUInt8 (maxPlayers rs)]
     @ send_if (has (lowFlag rs) ROOMSETTINGS_LFLAG_WINLIMIT) [WriteUInt8 (winLimit rs)]
     @ send_if (has (lowFlag rs) ROOMSETTINGS_LFLAG_KILLLIMIT) [WriteUInt16_LE (killLimit rs)]
     @ send_if (has (lowFlag rs) ROOMSETTINGS_LFLAG_TIMELIMIT) [WriteUInt8 (timeLimit rs)]
     @ send_if (has (lowFlag rs) ROOMSETTINGS_LFLAG_ROUNDTIME) [WriteUInt8 (roundTime rs)]
     @ send_if (has (lowFlag rs) ROOMSETTINGS_LFLAG_WEAPONLIMIT) [WriteUInt8 (weaponLimit rs)]
     @ send_if (has (lowFlag rs) ROOMSETTINGS_LFLAG_HOSTAGEPENALTY) [WriteUInt8 (hostagePenalty rs)]
     @ send_if (has (lowFlag rs) ROOMSETTINGS_LFLAG_FREEZETIME) [WriteUInt8 (freezeTime rs)]
     @ send_if (has (lowFlag rs) ROOMSETTINGS_LFLAG_BUYTIME) [WriteUInt8 (buyTime rs)]
     @ send_if (has (lowFlag rs) ROOMSETTINGS_LFLAG_NICKNAMEDISPLAY) [WriteUInt8 (nickNameDisplay rs)]
     @ send_if (has (lowFlag rs) ROOMSETTINGS_LFLAG_UNK40000) [WriteUInt8 (unk40000 rs)]
     @ send_if (has (lowFlag rs) ROOMSETTINGS_LFLAG_UNK80000) [WriteUInt8 (unk80000 rs)]
     @ send_if (has (lowFlag rs) ROOMSETTINGS_LFLAG_FRIENDLYFIRE) [WriteBool (friendlyFire rs)]
     @ send_if (has (lowFlag rs) ROOMSETTINGS_LFLAG_FLASHLIGHT) [WriteBool (flashLight rs)]
     @ send_if (has (lowFlag rs) ROOMSETTINGS_LFLAG_FOOTSTEPS) [WriteBool (footSteps rs)]
     @ send_if (has (lowFlag rs) ROOMSETTINGS_LFLAG_UNK800000) [WriteUInt8 (unk800000 rs)]
     @ send_if (has (lowFlag rs) ROOMSETTINGS_LFLAG_UNK1000000) [WriteUInt8 (unk1000000 rs)]
     @ send_if (has (lowFlag rs) ROOMSETTINGS_LFLAG_UNK2000000) [WriteUInt8 (unk2000000 rs)]
     @ send_if (has (lowFlag rs) ROOMSETTINGS_LFLAG_UNK4000000) [WriteUInt8 (unk4000000 rs)]
     @ send_if (has (lowFlag rs) ROOMSETTINGS_LFLAG_UNK8000000) [WriteUInt8 (unk8000000 rs)]
     @ send_if (has (lowFlag rs) ROOMSETTINGS_LFLAG_DEATHCAMERATYPE) [WriteUInt8 (deathCameraType rs)]
     @ send_if (has (lowFlag rs) ROOMSETTINGS_LFLAG_VOICECHAT) [WriteBool (voiceChat rs)]
     @ send_if (has (lowFlag rs) ROOMSETTINGS_LFLAG_ROOMSTATE) [WriteUInt8 (roomState rs)]
     @ send_if (has (lowFlag rs) ROOMSETTINGS_LFLAG_UNK80000000) (WriteUInt8 (unk80000000_1 rs) #
         build_vec (unk80000000_2_0 rs) @ build_vec (unk80000000_2_1 rs))
     @ send_if (has (highFlag rs) ROOMSETTINGS_HFLAG_UNK1) 
         [WriteUInt32_LE (unkh1_1 rs), WriteString (unkh1_2 rs), WriteUInt8 (unkh1_3 rs), WriteUInt8 (unkh1_4 rs), WriteUInt8 (unkh1_5 rs)]
     @ send_if (has (highFlag rs) ROOMSETTINGS_HFLAG_UNK2) [WriteUInt8 (unkh2 rs)]"

section \<open>Reading settings off the wire\<close>

text \<open>
  The reads of \<open>parsePacket_Room_UpdateRoomSettings\<close>: the state is the settings being
  filled and \<open>roomListFlag\<close>, an \<open>unsigned char\<close>, so the two ROOMLIST flags above 0xFF
  are lost in it. The groups of consecutive reads under one flag are named first.
\<close>

definition read_unk4 :: "packet \<Rightarrow> (u8 \<times> u8 \<times> u8 \<times> u32) \<times> packet" where
  "read_unk4 p = (let (a, p) = ReadUInt8 p; (b, p) = ReadUInt8 p; (c, p) = ReadUInt8 p;
     (d, p) = ReadUInt32_LE p in ((a, b, c, d), p))"

definition read_vec :: "packet \<Rightarrow> unk80000000_vec \<times> packet" where
  "read_vec p = (let (v1, p) = ReadUInt32_LE p; (v2, p) = ReadUInt32_LE p;
     (v3, p) = ReadUInt8 p; (v4, p) = ReadUInt8 p; (v5, p) = ReadUInt8 p; (v6, p) = ReadUInt8 p;
     (v7, p) = ReadUInt16_LE p; (v8, p) = ReadUInt8 p; (v9, p) = ReadUInt8 p
     in (\<lparr>vec_1 = v1, vec_2 = v2, vec_3 = v3, vec_4 = v4, vec_5 = v5, vec_6 = v6,
           vec_7 = v7, vec_8 = v8, vec_9 = v9\<rparr>, p))"

definition read_unk80000000 ::
  "packet \<Rightarrow> (u8 \<times> unk80000000_vec \<times> unk80000000_vec) \<times> packet" where
  "read_unk80000000 p = (let (a, p) = ReadUInt8 p; (u, p) = read_vec p; (v, p) = read_vec p
     in ((a, u, v), p))"

definition read_unkh1 :: "packet \<Rightarrow> (u32 \<times> string \<times> u8 \<times> u8 \<times> u8) \<times> packet" where
  "read_unkh1 p = (let (a, p) = ReadUInt32_LE p; (b, p) = ReadString p; (c, p) = ReadUInt8 p;
     (d, p) = ReadUInt8 p; (e, p) = ReadUInt8 p in ((a, b, c, d, e), p))"

definition readRoomSettings_1 ::
  "u32 \<Rightarrow> u8 \<Rightarrow> (RoomSettings \<times> u8) \<times> packet \<Rightarrow> (RoomSettings \<times> u8) \<times> packet" where
  "readRoomSettings_1 lf hf sp = (let
     sp = read_if (has lf ROOMSETTINGS_LFLAG_ROOMNAME) ReadString
            (\<lambda>x (s, f). (s\<lparr>roomName := x\<rparr>, f OR ucast ROOMLIST_FLAG_ROOMNAME)) sp;
     sp = read_if (has lf ROOMSETTINGS_LFLAG_UNK2) ReadUInt8
            (\<lambda>x (s, f). (s\<lparr>unk2 := x\<rparr>, f)) sp;
     sp = read_if (has lf ROOMSETTINGS_LFLAG_UNK4) read_unk4
            (\<lambda>(a, b, c, d) (s, f). (s\<lparr>unk4_1 := a, unk4_2 := b, unk4_3 := c, unk4_4 := d\<rparr>, f)) sp;
     sp = read_if (has lf ROOMSETTINGS_LFLAG_PASSWORD) ReadString
            (\<lambda>x (s, f). (s\<lparr>password := x\<rparr>, f OR ucast ROOMLIST_FLAG_ISPASSWORDED)) sp;
     sp = read_if (has lf ROOMSETTINGS_LFLAG_LEVELLIMIT) ReadUInt8
            (\<lambda>x (s, f). (s\<lparr>levelLimit := x\<rparr>, f OR ucast ROOMLIST_FLAG_LEVELLIMIT)) sp;
     sp = read_if (has lf ROOMSETTINGS_LFLAG_UNK20) ReadUInt8
            (\<lambda>x (s, f). (s\<lparr>unk20 := x\<rparr>, f)) sp;
     sp = read_if (has lf ROOMSETTINGS_LFLAG_GAMEMODEID) ReadUInt8
            (\<lambda>x (s, f). (s\<lparr>gameModeID := x\<rparr>, f OR ucast ROOMLIST_FLAG_GAMEMODEID)) sp;
     sp = read_if (has lf ROOMSETTINGS_LFLAG_MAPID) ReadUInt8
            (\<lambda>x (s, f). (s\<lparr>mapID := x\<rparr>, f OR ucast ROOMLIST_FLAG_MAPID)) sp;
     sp = read_if (has lf ROOMSETTINGS_LFLAG_MAXPLAYERS) ReadUInt8
            (\<lambda>x (s, f). (s\<lparr>maxPlayers := x\<rparr>, f OR ucast ROOMLIST_FLAG_MAXPLAYERS)) sp;
     sp = read_if (has lf ROOMSETTINGS_LFLAG_WINLIMIT) ReadUInt8
            (\<lambda>x (s, f). (s\<lparr>winLimit := x\<rparr>, f)) sp;
     sp = read_if (has lf ROOMSETTINGS_LFLAG_KILLLIMIT) ReadUInt16_LE
            (\<lambda>x (s, f). (s\<lparr>killLimit := x\<rparr>, f)) sp;
     sp = read_if (has lf ROOMSETTINGS_LFLAG_TIMELIMIT) ReadUInt8
            (\<lambda>x (s, f). (s\<lparr>timeLimit := x\<rparr>, f)) sp;
     sp = read_if (has lf ROOMSETTINGS_LFLAG_ROUNDTIME) ReadUInt8
            (\<lambda>x (s, f). (s\<lparr>roundTime := x\<rparr>, f)) sp;
     sp = read_if (has lf ROOMSETTINGS_LFLAG_WEAPONLIMIT) ReadUInt8
            (\<lambda>x (s, f). (s\<lparr>weaponLimit := x\<rparr>, f OR ucast ROOMLIST_FLAG_WEAPONLIMIT)) sp;
     sp = read_if (has lf ROOMSETTINGS_LFLAG_HOSTAGEPENALTY) ReadUInt8
            (\<lambda>x (s, f). (s\<lparr>hostagePenalty := x\<rparr>, f)) sp;
     sp = read_if (has lf ROOMSETTINGS_LFLAG_FREEZETIME) ReadUInt8
            (\<lambda>x (s, f). (s\<lparr>freezeTime := x\<rparr>, f)) sp
   in sp)"

definition readRoomSettings_2 ::
  "u32 \<Rightarrow> u8 \<Rightarrow> (RoomSettings \<times> u8) \<times> packet \<Rightarrow> (RoomSettings \<times> u8) \<times> packet" where
  "readRoomSettings_2 lf hf sp = (let
     sp = read_if (has lf ROOMSETTINGS_LFLAG_BUYTIME) ReadUInt8
            (\<lambda>x (s, f). (s\<lparr>buyTime := x\<rparr>, f)) sp;
     sp = read_if (has lf ROOMSETTINGS_LFLAG_NICKNAMEDISPLAY) ReadUInt8
            (\<lambda>x (s, f). (s\<lparr>nickNameDisplay := x\<rparr>, f)) sp;
     sp = read_if (has lf ROOMSETTINGS_LFLAG_UNK40000) ReadUInt8
            (\<lambda>x (s, f). (s\<lparr>unk40000 := x\<rparr>, f)) sp;
     sp = read_if (has lf ROOMSETTINGS_LFLAG_UNK80000) ReadUInt8
            (\<lambda>x (s, f). (s\<lparr>unk80000 := x\<rparr>, f)) sp;
     sp = read_if (has lf ROOMSETTINGS_LFLAG_FRIENDLYFIRE) ReadBool
            (\<lambda>x (s, f). (s\<lparr>friendlyFire := x\<rparr>, f)) sp;
     sp = read_if (has lf ROOMSETTINGS_LFLAG_FLASHLIGHT) ReadBool
            (\<lambda>x (s, f). (s\<lparr>flashLight := x\<rparr>, f)) sp;
     sp = read_if (has lf ROOMSETTINGS_LFLAG_FOOTSTEPS) ReadBool
            (\<lambda>x (s, f). (s\<lparr>footSteps := x\<rparr>, f)) sp;
     sp = read_if (has lf ROOMSETTINGS_LFLAG_UNK800000) ReadUInt8
            (\<lambda>x (s, f). (s\<lparr>unk800000 := x\<rparr>, f)) sp;
     sp = read_if (has lf ROOMSETTINGS_LFLAG_UNK1000000) ReadUInt8
            (\<lambda>x (s, f). (s\<lparr>unk1000000 := x\<rparr>, f)) sp;
     sp = read_if (has lf ROOMSETTINGS_LFLAG_UNK2000000) ReadUInt8
            (\<lambda>x (s, f). (s\<lparr>unk2000000 := x\<rparr>, f)) sp;
     sp = read_if (has lf ROOMSETTINGS_LFLAG_UNK4000000) ReadUInt8
            (\<lambda>x (s, f). (s\<lparr>unk4000000 := x\<rparr>, f)) sp;
     sp = read_if (has lf ROOMSETTINGS_LFLAG_UNK8000000) ReadUInt8
            (\<lambda>x (s, f). (s\<lparr>unk8000000 := x\<rparr>, f)) sp;
     sp = read_if (has lf ROOMSETTINGS_LFLAG_DEATHCAMERATYPE) ReadUInt8
            (\<lambda>x (s, f). (s\<lparr>deathCameraType := x\<rparr>, f)) sp;
     sp = read_if (has lf ROOMSETTINGS_LFLAG_VOICECHAT) ReadBool
            (\<lambda>x (s, f). (s\<lparr>voiceChat := x\<rparr>, f)) sp;
     sp = read_if (has lf ROOMSETTINGS_LFLAG_ROOMSTATE) ReadUInt8
            (\<lambda>x (s, f). (s\<lparr>roomState := x\<rparr>, f OR ucast ROOMLIST_FLAG_ROOMSTATE)) sp;
     sp = read_if (has lf ROOMSETTINGS_LFLAG_UNK80000000) read_unk80000000
            (\<lambda>(a, u, v) (s, f). (s\<lparr>unk80000000_1 := a, unk80000000_2_0 := u, unk80000000_2_1 := v\<rparr>, f)) sp;
     sp = read_if (has hf ROOMSETTINGS_HFLAG_UNK1) read_unkh1
            (\<lambda>(a, b, c, d, e) (s, f). (s\<lparr>unkh1_1 := a, unkh1_2 := b, unkh1_3 := c, unkh1_4 := d, unkh1_5 := e\<rparr>, f)) sp;
     sp = read_if (has hf ROOMSETTINGS_HFLAG_UNK2) ReadUInt8
            (\<lambda>x (s, f). (s\<lparr>unkh2 := x\<rparr>, f)) sp
   in sp)"

definition readRoomSettings :: "packet \<Rightarrow> (RoomSettings \<times> u8) \<times> packet" where
  "readRoomSettings p =
     (let (lf, p) = ReadUInt32_LE p;
          (hf, p) = ReadUInt8 p;
          rs = new_RoomSettings\<lparr>lowFlag := lf, highFlag := hf\<rparr>
      in readRoomSettings_2 lf hf (readRoomSettings_1 lf hf ((rs, 0), p)))"

section \<open>What an update changes\<close>

lemma upd_if_sel_other: "(\<And>t. sel (f t) = sel t) \<Longrightarrow> sel (upd_if c f t) = sel t"
  by (simp add: upd_if_def)

lemma upd_if_sel: "sel (upd_if c f t) = (if c then sel (f t) else sel t)"
  by (simp add: upd_if_def)

lemma upd_if_pair:
  "upd_if c (\<lambda>(t, f). (a t, b f)) (t, f) = (upd_if c a t, upd_if c b f)"
  by (simp add: upd_if_def)

lemma upd_if_id [simp]: "upd_if c (\<lambda>f. f) f = f"
  by (simp add: upd_if_def)

text \<open>The fields an update takes from its argument are exactly the flagged ones.\<close>

lemma UpdateRoomSettings_sel [simp]:
  "lowFlag (UpdateRoomSettings s t) = lowFlag t"
  "highFlag (UpdateRoomSettings s t) = highFlag t"
  "roomName (UpdateRoomSettings s t) =
    (if has (lowFlag s) ROOMSETTINGS_LFLAG_ROOMNAME then roomName s else roomName t)"
  "unk2 (UpdateRoomSettings s t) =
    (if has (lowFlag s) ROOMSETTINGS_LFLAG_UNK2 then unk2 s else unk2 t)"
  "unk4_1 (UpdateRoomSettings s t) =
    (if has (lowFlag s) ROOMSETTINGS_LFLAG_UNK4 then unk4_1 s else unk4_1 t)"
  "unk4_2 (UpdateRoomSettings s t) =
    (if has (lowFlag s) ROOMSETTINGS_LFLAG_UNK4 then unk4_2 s else unk4_2 t)"
  "unk4_3 (UpdateRoomSettings s t) =
    (if has (lowFlag s) ROOMSETTINGS_LFLAG_UNK4 then unk4_3 s else unk4_3 t)"
  "unk4_4 (UpdateRoomSettings s t) =
    (if has (lowFlag s) ROOMSETTINGS_LFLAG_UNK4 then unk4_4 s else unk4_4 t)"
  "password (UpdateRoomSettings s t) =
    (if has (lowFlag s) ROOMSETTINGS_LFLAG_PASSWORD then password s else password t)"
  "levelLimit (UpdateRoomSettings s t) =
    (if has (lowFlag s) ROOMSETTINGS_LFLAG_LEVELLIMIT then levelLimit s else levelLimit t)"
  "unk20 (UpdateRoomSettings s t) =
    (if has (lowFlag s) ROOMSETTINGS_LFLAG_UNK20 then unk20 s else unk20 t)"
  "gameModeID (UpdateRoomSettings s t) =
    (if has (lowFlag s) ROOMSETTINGS_LFLAG_GAMEMODEID then gameModeID s else gameModeID t)"
  "mapID (UpdateRoomSettings s t) =
    (if has (lowFlag s) ROOMSETTINGS_LFLAG_MAPID then mapID s else mapID t)"
  "maxPlayers (UpdateRoomSettings s t) =
    (if has (lowFlag s) ROOMSETTINGS_LFLAG_MAXPLAYERS then maxPlayers s else maxPlayers t)"
  "winLimit (UpdateRoomSettings s t) =
    (if has (lowFlag s) ROOMSETTINGS_LFLAG_WINLIMIT then winLimit s else winLimit t)"
  "killLimit (UpdateRoomSettings s t) =
    (if has (lowFlag s) ROOMSETTINGS_LFLAG_KILLLIMIT then killLimit s else killLimit t)"
  "timeLimit (UpdateRoomSettings s t) =
    (if has (lowFlag s) ROOMSETTINGS_LFLAG_TIMELIMIT then timeLimit s else timeLimit t)"
  "roundTime (UpdateRoomSettings s t) =
    (if has (lowFlag s) ROOMSETTINGS_LFLAG_ROUNDTIME then roundTime s else roundTime t)"
  "weaponLimit (UpdateRoomSettings s t) =
    (if has (lowFlag s) ROOMSETTINGS_LFLAG_WEAPONLIMIT then weaponLimit s else weaponLimit t)"
  "hostagePenalty (UpdateRoomSettings s t) =
    (if has (lowFlag s) ROOMSETTINGS_LFLAG_HOSTAGEPENALTY then hostagePenalty s else hostagePenalty t)"
  "freezeTime (UpdateRoomSettings s t) =
    (if has (lowFlag s) ROOMSETTINGS_LFLAG_FREEZETIME then freezeTime s else freezeTime t)"
  "buyTime (UpdateRoomSettings s t) =
    (if has (lowFlag s) ROOMSETTINGS_LFLAG_BUYTIME then buyTime s else buyTime t)"
  "nickNameDisplay (UpdateRoomSettings s t) =
    (if has (lowFlag s) ROOMSETTINGS_LFLAG_NICKNAMEDISPLAY then nickNameDisplay s else nickNameDisplay t)"
  "unk40000 (UpdateRoomSettings s t) =
    (if has (lowFlag s) ROOMSETTINGS_LFLAG_UNK40000 then unk40000 s else unk40000 t)"
  "unk80000 (UpdateRoomSettings s t) =
    (if has (lowFlag s) ROOMSETTINGS_LFLAG_UNK80000 then unk80000 s else unk80000 t)"
  "friendlyFire (UpdateRoomSettings s t) =
    (if has (lowFlag s) ROOMSETTINGS_LFLAG_FRIENDLYFIRE then friendlyFire s else friendlyFire t)"
  "flashLight (UpdateRoomSettings s t) =
    (if has (lowFlag s) ROOMSETTINGS_LFLAG_FLASHLIGHT then flashLight s else flashLight t)"
  "footSteps (UpdateRoomSettings s t) =
    (if has (lowFlag s) ROOMSETTINGS_LFLAG_FOOTSTEPS then footSteps s else footSteps t)"
  "unk800000 (UpdateRoomSettings s t) =
    (if has (lowFlag s) ROOMSETTINGS_LFLAG_UNK800000 then unk800000 s else unk800000 t)"
  "unk1000000 (UpdateRoomSettings s t) =
    (if has (lowFlag s) ROOMSETTINGS_LFLAG_UNK1000000 then unk1000000 s else unk1000000 t)"
  "unk2000000 (UpdateRoomSettings s t) =
    (if has (lowFlag s) ROOMSETTINGS_LFLAG_UNK2000000 then unk2000000 s else unk2000000 t)"
  "unk4000000 (UpdateRoomSettings s t) =
    (if has (lowFlag s) ROOMSETTINGS_LFLAG_UNK4000000 then unk4000000 s else unk4000000 t)"
  "unk8000000 (UpdateRoomSettings s t) =
    (if has (lowFlag s) ROOMSETTINGS_LFLAG_UNK8000000 then unk8000000 s else unk8000000 t)"
  "deathCameraType (UpdateRoomSettings s t) =
    (if has (lowFlag s) ROOMSETTINGS_LFLAG_DEATHCAMERATYPE then deathCameraType s else deathCameraType t)"
  "voiceChat (UpdateRoomSettings s t) =
    (if has (lowFlag s) ROOMSETTINGS_LFLAG_VOICECHAT then voiceChat s else voiceChat t)"
  "roomState (UpdateRoomSettings s t) =
    (if has (lowFlag s) ROOMSETTINGS_LFLAG_ROOMSTATE then roomState s else roomState t)"
  "unk80000000_1 (UpdateRoomSettings s t) =
    (if has (lowFlag s) ROOMSETTINGS_LFLAG_UNK80000000 then unk80000000_1 s else unk80000000_1 t)"
  "unk80000000_2_0 (UpdateRoomSettings s t) =
    (if has (lowFlag s) ROOMSETTINGS_LFLAG_UNK80000000 then unk80000000_2_0 s else unk80000000_2_0 t)"
  "unk80000000_2_1 (UpdateRoomSettings s t) =
    (if has (lowFlag s) ROOMSETTINGS_LFLAG_UNK80000000 then unk80000000_2_1 s else unk80000000_2_1 t)"
  "unkh1_1 (UpdateRoomSettings s t) =
    (if has (highFlag s) ROOMSETTINGS_HFLAG_UNK1 then unkh1_1 s else unkh1_1 t)"
  "unkh1_2 (UpdateRoomSettings s t) =
    (if has (highFlag s) ROOMSETTINGS_HFLAG_UNK1 then unkh1_2 s else unkh1_2 t)"
  "unkh1_3 (UpdateRoomSettings s t) =
    (if has (highFlag s) ROOMSETTINGS_HFLAG_UNK1 then unkh1_3 s else unkh1_3 t)"
  "unkh1_4 (UpdateRoomSettings s t) =
    (if has (highFlag s) ROOMSETTINGS_HFLAG_UNK1 then unkh1_4 s else unkh1_4 t)"
  "unkh1_5 (UpdateRoomSettings s t) =
    (if has (highFlag s) ROOMSETTINGS_HFLAG_UNK1 then unkh1_5 s else unkh1_5 t)"
  "unkh2 (UpdateRoomSettings s t) =
    (if has (highFlag s) ROOMSETTINGS_HFLAG_UNK2 then unkh2 s else unkh2 t)"
  unfolding UpdateRoomSettings_def copy_if_def Let_def
  by (simp_all add:
    upd_if_sel_other [where sel = lowFlag] upd_if_sel [where sel = lowFlag]
    upd_if_sel_other [where sel = highFlag] upd_if_sel [where sel = highFlag]
    upd_if_sel_other [where sel = roomName] upd_if_sel [where sel = roomName]
    upd_if_sel_other [where sel = unk2] upd_if_sel [where sel = unk2]
    upd_if_sel_other [where sel = unk4_1] upd_if_sel [where sel = unk4_1]
    upd_if_sel_other [where sel = unk4_2] upd_if_sel [where sel = unk4_2]
    upd_if_sel_other [where sel = unk4_3] upd_if_sel [where sel = unk4_3]
    upd_if_sel_other [where sel = unk4_4] upd_if_sel [where sel = unk4_4]
    upd_if_sel_other [where sel = password] upd_if_sel [where sel = password]
    upd_if_sel_other [where sel = levelLimit] upd_if_sel [where sel = levelLimit]
    upd_if_sel_other [where sel = unk20] upd_if_sel [where sel = unk20]
    upd_if_sel_other [where sel = gameModeID] upd_if_sel [where sel = gameModeID]
    upd_if_sel_other [where sel = mapID] upd_if_sel [where sel = mapID]
    upd_if_sel_other [where sel = maxPlayers] upd_if_sel [where sel = maxPlayers]
    upd_if_sel_other [where sel = winLimit] upd_if_sel [where sel = winLimit]
    upd_if_sel_other [where sel = killLimit] upd_if_sel [where sel = killLimit]
    upd_if_sel_other [where sel = timeLimit] upd_if_sel [where sel = timeLimit]
    upd_if_sel_other [where sel = roundTime] upd_if_sel [where sel = roundTime]
    upd_if_sel_other [where sel = weaponLimit] upd_if_sel [where sel = weaponLimit]
    upd_if_sel_other [where sel = hostagePenalty] upd_if_sel [where sel = hostagePenalty]
    upd_if_sel_other [where sel = freezeTime] upd_if_sel [where sel = freezeTime]
    upd_if_sel_other [where sel = buyTime] upd_if_sel [where sel = buyTime]
    upd_if_sel_other [where sel = nickNameDisplay] upd_if_sel [where sel = nickNameDisplay]
    upd_if_sel_other [where sel = unk40000] upd_if_sel [where sel = unk40000]
    upd_if_sel_other [where sel = unk80000] upd_if_sel [where sel = unk80000]
    upd_if_sel_other [where sel = friendlyFire] upd_if_sel [where sel = friendlyFire]
    upd_if_sel_other [where sel = flashLight] upd_if_sel [where sel = flashLight]
    upd_if_sel_other [where sel = footSteps] upd_if_sel [where sel = footSteps]
    upd_if_sel_other [where sel = unk800000] upd_if_sel [where sel = unk800000]
    upd_if_sel_other [where sel = unk1000000] upd_if_sel [where sel = unk1000000]
    upd_if_sel_other [where sel = unk2000000] upd_if_sel [where sel = unk2000000]
    upd_if_sel_other [where sel = unk4000000] upd_if_sel [where sel = unk4000000]
    upd_if_sel_other [where sel = unk8000000] upd_if_sel [where sel = unk8000000]
    upd_if_sel_other [where sel = deathCameraType] upd_if_sel [where sel = deathCameraType]
    upd_if_sel_other [where sel = voiceChat] upd_if_sel [where sel = voiceChat]
    upd_if_sel_other [where sel = roomState] upd_if_sel [where sel = roomState]
    upd_if_sel_other [where sel = unk80000000_1] upd_if_sel [where sel = unk80000000_1]
    upd_if_sel_other [where sel = unk80000000_2_0] upd_if_sel [where sel = unk80000000_2_0]
    upd_if_sel_other [where sel = unk80000000_2_1] upd_if_sel [where sel = unk80000000_2_1]
    upd_if_sel_other [where sel = unkh1_1] upd_if_sel [where sel = unkh1_1]
    upd_if_sel_other [where sel = unkh1_2] upd_if_sel [where sel = unkh1_2]
    upd_if_sel_other [where sel = unkh1_3] upd_if_sel [where sel = unkh1_3]
    upd_if_sel_other [where sel = unkh1_4] upd_if_sel [where sel = unkh1_4]
    upd_if_sel_other [where sel = unkh1_5] upd_if_sel [where sel = unkh1_5]
    upd_if_sel_other [where sel = unkh2] upd_if_sel [where sel = unkh2])

section \<open>Round trip\<close>

lemma encodes_send_if: "encodes (send_if c ws) = opt_bytes c (encodes ws)"
  by (simp add: send_if_def opt_bytes_def)

lemma send_if_cong: "c = d \<Longrightarrow> (d \<Longrightarrow> ws = vs) \<Longrightarrow> send_if c ws = send_if d vs"
  by (simp add: send_if_def)

interpretation unk4: codec "\<lambda>(a, b, c, d). a # b # c # le_bytes 4 d" read_unk4 "\<lambda>_. True"
proof
  fix x :: "u8 \<times> u8 \<times> u8 \<times> u32" and pre post p
  obtain a b c d where x: "x = (a, b, c, d)" by (cases x)
  show "read_unk4 (pos pre ((case x of (a, b, c, d) \<Rightarrow> a # b # c # le_bytes 4 d) @ post) p) =
      (x, pos (pre @ (case x of (a, b, c, d) \<Rightarrow> a # b # c # le_bytes 4 d)) post p)"
    by (simp add: x read_unk4_def codec_simps u32.read_back)
qed

definition enc_vec :: "unk80000000_vec \<Rightarrow> bytes" where
  "enc_vec v = encodes (build_vec v)"

interpretation vec: codec enc_vec read_vec "\<lambda>_. True"
  by unfold_locales
    (simp add: enc_vec_def build_vec_def read_vec_def codec_simps u32.read_back u16.read_back)

interpretation unk80000000: codec "\<lambda>(a, u, v). a # enc_vec u @ enc_vec v" read_unk80000000 "\<lambda>_. True"
proof
  fix x :: "u8 \<times> unk80000000_vec \<times> unk80000000_vec" and pre post p
  obtain a u v where x: "x = (a, u, v)" by (cases x)
  show "read_unk80000000 (pos pre ((case x of (a, u, v) \<Rightarrow> a # enc_vec u @ enc_vec v) @ post) p) =
      (x, pos (pre @ (case x of (a, u, v) \<Rightarrow> a # enc_vec u @ enc_vec v)) post p)"
    by (simp add: x read_unk80000000_def codec_simps vec.read_back)
qed

interpretation unkh1: codec
  "\<lambda>(a, b, c, d, e). le_bytes 4 a @ map byte_of b @ [0, c, d, e]" read_unkh1
  "\<lambda>(a, b, c, d, e). CHR 0x00 \<notin> set b"
proof
  fix x :: "u32 \<times> string \<times> u8 \<times> u8 \<times> u8" and pre post p
  obtain a b c d e where x: "x = (a, b, c, d, e)" by (cases x)
  assume "case x of (a, b, c, d, e) \<Rightarrow> CHR 0x00 \<notin> set b"
  then show "read_unkh1 (pos pre ((case x of (a, b, c, d, e) \<Rightarrow>
        le_bytes 4 a @ map byte_of b @ [0, c, d, e]) @ post) p) =
      (x, pos (pre @ (case x of (a, b, c, d, e) \<Rightarrow>
        le_bytes 4 a @ map byte_of b @ [0, c, d, e])) post p)"
    by (simp add: x read_unkh1_def codec_simps u32.read_back)
qed

lemmas field_read_back =
  u8.read_if_back [simplified] bool.read_if_back [simplified] u16.read_if_back [simplified]
  cstring.read_if_back [simplified]
  unk4.read_if_back [where x = "(a, b, c, d)" for a b c d, simplified]
  unk80000000.read_if_back [where x = "(a, u, v)" for a u v, simplified]
  unkh1.read_if_back [where x = "(a, b, c, d, e)" for a b c d e, simplified]

text \<open>The strings of a settings value are C strings: none holds a NUL.\<close>

definition c_strings :: "RoomSettings \<Rightarrow> bool" where
  "c_strings s \<longleftrightarrow> CHR 0x00 \<notin> set (roomName s) \<and> CHR 0x00 \<notin> set (password s) \<and>
     CHR 0x00 \<notin> set (unkh1_2 s)"


lemma read_if_False [simp]: "read_if False rd upd sp = sp"
  by (simp add: read_if_def)

text \<open>What the handler's \<open>roomListFlag\<close> is once all the fields are read.\<close>

definition roomListFlag :: "u32 \<Rightarrow> u8" where
  "roomListFlag lf = (let
     add = (\<lambda>c (fl :: u16). upd_if c (\<lambda>f :: u8. f OR ucast fl));
     f = add (has lf ROOMSETTINGS_LFLAG_ROOMNAME) ROOMLIST_FLAG_ROOMNAME 0;
     f = add (has lf ROOMSETTINGS_LFLAG_PASSWORD) ROOMLIST_FLAG_ISPASSWORDED f;
     f = add (has lf ROOMSETTINGS_LFLAG_LEVELLIMIT) ROOMLIST_FLAG_LEVELLIMIT f;
     f = add (has lf ROOMSETTINGS_LFLAG_GAMEMODEID) ROOMLIST_FLAG_GAMEMODEID f;
     f = add (has lf ROOMSETTINGS_LFLAG_MAPID) ROOMLIST_FLAG_MAPID f;
     f = add (has lf ROOMSETTINGS_LFLAG_MAXPLAYERS) ROOMLIST_FLAG_MAXPLAYERS f;
     f = add (has lf ROOMSETTINGS_LFLAG_WEAPONLIMIT) ROOMLIST_FLAG_WEAPONLIMIT f;
     f = add (has lf ROOMSETTINGS_LFLAG_ROOMSTATE) ROOMLIST_FLAG_ROOMSTATE f
   in f)"

definition settings_base :: "RoomSettings \<Rightarrow> RoomSettings" where
  "settings_base s = new_RoomSettings\<lparr>lowFlag := lowFlag s, highFlag := highFlag s\<rparr>"

lemma settings_base_flags [simp]:
  "lowFlag (settings_base s) = lowFlag s" "highFlag (settings_base s) = highFlag s"
  by (simp_all add: settings_base_def)

lemma readRoomSettings_back:
  assumes "c_strings s"
  shows "readRoomSettings (pos pre (encodes (buildRoomSettings s) @ post) p) =
    ((UpdateRoomSettings s (settings_base s), roomListFlag (lowFlag s)),
     pos (pre @ encodes (buildRoomSettings s)) post p)"
  using assms
  unfolding c_strings_def readRoomSettings_def readRoomSettings_1_def readRoomSettings_2_def
    buildRoomSettings_def UpdateRoomSettings_def copy_if_def roomListFlag_def settings_base_def
  by (simp add: encodes_send_if codec_simps u32.read_back field_read_back upd_if_pair
      enc_vec_def [symmetric])

lemma buildRoomSettings_merge:
  "buildRoomSettings (UpdateRoomSettings s (settings_base s)) = buildRoomSettings s"
  unfolding buildRoomSettings_def by (simp cong: send_if_cong)

lemma UpdateRoomSettings_merge:
  "UpdateRoomSettings (UpdateRoomSettings s (settings_base s)) t = UpdateRoomSettings s t"
  by (rule RoomSettings.equality) simp_all

lemma UpdateRoomSettings_idem:
  "UpdateRoomSettings s (UpdateRoomSettings s t) = UpdateRoomSettings s t"
  by (rule RoomSettings.equality) simp_all

lemma has_ucast_or:
  "has (ucast (x OR y :: u8) :: u16) fl \<longleftrightarrow> has (ucast x) fl \<or> has (ucast y) fl"
proof -
  have "n < 16" if "bit w n" for w :: u16 and n
    using bit_imp_le_length [OF that] by simp
  then have "has w fl \<longleftrightarrow> (\<exists>n. bit w n \<and> bit fl n)" for w :: u16
    by (auto simp: has_def bit_eq_iff bit_simps)
  then show ?thesis by (auto simp: bit_simps)
qed

lemma has_ucast_add:
  "has (ucast (upd_if c (\<lambda>f :: u8. f OR k) f) :: u16) fl \<longleftrightarrow> c \<and> has (ucast k) fl \<or> has (ucast f) fl"
  by (auto simp: upd_if_def has_ucast_or)

lemma roomListFlag_spec:
  "has (ucast (roomListFlag lf)) ROOMLIST_FLAG_ROOMNAME = has lf ROOMSETTINGS_LFLAG_ROOMNAME"
  "has (ucast (roomListFlag lf)) ROOMLIST_FLAG_ISPASSWORDED = has lf ROOMSETTINGS_LFLAG_PASSWORD"
  "has (ucast (roomListFlag lf)) ROOMLIST_FLAG_LEVELLIMIT = has lf ROOMSETTINGS_LFLAG_LEVELLIMIT"
  "has (ucast (roomListFlag lf)) ROOMLIST_FLAG_GAMEMODEID = has lf ROOMSETTINGS_LFLAG_GAMEMODEID"
  "has (ucast (roomListFlag lf)) ROOMLIST_FLAG_MAPID = has lf ROOMSETTINGS_LFLAG_MAPID"
  "has (ucast (roomListFlag lf)) ROOMLIST_FLAG_MAXPLAYERS = has lf ROOMSETTINGS_LFLAG_MAXPLAYERS"
  "\<not> has (ucast (roomListFlag lf)) ROOMLIST_FLAG_WEAPONLIMIT"
  "\<not> has (ucast (roomListFlag lf)) ROOMLIST_FLAG_ROOMSTATE"
  unfolding roomListFlag_def Let_def has_ucast_add
  by (simp_all add: roomlist_flag_defs has_def [where flags = "_ :: u16"])

lemma has_push_bit: "fl = push_bit n 1 \<Longrightarrow> n < LENGTH('a) \<Longrightarrow> has (w :: 'a::len word) fl = bit w n"
  by (simp add: has_def and_exp_eq_0_iff_not_bit push_bit_eq_mult)

lemma has_lflag:
  "has w ROOMSETTINGS_LFLAG_ROOMNAME = bit w 0"
  "has w ROOMSETTINGS_LFLAG_UNK2 = bit w 1"
  "has w ROOMSETTINGS_LFLAG_UNK4 = bit w 2"
  "has w ROOMSETTINGS_LFLAG_PASSWORD = bit w 3"
  "has w ROOMSETTINGS_LFLAG_LEVELLIMIT = bit w 4"
  "has w ROOMSETTINGS_LFLAG_UNK20 = bit w 5"
  "has w ROOMSETTINGS_LFLAG_GAMEMODEID = bit w 6"
  "has w ROOMSETTINGS_LFLAG_MAPID = bit w 7"
  "has w ROOMSETTINGS_LFLAG_MAXPLAYERS = bit w 8"
  "has w ROOMSETTINGS_LFLAG_WINLIMIT = bit w 9"
  "has w ROOMSETTINGS_LFLAG_KILLLIMIT = bit w 10"
  "has w ROOMSETTINGS_LFLAG_TIMELIMIT = bit w 11"
  "has w ROOMSETTINGS_LFLAG_ROUNDTIME = bit w 12"
  "has w ROOMSETTINGS_LFLAG_WEAPONLIMIT = bit w 13"
  "has w ROOMSETTINGS_LFLAG_HOSTAGEPENALTY = bit w 14"
  "has w ROOMSETTINGS_LFLAG_FREEZETIME = bit w 15"
  "has w ROOMSETTINGS_LFLAG_BUYTIME = bit w 16"
  "has w ROOMSETTINGS_LFLAG_NICKNAMEDISPLAY = bit w 17"
  "has w ROOMSETTINGS_LFLAG_UNK40000 = bit w 18"
  "has w ROOMSETTINGS_LFLAG_UNK80000 = bit w 19"
  "has w ROOMSETTINGS_LFLAG_FRIENDLYFIRE = bit w 20"
  "has w ROOMSETTINGS_LFLAG_FLASHLIGHT = bit w 21"
  "has w ROOMSETTINGS_LFLAG_FOOTSTEPS = bit w 22"
  "has w ROOMSETTINGS_LFLAG_UNK800000 = bit w 23"
  "has w ROOMSETTINGS_LFLAG_UNK1000000 = bit w 24"
  "has w ROOMSETTINGS_LFLAG_UNK2000000 = bit w 25"
  "has w ROOMSETTINGS_LFLAG_UNK4000000 = bit w 26"
  "has w ROOMSETTINGS_LFLAG_UNK8000000 = bit w 27"
  "has w ROOMSETTINGS_LFLAG_DEATHCAMERATYPE = bit w 28"
  "has w ROOMSETTINGS_LFLAG_VOICECHAT = bit w 29"
  "has w ROOMSETTINGS_LFLAG_ROOMSTATE = bit w 30"
  "has w ROOMSETTINGS_LFLAG_UNK80000000 = bit w 31"
  "has v ROOMSETTINGS_HFLAG_UNK1 = bit v 0"
  "has v ROOMSETTINGS_HFLAG_UNK2 = bit v 1"
  by (rule has_push_bit; simp add: lflag_defs ROOMSETTINGS_HFLAG_UNK1_def ROOMSETTINGS_HFLAG_UNK2_def)+

lemma disjoint_bits: "a AND b = (0 :: 'a::len word) \<Longrightarrow> bit a n \<Longrightarrow> \<not> bit b n"
  by (metis bit_0_eq bit_and_iff bot_apply bot_bool_def)

lemma UpdateRoomSettings_commute:
  assumes "lowFlag s AND lowFlag s' = 0" and "highFlag s AND highFlag s' = 0"
  shows "UpdateRoomSettings s (UpdateRoomSettings s' t) = UpdateRoomSettings s' (UpdateRoomSettings s t)"
  by (rule RoomSettings.equality)
    (simp_all add: has_lflag disjoint_bits [OF assms(1)] disjoint_bits [OF assms(2)])

lemma read_if_flag:
  "snd (fst (read_if c rd (\<lambda>x (s, f). (g x s, h f)) sp)) = upd_if c h (snd (fst sp))"
  by (simp add: read_if_def upd_if_def split: prod.split)

lemma read_if_group_flag:
  "snd (fst (read_if c rd (\<lambda>(a, b, d, e) (s, f). (g a b d e s, f)) sp)) = snd (fst sp)"
  "snd (fst (read_if c rd' (\<lambda>(a, b, d) (s, f). (g' a b d s, f)) sp)) = snd (fst sp)"
  "snd (fst (read_if c rd'' (\<lambda>(a, b, d, e, i) (s, f). (g'' a b d e i s, f)) sp)) = snd (fst sp)"
  by (simp_all add: read_if_def split: prod.split)

lemma read_if_lowFlag:
  "(\<And>x s. lowFlag (fst (upd x s)) = lowFlag (fst s)) \<Longrightarrow>
    lowFlag (fst (fst (read_if c rd upd sp))) = lowFlag (fst (fst sp))"
  by (simp add: read_if_def split: prod.split)

lemma readRoomSettings_flag:
  "snd (fst (readRoomSettings p)) = roomListFlag (lowFlag (fst (fst (readRoomSettings p))))"
proof -
  obtain lf p1 where 1: "ReadUInt32_LE p = (lf, p1)" by (cases "ReadUInt32_LE p")
  obtain hf p2 where 2: "ReadUInt8 p1 = (hf, p2)" by (cases "ReadUInt8 p1")
  have "lowFlag (fst (fst (readRoomSettings p))) = lf"
    by (simp add: readRoomSettings_def readRoomSettings_1_def readRoomSettings_2_def Let_def
        read_if_lowFlag 1 2 split_beta)
  moreover have "snd (fst (readRoomSettings p)) = roomListFlag lf"
    by (simp add: readRoomSettings_def readRoomSettings_1_def readRoomSettings_2_def
        roomListFlag_def Let_def read_if_flag read_if_group_flag 1 2)
  ultimately show ?thesis by simp
qed

section \<open>Properties\<close>

text \<open>
  C12: settings survive the wire. When \<open>buildRoomSettings\<close> has written a settings value whose
  strings are C strings, the reads of the update handler consume exactly what was written
  and recover a value that is rebuilt into the same bytes and that updates any room in the
  same way; the room-list flag they yield depends on the low flag word alone.
\<close>

theorem settings_wire_roundtrip:
  assumes "c_strings s"
  shows "let ((r, fl), p') = readRoomSettings (pos pre (encodes (buildRoomSettings s) @ post) p)
    in unread p' = post \<and> buildRoomSettings r = buildRoomSettings s \<and>
       (\<forall>t. UpdateRoomSettings r t = UpdateRoomSettings s t) \<and> fl = roomListFlag (lowFlag s)"
  using assms
  by (simp add: readRoomSettings_back buildRoomSettings_merge UpdateRoomSettings_merge)

definition sample_settings :: RoomSettings where
  "sample_settings = new_RoomSettings\<lparr>lowFlag := 0x80000149, highFlag := 1, roomName := ''mine'',
     password := ''pw'', gameModeID := 3, maxPlayers := 8, unkh1_2 := ''x''\<rparr>"

lemma settings_wire_roundtrip_witness:
  "c_strings sample_settings \<and>
    (let ((r, fl), p') = readRoomSettings
       (pos [1, 2] (encodes (buildRoomSettings sample_settings) @ [9]) (Packet_Server 1 []))
     in unread p' = [9] \<and> buildRoomSettings r = buildRoomSettings sample_settings \<and>
       (\<forall>t. UpdateRoomSettings r t = UpdateRoomSettings sample_settings t) \<and>
       fl = roomListFlag (lowFlag sample_settings))"
proof -
  have "c_strings sample_settings" by (simp add: c_strings_def sample_settings_def new_RoomSettings_def)
  then show ?thesis using settings_wire_roundtrip by blast
qed

text \<open>
  What the update handler announces to the lobby. For every packet, the room-list flag
  that the reads compute has the bit of the name, password, level limit, game mode, map and
  player limit exactly when the packet carries that field; the bits of the weapon limit and
  of the room state, which the code also sets, do not fit the \<open>unsigned char\<close> and are never
  announced.
\<close>

lemma settings_broadcast_flags:
  "let ((r, fl), p') = readRoomSettings p; bc = (ucast fl :: u16)
   in (has bc ROOMLIST_FLAG_ROOMNAME \<longleftrightarrow> has (lowFlag r) ROOMSETTINGS_LFLAG_ROOMNAME) \<and>
      (has bc ROOMLIST_FLAG_ISPASSWORDED \<longleftrightarrow> has (lowFlag r) ROOMSETTINGS_LFLAG_PASSWORD) \<and>
      (has bc ROOMLIST_FLAG_LEVELLIMIT \<longleftrightarrow> has (lowFlag r) ROOMSETTINGS_LFLAG_LEVELLIMIT) \<and>
      (has bc ROOMLIST_FLAG_GAMEMODEID \<longleftrightarrow> has (lowFlag r) ROOMSETTINGS_LFLAG_GAMEMODEID) \<and>
      (has bc ROOMLIST_FLAG_MAPID \<longleftrightarrow> has (lowFlag r) ROOMSETTINGS_LFLAG_MAPID) \<and>
      (has bc ROOMLIST_FLAG_MAXPLAYERS \<longleftrightarrow> has (lowFlag r) ROOMSETTINGS_LFLAG_MAXPLAYERS) \<and>
      \<not> has bc ROOMLIST_FLAG_WEAPONLIMIT \<and> \<not> has bc ROOMLIST_FLAG_ROOMSTATE"
  using readRoomSettings_flag [of p]
  by (cases "readRoomSettings p") (auto simp: roomListFlag_spec)

text \<open>
  C32: the algebra of partial updates. An update applied twice is applied once, an update
  without flags changes nothing, and updates that carry different fields commute, so the
  settings of a room are determined by the last update of each field.
\<close>

theorem settings_update_laws:
  "UpdateRoomSettings s (UpdateRoomSettings s t) = UpdateRoomSettings s t \<and>
   (lowFlag s = 0 \<and> highFlag s = 0 \<longrightarrow> UpdateRoomSettings s t = t) \<and>
   (lowFlag s AND lowFlag s' = 0 \<and> highFlag s AND highFlag s' = 0 \<longrightarrow>
     UpdateRoomSettings s (UpdateRoomSettings s' t) = UpdateRoomSettings s' (UpdateRoomSettings s t))"
proof (intro conjI impI)
  assume "lowFlag s = 0 \<and> highFlag s = 0"
  then show "UpdateRoomSettings s t = t"
    by (intro RoomSettings.equality) (simp_all add: has_lflag)
qed (use UpdateRoomSettings_idem UpdateRoomSettings_commute in blast)+

definition sample_name :: RoomSettings where
  "sample_name = new_RoomSettings\<lparr>lowFlag := 1, roomName := ''a''\<rparr>"
definition sample_password :: RoomSettings where
  "sample_password = new_RoomSettings\<lparr>lowFlag := 8, password := ''b''\<rparr>"

lemma settings_update_laws_witness:
  "UpdateRoomSettings new_RoomSettings sample_name = sample_name \<and>
   UpdateRoomSettings sample_name (UpdateRoomSettings sample_password new_RoomSettings) =
     UpdateRoomSettings sample_password (UpdateRoomSettings sample_name new_RoomSettings) \<and>
   roomName (UpdateRoomSettings sample_name (UpdateRoomSettings sample_password new_RoomSettings)) = ''a''"
proof -
  have "lowFlag new_RoomSettings = 0" "highFlag new_RoomSettings = 0"
    "lowFlag sample_name AND lowFlag sample_password = 0"
    "highFlag sample_name AND highFlag sample_password = 0"
    "has (lowFlag sample_name) ROOMSETTINGS_LFLAG_ROOMNAME"
    "\<not> has (lowFlag sample_password) ROOMSETTINGS_LFLAG_ROOMNAME" "roomName sample_name = ''a''"
    by (simp_all add: sample_name_def sample_password_def new_RoomSettings_def has_def lflag_defs)
  then show ?thesis
    using settings_update_laws [of new_RoomSettings sample_name]
      settings_update_laws [of sample_name new_RoomSettings sample_password]
    by simp
qed

end
