(* ===== verification/UserModel.thy ===== *)
theory UserModel
  imports RoomSettings
begin

text \<open>
  \<open>user/user.h\<close> and the parts of \<open>user/user.cpp\<close> that do not call the database: the
  \<open>User\<close> object, its network endpoints and status, and the character sheet with its wire
  format \<open>PacketManager::BuildUserCharacter\<close>. Field names carry a prefix
  (\<open>uc_\<close>, \<open>un_\<close>, \<open>u_\<close>) where the source's name would clash.
\<close>

section \<open>Character sheet\<close>

definition USERCHARACTER_FLAG_UNK1 :: u16 where "USERCHARACTER_FLAG_UNK1 = 0x1"
definition USERCHARACTER_FLAG_NICKNAME :: u16 where "USERCHARACTER_FLAG_NICKNAME = 0x2"
definition USERCHARACTER_FLAG_UNK4 :: u16 where "USERCHARACTER_FLAG_UNK4 = 0x4"
definition USERCHARACTER_FLAG_LEVEL :: u16 where "USERCHARACTER_FLAG_LEVEL = 0x8"
definition USERCHARACTER_FLAG_UNK10 :: u16 where "USERCHARACTER_FLAG_UNK10 = 0x10"
definition USERCHARACTER_FLAG_EXP :: u16 where "USERCHARACTER_FLAG_EXP = 0x20"
definition USERCHARACTER_FLAG_CASH :: u16 where "USERCHARACTER_FLAG_CASH = 0x40"
definition USERCHARACTER_FLAG_POINTS :: u16 where "USERCHARACTER_FLAG_POINTS = 0x80"
definition USERCHARACTER_FLAG_BATTLESTATS :: u16 where "USERCHARACTER_FLAG_BATTLESTATS = 0x100"
definition USERCHARACTER_FLAG_LOCATION :: u16 where "USERCHARACTER_FLAG_LOCATION = 0x200"
definition USERCHARACTER_FLAG_UNK400 :: u16 where "USERCHARACTER_FLAG_UNK400 = 0x400"
definition USERCHARACTER_FLAG_UNK800 :: u16 where "USERCHARACTER_FLAG_UNK800 = 0x800"
definition USERCHARACTER_FLAG_CLAN :: u16 where "USERCHARACTER_FLAG_CLAN = 0x1000"
definition USERCHARACTER_FLAG_ALL :: u16 where "USERCHARACTER_FLAG_ALL = 0xFFFF"

record UserCharacter =
  uc_flag :: u16
  uc_unk1 :: u8
  uc_nickName :: string
  uc_unk4_1 :: string
  uc_unk4_2 :: u8
  uc_unk4_3 :: u8
  uc_unk4_4 :: u8
  uc_level :: u8
  uc_unk10 :: u8
  uc_exp :: u64
  uc_cash :: u64
  uc_points :: u64
  uc_battles :: u32
  uc_wins :: u32
  uc_frags :: u32
  uc_deaths :: u32
  uc_city :: u16
  uc_county :: u16
  uc_neighborhood :: u16
  uc_unk200_5 :: string
  uc_unk400 :: u32
  uc_unk800 :: u8
  uc_clanID :: u32
  uc_clanMarkID :: u32
  uc_clanName :: string
  uc_clanUnk4 :: u8
  uc_clanUnk5 :: u8
  uc_clanUnk6 :: u8

definition new_UserCharacter :: UserCharacter where
  "new_UserCharacter = \<lparr>uc_flag = 0, uc_unk1 = 0, uc_nickName = [], uc_unk4_1 = [], uc_unk4_2 = 0,
     uc_unk4_3 = 0, uc_unk4_4 = 0, uc_level = 0, uc_unk10 = 0, uc_exp = 0, uc_cash = 0,
     uc_points = 0, uc_battles = 0, uc_wins = 0, uc_frags = 0, uc_deaths = 0, uc_city = 0,
     uc_county = 0, uc_neighborhood = 0, uc_unk200_5 = [], uc_unk400 = 0, uc_unk800 = 0,
     uc_clanID = 0, uc_clanMarkID = 0, uc_clanName = [], uc_clanUnk4 = 0, uc_clanUnk5 = 0,
     uc_clanUnk6 = 0\<rparr>"

text \<open>\<open>UserCharacterResult\<close>: the sheet and a \<open>char\<close> that is 1 on success, 0 or -1.\<close>

type_synonym UserCharacterResult = "UserCharacter \<times> int"

definition BuildUserCharacter :: "UserCharacter \<Rightarrow> wcall list" where
  "BuildUserCharacter uc =
     [WriteUInt16_LE (uc_flag uc)]
     @ send_if (has (uc_flag uc) USERCHARACTER_FLAG_UNK1) [WriteUInt8 (uc_unk1 uc)]
     @ send_if (has (uc_flag uc) USERCHARACTER_FLAG_NICKNAME) [WriteString (uc_nickName uc)]
     @ send_if (has (uc_flag uc) USERCHARACTER_FLAG_UNK4)
         [WriteString (uc_unk4_1 uc), WriteUInt8 (uc_unk4_2 uc), WriteUInt8 (uc_unk4_3 uc),
          WriteUInt8 (uc_unk4_4 uc)]
     @ send_if (has (uc_flag uc) USERCHARACTER_FLAG_LEVEL) [WriteUInt8 (uc_level uc)]
     @ send_if (has (uc_flag uc) USERCHARACTER_FLAG_UNK10) [WriteUInt8 (uc_unk10 uc)]
     @ send_if (has (uc_flag uc) USERCHARACTER_FLAG_EXP) [WriteUInt64_LE (uc_exp uc)]
     @ send_if (has (uc_flag uc) USERCHARACTER_FLAG_CASH) [WriteUInt64_LE (uc_cash uc)]
     @ send_if (has (uc_flag uc) USERCHARACTER_FLAG_POINTS) [WriteUInt64_LE (uc_points uc)]
     @ send_if (has (uc_flag uc) USERCHARACTER_FLAG_BATTLESTATS)
         [WriteUInt32_LE (uc_battles uc), WriteUInt32_LE (uc_wins uc), WriteUInt32_LE (uc_frags uc),
          WriteUInt32_LE (uc_deaths uc)]
     @ send_if (has (uc_flag uc) USERCHARACTER_FLAG_LOCATION)
         [WriteString [], WriteUInt16_LE (uc_city uc), WriteUInt16_LE (uc_county uc),
          WriteUInt16_LE (uc_neighborhood uc), WriteString (uc_unk200_5 uc)]
     @ send_if (has (uc_flag uc) USERCHARACTER_FLAG_UNK400) [WriteUInt32_LE (uc_unk400 uc)]
     @ send_if (has (uc_flag uc) USERCHARACTER_FLAG_UNK800) [WriteUInt8 (uc_unk800 uc)]
     @ send_if (has (uc_flag uc) USERCHARACTER_FLAG_CLAN)
         [WriteUInt32_LE (uc_clanID uc), WriteUInt32_LE (uc_clanMarkID uc),
          WriteString (uc_clanName uc), WriteUInt8 (uc_clanUnk4 uc), WriteUInt8 (uc_clanUnk5 uc),
          WriteUInt8 (uc_clanUnk6 uc)]"

section \<open>User\<close>

datatype PortType = Guest | Host

record UserNetwork =
  un_externalIP :: u32
  un_externalHostPort :: u16
  un_externalGuestPort :: u16
  un_localIP :: u32
  un_localHostPort :: u16
  un_localGuestPort :: u16
  un_lastHostHeartbeat :: u64
  un_lastGuestHeartbeat :: u64
  un_networkSet :: u8

definition new_UserNetwork :: UserNetwork where
  "new_UserNetwork = \<lparr>un_externalIP = 0, un_externalHostPort = 0, un_externalGuestPort = 0,
     un_localIP = 0, un_localHostPort = 0, un_localGuestPort = 0, un_lastHostHeartbeat = 0,
     un_lastGuestHeartbeat = 0, un_networkSet = 0\<rparr>"

datatype UserStatus = InLogin | InServerList | InLobby | InRoom | InGame

text \<open>The order of the enumerators; a user is logged in above \<open>InLogin\<close> and in a room from \<open>InRoom\<close> on.\<close>

fun UserStatus_num :: "UserStatus \<Rightarrow> u8" where
  "UserStatus_num InLogin = 0"
| "UserStatus_num InServerList = 1"
| "UserStatus_num InLobby = 2"
| "UserStatus_num InRoom = 3"
| "UserStatus_num InGame = 4"

lemma UserStatus_num_inject: "UserStatus_num s = UserStatus_num t \<longleftrightarrow> s = t"
  by (cases s; cases t) simp_all

instantiation UserStatus :: linorder
begin

definition less_eq_UserStatus :: "UserStatus \<Rightarrow> UserStatus \<Rightarrow> bool" where
  "s \<le> t \<longleftrightarrow> UserStatus_num s \<le> UserStatus_num t"

definition less_UserStatus :: "UserStatus \<Rightarrow> UserStatus \<Rightarrow> bool" where
  "s < t \<longleftrightarrow> UserStatus_num s < UserStatus_num t"

instance
  by standard (auto simp: less_eq_UserStatus_def less_UserStatus_def UserStatus_num_inject [symmetric])

end

record user =
  u_connection :: ptr
  u_userID :: u32
  u_userName :: string
  u_userNetwork :: UserNetwork
  u_userStatus :: UserStatus
  u_currentRoomID :: u16

text \<open>The constructor, on a connection that is not null (it deletes itself otherwise).\<close>

definition new_user :: "ptr \<Rightarrow> u32 \<Rightarrow> string \<Rightarrow> user" where
  "new_user connection userID userName = \<lparr>u_connection = connection, u_userID = userID,
     u_userName = userName, u_userNetwork = new_UserNetwork, u_userStatus = InLogin,
     u_currentRoomID = 0\<rparr>"

definition SetUserNetwork ::
  "PortType \<Rightarrow> u32 \<Rightarrow> u16 \<Rightarrow> u32 \<Rightarrow> u16 \<Rightarrow> u64 \<Rightarrow> user \<Rightarrow> user" where
  "SetUserNetwork portType externalIP externalPort localIP localPort currentTime u =
     (let n = (u_userNetwork u)\<lparr>un_externalIP := externalIP, un_localIP := localIP\<rparr>
      in u\<lparr>u_userNetwork := (case portType of
           Guest \<Rightarrow> n\<lparr>un_externalGuestPort := externalPort, un_localGuestPort := localPort,
             un_lastGuestHeartbeat := currentTime, un_networkSet := un_networkSet n OR 1\<rparr>
         | Host \<Rightarrow> n\<lparr>un_externalHostPort := externalPort, un_localHostPort := localPort,
             un_lastHostHeartbeat := currentTime, un_networkSet := un_networkSet n OR 2\<rparr>)\<rparr>)"

definition SetUserNetworkHeartbeat :: "PortType \<Rightarrow> u64 \<Rightarrow> user \<Rightarrow> user" where
  "SetUserNetworkHeartbeat portType currentTime u =
     u\<lparr>u_userNetwork := (case portType of
         Guest \<Rightarrow> (u_userNetwork u)\<lparr>un_lastGuestHeartbeat := currentTime\<rparr>
       | Host \<Rightarrow> (u_userNetwork u)\<lparr>un_lastHostHeartbeat := currentTime\<rparr>)\<rparr>"

text \<open>\<open>UserManager::IsUserLoggedIn\<close> on a user, and what the room code asks of a status.\<close>

abbreviation in_room :: "user \<Rightarrow> bool" where
  "in_room u \<equiv> u_userStatus u = InRoom \<or> u_userStatus u = InGame"

lemma in_room_iff: "in_room u \<longleftrightarrow> InRoom \<le> u_userStatus u"
  by (cases "u_userStatus u") (simp_all add: less_eq_UserStatus_def word_le_nat_alt)

lemma logged_in_iff: "u_userStatus u \<noteq> InLogin \<longleftrightarrow> InLogin < u_userStatus u"
  by (cases "u_userStatus u") (simp_all add: less_UserStatus_def word_less_nat_alt)

end
