(* ===== verification/Text.thy ===== *)
theory Text
  imports Prelude
begin

text \<open>
  What the code uses of \<open>std::format\<close> and of the C library on text: decimal and
  hexadecimal formatting of integers and booleans, \<open>atoi\<close> and \<open>atoll\<close>. A value that
  \<open>atoi\<close> cannot represent is undefined behaviour in C, so it is \<open>None\<close> here.
\<close>

section \<open>Formatting\<close>

definition digit_char :: "nat \<Rightarrow> char" where
  "digit_char n = char_of (if n < 10 then 48 + n else 55 + n)"

fun dec :: "nat \<Rightarrow> string" where
  "dec n = (if n < 10 then [digit_char n] else dec (n div 10) @ [digit_char (n mod 10)])"

declare dec.simps [simp del]

text \<open>\<open>{}\<close> on an unsigned integer, on a bool; \<open>{:02X}\<close> on a byte.\<close>

definition fmt :: "'a::len word \<Rightarrow> string" where
  "fmt w = dec (unat w)"

definition fmt_bool :: "bool \<Rightarrow> string" where
  "fmt_bool b = (if b then ''true'' else ''false'')"

definition fmt_hex :: "u8 \<Rightarrow> string" where
  "fmt_hex b = [digit_char (unat b div 16), digit_char (unat b mod 16)]"

definition squote :: string where
  "squote = [CHR 0x27]"

text \<open>\<open>s[s.size() - 1] = c\<close> on a non-empty string.\<close>

definition set_last :: "char \<Rightarrow> string \<Rightarrow> string option" where
  "set_last c s = (if s = [] then None else Some (butlast s @ [c]))"

section \<open>Parsing\<close>

definition is_digit :: "char \<Rightarrow> bool" where
  "is_digit c \<longleftrightarrow> 48 \<le> (of_char c :: nat) \<and> (of_char c :: nat) \<le> 57"

definition is_space :: "char \<Rightarrow> bool" where
  "is_space c \<longleftrightarrow> (of_char c :: nat) = 32 \<or> 9 \<le> (of_char c :: nat) \<and> (of_char c :: nat) \<le> 13"

definition digits_val :: "string \<Rightarrow> int" where
  "digits_val ds = foldl (\<lambda>a c. 10 * a + (of_char c - 48)) 0 ds"

definition int_of_text :: "string \<Rightarrow> int" where
  "int_of_text s =
     (case dropWhile is_space s of
        [] \<Rightarrow> 0
      | c # cs \<Rightarrow>
          if c = CHR ''-'' then - digits_val (takeWhile is_digit cs)
          else if c = CHR ''+'' then digits_val (takeWhile is_digit cs)
          else digits_val (takeWhile is_digit (c # cs)))"

definition atoi :: "string \<Rightarrow> int option" where
  "atoi s = (let v = int_of_text s in if - (2 ^ 31) \<le> v \<and> v < 2 ^ 31 then Some v else None)"

definition atoll :: "string \<Rightarrow> int option" where
  "atoll s = (let v = int_of_text s in if - (2 ^ 63) \<le> v \<and> v < 2 ^ 63 then Some v else None)"

section \<open>Reading back a decimal\<close>

lemma of_char_digit: "n < 10 \<Longrightarrow> (of_char (digit_char n) :: nat) = 48 + n"
  by (simp add: digit_char_def)

lemma of_char_digit_int: "n < 10 \<Longrightarrow> (of_char (digit_char n) :: int) = 48 + int n"
  using of_char_digit [of n] by (metis of_char_of of_nat_add of_nat_numeral of_nat_of_char)

lemma dec_digits: "list_all is_digit (dec n)"
proof (induction n rule: dec.induct)
  case (1 n)
  have "is_digit (digit_char (n mod 10))" and "n < 10 \<Longrightarrow> is_digit (digit_char n)"
    by (simp_all add: is_digit_def of_char_digit)
  then show ?case using 1 by (subst dec.simps) simp
qed

lemma dec_neq_Nil: "dec n \<noteq> []"
  by (subst dec.simps) simp

lemma digits_val_snoc: "digits_val (ds @ [c]) = 10 * digits_val ds + (of_char c - 48)"
  by (simp add: digits_val_def)

lemma digits_val_dec: "digits_val (dec n) = int n"
proof (induction n rule: dec.induct)
  case (1 n)
  show ?case
  proof (cases "n < 10")
    case True
    then show ?thesis by (subst dec.simps) (simp add: digits_val_def of_char_digit_int)
  next
    case False
    have "10 * int (n div 10) + int (n mod 10) = int n"
      by (metis mult_div_mod_eq of_nat_add of_nat_mult of_nat_numeral)
    with False show ?thesis
      using 1 by (subst dec.simps) (simp add: digits_val_snoc of_char_digit_int)
  qed
qed

lemma int_of_text_dec: "int_of_text (dec n) = int n"
proof -
  obtain c cs where dec: "dec n = c # cs" using dec_neq_Nil by (cases "dec n") auto
  then have "is_digit c" and all: "list_all is_digit (c # cs)" using dec_digits [of n] by auto
  then have "\<not> is_space c" "c \<noteq> CHR ''-''" "c \<noteq> CHR ''+''"
    by (auto simp: is_digit_def is_space_def)
  moreover have "takeWhile is_digit (c # cs) = c # cs"
    using all by (simp add: takeWhile_eq_all_conv list_all_iff)
  ultimately show ?thesis
    using digits_val_dec [of n] by (simp add: int_of_text_def dec)
qed

lemma atoi_dec [simp]: "n < 2 ^ 31 \<Longrightarrow> atoi (dec n) = Some (int n)"
  by (simp add: atoi_def int_of_text_dec Let_def)

lemma atoll_dec [simp]: "n < 2 ^ 63 \<Longrightarrow> atoll (dec n) = Some (int n)"
  by (simp add: atoll_def int_of_text_dec Let_def)

lemma unat_lt2p8: "unat (w :: u8) < 256"
  using unsigned_less [of w, where 'a = nat] by simp

lemma unat_lt2p16: "unat (w :: u16) < 65536"
  using unsigned_less [of w, where 'a = nat] by simp

lemma atoi_fmt_byte [simp]: "atoi (fmt (w :: u8)) = Some (uint w)"
  using unat_lt2p8 [of w] by (simp add: fmt_def)

lemma atoi_fmt_short [simp]: "atoi (fmt (w :: u16)) = Some (uint w)"
  using unat_lt2p16 [of w] by (simp add: fmt_def)

end
