(* ===== verification/Database.thy ===== *)
theory Database
  imports Config UserModel Text
begin

text \<open>
  \<open>DatabaseManager\<close> of \<open>managers/databasemanager.cpp\<close>: every operation as the SQL text it
  sends, character by character, and what it does with the answer. The server behind
  \<open>mysql_query\<close> is a parameter. A result set that the code leaves partly read is dropped.
  Reading a column that is not there, or text from a NULL column, is undefined.
\<close>

definition ER_DUP_ENTRY :: nat where "ER_DUP_ENTRY = 1062"
definition DEFAULT_USER_QUICKSTART :: u32 where "DEFAULT_USER_QUICKSTART = 9900"

section \<open>Columns\<close>

text \<open>\<open>row[i]\<close> as text, as an \<open>int\<close> and as a \<open>long long\<close>.\<close>

definition col_text :: "row \<Rightarrow> nat \<Rightarrow> string option" where
  "col_text row i = Option.bind (vec_at row i) (\<lambda>c. c)"

definition col_int :: "row \<Rightarrow> nat \<Rightarrow> int option" where
  "col_int row i = Option.bind (col_text row i) atoi"

definition col_long :: "row \<Rightarrow> nat \<Rightarrow> int option" where
  "col_long row i = Option.bind (col_text row i) atoll"

definition col_byte :: "row \<Rightarrow> nat \<Rightarrow> u8 option" where
  "col_byte row i = map_option word_of_int (col_int row i)"

definition col_bool :: "row \<Rightarrow> nat \<Rightarrow> bool option" where
  "col_bool row i = map_option (\<lambda>v. v \<noteq> 0) (col_int row i)"

text \<open>
  \<open>row[index++]\<close>: the columns not read yet, each read under the flag of its group.
\<close>

definition next_if ::
  "bool \<Rightarrow> (row \<Rightarrow> nat \<Rightarrow> 'a option) \<Rightarrow> ('a \<Rightarrow> 's \<Rightarrow> 's) \<Rightarrow> 's \<times> row \<Rightarrow> ('s \<times> row) option" where
  "next_if c rd upd s =
     (if c then Option.bind (rd (snd s) 0) (\<lambda>x. Some (upd x (fst s), tl (snd s))) else Some s)"

section \<open>Login and characters\<close>

text \<open>\<open>LoginResult\<close>: the user's id and the reply.\<close>

definition Login :: "'e env \<Rightarrow> string \<Rightarrow> string \<Rightarrow> 'e \<Rightarrow> ((u32 \<times> int) \<times> 'e) option" where
  "Login E userName pw e =
     (if userName = [] then Some ((0, InvalidName), e)
      else if pw = [] then Some ((0, InvalidPassword), e)
      else case mysql_query E (''SELECT userID, password FROM users WHERE userName = '' @ squote @
               mysql_real_escape_string E userName @ squote @ '';'') e of
             (Inl _, e) \<Rightarrow> Some ((0, SysError), e)
           | (Inr [], e) \<Rightarrow> Some ((0, NotExist), e)
           | (Inr (row # _), e) \<Rightarrow> do {
               hash \<leftarrow> col_text row 1;
               let ret = bcrypt_checkpw E pw hash;
               (if ret = -1 then Some ((0, SysError), e)
                else if ret = 0 then do {
                  n \<leftarrow> col_int row 0;
                  Some ((word_of_int n, LoginSuccess), e)
                }
                else Some ((0, WrongPassword), e))
             })"

definition CreateUserCharacter :: "'e env \<Rightarrow> u32 \<Rightarrow> string \<Rightarrow> 'e \<Rightarrow> int \<times> 'e" where
  "CreateUserCharacter E userID nickName e =
     (case mysql_query E (''SELECT 1 FROM user_characters WHERE nickName = '' @ squote @ nickName @
            squote @ '';'') e of
        (Inl _, e) \<Rightarrow> (-1, e)
      | (Inr (_ # _), e) \<Rightarrow> (0, e)
      | (Inr [], e) \<Rightarrow>
          (case mysql_query E (''INSERT INTO user_characters (userID, nickName) VALUES ('' @ fmt userID @
                 '', '' @ squote @ nickName @ squote @ '');'') e of
             (Inl _, e) \<Rightarrow> (-1, e)
           | (Inr _, e) \<Rightarrow> (1, e)))"

text \<open>The column list of \<open>GetUserCharacter\<close>; its last character becomes a blank.\<close>

definition character_info :: "u16 \<Rightarrow> string option" where
  "character_info flag =
     (if flag = 0 then Some '' 1 ''
      else set_last CHR '' '' (
        send_if (has flag USERCHARACTER_FLAG_UNK1) '' unk1,''
        @ send_if (has flag USERCHARACTER_FLAG_NICKNAME) '' nickName,''
        @ send_if (has flag USERCHARACTER_FLAG_UNK4) '' unk4_1, unk4_2, unk4_3, unk4_4,''
        @ send_if (has flag USERCHARACTER_FLAG_LEVEL) '' level,''
        @ send_if (has flag USERCHARACTER_FLAG_UNK10) '' unk10,''
        @ send_if (has flag USERCHARACTER_FLAG_EXP) '' exp,''
        @ send_if (has flag USERCHARACTER_FLAG_CASH) '' cash,''
        @ send_if (has flag USERCHARACTER_FLAG_POINTS) '' points,''
        @ send_if (has flag USERCHARACTER_FLAG_BATTLESTATS) '' battles, wins, frags, deaths,''
        @ send_if (has flag USERCHARACTER_FLAG_LOCATION) '' city, county, neighborhood, unk200_5,''
        @ send_if (has flag USERCHARACTER_FLAG_UNK400) '' unk400,''
        @ send_if (has flag USERCHARACTER_FLAG_UNK800) '' unk800,''
        @ send_if (has flag USERCHARACTER_FLAG_CLAN)
            '' clanID, clanMarkID, clanName, clanUnk4, clanUnk5, clanUnk6,''))"

definition character_row :: "u16 \<Rightarrow> row \<Rightarrow> UserCharacter \<Rightarrow> UserCharacter option" where
  "character_row flag row uc = do {
     s \<leftarrow> next_if (has flag USERCHARACTER_FLAG_UNK1) col_int (\<lambda>x u. u\<lparr>uc_unk1 := word_of_int x\<rparr>) (uc, row);
     s \<leftarrow> next_if (has flag USERCHARACTER_FLAG_NICKNAME) col_text (\<lambda>x u. u\<lparr>uc_nickName := x\<rparr>) s;
     s \<leftarrow> next_if (has flag USERCHARACTER_FLAG_UNK4) col_text (\<lambda>x u. u\<lparr>uc_unk4_1 := x\<rparr>) s;
     s \<leftarrow> next_if (has flag USERCHARACTER_FLAG_UNK4) col_int (\<lambda>x u. u\<lparr>uc_unk4_2 := word_of_int x\<rparr>) s;
     s \<leftarrow> next_if (has flag USERCHARACTER_FLAG_UNK4) col_int (\<lambda>x u. u\<lparr>uc_unk4_3 := word_of_int x\<rparr>) s;
     s \<leftarrow> next_if (has flag USERCHARACTER_FLAG_UNK4) col_int (\<lambda>x u. u\<lparr>uc_unk4_4 := word_of_int x\<rparr>) s;
     s \<leftarrow> next_if (has flag USERCHARACTER_FLAG_LEVEL) col_int (\<lambda>x u. u\<lparr>uc_level := word_of_int x\<rparr>) s;
     s \<leftarrow> next_if (has flag USERCHARACTER_FLAG_UNK10) col_int (\<lambda>x u. u\<lparr>uc_unk10 := word_of_int x\<rparr>) s;
     s \<leftarrow> next_if (has flag USERCHARACTER_FLAG_EXP) col_long (\<lambda>x u. u\<lparr>uc_exp := word_of_int x\<rparr>) s;
     s \<leftarrow> next_if (has flag USERCHARACTER_FLAG_CASH) col_long (\<lambda>x u. u\<lparr>uc_cash := word_of_int x\<rparr>) s;
     s \<leftarrow> next_if (has flag USERCHARACTER_FLAG_POINTS) col_long (\<lambda>x u. u\<lparr>uc_points := word_of_int x\<rparr>) s;
     s \<leftarrow> next_if (has flag USERCHARACTER_FLAG_BATTLESTATS) col_int (\<lambda>x u. u\<lparr>uc_battles := word_of_int x\<rparr>) s;
     s \<leftarrow> next_if (has flag USERCHARACTER_FLAG_BATTLESTATS) col_int (\<lambda>x u. u\<lparr>uc_wins := word_of_int x\<rparr>) s;
     s \<leftarrow> next_if (has flag USERCHARACTER_FLAG_BATTLESTATS) col_int (\<lambda>x u. u\<lparr>uc_frags := word_of_int x\<rparr>) s;
     s \<leftarrow> next_if (has flag USERCHARACTER_FLAG_BATTLESTATS) col_int (\<lambda>x u. u\<lparr>uc_deaths := word_of_int x\<rparr>) s;
     s \<leftarrow> next_if (has flag USERCHARACTER_FLAG_LOCATION) col_int (\<lambda>x u. u\<lparr>uc_city := word_of_int x\<rparr>) s;
     s \<leftarrow> next_if (has flag USERCHARACTER_FLAG_LOCATION) col_int (\<lambda>x u. u\<lparr>uc_county := word_of_int x\<rparr>) s;
     s \<leftarrow> next_if (has flag USERCHARACTER_FLAG_LOCATION) col_int (\<lambda>x u. u\<lparr>uc_neighborhood := word_of_int x\<rparr>) s;
     s \<leftarrow> next_if (has flag USERCHARACTER_FLAG_LOCATION) col_text (\<lambda>x u. u\<lparr>uc_unk200_5 := x\<rparr>) s;
     s \<leftarrow> next_if (has flag USERCHARACTER_FLAG_UNK400) col_int (\<lambda>x u. u\<lparr>uc_unk400 := word_of_int x\<rparr>) s;
     s \<leftarrow> next_if (has flag USERCHARACTER_FLAG_UNK800) col_int (\<lambda>x u. u\<lparr>uc_unk800 := word_of_int x\<rparr>) s;
     s \<leftarrow> next_if (has flag USERCHARACTER_FLAG_CLAN) col_int (\<lambda>x u. u\<lparr>uc_clanID := word_of_int x\<rparr>) s;
     s \<leftarrow> next_if (has flag USERCHARACTER_FLAG_CLAN) col_int (\<lambda>x u. u\<lparr>uc_clanMarkID := word_of_int x\<rparr>) s;
     s \<leftarrow> next_if (has flag USERCHARACTER_FLAG_CLAN) col_text (\<lambda>x u. u\<lparr>uc_clanName := x\<rparr>) s;
     s \<leftarrow> next_if (has flag USERCHARACTER_FLAG_CLAN) col_int (\<lambda>x u. u\<lparr>uc_clanUnk4 := word_of_int x\<rparr>) s;
     s \<leftarrow> next_if (has flag USERCHARACTER_FLAG_CLAN) col_int (\<lambda>x u. u\<lparr>uc_clanUnk5 := word_of_int x\<rparr>) s;
     s \<leftarrow> next_if (has flag USERCHARACTER_FLAG_CLAN) col_int (\<lambda>x u. u\<lparr>uc_clanUnk6 := word_of_int x\<rparr>) s;
     Some (fst s)
   }"

definition GetUserCharacter ::
  "'e env \<Rightarrow> u32 \<Rightarrow> u16 \<Rightarrow> 'e \<Rightarrow> (UserCharacterResult \<times> 'e) option" where
  "GetUserCharacter E userID flag e = do {
     info \<leftarrow> character_info flag;
     let userCharacter = new_UserCharacter\<lparr>uc_flag := flag\<rparr>;
     (case mysql_query E (''SELECT'' @ info @ ''FROM user_characters WHERE userID = '' @ fmt userID @
            '';'') e of
        (Inl _, e) \<Rightarrow> Some ((userCharacter, -1), e)
      | (Inr [], e) \<Rightarrow> Some ((userCharacter, 0), e)
      | (Inr (row # _), e) \<Rightarrow>
          if flag = 0 then Some ((userCharacter, 1), e)
          else do {
            userCharacter \<leftarrow> character_row flag row userCharacter;
            Some ((userCharacter, 1), e)
          })
   }"

section \<open>What a new user gets\<close>

definition CreateUserBuymenus :: "'e env \<Rightarrow> ServerConfig \<Rightarrow> u32 \<Rightarrow> 'e \<Rightarrow> (bool \<times> 'e) option" where
  "CreateUserBuymenus E cfg userID e =
     (case mysql_query E (''SELECT 1 FROM user_buymenus WHERE userID = '' @ fmt userID @ '';'') e of
        (Inl _, e) \<Rightarrow> Some (False, e)
      | (Inr (_ # _), e) \<Rightarrow> Some (True, e)
      | (Inr [], e) \<Rightarrow> do {
          tuples \<leftarrow> those (map (\<lambda>buyMenu. do {
              slots \<leftarrow> those (map (\<lambda>slotID. map_option (\<lambda>i. '', '' @ fmt i) (vec_at (bm_items buyMenu) slotID))
                         [0..<BUYMENU_MAX_SLOT]);
              Some ('' ('' @ fmt userID @ '', '' @ fmt (bm_categoryID buyMenu) @ concat slots @ ''),'')
            }) (cfg_defaultBuyMenus cfg));
          query \<leftarrow> set_last CHR '';'' (''INSERT INTO user_buymenus (userID, categoryID, slot1, slot2, slot3, slot4, slot5, slot6, slot7, slot8, slot9) VALUES''
                    @ concat tuples);
          (case mysql_query E query e of
             (Inl _, e) \<Rightarrow> Some (False, e)
           | (Inr _, e) \<Rightarrow> Some (True, e))
        })"

definition CreateUserBookmarks :: "'e env \<Rightarrow> u32 \<Rightarrow> 'e \<Rightarrow> (bool \<times> 'e) option" where
  "CreateUserBookmarks E userID e =
     (case mysql_query E (''SELECT 1 FROM user_bookmarks WHERE userID = '' @ fmt userID @ '';'') e of
        (Inl _, e) \<Rightarrow> Some (False, e)
      | (Inr (_ # _), e) \<Rightarrow> Some (True, e)
      | (Inr [], e) \<Rightarrow> do {
          query \<leftarrow> set_last CHR '';'' (''INSERT INTO user_bookmarks (userID, slotID, name, primaryItemID, primaryAmmo, secondaryItemID, secondaryAmmo, flashbang, hegrenade, smokegrenade, defusekit, nightvision, kevlar, unk1) VALUES''
            @ concat (map (\<lambda>slotID. '' ('' @ fmt userID @ '', '' @ dec slotID @ '', '' @ squote @ squote @
                '', 0, 0, 0, 0, 0, 0, 0, 0, 0, 0, 0),'') [0..<BOOKMARK_MAX_SLOT]));
          (case mysql_query E query e of
             (Inl _, e) \<Rightarrow> Some (False, e)
           | (Inr _, e) \<Rightarrow> Some (True, e))
        })"

text \<open>\<open>slotID\<close> is an \<open>unsigned char\<close> counting from 1.\<close>

fun inventory_tuples :: "u32 \<Rightarrow> string \<Rightarrow> u8 \<Rightarrow> u8 list \<Rightarrow> string" where
  "inventory_tuples userID now slotID [] = []"
| "inventory_tuples userID now slotID (itemID # items) =
     '' ('' @ fmt userID @ '', '' @ fmt slotID @ '', '' @ fmt itemID @ '', 1, 1, '' @ now @ '', 0),'' @
     inventory_tuples userID now (slotID + 1) items"

definition CreateUserInventory :: "'e env \<Rightarrow> ServerConfig \<Rightarrow> u32 \<Rightarrow> 'e \<Rightarrow> (bool \<times> 'e) option" where
  "CreateUserInventory E cfg userID e =
     (case mysql_query E (''SELECT 1 FROM user_inventory WHERE userID = '' @ fmt userID @ '';'') e of
        (Inl _, e) \<Rightarrow> Some (False, e)
      | (Inr (_ # _), e) \<Rightarrow> Some (True, e)
      | (Inr [], e) \<Rightarrow>
          (let (now, e) = time_now E e;
               now_text = (if now < 0 then ''-'' @ dec (nat (- now)) else dec (nat now))
           in do {
             query \<leftarrow> set_last CHR '';'' (''INSERT INTO user_inventory (userID, slotID, itemID, count, inUse, obtainTime, expirationTime) VALUES''
                       @ inventory_tuples userID now_text 1 (cfg_defaultInventory cfg));
             (case mysql_query E query e of
                (Inl _, e) \<Rightarrow> Some (False, e)
              | (Inr _, e) \<Rightarrow> Some (True, e))
           }))"

section \<open>Sessions\<close>

text \<open>A statement whose result the code does not look at.\<close>

definition exec :: "'e env \<Rightarrow> string \<Rightarrow> 'e \<Rightarrow> 'e" where
  "exec E query e = snd (mysql_query E query e)"

definition insert_session_query :: "ServerConfig \<Rightarrow> u32 \<Rightarrow> string" where
  "insert_session_query cfg userID =
     ''INSERT INTO user_sessions (userID, serverID, channelID) VALUES ('' @ fmt userID @ '', '' @
     fmt (cfg_serverID cfg) @ '', '' @ fmt (cfg_channelID cfg) @ '');''"

definition AddUserSession :: "'e env \<Rightarrow> ServerConfig \<Rightarrow> u32 \<Rightarrow> 'e \<Rightarrow> (int \<times> 'e) option" where
  "AddUserSession E cfg userID e =
     (let insert_it = (\<lambda>e. case mysql_query E (insert_session_query cfg userID) e of
            (Inl errno, e) \<Rightarrow> Some (if errno = ER_DUP_ENTRY then 0 else -1, e)
          | (Inr _, e) \<Rightarrow> Some (1, e))
      in case mysql_query E (''SELECT serverID, channelID FROM user_sessions WHERE userID = '' @
             fmt userID @ '';'') e of
           (Inl _, e) \<Rightarrow> Some (-1, e)
         | (Inr [], e) \<Rightarrow> insert_it e
         | (Inr (row # _), e) \<Rightarrow> do {
             serverID \<leftarrow> col_byte row 0;
             channelID \<leftarrow> col_byte row 1;
             (if serverID = 0 \<or> unat serverID > length (cfg_serverList cfg) then Some (0, e)
              else do {
                server \<leftarrow> server_at cfg serverID;
                (if channelID = 0 \<or> unat channelID > length (sv_channels server) then Some (0, e)
                 else do {
                   channel \<leftarrow> channel_at cfg serverID channelID;
                   (if ch_isOnline channel then Some (0, e)
                    else case mysql_query E (''DELETE FROM user_sessions WHERE userID = '' @
                             fmt userID @ '';'') e of
                           (Inl _, e) \<Rightarrow> Some (-1, e)
                         | (Inr _, e) \<Rightarrow> insert_it e)
                 })
              })
           })"

definition RemoveUserSession :: "'e env \<Rightarrow> u32 \<Rightarrow> 'e \<Rightarrow> 'e" where
  "RemoveUserSession E userID e =
     exec E (''DELETE FROM user_sessions WHERE userID = '' @ fmt userID @ '';'') e"

definition IsUserSessionAdded :: "'e env \<Rightarrow> ServerConfig \<Rightarrow> u32 \<Rightarrow> 'e \<Rightarrow> (int \<times> 'e) option" where
  "IsUserSessionAdded E cfg userID e =
     (case mysql_query E (''SELECT serverID, channelID FROM user_sessions WHERE userID = '' @
             fmt userID @ '';'') e of
        (Inl _, e) \<Rightarrow> Some (-1, e)
      | (Inr [], e) \<Rightarrow> Some (0, e)
      | (Inr (row # _), e) \<Rightarrow> do {
          serverID \<leftarrow> col_byte row 0;
          channelID \<leftarrow> col_byte row 1;
          (if serverID = 0 \<or> unat serverID > length (cfg_serverList cfg) then Some (2, e)
           else do {
             server \<leftarrow> server_at cfg serverID;
             (if channelID = 0 \<or> unat channelID > length (sv_channels server) then Some (2, e)
              else if serverID \<noteq> cfg_serverID cfg \<or> channelID \<noteq> cfg_channelID cfg then Some (2, e)
              else Some (1, e))
           })
        })"

definition of_this_channel :: "ServerConfig \<Rightarrow> string" where
  "of_this_channel cfg = ''serverID = '' @ fmt (cfg_serverID cfg) @ '' AND channelID = '' @
     fmt (cfg_channelID cfg)"

definition RemoveAllUserSessions :: "'e env \<Rightarrow> ServerConfig \<Rightarrow> 'e \<Rightarrow> 'e" where
  "RemoveAllUserSessions E cfg e =
     exec E (''DELETE FROM user_sessions WHERE '' @ of_this_channel cfg @ '';'') e"

section \<open>Transfers between channels\<close>

text \<open>\<open>TransferLoginResult\<close>: id, name, reply. The token is put into the SQL text as it is.\<close>

definition TransferLogin ::
  "'e env \<Rightarrow> ServerConfig \<Rightarrow> string \<Rightarrow> 'e \<Rightarrow> ((u32 \<times> string \<times> int) \<times> 'e) option" where
  "TransferLogin E cfg authToken e =
     (if authToken = [] then Some ((0, [], INVALID_USERINFO), e)
      else case mysql_query E (''SELECT userID FROM user_transfers WHERE authToken = '' @ squote @
             authToken @ squote @ '' AND '' @ of_this_channel cfg @ '';'') e of
           (Inl _, e) \<Rightarrow> Some ((0, [], SysError), e)
         | (Inr [], e) \<Rightarrow> Some ((0, [], TRANSFER_ERR), e)
         | (Inr (row # _), e) \<Rightarrow> do {
             n \<leftarrow> col_int row 0;
             let userID = (word_of_int n :: u32);
             (case mysql_query E (''SELECT userName FROM users WHERE userID = '' @ fmt userID @ '';'') e of
                (Inl _, e) \<Rightarrow> Some ((0, [], SysError), e)
              | (Inr [], e) \<Rightarrow> Some ((userID, [], NotExist), e)
              | (Inr (row # _), e) \<Rightarrow> do {
                  userName \<leftarrow> col_text row 0;
                  Some ((userID, userName, LoginSuccess), e)
                })
           })"

text \<open>\<open>now\<close> is \<open>serverConsole.GetCurrentTime()\<close>.\<close>

definition AddUserTransfer ::
  "'e env \<Rightarrow> u64 \<Rightarrow> u32 \<Rightarrow> string \<Rightarrow> u8 \<Rightarrow> u8 \<Rightarrow> 'e \<Rightarrow> int \<times> 'e" where
  "AddUserTransfer E now userID authToken serverID channelID e =
     (case mysql_query E (''INSERT INTO user_transfers (userID, authToken, serverID, channelID, transferTime) VALUES (''
            @ fmt userID @ '', '' @ squote @ authToken @ squote @ '', '' @ fmt serverID @ '', '' @
            fmt channelID @ '', '' @ fmt now @ '');'') e of
        (Inl errno, e) \<Rightarrow> (if errno = ER_DUP_ENTRY then 0 else -1, e)
      | (Inr _, e) \<Rightarrow> (1, e))"

definition RemoveUserTransfer :: "'e env \<Rightarrow> u32 \<Rightarrow> 'e \<Rightarrow> 'e" where
  "RemoveUserTransfer E userID e =
     exec E (''DELETE FROM user_transfers WHERE userID = '' @ fmt userID @ '';'') e"

definition RemoveOldUserTransfers :: "'e env \<Rightarrow> ServerConfig \<Rightarrow> u64 \<Rightarrow> 'e \<Rightarrow> 'e" where
  "RemoveOldUserTransfers E cfg now e =
     exec E (''DELETE FROM user_transfers WHERE '' @ of_this_channel cfg @ '' AND transferTime < '' @
       fmt (now - 60) @ '';'') e"

definition RemoveAllUserTransfers :: "'e env \<Rightarrow> ServerConfig \<Rightarrow> 'e \<Rightarrow> 'e" where
  "RemoveAllUserTransfers E cfg e =
     exec E (''DELETE FROM user_transfers WHERE '' @ of_this_channel cfg @ '';'') e"

section \<open>Options and favourites\<close>

definition SaveUserConfig :: "'e env \<Rightarrow> u32 \<Rightarrow> bytes \<Rightarrow> 'e \<Rightarrow> bool \<times> 'e" where
  "SaveUserConfig E userID userConfig e =
     (let hex = concat (map fmt_hex userConfig) in
      case mysql_query E (''INSERT INTO user_configs (userID, userConfig) VALUES ('' @ fmt userID @
             '', 0x'' @ hex @ '') ON DUPLICATE KEY UPDATE userConfig = 0x'' @ hex @ '';'') e of
        (Inl _, e) \<Rightarrow> (False, e)
      | (Inr _, e) \<Rightarrow> (True, e))"

text \<open>
  \<open>mysql_fetch_lengths\<close> is not null after a fetched row. A NULL column has length 0.
\<close>

definition GetUserConfig :: "'e env \<Rightarrow> u32 \<Rightarrow> 'e \<Rightarrow> (bytes \<times> 'e) option" where
  "GetUserConfig E userID e =
     (case mysql_query E (''SELECT userConfig FROM user_configs WHERE userID = '' @ fmt userID @ '';'') e of
        (Inl _, e) \<Rightarrow> Some ([], e)
      | (Inr [], e) \<Rightarrow> Some ([], e)
      | (Inr (row # _), e) \<Rightarrow> do {
          c \<leftarrow> vec_at row 0;
          Some (case c of None \<Rightarrow> [] | Some s \<Rightarrow> map byte_of s, e)
        })"

text \<open>
  The four decimal groups of a quick-start number. The divisions are on
  \<open>unsigned long\<close>, each quotient is cut to an \<open>unsigned char\<close>.
\<close>

definition quickstart_fields :: "u32 \<Rightarrow> u8 \<times> u8 \<times> u8 \<times> u8" where
  "quickstart_fields q =
     (let gameModeID = ucast (q div 10000) :: u8;
          g = (ucast gameModeID :: u32) * 10000;
          mapID = ucast ((q - g) div 100) :: u8;
          m = g + (ucast mapID :: u32) * 100;
          levelLimit = ucast ((q - m) div 10) :: u8;
          clanBattle = ucast (q - (m + (ucast levelLimit :: u32) * 10)) :: u8
      in (gameModeID, mapID, levelLimit, clanBattle))"

definition SaveUserQuickStart :: "'e env \<Rightarrow> u32 \<Rightarrow> u32 \<Rightarrow> 'e \<Rightarrow> bool \<times> 'e" where
  "SaveUserQuickStart E userID userQuickStart e =
     (let (gameModeID, mapID, levelLimit, clanBattle) = quickstart_fields userQuickStart in
      case mysql_query E (''INSERT INTO user_quickstarts (userID, gameModeID, mapID, levelLimit, clanBattle) VALUES (''
             @ fmt userID @ '', '' @ fmt gameModeID @ '', '' @ fmt mapID @ '', '' @ fmt levelLimit @
             '', '' @ fmt clanBattle @ '') ON DUPLICATE KEY UPDATE gameModeID = '' @ fmt gameModeID @
             '', mapID = '' @ fmt mapID @ '', levelLimit = '' @ fmt levelLimit @ '', clanBattle = '' @
             fmt clanBattle @ '';'') e of
        (Inl _, e) \<Rightarrow> (False, e)
      | (Inr _, e) \<Rightarrow> (True, e))"

text \<open>Arithmetic on \<open>int\<close>: an overflow is undefined.\<close>

definition int_ok :: "int \<Rightarrow> int option" where
  "int_ok v = (if - (2 ^ 31) \<le> v \<and> v < 2 ^ 31 then Some v else None)"

definition GetUserQuickStart :: "'e env \<Rightarrow> u32 \<Rightarrow> 'e \<Rightarrow> (u32 \<times> 'e) option" where
  "GetUserQuickStart E userID e =
     (case mysql_query E (''SELECT gameModeID, mapID, levelLimit, clanBattle FROM user_quickstarts WHERE userID = ''
             @ fmt userID @ '';'') e of
        (Inl _, e) \<Rightarrow> Some (DEFAULT_USER_QUICKSTART, e)
      | (Inr [], e) \<Rightarrow> Some (DEFAULT_USER_QUICKSTART, e)
      | (Inr (row # _), e) \<Rightarrow> do {
          a \<leftarrow> col_int row 0; b \<leftarrow> col_int row 1; c \<leftarrow> col_int row 2; d \<leftarrow> col_int row 3;
          a \<leftarrow> int_ok (a * 10000); b \<leftarrow> int_ok (b * 100); c \<leftarrow> int_ok (c * 10);
          v \<leftarrow> int_ok (a + b); v \<leftarrow> int_ok (v + c); v \<leftarrow> int_ok (v + d);
          Some (word_of_int v, e)
        })"

text \<open>\<open>slotID + 1\<close> is an \<open>int\<close>: it does not wrap.\<close>

definition SaveUserBuyMenu :: "'e env \<Rightarrow> u32 \<Rightarrow> u8 \<Rightarrow> u8 \<Rightarrow> u8 \<Rightarrow> 'e \<Rightarrow> bool \<times> 'e" where
  "SaveUserBuyMenu E userID categoryID slotID itemID e =
     (case mysql_query E (''UPDATE user_buymenus SET slot'' @ dec (unat slotID + 1) @ '' = '' @
             fmt itemID @ '' WHERE userID = '' @ fmt userID @ '' AND categoryID = '' @
             fmt categoryID @ '';'') e of
        (Inl _, e) \<Rightarrow> (False, e)
      | (Inr _, e) \<Rightarrow> (True, e))"

definition GetUserBuyMenus :: "'e env \<Rightarrow> u32 \<Rightarrow> 'e \<Rightarrow> (BuyMenu list \<times> 'e) option" where
  "GetUserBuyMenus E userID e =
     (case mysql_query E (''SELECT categoryID, slot1, slot2, slot3, slot4, slot5, slot6, slot7, slot8, slot9 FROM user_buymenus WHERE userID = ''
             @ fmt userID @ '';'') e of
        (Inl _, e) \<Rightarrow> Some ([], e)
      | (Inr rows, e) \<Rightarrow> do {
          menus \<leftarrow> those (map (\<lambda>row. do {
              categoryID \<leftarrow> col_byte row 0;
              items \<leftarrow> those (map (\<lambda>slotID. col_byte row (slotID + 1)) [0..<BUYMENU_MAX_SLOT]);
              Some \<lparr>bm_categoryID = categoryID, bm_items = items\<rparr>
            }) rows);
          Some (menus, e)
        })"

definition SaveUserBookMark :: "'e env \<Rightarrow> u32 \<Rightarrow> BookMark \<Rightarrow> 'e \<Rightarrow> bool \<times> 'e" where
  "SaveUserBookMark E userID b e =
     (case mysql_query E (''UPDATE user_bookmarks SET name = '' @ squote @
             mysql_real_escape_string E (bk_name b) @ squote @ '', primaryItemID = '' @
             fmt (bk_primaryItemID b) @ '', primaryAmmo = '' @ fmt_bool (bk_primaryAmmo b) @
             '', secondaryItemID = '' @ fmt (bk_secondaryItemID b) @ '', secondaryAmmo = '' @
             fmt_bool (bk_secondaryAmmo b) @ '', flashbang = '' @ fmt (bk_flashbang b) @
             '', hegrenade = '' @ fmt_bool (bk_hegrenade b) @ '', smokegrenade = '' @
             fmt_bool (bk_smokegrenade b) @ '', defusekit = '' @ fmt_bool (bk_defusekit b) @
             '', nightvision = '' @ fmt_bool (bk_nightvision b) @ '', kevlar = '' @ fmt (bk_kevlar b) @
             '', unk1 = '' @ fmt (bk_unk1 b) @ '' WHERE userID = '' @ fmt userID @ '' AND slotID = '' @
             fmt (bk_slotID b) @ '';'') e of
        (Inl _, e) \<Rightarrow> (False, e)
      | (Inr _, e) \<Rightarrow> (True, e))"

definition GetUserBookMarks :: "'e env \<Rightarrow> u32 \<Rightarrow> 'e \<Rightarrow> (BookMark list \<times> 'e) option" where
  "GetUserBookMarks E userID e =
     (case mysql_query E (''SELECT slotID, name, primaryItemID, primaryAmmo, secondaryItemID, secondaryAmmo, flashbang, hegrenade, smokegrenade, defusekit, nightvision, kevlar, unk1 FROM user_bookmarks WHERE userID = ''
             @ fmt userID @ '';'') e of
        (Inl _, e) \<Rightarrow> Some ([], e)
      | (Inr rows, e) \<Rightarrow> do {
          marks \<leftarrow> those (map (\<lambda>row. do {
              slotID \<leftarrow> col_byte row 0; name \<leftarrow> col_text row 1;
              primaryItemID \<leftarrow> col_byte row 2; primaryAmmo \<leftarrow> col_bool row 3;
              secondaryItemID \<leftarrow> col_byte row 4; secondaryAmmo \<leftarrow> col_bool row 5;
              flashbang \<leftarrow> col_byte row 6; hegrenade \<leftarrow> col_bool row 7;
              smokegrenade \<leftarrow> col_bool row 8; defusekit \<leftarrow> col_bool row 9;
              nightvision \<leftarrow> col_bool row 10; kevlar \<leftarrow> col_byte row 11; unk1 \<leftarrow> col_byte row 12;
              Some \<lparr>bk_slotID = slotID, bk_name = name, bk_primaryItemID = primaryItemID,
                bk_primaryAmmo = primaryAmmo, bk_secondaryItemID = secondaryItemID,
                bk_secondaryAmmo = secondaryAmmo, bk_flashbang = flashbang, bk_hegrenade = hegrenade,
                bk_smokegrenade = smokegrenade, bk_defusekit = defusekit,
                bk_nightvision = nightvision, bk_kevlar = kevlar, bk_unk1 = unk1\<rparr>
            }) rows);
          Some (marks, e)
        })"

definition GetUserInventory :: "'e env \<Rightarrow> u32 \<Rightarrow> 'e \<Rightarrow> (InventoryItem list \<times> 'e) option" where
  "GetUserInventory E userID e =
     (case mysql_query E (''SELECT slotID, itemID, count, inUse, obtainTime, expirationTime FROM user_inventory WHERE userID = ''
             @ fmt userID @ '';'') e of
        (Inl _, e) \<Rightarrow> Some ([], e)
      | (Inr rows, e) \<Rightarrow> do {
          items \<leftarrow> those (map (\<lambda>row. do {
              slotID \<leftarrow> col_byte row 0; itemID \<leftarrow> col_byte row 1; cnt \<leftarrow> col_byte row 2;
              inUse \<leftarrow> col_bool row 3; obtainTime \<leftarrow> col_int row 4; expirationTime \<leftarrow> col_int row 5;
              Some \<lparr>ii_slotID = slotID, ii_itemID = itemID, ii_count = cnt, ii_inUse = inUse,
                ii_obtainTime = word_of_int obtainTime, ii_expirationTime = word_of_int expirationTime\<rparr>
            }) rows);
          Some (items, e)
        })"

section \<open>Rooms\<close>

definition AddRoom_query ::
  "ServerConfig \<Rightarrow> u16 \<Rightarrow> bool \<Rightarrow> bool \<Rightarrow> u8 \<Rightarrow> u8 \<Rightarrow> u8 \<Rightarrow> u8 \<Rightarrow> u8 \<Rightarrow> string" where
  "AddRoom_query cfg roomID clanBattle isPassworded lvl mode map_id currentPlayers max_players =
     ''INSERT INTO rooms (serverID, channelID, roomID, clanBattle, isPassworded, levelLimit, gameModeID, mapID, currentPlayers, maxPlayers) VALUES (''
     @ fmt (cfg_serverID cfg) @ '', '' @ fmt (cfg_channelID cfg) @ '', '' @ fmt roomID @ '', '' @
     fmt_bool clanBattle @ '', '' @ fmt_bool isPassworded @ '', '' @ fmt lvl @ '', '' @
     fmt mode @ '', '' @ fmt map_id @ '', '' @ fmt currentPlayers @ '', '' @ fmt max_players @ '');''"

definition DB_AddRoom ::
  "'e env \<Rightarrow> ServerConfig \<Rightarrow> u16 \<Rightarrow> bool \<Rightarrow> bool \<Rightarrow> u8 \<Rightarrow> u8 \<Rightarrow> u8 \<Rightarrow> u8 \<Rightarrow> u8 \<Rightarrow> 'e \<Rightarrow> int \<times> 'e" where
  "DB_AddRoom E cfg roomID clanBattle isPassworded lvl mode map_id currentPlayers max_players e =
     (case mysql_query E (''SELECT 1 FROM rooms WHERE '' @ of_this_channel cfg @ '' AND roomID = '' @
             fmt roomID @ '';'') e of
        (Inl _, e) \<Rightarrow> (-1, e)
      | (Inr (_ # _), e) \<Rightarrow> (0, e)
      | (Inr [], e) \<Rightarrow>
          (case mysql_query E (AddRoom_query cfg roomID clanBattle isPassworded lvl mode
                  map_id currentPlayers max_players) e of
             (Inl _, e) \<Rightarrow> (-1, e)
           | (Inr _, e) \<Rightarrow> (1, e)))"

definition DB_UpdateRoom ::
  "'e env \<Rightarrow> ServerConfig \<Rightarrow> u16 \<Rightarrow> bool \<Rightarrow> bool \<Rightarrow> u8 \<Rightarrow> u8 \<Rightarrow> u8 \<Rightarrow> u8 \<Rightarrow> u8 \<Rightarrow> 'e \<Rightarrow> bool \<times> 'e" where
  "DB_UpdateRoom E cfg roomID clanBattle isPassworded lvl mode map_id currentPlayers max_players e =
     (case mysql_query E (''UPDATE rooms SET clanBattle = '' @ fmt_bool clanBattle @
             '', isPassworded = '' @ fmt_bool isPassworded @ '', levelLimit = '' @ fmt lvl @
             '', gameModeID = '' @ fmt mode @ '', mapID = '' @ fmt map_id @ '', currentPlayers = '' @
             fmt currentPlayers @ '', maxPlayers = '' @ fmt max_players @ '' WHERE '' @
             of_this_channel cfg @ '' AND roomID = '' @ fmt roomID @ '';'') e of
        (Inl _, e) \<Rightarrow> (False, e)
      | (Inr _, e) \<Rightarrow> (True, e))"

text \<open>\<open>SearchRoomResult\<close>: server, channel and room id, all 0 when there is none.\<close>

type_synonym SearchRoomResult = "u8 \<times> u8 \<times> u16"

text \<open>The loop keeps the last row that qualifies. The server and channel ids index the list.\<close>

definition search_row :: "ServerConfig \<Rightarrow> u8 \<Rightarrow> row \<Rightarrow> SearchRoomResult \<Rightarrow> SearchRoomResult option" where
  "search_row cfg level row res = do {
     serverID \<leftarrow> col_byte row 0;
     channelID \<leftarrow> col_byte row 1;
     channel \<leftarrow> channel_at cfg serverID channelID;
     server \<leftarrow> server_at cfg serverID;
     (if \<not> ch_isOnline channel \<or> sv_type server = Newbie \<and> level \<ge> LIMIT_NEWBIE_LEVEL then Some res
      else do {
        roomID \<leftarrow> col_int row 2;
        Some (serverID, channelID, word_of_int roomID)
      })
   }"

definition DB_SearchRoom ::
  "'e env \<Rightarrow> ServerConfig \<Rightarrow> u8 \<Rightarrow> u8 \<Rightarrow> u8 \<Rightarrow> u8 \<Rightarrow> u8 \<Rightarrow> 'e \<Rightarrow> (SearchRoomResult \<times> 'e) option" where
  "DB_SearchRoom E cfg level mode map_id lvl clanBattle e = do {
     query \<leftarrow> set_last CHR '';'' (''SELECT serverID, channelID, roomID FROM rooms WHERE NOT ('' @
       of_this_channel cfg @ '') AND isPassworded = 0 AND currentPlayers < maxPlayers AND levelLimit = '' @
       fmt lvl @ '' AND clanBattle = '' @ fmt clanBattle @ '' '' @
       (if mode \<noteq> 99 then ''AND gameModeID = '' @ fmt mode @ '' '' else []) @
       (if map_id \<noteq> 99 then ''AND mapID = '' @ fmt map_id @ '' '' else []));
     (case mysql_query E query e of
        (Inl _, e) \<Rightarrow> Some ((0, 0, 0), e)
      | (Inr rows, e) \<Rightarrow> do {
          res \<leftarrow> foldM (search_row cfg level) rows (0, 0, 0);
          Some (res, e)
        })
   }"

definition DB_RemoveRoom :: "'e env \<Rightarrow> ServerConfig \<Rightarrow> u16 \<Rightarrow> 'e \<Rightarrow> 'e" where
  "DB_RemoveRoom E cfg roomID e =
     exec E (''DELETE FROM rooms WHERE '' @ of_this_channel cfg @ '' AND roomID = '' @ fmt roomID @ '';'') e"

definition DB_RemoveAllRooms :: "'e env \<Rightarrow> ServerConfig \<Rightarrow> 'e \<Rightarrow> 'e" where
  "DB_RemoveAllRooms E cfg e = exec E (''DELETE FROM rooms WHERE '' @ of_this_channel cfg @ '';'') e"

definition DB_Shutdown :: "'e env \<Rightarrow> ServerConfig \<Rightarrow> 'e \<Rightarrow> 'e" where
  "DB_Shutdown E cfg e =
     DB_RemoveAllRooms E cfg (RemoveAllUserTransfers E cfg (RemoveAllUserSessions E cfg e))"

section \<open>Character rows\<close>

text \<open>
  What the code relies on of the table \<open>user_characters\<close>: a row that answers the query of
  \<open>GetUserCharacter\<close> has the columns asked for, none NULL, the numeric ones in range.
  \<open>ColByte\<close> is a column of small numbers, \<open>ColAny\<close> one that may be NULL.
\<close>

datatype col_kind = ColAny | ColText | ColInt | ColLong | ColByte

fun col_ok :: "col_kind \<Rightarrow> string option \<Rightarrow> bool" where
  "col_ok k None = (k = ColAny)"
| "col_ok ColAny (Some s) = True"
| "col_ok ColByte (Some s) = (case atoi s of None \<Rightarrow> False | Some v \<Rightarrow> 0 \<le> v \<and> v < 256)"
| "col_ok ColText (Some s) = True"
| "col_ok ColInt (Some s) = (atoi s \<noteq> None)"
| "col_ok ColLong (Some s) = (atoll s \<noteq> None)"

definition character_columns :: "u16 \<Rightarrow> col_kind list" where
  "character_columns flag =
     send_if (has flag USERCHARACTER_FLAG_UNK1) [ColInt]
     @ send_if (has flag USERCHARACTER_FLAG_NICKNAME) [ColText]
     @ send_if (has flag USERCHARACTER_FLAG_UNK4) [ColText] @ send_if (has flag USERCHARACTER_FLAG_UNK4) [ColInt]
     @ send_if (has flag USERCHARACTER_FLAG_UNK4) [ColInt] @ send_if (has flag USERCHARACTER_FLAG_UNK4) [ColInt]
     @ send_if (has flag USERCHARACTER_FLAG_LEVEL) [ColInt]
     @ send_if (has flag USERCHARACTER_FLAG_UNK10) [ColInt]
     @ send_if (has flag USERCHARACTER_FLAG_EXP) [ColLong]
     @ send_if (has flag USERCHARACTER_FLAG_CASH) [ColLong]
     @ send_if (has flag USERCHARACTER_FLAG_POINTS) [ColLong]
     @ send_if (has flag USERCHARACTER_FLAG_BATTLESTATS) [ColInt] @ send_if (has flag USERCHARACTER_FLAG_BATTLESTATS) [ColInt]
     @ send_if (has flag USERCHARACTER_FLAG_BATTLESTATS) [ColInt] @ send_if (has flag USERCHARACTER_FLAG_BATTLESTATS) [ColInt]
     @ send_if (has flag USERCHARACTER_FLAG_LOCATION) [ColInt] @ send_if (has flag USERCHARACTER_FLAG_LOCATION) [ColInt]
     @ send_if (has flag USERCHARACTER_FLAG_LOCATION) [ColInt] @ send_if (has flag USERCHARACTER_FLAG_LOCATION) [ColText]
     @ send_if (has flag USERCHARACTER_FLAG_UNK400) [ColInt]
     @ send_if (has flag USERCHARACTER_FLAG_UNK800) [ColInt]
     @ send_if (has flag USERCHARACTER_FLAG_CLAN) [ColInt] @ send_if (has flag USERCHARACTER_FLAG_CLAN) [ColInt]
     @ send_if (has flag USERCHARACTER_FLAG_CLAN) [ColText] @ send_if (has flag USERCHARACTER_FLAG_CLAN) [ColInt]
     @ send_if (has flag USERCHARACTER_FLAG_CLAN) [ColInt] @ send_if (has flag USERCHARACTER_FLAG_CLAN) [ColInt]
     @ []"

definition characters_ok :: "'e env \<Rightarrow> bool" where
  "characters_ok E \<longleftrightarrow> (\<forall>(userID :: u32) flag info e row rows e'. character_info flag = Some info \<longrightarrow>
     mysql_query E (''SELECT'' @ info @ ''FROM user_characters WHERE userID = '' @ fmt userID @ '';'') e =
       (Inr (row # rows), e') \<longrightarrow> list_all2 col_ok (character_columns flag) row)"

definition reads_col :: "col_kind \<Rightarrow> (row \<Rightarrow> nat \<Rightarrow> 'a option) \<Rightarrow> bool" where
  "reads_col k rd \<longleftrightarrow> (\<forall>c row. col_ok k c \<longrightarrow> rd (c # row) 0 \<noteq> None)"

lemma reads_col: "reads_col ColText col_text" "reads_col ColInt col_int" "reads_col ColLong col_long"
  by (auto simp: reads_col_def col_text_def col_int_def col_long_def vec_at_def elim!: col_ok.elims)

lemma next_if_wp:
  assumes "list_all2 col_ok (send_if c [k] @ ks) (snd s)" and "reads_col k rd"
    and "\<And>s'. list_all2 col_ok ks (snd s') \<Longrightarrow> wp (f s') Q"
  shows "wp (Option.bind (next_if c rd upd s) f) Q"
proof (cases c)
  case True
  then obtain x row where row: "snd s = x # row" "col_ok k x" "list_all2 col_ok ks row"
    using assms(1) by (auto simp: send_if_def list_all2_Cons1)
  then obtain v where "rd (snd s) 0 = Some v" using assms(2) by (auto simp: reads_col_def)
  with True row assms(3) show ?thesis by (simp add: next_if_def)
next
  case False
  with assms(1,3) show ?thesis by (simp add: next_if_def send_if_def)
qed

lemma character_row_total:
  assumes "list_all2 col_ok (character_columns flag) row"
  shows "wp (character_row flag row uc) (\<lambda>_. True)"
  unfolding character_row_def
  by (rule next_if_wp, (simp only: snd_conv)?, (rule assms [unfolded character_columns_def])?,
      assumption?, rule reads_col)+ simp

lemma character_info_all: "character_info USERCHARACTER_FLAG_ALL \<noteq> None"
  by (simp add: character_info_def USERCHARACTER_FLAG_ALL_def USERCHARACTER_FLAG_UNK1_def send_if_def
      has_def set_last_def)

lemma GetUserCharacter_total:
  assumes "characters_ok E" and "character_info flag \<noteq> None"
  shows "\<exists>res e'. GetUserCharacter E userID flag e = Some (res, e')"
proof -
  obtain info where info: "character_info flag = Some info" using assms(2) by auto
  let ?q = "''SELECT'' @ info @ ''FROM user_characters WHERE userID = '' @ fmt userID @ '';''"
  obtain r e' where q: "mysql_query E ?q e = (r, e')" by (cases "mysql_query E ?q e")
  show ?thesis
  proof (cases r)
    case (Inr rows)
    show ?thesis
    proof (cases rows)
      case (Cons row rows')
      then have "list_all2 col_ok (character_columns flag) row"
        using assms(1) info q Inr unfolding characters_ok_def by blast
      from character_row_total [OF this, of "new_UserCharacter\<lparr>uc_flag := flag\<rparr>"] info q Inr Cons
      show ?thesis by (auto simp: GetUserCharacter_def wp_iff Let_def)
    qed (use info q Inr in \<open>simp add: GetUserCharacter_def Let_def\<close>)
  qed (use info q in \<open>simp add: GetUserCharacter_def Let_def\<close>)
qed

end
