(* ===== verification/World.thy ===== *)
theory World
  imports Database
begin

text \<open>
  The objects of the running server and how they are reached: the heaps of \<open>User\<close> and
  \<open>Room\<close> objects, the connections, \<open>userManager._users\<close>, \<open>roomManager._rooms\<close>,
  the configuration, the datagrams handed to the UDP server, and the state \<open>'e\<close> of the
  outside world. A step of the server maps a world to \<open>Some\<close> next world, or to
  \<open>None\<close> when it runs into undefined behaviour.

  A freed object is absent from its heap and its address is never used again, so every
  use of a dangling pointer is \<open>None\<close>. \<open>TCPConnection\<close>s are \<open>shared_ptr\<close>s: they do
  not dangle, and their map is total.
\<close>

section \<open>Objects\<close>

text \<open>
  \<open>Team\<close> is cast from a byte. A \<open>GameMatch\<close> is owned by its room and a
  \<open>GameMatchUser\<close> by its match, so both are values inside their owner; a match user is
  identified by the user it stands for.
\<close>

type_synonym Team = u8
definition Team_None :: Team where "Team_None = 0"
definition Team_Terrorist :: Team where "Team_Terrorist = 1"
definition Team_CounterTerrorist :: Team where "Team_CounterTerrorist = 2"

record GameMatchUser =
  gmu_user :: ptr
  gmu_team :: Team

record GameMatch =
  gm_roomID :: u16
  gm_saveData :: bytes
  gm_gameMatchUsers :: "GameMatchUser list"

record room =
  r_roomID :: u16
  r_roomHostUser :: ptr
  r_roomSettings :: RoomSettings
  r_roomUsers :: "ptr list"
  r_gameMatch :: "GameMatch option"

record 'e world =
  w_users :: "ptr \<Rightarrow> user option"
  w_rooms :: "ptr \<Rightarrow> room option"
  w_conns :: "ptr \<Rightarrow> conn"
  w_userList :: "ptr list"
  w_roomList :: "ptr list"
  w_next :: ptr
  w_cfg :: ServerConfig
  w_udpRunning :: bool
  w_udpOut :: "(string \<times> u16 \<times> wcall list) list"
  w_ext :: 'e

section \<open>Access\<close>

definition upd_user :: "ptr \<Rightarrow> (user \<Rightarrow> user) \<Rightarrow> 'e world \<Rightarrow> 'e world option" where
  "upd_user p f w = map_option (\<lambda>u. w\<lparr>w_users := (w_users w)(p \<mapsto> f u)\<rparr>) (w_users w p)"

definition upd_room :: "ptr \<Rightarrow> (room \<Rightarrow> room) \<Rightarrow> 'e world \<Rightarrow> 'e world option" where
  "upd_room p f w = map_option (\<lambda>r. w\<lparr>w_rooms := (w_rooms w)(p \<mapsto> f r)\<rparr>) (w_rooms w p)"

definition upd_conn :: "ptr \<Rightarrow> (conn \<Rightarrow> conn) \<Rightarrow> 'e world \<Rightarrow> 'e world" where
  "upd_conn c f w = w\<lparr>w_conns := (w_conns w)(c := f (w_conns w c))\<rparr>"

definition SetUserStatus :: "UserStatus \<Rightarrow> ptr \<Rightarrow> 'e world \<Rightarrow> 'e world option" where
  "SetUserStatus s p w = upd_user p (\<lambda>u. u\<lparr>u_userStatus := s\<rparr>) w"

definition SetCurrentRoomID :: "u16 \<Rightarrow> ptr \<Rightarrow> 'e world \<Rightarrow> 'e world option" where
  "SetCurrentRoomID i p w = upd_user p (\<lambda>u. u\<lparr>u_currentRoomID := i\<rparr>) w"

definition SetGameMatch :: "GameMatch option \<Rightarrow> ptr \<Rightarrow> 'e world \<Rightarrow> 'e world option" where
  "SetGameMatch gm r w = upd_room r (\<lambda>x. x\<lparr>r_gameMatch := gm\<rparr>) w"

text \<open>\<open>User::GetUserCharacter\<close> on a user, with the state of the database threaded.\<close>

definition user_character ::
  "'e env \<Rightarrow> ptr \<Rightarrow> u16 \<Rightarrow> 'e world \<Rightarrow> (UserCharacterResult \<times> 'e world) option" where
  "user_character E p flag w = do {
     u \<leftarrow> w_users w p;
     (res, e) \<leftarrow> GetUserCharacter E (u_userID u) flag (w_ext w);
     Some (res, w\<lparr>w_ext := e\<rparr>)
   }"

text \<open>
  \<open>Packet::Create(Server, c, {pid})\<close>, the writes, and \<open>Send\<close>; nothing on a null
  connection.
\<close>

definition send :: "ptr \<Rightarrow> u8 \<Rightarrow> wcall list \<Rightarrow> 'e world \<Rightarrow> 'e world" where
  "send c pid ws w =
     (if c = 0 then w else upd_conn c (WritePacket (run_writes ws (Packet_Server c [pid]))) w)"

section \<open>What sending leaves alone\<close>

text \<open>
  The core of a world is everything but the queues of the connections, the datagrams and
  the outside. \<open>quiet\<close> steps keep it: all the \<open>Send\<close> functions of the managers do.
\<close>

definition core :: "'e world \<Rightarrow> _" where
  "core w = (w_users w, w_rooms w, w_userList w, w_roomList w, w_next w, w_cfg w, w_udpRunning w)"

lemma core_eqD:
  "core w' = core w \<Longrightarrow> w_users w' = w_users w"
  "core w' = core w \<Longrightarrow> w_rooms w' = w_rooms w"
  "core w' = core w \<Longrightarrow> w_userList w' = w_userList w"
  "core w' = core w \<Longrightarrow> w_roomList w' = w_roomList w"
  "core w' = core w \<Longrightarrow> w_next w' = w_next w"
  "core w' = core w \<Longrightarrow> w_cfg w' = w_cfg w"
  by (simp_all add: core_def)

lemma core_send [simp]: "core (send c pid ws w) = core w"
  by (simp add: send_def upd_conn_def core_def)

lemma core_ext [simp]: "core (w\<lparr>w_ext := e\<rparr>) = core w"
  by (simp add: core_def)

definition quiet :: "'e world \<Rightarrow> 'e world option \<Rightarrow> bool" where
  "quiet w m \<longleftrightarrow> wp m (\<lambda>w'. core w' = core w)"

end
