(* ===== verification/Packets.thy ===== *)
theory Packets
  imports World
begin

text \<open>
  The packets the server builds: the \<open>SendPacket_*\<close> and \<open>build*\<close> functions of the
  \<open>Packet_*Manager\<close> classes and of \<open>PacketManager\<close>. A builder that dereferences an object
  is undefined when the object is gone.
\<close>

section \<open>Packet ids and types\<close>

definition PacketID_Version :: u8 where "PacketID_Version = 0"
definition PacketID_Reply :: u8 where "PacketID_Reply = 1"
definition PacketID_ServerList :: u8 where "PacketID_ServerList = 5"
definition PacketID_Room :: u8 where "PacketID_Room = 65"
definition PacketID_ClientCheck :: u8 where "PacketID_ClientCheck = 66"
definition PacketID_UMsg :: u8 where "PacketID_UMsg = 67"
definition PacketID_Host :: u8 where "PacketID_Host = 68"
definition PacketID_UpdateInfo :: u8 where "PacketID_UpdateInfo = 69"
definition PacketID_Option :: u8 where "PacketID_Option = 76"
definition PacketID_Favorite :: u8 where "PacketID_Favorite = 77"
definition PacketID_UserStart :: u8 where "PacketID_UserStart = 150"
definition PacketID_RoomList :: u8 where "PacketID_RoomList = 151"
definition PacketID_Lobby :: u8 where "PacketID_Lobby = 153"
definition PacketID_Inventory :: u8 where "PacketID_Inventory = 154"

text \<open>\<open>GameUser\<close>: a user and its character sheet.\<close>

type_synonym GameUser = "ptr \<times> UserCharacter"

section \<open>PacketManager\<close>

definition SendPacket_Reply :: "ptr \<Rightarrow> int \<Rightarrow> string list \<Rightarrow> 'e world \<Rightarrow> 'e world" where
  "SendPacket_Reply connection t additionalText w =
     send connection PacketID_Reply
       ([WriteUInt8 (word_of_int t), WriteString [], WriteUInt8 (of_nat (length additionalText))]
        @ map WriteString additionalText) w"

definition SendPacket_UserStart :: "GameUser \<Rightarrow> 'e world \<Rightarrow> 'e world option" where
  "SendPacket_UserStart g w =
     (if fst g = 0 then Some w
      else do {
        u \<leftarrow> w_users w (fst g);
        Some (send (u_connection u) PacketID_UserStart
          [WriteUInt32_LE (u_userID u), WriteString (u_userName u),
           WriteString (uc_nickName (snd g))] w)
      })"

definition SendPacket_Inventory :: "ptr \<Rightarrow> InventoryItem list \<Rightarrow> 'e world \<Rightarrow> 'e world" where
  "SendPacket_Inventory connection userInventory w =
     send connection PacketID_Inventory
       (WriteUInt8 (of_nat (length userInventory)) #
        concat (map (\<lambda>i. [WriteUInt8 (ii_slotID i), WriteUInt8 1, WriteUInt8 (ii_itemID i),
          WriteUInt8 (ii_count i), WriteBool (ii_inUse i), WriteUInt32_LE (ii_obtainTime i),
          WriteUInt32_LE (ii_expirationTime i)]) userInventory)) w"

section \<open>Login packets\<close>

datatype CipherType = CipherType_Encrypt | CipherType_Decrypt

definition SendPacket_Crypt :: "ptr \<Rightarrow> CipherType \<Rightarrow> Cipher \<Rightarrow> 'e world \<Rightarrow> 'e world" where
  "SendPacket_Crypt connection t cipher w =
     send connection PacketID_Crypt
       ([WriteUInt8 (case t of CipherType_Encrypt \<Rightarrow> 0 | CipherType_Decrypt \<Rightarrow> 1),
         WriteUInt8 (CipherMethod_num (ci_method cipher))]
        @ send_if (ci_method cipher \<noteq> CleanUp \<and> ci_method cipher \<noteq> CleanUp2)
            [WriteArray_UInt8 (ci_key cipher), WriteArray_UInt8 (ci_iv cipher)]) w"

definition SendPacket_ClientCheck :: "ptr \<Rightarrow> 'e world \<Rightarrow> 'e world" where
  "SendPacket_ClientCheck connection w = send connection PacketID_ClientCheck [] w"

definition SendPacket_UpdateInfo :: "GameUser \<Rightarrow> 'e world \<Rightarrow> 'e world option" where
  "SendPacket_UpdateInfo g w =
     (if fst g = 0 then Some w
      else do {
        u \<leftarrow> w_users w (fst g);
        Some (send (u_connection u) PacketID_UpdateInfo
          (WriteUInt32_LE (u_userID u) # BuildUserCharacter (snd g)) w)
      })"

definition SendPacket_Option_UserConfig :: "ptr \<Rightarrow> bytes \<Rightarrow> 'e world \<Rightarrow> 'e world" where
  "SendPacket_Option_UserConfig connection userConfig w =
     send connection PacketID_Option
       [WriteUInt8 0, WriteUInt16_LE (of_nat (length userConfig)), WriteArray_UInt8 userConfig] w"

definition SendPacket_Option_UserQuickStart :: "ptr \<Rightarrow> u32 \<Rightarrow> 'e world \<Rightarrow> 'e world" where
  "SendPacket_Option_UserQuickStart connection userQuickStart w =
     send connection PacketID_Option [WriteUInt8 1, WriteUInt32_LE userQuickStart] w"

definition SendPacket_Favorite_UserBuyMenu :: "ptr \<Rightarrow> BuyMenu list \<Rightarrow> 'e world \<Rightarrow> 'e world" where
  "SendPacket_Favorite_UserBuyMenu connection userBuyMenus w =
     send connection PacketID_Favorite
       (WriteUInt8 0 # concat (map (\<lambda>b. WriteUInt8 (bm_categoryID b) # map WriteUInt8 (bm_items b))
          userBuyMenus)) w"

definition SendPacket_Favorite_UserBookMark :: "ptr \<Rightarrow> BookMark list \<Rightarrow> 'e world \<Rightarrow> 'e world" where
  "SendPacket_Favorite_UserBookMark connection userBookMarks w =
     send connection PacketID_Favorite
       (WriteUInt8 1 # concat (map (\<lambda>b.
          [WriteUInt8 (bk_slotID b), WriteString (bk_name b), WriteUInt8 (bk_primaryItemID b),
           WriteBool (bk_primaryAmmo b), WriteUInt8 (bk_secondaryItemID b),
           WriteBool (bk_secondaryAmmo b), WriteUInt8 (bk_flashbang b), WriteBool (bk_hegrenade b),
           WriteBool (bk_smokegrenade b), WriteBool (bk_defusekit b), WriteBool (bk_nightvision b),
           WriteUInt8 (bk_kevlar b), WriteUInt8 (bk_unk1 b)]) userBookMarks)) w"

section \<open>Messages\<close>

definition WarningMessage :: u8 where "WarningMessage = 6"
definition InfoMessage :: u8 where "InfoMessage = 5"
definition NoticeMessage :: u8 where "NoticeMessage = 4"

definition SendPacket_UMsg_NoticeMessage :: "ptr \<Rightarrow> string \<Rightarrow> 'e world \<Rightarrow> 'e world" where
  "SendPacket_UMsg_NoticeMessage connection txt w =
     send connection PacketID_UMsg [WriteUInt8 NoticeMessage, WriteString txt] w"

definition SendPacket_UMsg_ServerMessage ::
  "ptr \<Rightarrow> u8 \<Rightarrow> string \<Rightarrow> string list \<Rightarrow> 'e world \<Rightarrow> 'e world" where
  "SendPacket_UMsg_ServerMessage connection t txt additionalText w =
     send connection PacketID_UMsg
       ([WriteUInt8 t, WriteString txt, WriteUInt8 (of_nat (length additionalText))]
        @ map WriteString additionalText) w"

definition sendPacket_UMsg_Chat :: "ptr \<Rightarrow> u8 \<Rightarrow> string \<Rightarrow> string \<Rightarrow> 'e world \<Rightarrow> 'e world" where
  "sendPacket_UMsg_Chat connection t senderNickName txt w =
     send connection PacketID_UMsg [WriteUInt8 t, WriteString senderNickName, WriteString txt] w"

section \<open>Server list and lobby\<close>

definition ServerType_num :: "ServerType \<Rightarrow> u8" where
  "ServerType_num t = (case t of Normal \<Rightarrow> 0 | Newbie \<Rightarrow> 1)"

definition SendPacket_ServerList :: "ptr \<Rightarrow> Server list \<Rightarrow> 'e world \<Rightarrow> 'e world" where
  "SendPacket_ServerList connection servers w =
     send connection PacketID_ServerList
       (WriteUInt8 (of_nat (length servers)) #
        concat (map (\<lambda>s.
          [WriteUInt8 (sv_id s), WriteBool (sv_status s = Ready),
           WriteUInt8 (ServerType_num (sv_type s)), WriteString (sv_name s),
           WriteUInt8 (of_nat (length (sv_channels s)))] @
          concat (map (\<lambda>c. [WriteUInt8 (ch_id c), WriteString (ch_name c),
            WriteUInt16_LE (ch_numPlayers c)]) (sv_channels s))) servers)) w"

definition buildGameUser :: "'e world \<Rightarrow> GameUser \<Rightarrow> wcall list option" where
  "buildGameUser w g =
     (if fst g = 0 then Some []
      else do {
        u \<leftarrow> w_users w (fst g);
        Some ([WriteUInt32_LE (u_userID u), WriteString (u_userName u)] @ BuildUserCharacter (snd g))
      })"

definition SendPacket_Lobby_FullUserList :: "ptr \<Rightarrow> GameUser list \<Rightarrow> 'e world \<Rightarrow> 'e world option" where
  "SendPacket_Lobby_FullUserList connection gameUsers w =
     (if connection = 0 then Some w
      else do {
        infos \<leftarrow> those (map (buildGameUser w) gameUsers);
        Some (send connection PacketID_Lobby
          ([WriteUInt8 0, WriteUInt16_LE (of_nat (length gameUsers))] @ concat infos) w)
      })"

definition SendPacket_Lobby_AddUser :: "ptr \<Rightarrow> GameUser \<Rightarrow> 'e world \<Rightarrow> 'e world option" where
  "SendPacket_Lobby_AddUser connection g w =
     (if connection = 0 then Some w
      else do {
        info \<leftarrow> buildGameUser w g;
        Some (send connection PacketID_Lobby (WriteUInt8 1 # info) w)
      })"

definition SendPacket_Lobby_RemoveUser :: "ptr \<Rightarrow> u32 \<Rightarrow> 'e world \<Rightarrow> 'e world" where
  "SendPacket_Lobby_RemoveUser connection userID w =
     send connection PacketID_Lobby [WriteUInt8 2, WriteUInt32_LE userID] w"

section \<open>Room list\<close>

definition buildRoomInfo :: "'e world \<Rightarrow> ptr \<Rightarrow> u16 \<Rightarrow> wcall list option" where
  "buildRoomInfo w room flag =
     (if room = 0 then Some []
      else do {
        r \<leftarrow> w_rooms w room;
        host \<leftarrow> w_users w (r_roomHostUser r);
        let rs = r_roomSettings r;
        let userNetwork = u_userNetwork host;
        Some ([WriteUInt16_LE (r_roomID r), WriteUInt16_LE flag]
          @ send_if (has flag ROOMLIST_FLAG_ROOMNAME) [WriteString (roomName rs)]
          @ send_if (has flag ROOMLIST_FLAG_UNK2) [WriteUInt8 0]
          @ send_if (has flag ROOMLIST_FLAG_ISPASSWORDED) [WriteBool (password rs \<noteq> [])]
          @ send_if (has flag ROOMLIST_FLAG_LEVELLIMIT) [WriteUInt8 (levelLimit rs)]
          @ send_if (has flag ROOMLIST_FLAG_GAMEMODEID) [WriteUInt8 (gameModeID rs)]
          @ send_if (has flag ROOMLIST_FLAG_MAPID) [WriteUInt8 (mapID rs)]
          @ send_if (has flag ROOMLIST_FLAG_CURRENTPLAYERS) [WriteUInt8 (of_nat (length (r_roomUsers r)))]
          @ send_if (has flag ROOMLIST_FLAG_MAXPLAYERS) [WriteUInt8 (maxPlayers rs)]
          @ send_if (has flag ROOMLIST_FLAG_WEAPONLIMIT) [WriteUInt8 (weaponLimit rs)]
          @ send_if (has flag ROOMLIST_FLAG_ROOMHOST) [WriteUInt32_LE (u_userID host), WriteUInt8 0]
          @ send_if (has flag ROOMLIST_FLAG_UNK400) [WriteUInt8 0]
          @ send_if (has flag ROOMLIST_FLAG_ROOMHOSTNETWORK)
              [WriteUInt32_LE (un_localIP userNetwork), WriteUInt16_LE (un_localHostPort userNetwork),
               WriteUInt32_LE (cfg_ip (w_cfg w)), WriteUInt16_LE (cfg_port (w_cfg w)), WriteUInt8 0]
          @ send_if (has flag ROOMLIST_FLAG_UNK1000) [WriteUInt8 0]
          @ send_if (has flag ROOMLIST_FLAG_UNK2000) [WriteUInt8 0]
          @ send_if (has flag ROOMLIST_FLAG_ROOMSTATE) [WriteUInt8 (roomState rs)])
      })"

definition SendPacket_RoomList_FullRoomList ::
  "ptr \<Rightarrow> ptr list \<Rightarrow> u16 \<Rightarrow> 'e world \<Rightarrow> 'e world option" where
  "SendPacket_RoomList_FullRoomList connection rooms flag w =
     (if connection = 0 then Some w
      else do {
        let rooms = filter (\<lambda>room. room \<noteq> 0) rooms;
        infos \<leftarrow> those (map (\<lambda>room. buildRoomInfo w room flag) rooms);
        Some (send connection PacketID_RoomList
          ([WriteUInt8 0, WriteUInt16_LE (of_nat (length rooms))] @ concat infos) w)
      })"

definition SendPacket_RoomList_AddRoom :: "ptr \<Rightarrow> ptr \<Rightarrow> u16 \<Rightarrow> 'e world \<Rightarrow> 'e world option" where
  "SendPacket_RoomList_AddRoom connection room flag w =
     (if connection = 0 \<or> room = 0 then Some w
      else do {
        info \<leftarrow> buildRoomInfo w room flag;
        Some (send connection PacketID_RoomList (WriteUInt8 1 # info) w)
      })"

definition SendPacket_RoomList_RemoveRoom :: "ptr \<Rightarrow> u16 \<Rightarrow> 'e world \<Rightarrow> 'e world" where
  "SendPacket_RoomList_RemoveRoom connection roomID w =
     send connection PacketID_RoomList [WriteUInt8 2, WriteUInt16_LE roomID] w"

definition SendPacket_RoomList_UpdateRoom :: "ptr \<Rightarrow> ptr \<Rightarrow> u16 \<Rightarrow> 'e world \<Rightarrow> 'e world option" where
  "SendPacket_RoomList_UpdateRoom connection room flag w =
     (if connection = 0 \<or> room = 0 then Some w
      else do {
        info \<leftarrow> buildRoomInfo w room flag;
        Some (send connection PacketID_RoomList (WriteUInt8 3 # info) w)
      })"

section \<open>Room\<close>

definition SendPacket_Room_UserLeave :: "ptr \<Rightarrow> u32 \<Rightarrow> 'e world \<Rightarrow> 'e world" where
  "SendPacket_Room_UserLeave connection userID w =
     send connection PacketID_Room [WriteUInt8 2, WriteUInt32_LE userID] w"

definition SendPacket_Room_ReplyUpdateRoomSettings :: "ptr \<Rightarrow> RoomSettings \<Rightarrow> 'e world \<Rightarrow> 'e world" where
  "SendPacket_Room_ReplyUpdateRoomSettings connection rs w =
     send connection PacketID_Room (WriteUInt8 4 # buildRoomSettings rs) w"

text \<open>The branches of the source under \<open>if (true)\<close> with loops that never run.\<close>

definition SendPacket_Room_GameResult :: "ptr \<Rightarrow> 'e world \<Rightarrow> 'e world" where
  "SendPacket_Room_GameResult connection w =
     send connection PacketID_Room [WriteUInt8 6, WriteBool False, WriteUInt8 0, WriteUInt8 0] w"

definition SendPacket_Room_LeaveRoomInGame :: "ptr \<Rightarrow> 'e world \<Rightarrow> 'e world" where
  "SendPacket_Room_LeaveRoomInGame connection w = send connection PacketID_Room [WriteUInt8 10] w"

definition buildRoomUserInfo :: "'e world \<Rightarrow> GameUser \<Rightarrow> wcall list option" where
  "buildRoomUserInfo w g =
     (if fst g = 0 then Some []
      else do {
        u \<leftarrow> w_users w (fst g);
        let n = u_userNetwork u;
        Some ([WriteUInt32_LE (u_userID u), WriteUInt8 0, WriteUInt8 0,
               WriteUInt32_LE (un_externalIP n), WriteUInt16_LE (un_externalHostPort n),
               WriteUInt16_LE (un_externalGuestPort n), WriteUInt32_LE (un_localIP n),
               WriteUInt16_LE (un_localHostPort n), WriteUInt16_LE (un_localGuestPort n)]
              @ BuildUserCharacter (snd g))
      })"

definition sendPacket_Room_ReplyCreateAndJoin ::
  "ptr \<Rightarrow> ptr \<Rightarrow> GameUser list \<Rightarrow> 'e world \<Rightarrow> 'e world option" where
  "sendPacket_Room_ReplyCreateAndJoin connection room gameUsers w =
     (if connection = 0 \<or> room = 0 then Some w
      else do {
        r \<leftarrow> w_rooms w room;
        (if r_roomHostUser r = 0 then Some w
         else do {
           host \<leftarrow> w_users w (r_roomHostUser r);
           infos \<leftarrow> those (map (buildRoomUserInfo w) gameUsers);
           Some (send connection PacketID_Room
             ([WriteUInt8 0, WriteUInt32_LE (u_userID host), WriteUInt16_LE (r_roomID r), WriteUInt8 0]
              @ buildRoomSettings (r_roomSettings r)
              @ [WriteUInt8 (of_nat (length gameUsers))] @ concat infos) w)
         })
      })"

definition sendPacket_Room_UserJoin :: "ptr \<Rightarrow> GameUser \<Rightarrow> 'e world \<Rightarrow> 'e world option" where
  "sendPacket_Room_UserJoin connection g w =
     (if connection = 0 then Some w
      else do {
        info \<leftarrow> buildRoomUserInfo w g;
        Some (send connection PacketID_Room (WriteUInt8 1 # info) w)
      })"

definition sendPacket_Room_UserReady :: "ptr \<Rightarrow> u32 \<Rightarrow> u8 \<Rightarrow> 'e world \<Rightarrow> 'e world" where
  "sendPacket_Room_UserReady connection userID ready w =
     send connection PacketID_Room [WriteUInt8 3, WriteUInt32_LE userID, WriteUInt8 ready] w"

section \<open>Host\<close>

definition SendPacket_Host_HostStart :: "ptr \<Rightarrow> 'e world \<Rightarrow> 'e world option" where
  "SendPacket_Host_HostStart user w =
     (if user = 0 then Some w
      else do {
        u \<leftarrow> w_users w user;
        Some (send (u_connection u) PacketID_Host [WriteUInt8 0, WriteUInt32_LE (u_userID u)] w)
      })"

definition SendPacket_Host_HostJoin :: "ptr \<Rightarrow> u32 \<Rightarrow> 'e world \<Rightarrow> 'e world" where
  "SendPacket_Host_HostJoin connection userID w =
     send connection PacketID_Host [WriteUInt8 1, WriteUInt32_LE userID] w"

text \<open>
  \<open>match_user_id\<close> is \<open>gameMatchUser->GetUser()->GetUserID()\<close>. A guest's packet is only
  the crash flag, a host's has the saved data and the users that stay in the game.
\<close>

definition match_user_id :: "'e world \<Rightarrow> GameMatchUser \<Rightarrow> u32 option" where
  "match_user_id w g = map_option u_userID (w_users w (gmu_user g))"

definition SendPacket_Host_HostRestart ::
  "ptr \<Rightarrow> bool \<Rightarrow> u32 \<Rightarrow> GameMatchUser list \<Rightarrow> bytes \<Rightarrow> 'e world \<Rightarrow> 'e world option" where
  "SendPacket_Host_HostRestart connection isRoomHost roomHostUserID gameMatchUsers saveData w =
     (if connection = 0 then Some w
      else if isRoomHost then
        (if saveData \<noteq> [] then do {
           ids \<leftarrow> those (map (match_user_id w) gameMatchUsers);
           Some (send connection PacketID_Host
             ([WriteUInt8 2, WriteUInt32_LE roomHostUserID, WriteUInt16_LE (of_nat (length saveData)),
               WriteArray_UInt8 saveData, WriteUInt8 (of_nat (length gameMatchUsers))]
              @ map WriteUInt32_LE ids) w)
         }
         else Some (send connection PacketID_Host
           [WriteUInt8 2, WriteUInt32_LE roomHostUserID, WriteUInt16_LE (of_nat (length saveData))] w))
      else Some (send connection PacketID_Host
        [WriteUInt8 2, WriteUInt32_LE roomHostUserID, WriteUInt8 1] w))"

definition SendPacket_Host_ResultClose :: "ptr \<Rightarrow> 'e world \<Rightarrow> 'e world" where
  "SendPacket_Host_ResultClose connection w = send connection PacketID_Host [WriteUInt8 4] w"

definition sendPacket_Host_HostEndSession :: "ptr \<Rightarrow> 'e world \<Rightarrow> 'e world" where
  "sendPacket_Host_HostEndSession connection w = send connection PacketID_Host [WriteUInt8 3] w"

end
