(* ===== verification/Managers.thy ===== *)
theory Managers
  imports Packets
begin

text \<open>
  The operations that only read the shared state and send: the \<open>Send*\<close> functions of
  \<open>UserManager\<close> and \<open>RoomManager\<close>, and the lookups of both. The locale \<open>registry\<close> is the
  contract of the lookups, the locale \<open>broadcast\<close> the contract of a per-user send from
  which the sends to all follow.
\<close>

section \<open>Shared shapes\<close>

text \<open>
  \<open>keep_user P w\<close>: the negated \<open>remove_if\<close> predicate \<open>u == NULL || !P\<close>, which
  dereferences a non-null \<open>u\<close>. \<open>all_flag\<close> is \<open>USERCHARACTER_FLAG_ALL\<close>.
\<close>

definition keep_user :: "(ptr \<Rightarrow> user \<Rightarrow> bool) \<Rightarrow> 'e world \<Rightarrow> ptr \<Rightarrow> bool option" where
  "keep_user P w u = (if u = 0 then Some False else map_option (P u) (w_users w u))"

definition conn_of :: "'e world \<Rightarrow> ptr \<Rightarrow> ptr option" where
  "conn_of w u = map_option u_connection (w_users w u)"

text \<open>\<open>for (auto& u : users) sendTo(u->GetConnection())\<close>.\<close>

definition for_users :: "(ptr \<Rightarrow> 'e world \<Rightarrow> 'e world option) \<Rightarrow> ptr list \<Rightarrow> 'e world \<Rightarrow> 'e world option" where
  "for_users sendTo users w = foldM (\<lambda>u w. do { c \<leftarrow> conn_of w u; sendTo c w }) users w"

section \<open>UserManager\<close>

definition IsUserLoggedIn :: "ptr \<Rightarrow> 'e world \<Rightarrow> bool option" where
  "IsUserLoggedIn user w =
     (if user = 0 then Some False
      else do { u \<leftarrow> w_users w user; Some (u_userStatus u \<noteq> InLogin) })"

definition GetUserByConnection :: "ptr \<Rightarrow> 'e world \<Rightarrow> ptr option" where
  "GetUserByConnection connection w =
     (if connection = 0 then Some 0
      else findM (\<lambda>user. map_option (\<lambda>u. u_connection u = connection) (w_users w user)) (w_userList w))"

definition GetUserByUserID :: "u32 \<Rightarrow> 'e world \<Rightarrow> ptr option" where
  "GetUserByUserID userID w =
     (if userID = 0 then Some 0
      else findM (\<lambda>user. map_option (\<lambda>u. u_userID u = userID) (w_users w user)) (w_userList w))"

definition collect_characters ::
  "'e env \<Rightarrow> ptr list \<Rightarrow> GameUser list \<times> 'e world \<Rightarrow> (GameUser list \<times> 'e world) option" where
  "collect_characters E users = foldM (\<lambda>u (gs, w). do {
       ((uc, result), w) \<leftarrow> user_character E u USERCHARACTER_FLAG_ALL w;
       Some (if result > 0 then gs @ [(u, uc)] else gs, w)
     }) users"

definition SendFullUserListPacket :: "'e env \<Rightarrow> ptr \<Rightarrow> 'e world \<Rightarrow> 'e world option" where
  "SendFullUserListPacket E connection w =
     (if connection = 0 then Some w
      else do {
        users \<leftarrow> filterM (keep_user (\<lambda>u x. u_userStatus x = InLobby) w) (w_userList w);
        (gameUsers, w) \<leftarrow> collect_characters E users ([], w);
        SendPacket_Lobby_FullUserList connection gameUsers w
      })"

definition SendAddUserPacketToAll :: "'e env \<Rightarrow> ptr \<Rightarrow> 'e world \<Rightarrow> 'e world option" where
  "SendAddUserPacketToAll E user w =
     (if user = 0 then Some w
      else do {
        ((userCharacter, result), w) \<leftarrow> user_character E user USERCHARACTER_FLAG_ALL w;
        (if result \<le> 0 then Some w
         else do {
           users \<leftarrow> filterM (keep_user (\<lambda>u x. u \<noteq> user \<and> u_connection x \<noteq> 0 \<and> u_userStatus x = InLobby) w)
                     (w_userList w);
           for_users (\<lambda>c. SendPacket_Lobby_AddUser c (user, userCharacter)) users w
         })
      })"

definition SendRemoveUserPacketToAll :: "ptr \<Rightarrow> 'e world \<Rightarrow> 'e world option" where
  "SendRemoveUserPacketToAll user w =
     (if user = 0 then Some w
      else do {
        users \<leftarrow> filterM (keep_user (\<lambda>u x. u \<noteq> user \<and> u_connection x \<noteq> 0 \<and> u_userStatus x = InLobby) w)
                  (w_userList w);
        userID \<leftarrow> map_option u_userID (w_users w user);
        for_users (\<lambda>c w. Some (SendPacket_Lobby_RemoveUser c userID w)) users w
      })"

section \<open>RoomManager\<close>

definition GetRoomByRoomID :: "u16 \<Rightarrow> 'e world \<Rightarrow> ptr option" where
  "GetRoomByRoomID roomID w =
     (if roomID = 0 then Some 0
      else findM (\<lambda>room. map_option (\<lambda>r. r_roomID r = roomID) (w_rooms w room)) (w_roomList w))"

text \<open>
  \<open>for (roomID = 1; roomID < UINT16_MAX; roomID++)\<close>, counting down the number of ids left.
\<close>

fun free_room_from :: "nat \<Rightarrow> u16 \<Rightarrow> 'e world \<Rightarrow> u16 option" where
  "free_room_from 0 roomID w = Some 0"
| "free_room_from (Suc n) roomID w = do {
     room \<leftarrow> GetRoomByRoomID roomID w;
     (if room \<noteq> 0 then free_room_from n (roomID + 1) w else Some roomID)
   }"

definition GetFreeRoomID :: "'e world \<Rightarrow> u16 option" where
  "GetFreeRoomID w = free_room_from 65534 1 w"

definition lobby_users :: "'e world \<Rightarrow> ptr list option" where
  "lobby_users w = filterM (keep_user (\<lambda>u x. u_connection x \<noteq> 0 \<and> u_userStatus x = InLobby) w) (w_userList w)"

definition SendFullRoomListPacket :: "ptr \<Rightarrow> 'e world \<Rightarrow> 'e world option" where
  "SendFullRoomListPacket connection w =
     (if connection = 0 then Some w
      else SendPacket_RoomList_FullRoomList connection (w_roomList w) ROOMLIST_FLAG_ALL w)"

definition SendAddRoomPacketToAll :: "ptr \<Rightarrow> u16 \<Rightarrow> 'e world \<Rightarrow> 'e world option" where
  "SendAddRoomPacketToAll room flag w =
     (if room = 0 then Some w
      else do {
        users \<leftarrow> lobby_users w;
        for_users (\<lambda>c. SendPacket_RoomList_AddRoom c room flag) users w
      })"

definition SendRemoveRoomPacketToAll :: "u16 \<Rightarrow> 'e world \<Rightarrow> 'e world option" where
  "SendRemoveRoomPacketToAll roomID w = do {
     users \<leftarrow> lobby_users w;
     for_users (\<lambda>c w. Some (SendPacket_RoomList_RemoveRoom c roomID w)) users w
   }"

definition SendUpdateRoomPacket :: "ptr \<Rightarrow> ptr \<Rightarrow> u16 \<Rightarrow> 'e world \<Rightarrow> 'e world option" where
  "SendUpdateRoomPacket connection room flag w =
     (if connection = 0 \<or> room = 0 then Some w
      else SendPacket_RoomList_UpdateRoom connection room flag w)"

definition SendUpdateRoomPacketToAll :: "ptr \<Rightarrow> u16 \<Rightarrow> 'e world \<Rightarrow> 'e world option" where
  "SendUpdateRoomPacketToAll room flag w =
     (if room = 0 then Some w
      else do {
        users \<leftarrow> lobby_users w;
        for_users (\<lambda>c. SendPacket_RoomList_UpdateRoom c room flag) users w
      })"

definition SendRoomUserLeavePacket :: "ptr \<Rightarrow> u32 \<Rightarrow> 'e world \<Rightarrow> 'e world" where
  "SendRoomUserLeavePacket connection userID w =
     (if connection = 0 then w else SendPacket_Room_UserLeave connection userID w)"

text \<open>\<open>RoomManager::UpdateRoom\<close>: the row of the room in the database.\<close>

definition UpdateRoom :: "'e env \<Rightarrow> ptr \<Rightarrow> 'e world \<Rightarrow> 'e world option" where
  "UpdateRoom E room w = do {
     r \<leftarrow> w_rooms w room;
     let rs = r_roomSettings r;
     let (_, e) = DB_UpdateRoom E (w_cfg w) (r_roomID r) False (password rs \<noteq> []) (levelLimit rs)
           (gameModeID rs) (mapID rs) (of_nat (length (r_roomUsers r))) (maxPlayers rs) (w_ext w);
     Some (w\<lparr>w_ext := e\<rparr>)
   }"

text \<open>
  \<open>RoomManager::SearchRoom\<close>: a local room that fits, else the database's answer. The
  third test reads the game mode of the room where the map test reads the argument.
\<close>

definition room_fits :: "u8 \<Rightarrow> u8 \<Rightarrow> u8 \<Rightarrow> room \<Rightarrow> bool" where
  "room_fits mode map_id lvl r =
     (let rs = r_roomSettings r in
      \<not> (password rs \<noteq> [] \<or> length (r_roomUsers r) \<ge> unat (maxPlayers rs)
         \<or> gameModeID rs \<noteq> 99 \<and> gameModeID rs \<noteq> mode
         \<or> map_id \<noteq> 99 \<and> mapID rs \<noteq> map_id \<or> levelLimit rs \<noteq> lvl))"

definition SearchRoom ::
  "'e env \<Rightarrow> u8 \<Rightarrow> u8 \<Rightarrow> u8 \<Rightarrow> u8 \<Rightarrow> u8 \<Rightarrow> 'e world \<Rightarrow> (SearchRoomResult \<times> 'e world) option" where
  "SearchRoom E level mode map_id lvl clanBattle w = do {
     room \<leftarrow> findM (\<lambda>room. map_option (room_fits mode map_id lvl) (w_rooms w room)) (w_roomList w);
     (if room \<noteq> 0 then do {
        r \<leftarrow> w_rooms w room;
        Some ((cfg_serverID (w_cfg w), cfg_channelID (w_cfg w), r_roomID r), w)
      }
      else do {
        (res, e) \<leftarrow> DB_SearchRoom E (w_cfg w) level mode map_id lvl clanBattle (w_ext w);
        Some (res, w\<lparr>w_ext := e\<rparr>)
      })
   }"

end
