(* ===== verification/Rooms.thy ===== *)
theory Rooms
  imports Managers
begin

text \<open>
  \<open>room/gamematch.cpp\<close>, \<open>room/room.cpp\<close> and the operations of
  \<open>managers/roommanager.cpp\<close> that change the state: membership of rooms and matches, the
  choice of a new host, and the life of \<open>Room\<close> objects.
\<close>

section \<open>GameMatch\<close>

definition new_GameMatch :: "u16 \<Rightarrow> GameMatch" where
  "new_GameMatch roomID = \<lparr>gm_roomID = roomID, gm_saveData = [], gm_gameMatchUsers = []\<rparr>"

definition new_GameMatchUser :: "ptr \<Rightarrow> GameMatchUser" where
  "new_GameMatchUser user = \<lparr>gmu_user = user, gmu_team = Team_None\<rparr>"

definition AddGameMatchUser :: "GameMatchUser \<Rightarrow> GameMatch \<Rightarrow> GameMatch" where
  "AddGameMatchUser g gm = gm\<lparr>gm_gameMatchUsers := gm_gameMatchUsers gm @ [g]\<rparr>"

definition RemoveGameMatchUser :: "GameMatchUser \<Rightarrow> GameMatch \<Rightarrow> GameMatch option" where
  "RemoveGameMatchUser g gm = do {
     users \<leftarrow> vec_erase g (gm_gameMatchUsers gm);
     Some (gm\<lparr>gm_gameMatchUsers := users\<rparr>)
   }"

definition GetGameMatchUserByUser :: "ptr \<Rightarrow> GameMatch \<Rightarrow> GameMatchUser option" where
  "GetGameMatchUserByUser user gm =
     (if user = 0 then None else find (\<lambda>g. gmu_user g = user) (gm_gameMatchUsers gm))"

text \<open>
  The handlers' \<open>if (gameMatchUser) gameMatch->RemoveGameMatchUser(gameMatchUser)\<close>.
\<close>

definition leave_match :: "ptr \<Rightarrow> GameMatch \<Rightarrow> GameMatch option" where
  "leave_match user gm =
     (case GetGameMatchUserByUser user gm of
        None \<Rightarrow> Some gm
      | Some g \<Rightarrow> RemoveGameMatchUser g gm)"

section \<open>Room\<close>

definition new_room :: "u16 \<Rightarrow> ptr \<Rightarrow> room" where
  "new_room roomID roomHostUser = \<lparr>r_roomID = roomID, r_roomHostUser = roomHostUser,
     r_roomSettings = new_RoomSettings\<lparr>lowFlag := ROOMSETTINGS_LFLAG_ALL,
       highFlag := ROOMSETTINGS_HFLAG_ALL\<rparr>,
     r_roomUsers = [], r_gameMatch = None\<rparr>"

definition connected_users :: "'e world \<Rightarrow> ptr list \<Rightarrow> ptr list option" where
  "connected_users w us = filterM (keep_user (\<lambda>u x. u_connection x \<noteq> 0) w) us"

definition connected_match_users :: "'e world \<Rightarrow> GameMatchUser list \<Rightarrow> GameMatchUser list option" where
  "connected_match_users w gs = filterM (\<lambda>g. keep_user (\<lambda>u x. u_connection x \<noteq> 0) w (gmu_user g)) gs"

definition AddRoomUser :: "ptr \<Rightarrow> ptr \<Rightarrow> 'e world \<Rightarrow> (int \<times> 'e world) option" where
  "AddRoomUser user room w =
     (if user = 0 then Some (-1, w)
      else do {
        r \<leftarrow> w_rooms w room;
        (if user \<in> set (r_roomUsers r) then Some (0, w)
         else do {
           w \<leftarrow> upd_room room (\<lambda>r. r\<lparr>r_roomUsers := r_roomUsers r @ [user]\<rparr>) w;
           w \<leftarrow> SetUserStatus InRoom user w;
           w \<leftarrow> SetCurrentRoomID (r_roomID r) user w;
           Some (1, w)
         })
      })"

definition UpdateRoomHostUser :: "ptr \<Rightarrow> ptr \<Rightarrow> 'e world \<Rightarrow> 'e world option" where
  "UpdateRoomHostUser user room w =
     (if user = 0 then Some w
      else do {
        w \<leftarrow> upd_room room (\<lambda>r. r\<lparr>r_roomHostUser := user\<rparr>) w;
        r \<leftarrow> w_rooms w room;
        roomUsers \<leftarrow> connected_users w (r_roomUsers r);
        for_users (\<lambda>c. SendUpdateRoomPacket c room ROOMLIST_FLAG_ROOMHOST) roomUsers w
      })"

definition Room_UpdateRoomSettings :: "RoomSettings \<Rightarrow> ptr \<Rightarrow> 'e world \<Rightarrow> 'e world option" where
  "Room_UpdateRoomSettings rs room w =
     upd_room room (\<lambda>r. r\<lparr>r_roomSettings := UpdateRoomSettings rs (r_roomSettings r)\<rparr>) w"

text \<open>
  The settings with which the code announces a change of the room state, and its two
  halves: the update with the message to the lobby, and the messages to the room.
\<close>

definition state_settings :: "RoomState \<Rightarrow> RoomSettings" where
  "state_settings st = new_RoomSettings\<lparr>lowFlag := ROOMSETTINGS_LFLAG_ROOMSTATE, roomState := st\<rparr>"

definition set_room_state :: "RoomState \<Rightarrow> ptr \<Rightarrow> 'e world \<Rightarrow> 'e world option" where
  "set_room_state st room w = do {
     w \<leftarrow> Room_UpdateRoomSettings (state_settings st) room w;
     SendUpdateRoomPacketToAll room ROOMLIST_FLAG_ROOMSTATE w
   }"

definition announce_room_state :: "RoomState \<Rightarrow> ptr \<Rightarrow> ptr list \<Rightarrow> 'e world \<Rightarrow> 'e world option" where
  "announce_room_state st room roomUsers w =
     for_users (\<lambda>c w. SendUpdateRoomPacket c room ROOMLIST_FLAG_ROOMSTATE
         (SendPacket_Room_ReplyUpdateRoomSettings c (state_settings st) w)) roomUsers w"

text \<open>
  The host's game moves to the first connected match user; the code has this text twice,
  in \<open>Room::RemoveRoomUser\<close> and in \<open>parsePacket_Room_ReturnToRoom\<close>.
\<close>

definition migrate_host :: "ptr \<Rightarrow> GameMatchUser list \<Rightarrow> 'e world \<Rightarrow> 'e world option" where
  "migrate_host room gameMatchUsers w = do {
     g \<leftarrow> vec_at gameMatchUsers 0;
     let newRoomHostUser = gmu_user g;
     w \<leftarrow> UpdateRoomHostUser newRoomHostUser room w;
     let gameMatchUsers = filter (\<lambda>g. gmu_user g \<noteq> newRoomHostUser) gameMatchUsers;
     host \<leftarrow> w_users w newRoomHostUser;
     r \<leftarrow> w_rooms w room;
     gm \<leftarrow> r_gameMatch r;
     w \<leftarrow> SendPacket_Host_HostRestart (u_connection host) True (u_userID host) gameMatchUsers
           (gm_saveData gm) w;
     w \<leftarrow> for_users (\<lambda>c w. do {
           w \<leftarrow> SendPacket_Host_HostRestart c False (u_userID host) [] [] w;
           Some (SendPacket_Host_HostJoin c (u_userID host) w)
         }) (map gmu_user gameMatchUsers) w;
     (if gm_saveData gm = [] then SetGameMatch None room w else Some w)
   }"

section \<open>Destruction\<close>

definition evict_user :: "'e env \<Rightarrow> ptr \<Rightarrow> 'e world \<Rightarrow> 'e world option" where
  "evict_user E roomUser w = do {
     connection \<leftarrow> conn_of w roomUser;
     (if connection = 0 then Some w
      else do {
        w \<leftarrow> SetUserStatus InLobby roomUser w;
        w \<leftarrow> SetCurrentRoomID 0 roomUser w;
        w \<leftarrow> SendAddUserPacketToAll E roomUser w;
        let w = SendPacket_Room_LeaveRoomInGame connection w;
        w \<leftarrow> SendFullUserListPacket E connection w;
        SendFullRoomListPacket connection w
      })
   }"

definition delete_room :: "'e env \<Rightarrow> ptr \<Rightarrow> 'e world \<Rightarrow> 'e world option" where
  "delete_room E room w = do {
     r \<leftarrow> w_rooms w room;
     w \<leftarrow> (if r_gameMatch r \<noteq> None then SetGameMatch None room w else Some w);
     w \<leftarrow> foldM (evict_user E) (r_roomUsers r) w;
     Some (w\<lparr>w_rooms := (w_rooms w)(room := None)\<rparr>)
   }"

definition RemoveRoom :: "'e env \<Rightarrow> ptr \<Rightarrow> 'e world \<Rightarrow> 'e world option" where
  "RemoveRoom E room w =
     (if room = 0 then Some w
      else do {
        r \<leftarrow> w_rooms w room;
        w \<leftarrow> SendRemoveRoomPacketToAll (r_roomID r) w;
        let w = w\<lparr>w_ext := DB_RemoveRoom E (w_cfg w) (r_roomID r) (w_ext w)\<rparr>;
        rooms \<leftarrow> vec_erase room (w_roomList w);
        delete_room E room (w\<lparr>w_roomList := rooms\<rparr>)
      })"

definition RemoveAllRooms :: "'e env \<Rightarrow> 'e world \<Rightarrow> 'e world option" where
  "RemoveAllRooms E w =
     foldM (\<lambda>room w. do {
       r \<leftarrow> w_rooms w room;
       w \<leftarrow> SendRemoveRoomPacketToAll (r_roomID r) w;
       delete_room E room w
     }) (w_roomList w) (w\<lparr>w_roomList := []\<rparr>)"

section \<open>Leaving a room\<close>

text \<open>
  What is left to do when the host has left: with a match, hand it over or close it;
  without one, the first user of the room becomes host.
\<close>

definition replace_host :: "ptr \<Rightarrow> ptr list \<Rightarrow> 'e world \<Rightarrow> 'e world option" where
  "replace_host room roomUsers w = do {
     r \<leftarrow> w_rooms w room;
     (case r_gameMatch r of
        Some gm \<Rightarrow> do {
          gameMatchUsers \<leftarrow> connected_match_users w (gm_gameMatchUsers gm);
          (if gameMatchUsers = [] then do {
             w \<leftarrow> SetGameMatch None room w;
             w \<leftarrow> set_room_state RoomState_Waiting room w;
             w \<leftarrow> announce_room_state RoomState_Waiting room roomUsers w;
             first \<leftarrow> vec_at (r_roomUsers r) 0;
             UpdateRoomHostUser first room w
           }
           else migrate_host room gameMatchUsers w)
        }
      | None \<Rightarrow> do {
          first \<leftarrow> vec_at (r_roomUsers r) 0;
          UpdateRoomHostUser first room w
        })
   }"

definition RemoveRoomUser :: "'e env \<Rightarrow> ptr \<Rightarrow> ptr \<Rightarrow> 'e world \<Rightarrow> 'e world option" where
  "RemoveRoomUser E user room w =
     (if user = 0 then Some w
      else do {
        r \<leftarrow> w_rooms w room;
        w \<leftarrow> (case r_gameMatch r of
              None \<Rightarrow> Some w
            | Some gm \<Rightarrow> do { gm \<leftarrow> leave_match user gm; SetGameMatch (Some gm) room w });
        users \<leftarrow> vec_erase user (r_roomUsers r);
        w \<leftarrow> upd_room room (\<lambda>r. r\<lparr>r_roomUsers := users\<rparr>) w;
        w \<leftarrow> SendUpdateRoomPacketToAll room ROOMLIST_FLAG_CURRENTPLAYERS w;
        w \<leftarrow> SetUserStatus InLobby user w;
        w \<leftarrow> SetCurrentRoomID 0 user w;
        (if users = [] then RemoveRoom E room w
         else do {
           w \<leftarrow> UpdateRoom E room w;
           roomUsers \<leftarrow> connected_users w users;
           u \<leftarrow> w_users w user;
           w \<leftarrow> for_users (\<lambda>c w. Some (SendRoomUserLeavePacket c (u_userID u) w)) roomUsers w;
           (if r_roomHostUser r = user then replace_host room roomUsers w else Some w)
         })
      })"

section \<open>Adding a room\<close>

definition AddRoom :: "'e env \<Rightarrow> ptr \<Rightarrow> 'e world \<Rightarrow> (int \<times> 'e world) option" where
  "AddRoom E room w =
     (if room = 0 then Some (-1, w)
      else do {
        r \<leftarrow> w_rooms w room;
        let rs = r_roomSettings r;
        let (result, e) = DB_AddRoom E (w_cfg w) (r_roomID r) False (password rs \<noteq> []) (levelLimit rs)
              (gameModeID rs) (mapID rs) (of_nat (length (r_roomUsers r))) (maxPlayers rs) (w_ext w);
        let w = w\<lparr>w_ext := e\<rparr>;
        Some (result, if result > 0 then w\<lparr>w_roomList := w_roomList w @ [room]\<rparr> else w)
      })"

end
