(* ===== verification/Users.thy ===== *)
theory Users
  imports Rooms
begin

text \<open>
  The operations of \<open>managers/usermanager.cpp\<close> that change the state: admission, removal
  and disconnection of users, the packets after a login, and the channel's player count with
  the datagrams of \<open>UDPServer::SendNumPlayersPacketToAll\<close>.
\<close>

section \<open>Player count\<close>

definition UDP_SERVER_PACKET_SIGNATURE :: u8 where "UDP_SERVER_PACKET_SIGNATURE = 90"
definition ServerPacketType_NUMPLAYERS :: u8 where "ServerPacketType_NUMPLAYERS = 4"

text \<open>
  One datagram per online channel other than this one: its address, its port and what is
  written into it. Nothing when the UDP server is not running.
\<close>

definition SendNumPlayersPacketToAll :: "'e world \<Rightarrow> 'e world" where
  "SendNumPlayersPacketToAll w =
     (if \<not> w_udpRunning w then w
      else
        let cfg = w_cfg w;
            ws = [WriteUInt8 UDP_SERVER_PACKET_SIGNATURE, WriteString (cfg_udpAuthKey cfg),
                  WriteUInt8 (cfg_serverID cfg), WriteUInt8 (cfg_channelID cfg),
                  WriteUInt8 ServerPacketType_NUMPLAYERS,
                  WriteUInt16_LE (of_nat (length (w_userList w)))];
            packets = concat (map (\<lambda>server. concat (map (\<lambda>channel.
                if sv_id server = cfg_serverID cfg \<and> ch_id channel = cfg_channelID cfg then []
                else if ch_isOnline channel then [(ch_ip channel, ch_port channel, ws)] else [])
              (sv_channels server))) (cfg_serverList cfg))
        in w\<lparr>w_udpOut := w_udpOut w @ packets\<rparr>)"

definition UpdateChannelNumPlayers :: "'e world \<Rightarrow> 'e world option" where
  "UpdateChannelNumPlayers w = do {
     let cfg = w_cfg w;
     let i = unat (cfg_serverID cfg - 1);
     let j = unat (cfg_channelID cfg - 1);
     server \<leftarrow> server_at cfg (cfg_serverID cfg);
     channel \<leftarrow> channel_at cfg (cfg_serverID cfg) (cfg_channelID cfg);
     let channel = channel\<lparr>ch_numPlayers := of_nat (length (w_userList w))\<rparr>;
     let server = server\<lparr>sv_channels := (sv_channels server)[j := channel]\<rparr>;
     let cfg = cfg\<lparr>cfg_serverList := (cfg_serverList cfg)[i := server]\<rparr>;
     Some (SendNumPlayersPacketToAll (w\<lparr>w_cfg := cfg\<rparr>))
   }"

section \<open>Admission and removal\<close>

definition AddUser :: "'e env \<Rightarrow> ptr \<Rightarrow> 'e world \<Rightarrow> (int \<times> 'e world) option" where
  "AddUser E user w =
     (if user = 0 then Some (-1, w)
      else if length (w_userList w) \<ge> unat (cfg_maxPlayers (w_cfg w)) then Some (EXCEED_MAX_CONNECTION, w)
      else do {
        u \<leftarrow> w_users w user;
        (result, e) \<leftarrow> AddUserSession E (w_cfg w) (u_userID u) (w_ext w);
        let w = w\<lparr>w_ext := e\<rparr>;
        (if result > 0 then do {
           let w = w\<lparr>w_userList := w_userList w @ [user]\<rparr>;
           let w = w\<lparr>w_ext := RemoveUserTransfer E (u_userID u) (w_ext w)\<rparr>;
           w \<leftarrow> UpdateChannelNumPlayers w;
           Some (result, w)
         }
         else Some (result, w))
      })"

definition RemoveUser :: "'e env \<Rightarrow> ptr \<Rightarrow> 'e world \<Rightarrow> 'e world option" where
  "RemoveUser E user w =
     (if user = 0 then Some w
      else do {
        u \<leftarrow> w_users w user;
        w \<leftarrow> (if u_userStatus u = InLobby then SendRemoveUserPacketToAll user w else Some w);
        u \<leftarrow> w_users w user;
        room \<leftarrow> GetRoomByRoomID (u_currentRoomID u) w;
        w \<leftarrow> (if room \<noteq> 0 then RemoveRoomUser E user room w else Some w);
        u \<leftarrow> w_users w user;
        let w = w\<lparr>w_ext := RemoveUserSession E (u_userID u) (w_ext w)\<rparr>;
        users \<leftarrow> vec_erase user (w_userList w);
        let w = w\<lparr>w_userList := users, w_users := (w_users w)(user := None)\<rparr>;
        UpdateChannelNumPlayers w
      })"

text \<open>
  \<open>DisconnectUser\<close> closes the socket; the pending read then fails and its handler calls
  \<open>DisconnectUserByConnection\<close>.
\<close>

definition DisconnectUser :: "ptr \<Rightarrow> 'e world \<Rightarrow> 'e world option" where
  "DisconnectUser user w =
     (if user = 0 then Some w
      else do {
        c \<leftarrow> conn_of w user;
        Some (if c \<noteq> 0 then upd_conn c DisconnectClient w else w)
      })"

definition DisconnectAllUsers :: "'e world \<Rightarrow> 'e world option" where
  "DisconnectAllUsers w = foldM DisconnectUser (w_userList w) w"

text \<open>
  \<open>bad_descriptor\<close> says whether the error is the one of a socket closed before, for which
  \<open>DisconnectClient(ec)\<close> does nothing.
\<close>

definition DisconnectUserByConnection :: "'e env \<Rightarrow> ptr \<Rightarrow> bool \<Rightarrow> 'e world \<Rightarrow> 'e world option" where
  "DisconnectUserByConnection E connection bad_descriptor w =
     (if connection = 0 then Some w
      else do {
        user \<leftarrow> GetUserByConnection connection w;
        w \<leftarrow> (if user \<noteq> 0 then RemoveUser E user w else Some w);
        Some (if bad_descriptor then w else upd_conn connection DisconnectClient w)
      })"

definition OnMinuteTick :: "'e env \<Rightarrow> u64 \<Rightarrow> 'e world \<Rightarrow> 'e world" where
  "OnMinuteTick E now w = w\<lparr>w_ext := RemoveOldUserTransfers E (w_cfg w) now (w_ext w)\<rparr>"

section \<open>After a login\<close>

text \<open>A cipher is set up on the connection and, when that works, announced in clear.\<close>

definition offer_cipher ::
  "('e env \<Rightarrow> CipherMethod \<Rightarrow> conn \<Rightarrow> 'e \<Rightarrow> bool \<times> conn \<times> 'e) \<Rightarrow> (conn \<Rightarrow> Cipher) \<Rightarrow> CipherType \<Rightarrow>
   'e env \<Rightarrow> CipherMethod \<Rightarrow> ptr \<Rightarrow> 'e world \<Rightarrow> 'e world" where
  "offer_cipher setup cipher_of t E method connection w =
     (let (ok, c, e) = setup E method (w_conns w connection) (w_ext w);
          w = w\<lparr>w_conns := (w_conns w)(connection := c), w_ext := e\<rparr>
      in if ok then SendPacket_Crypt connection t (cipher_of c) w else w)"

definition send_login_data :: "'e env \<Rightarrow> ptr \<Rightarrow> u32 \<Rightarrow> 'e world \<Rightarrow> 'e world option" where
  "send_login_data E connection userID w = do {
     let w = SendPacket_ServerList connection (cfg_serverList (w_cfg w)) w;
     (userConfig, e) \<leftarrow> GetUserConfig E userID (w_ext w);
     let w = w\<lparr>w_ext := e\<rparr>;
     let w = (if userConfig \<noteq> [] then SendPacket_Option_UserConfig connection userConfig w else w);
     (q, e) \<leftarrow> GetUserQuickStart E userID (w_ext w);
     let w = SendPacket_Option_UserQuickStart connection q (w\<lparr>w_ext := e\<rparr>);
     (userBuyMenus, e) \<leftarrow> GetUserBuyMenus E userID (w_ext w);
     let w = w\<lparr>w_ext := e\<rparr>;
     let w = (if userBuyMenus \<noteq> [] then SendPacket_Favorite_UserBuyMenu connection userBuyMenus w else w);
     (userBookMarks, e) \<leftarrow> GetUserBookMarks E userID (w_ext w);
     let w = w\<lparr>w_ext := e\<rparr>;
     Some (if userBookMarks \<noteq> [] then SendPacket_Favorite_UserBookMark connection userBookMarks w else w)
   }"

definition SendLoginPackets :: "'e env \<Rightarrow> ptr \<Rightarrow> int \<Rightarrow> 'e world \<Rightarrow> 'e world option" where
  "SendLoginPackets E user reply w =
     (if user = 0 then Some w
      else do {
        u \<leftarrow> w_users w user;
        let connection = u_connection u;
        (if connection = 0 then DisconnectUser user w
         else do {
           ((userCharacter, result), w) \<leftarrow> user_character E user USERCHARACTER_FLAG_ALL w;
           (if result \<le> 0 then DisconnectUser user (SendPacket_Reply connection SysError [] w)
            else do {
              let w = offer_cipher SetupEncryptCipher c_encryptCipher CipherType_Encrypt E
                    (cfg_encryptCipherMethod (w_cfg w)) connection w;
              let w = offer_cipher SetupDecryptCipher c_decryptCipher CipherType_Decrypt E
                    (cfg_decryptCipherMethod (w_cfg w)) connection w;
              let w = (if reply \<noteq> NoReply then SendPacket_Reply connection reply [] w else w);
              w \<leftarrow> SendPacket_UserStart (user, userCharacter) w;
              w \<leftarrow> SendPacket_UpdateInfo (user, userCharacter) w;
              (userInventory, e) \<leftarrow> GetUserInventory E (u_userID u) (w_ext w);
              let w = w\<lparr>w_ext := e\<rparr>;
              let w = (if userInventory \<noteq> [] then SendPacket_Inventory connection userInventory w else w);
              let w = SendPacket_ClientCheck connection w;
              (if reply \<noteq> NoReply then do {
                 w \<leftarrow> SetUserStatus InServerList user w;
                 send_login_data E connection (u_userID u) w
               }
               else do {
                 w \<leftarrow> SetUserStatus InLobby user w;
                 w \<leftarrow> SendAddUserPacketToAll E user w;
                 w \<leftarrow> SendFullUserListPacket E connection w;
                 SendFullRoomListPacket connection w
               })
            })
         })
      })"

end
