(* ===== verification/RoomPackets.thy ===== *)
theory RoomPackets
  imports Users
begin

text \<open>
  The handlers of \<open>managers/packet_roommanager.cpp\<close>: \<open>ParsePacket_Room\<close> and the seven
  messages a client sends about rooms. The reads of a packet are in the code's order.
\<close>

section \<open>Constants\<close>

definition ROOM_JOIN_FAILED_CLOSED :: string where
  "ROOM_JOIN_FAILED_CLOSED = ''ROOM_JOIN_FAILED_CLOSED''"
definition ROOM_JOIN_FAILED_INVALID_PASSWD :: string where
  "ROOM_JOIN_FAILED_INVALID_PASSWD = ''ROOM_JOIN_FAILED_INVALID_PASSWD''"
definition ROOM_JOIN_FAILED_FULL :: string where
  "ROOM_JOIN_FAILED_FULL = ''ROOM_JOIN_FAILED_FULL''"
definition ROOM_JOIN_FAILED_INVALID_GAME_IP :: string where
  "ROOM_JOIN_FAILED_INVALID_GAME_IP = ''ROOM_JOIN_FAILED_INVALID_GAME_IP''"

definition GameMode_Original :: u8 where "GameMode_Original = 0"
definition GameMode_DeathMatch :: u8 where "GameMode_DeathMatch = 1"
definition GameMode_Bot :: u8 where "GameMode_Bot = 3"
definition GameMode_BotDM :: u8 where "GameMode_BotDM = 4"
definition GameMode_Official :: u8 where "GameMode_Official = 6"
definition GameMode_Official_TieBreak :: u8 where "GameMode_Official_TieBreak = 7"

section \<open>CreateRoom\<close>

text \<open>
  The settings of a new room from the packet, and \<open>fastStart\<close>. The reads named \<open>unk\<close>
  in the source are dropped.
\<close>

definition read_create_room :: "RoomSettings \<Rightarrow> packet \<Rightarrow> RoomSettings \<times> bool" where
  "read_create_room rs p =
     (let (name, p) = ReadString p; (unk, p) = ReadUInt8 p; (maxP, p) = ReadUInt8 p;
          (mode, p) = ReadUInt8 p; (map_id, p) = ReadUInt8 p; (winL, p) = ReadUInt8 p;
          (killL, p) = ReadUInt16_LE p; (timeL, p) = ReadUInt8 p; (roundT, p) = ReadUInt8 p;
          (pw, p) = ReadString p; (unk, p) = ReadUInt8 p; (unk, p) = ReadUInt8 p;
          (fastStart, p) = ReadBool p;
          rs = rs\<lparr>roomName := name, maxPlayers := maxP, gameModeID := mode, mapID := map_id,
                  winLimit := winL, killLimit := killL, timeLimit := timeL, roundTime := roundT,
                  password := pw, hostagePenalty := 3\<rparr>;
          rs = (if mode \<in> {GameMode_Original, GameMode_Bot, GameMode_Official, GameMode_Official_TieBreak}
                then rs\<lparr>freezeTime := 6\<rparr> else rs);
          rs = rs\<lparr>buyTime := 90, nickNameDisplay := 1\<rparr>;
          rs = (if mode = GameMode_DeathMatch \<or> mode = GameMode_BotDM then rs\<lparr>friendlyFire := True\<rparr> else rs);
          rs = rs\<lparr>flashLight := True, footSteps := True, voiceChat := True\<rparr>
      in (rs, fastStart))"

text \<open>\<open>new Room(roomID, user)\<close>: the next free address.\<close>

definition alloc_room :: "u16 \<Rightarrow> ptr \<Rightarrow> 'e world \<Rightarrow> ptr \<times> 'e world" where
  "alloc_room roomID user w =
     (w_next w, w\<lparr>w_rooms := (w_rooms w)(w_next w \<mapsto> new_room roomID user), w_next := w_next w + 1\<rparr>)"

definition parsePacket_Room_CreateRoom :: "'e env \<Rightarrow> ptr \<Rightarrow> packet \<Rightarrow> 'e world \<Rightarrow> 'e world option" where
  "parsePacket_Room_CreateRoom E user packet w =
     (if user = 0 then Some w
      else do {
        u \<leftarrow> w_users w user;
        let connection = u_connection u;
        (if connection = 0 then Some w
         else if u_userStatus u = InRoom then Some w
         else do {
           roomID \<leftarrow> GetFreeRoomID w;
           (if roomID = 0 then Some w
            else do {
              let (newRoom, w) = alloc_room roomID user w;
              ((userCharacter, result), w) \<leftarrow> user_character E user USERCHARACTER_FLAG_ALL w;
              (if result \<le> 0 then delete_room E newRoom (SendPacket_Reply connection SysError [] w)
               else do {
                 r \<leftarrow> w_rooms w newRoom;
                 let (rs, fastStart) = read_create_room (r_roomSettings r) packet;
                 w \<leftarrow> upd_room newRoom (\<lambda>r. r\<lparr>r_roomSettings := rs\<rparr>) w;
                 (_, w) \<leftarrow> AddRoomUser user newRoom w;
                 w \<leftarrow> SendRemoveUserPacketToAll user w;
                 (added, w) \<leftarrow> AddRoom E newRoom w;
                 (if added \<le> 0 then do {
                    w \<leftarrow> SetUserStatus InLobby user w;
                    w \<leftarrow> SetCurrentRoomID 0 user w;
                    w \<leftarrow> SendAddUserPacketToAll E user w;
                    delete_room E newRoom (SendPacket_Reply connection SysError [] w)
                  }
                  else do {
                    w \<leftarrow> SendAddRoomPacketToAll newRoom ROOMLIST_FLAG_ALL w;
                    w \<leftarrow> sendPacket_Room_ReplyCreateAndJoin connection newRoom [(user, userCharacter)] w;
                    (if fastStart then SendPacket_Host_HostStart user w else Some w)
                  })
               })
            })
         })
      })"

section \<open>JoinRoom\<close>

text \<open>What every other user of the room is sent, collecting the sheets of the room.\<close>

definition greet_room_user ::
  "'e env \<Rightarrow> ptr \<Rightarrow> UserCharacter \<Rightarrow> u32 \<Rightarrow> ptr \<Rightarrow> GameUser list \<times> 'e world \<Rightarrow> (GameUser list \<times> 'e world) option" where
  "greet_room_user E user userCharacter userID = (\<lambda>u (gameUsers, w). do {
     ((uc, result), w) \<leftarrow> user_character E u USERCHARACTER_FLAG_ALL w;
     c \<leftarrow> conn_of w u;
     w \<leftarrow> sendPacket_Room_UserJoin c (user, userCharacter) w;
     let w = sendPacket_Room_UserReady c userID 0 w;
     Some (if result > 0 then gameUsers @ [(u, uc)] else gameUsers, w)
   })"

definition parsePacket_Room_JoinRoom :: "'e env \<Rightarrow> ptr \<Rightarrow> packet \<Rightarrow> 'e world \<Rightarrow> 'e world option" where
  "parsePacket_Room_JoinRoom E user packet w =
     (if user = 0 then Some w
      else do {
        u \<leftarrow> w_users w user;
        let connection = u_connection u;
        (if connection = 0 then Some w
         else if u_userStatus u = InRoom then Some w
         else do {
           let (roomID, packet) = ReadUInt16_LE packet;
           let (pw, packet) = ReadString packet;
           room \<leftarrow> GetRoomByRoomID roomID w;
           (if room = 0 then
              Some (SendPacket_UMsg_ServerMessage connection WarningMessage ROOM_JOIN_FAILED_CLOSED [] w)
            else do {
              r \<leftarrow> w_rooms w room;
              let rs = r_roomSettings r;
              (if password rs \<noteq> [] \<and> pw \<noteq> password rs then
                 Some (SendPacket_UMsg_ServerMessage connection WarningMessage ROOM_JOIN_FAILED_INVALID_PASSWD [] w)
               else if length (r_roomUsers r) \<ge> unat (maxPlayers rs) then
                 Some (SendPacket_UMsg_ServerMessage connection WarningMessage ROOM_JOIN_FAILED_FULL [] w)
               else do {
                 ((userCharacter, result), w) \<leftarrow> user_character E user USERCHARACTER_FLAG_ALL w;
                 (if result \<le> 0 then Some (SendPacket_Reply connection SysError [] w)
                  else do {
                    (added, w) \<leftarrow> AddRoomUser user room w;
                    (if added = 0 then Some w
                     else do {
                       w \<leftarrow> UpdateRoom E room w;
                       w \<leftarrow> SendRemoveUserPacketToAll user w;
                       w \<leftarrow> SendUpdateRoomPacketToAll room ROOMLIST_FLAG_CURRENTPLAYERS w;
                       r \<leftarrow> w_rooms w room;
                       roomUsers \<leftarrow> filterM (keep_user (\<lambda>u x. u \<noteq> user \<and> u_connection x \<noteq> 0) w) (r_roomUsers r);
                       (gameUsers, w) \<leftarrow> foldM (greet_room_user E user userCharacter (u_userID u)) roomUsers ([], w);
                       w \<leftarrow> sendPacket_Room_ReplyCreateAndJoin connection room (gameUsers @ [(user, userCharacter)]) w;
                       Some (sendPacket_Room_UserReady connection (u_userID u) 0 w)
                     })
                  })
               })
            })
         })
      })"

section \<open>LeaveRoom and StartGame\<close>

definition parsePacket_Room_LeaveRoom :: "'e env \<Rightarrow> ptr \<Rightarrow> packet \<Rightarrow> 'e world \<Rightarrow> 'e world option" where
  "parsePacket_Room_LeaveRoom E user packet w =
     (if user = 0 then Some w
      else do {
        u \<leftarrow> w_users w user;
        let connection = u_connection u;
        (if connection = 0 then Some w
         else if \<not> in_room u then Some w
         else do {
           room \<leftarrow> GetRoomByRoomID (u_currentRoomID u) w;
           (if room = 0 then Some w
            else do {
              w \<leftarrow> RemoveRoomUser E user room w;
              w \<leftarrow> SendAddUserPacketToAll E user w;
              let w = SendPacket_Room_LeaveRoomInGame connection w;
              w \<leftarrow> SendFullUserListPacket E connection w;
              SendFullRoomListPacket connection w
            })
         })
      })"

definition parsePacket_Room_StartGame :: "ptr \<Rightarrow> 'e world \<Rightarrow> 'e world option" where
  "parsePacket_Room_StartGame user w =
     (if user = 0 then Some w
      else do {
        u \<leftarrow> w_users w user;
        let connection = u_connection u;
        (if connection = 0 then Some w
         else if u_userStatus u \<noteq> InRoom then Some w
         else do {
           room \<leftarrow> GetRoomByRoomID (u_currentRoomID u) w;
           (if room = 0 then Some w
            else if un_networkSet (u_userNetwork u) \<noteq> 3 then
              Some (SendPacket_UMsg_ServerMessage connection WarningMessage ROOM_JOIN_FAILED_INVALID_GAME_IP [] w)
            else do {
              r \<leftarrow> w_rooms w room;
              (if r_roomHostUser r = 0 then Some w
               else if r_roomHostUser r = user then SendPacket_Host_HostStart user w
               else do {
                 host \<leftarrow> w_users w (r_roomHostUser r);
                 Some (SendPacket_Host_HostJoin connection (u_userID host) w)
               })
            })
         })
      })"

section \<open>UpdateRoomSettings and ResultConfirm\<close>

definition parsePacket_Room_UpdateRoomSettings :: "'e env \<Rightarrow> ptr \<Rightarrow> packet \<Rightarrow> 'e world \<Rightarrow> 'e world option" where
  "parsePacket_Room_UpdateRoomSettings E user packet w =
     (if user = 0 then Some w
      else do {
        u \<leftarrow> w_users w user;
        (if u_userStatus u \<noteq> InRoom then Some w
         else do {
           room \<leftarrow> GetRoomByRoomID (u_currentRoomID u) w;
           (if room = 0 then Some w
            else do {
              r \<leftarrow> w_rooms w room;
              (if r_roomHostUser r \<noteq> user then Some w
               else do {
                 let ((rs, roomListFlag), packet) = readRoomSettings packet;
                 w \<leftarrow> Room_UpdateRoomSettings rs room w;
                 w \<leftarrow> UpdateRoom E room w;
                 w \<leftarrow> SendUpdateRoomPacketToAll room (ucast roomListFlag) w;
                 roomUsers \<leftarrow> connected_users w (r_roomUsers r);
                 for_users (\<lambda>c w. Some (SendPacket_Room_ReplyUpdateRoomSettings c rs w)) roomUsers w
               })
            })
         })
      })"

definition parsePacket_Room_ResultConfirm :: "ptr \<Rightarrow> packet \<Rightarrow> 'e world \<Rightarrow> 'e world option" where
  "parsePacket_Room_ResultConfirm user packet w =
     (if user = 0 then Some w
      else do {
        u \<leftarrow> w_users w user;
        let connection = u_connection u;
        (if connection = 0 then Some w
         else if u_userStatus u \<noteq> InRoom then Some w
         else do {
           room \<leftarrow> GetRoomByRoomID (u_currentRoomID u) w;
           Some (if room = 0 then w else SendPacket_Host_ResultClose connection w)
         })
      })"

section \<open>ReturnToRoom\<close>

definition close_or_migrate :: "ptr \<Rightarrow> GameMatchUser list \<Rightarrow> 'e world \<Rightarrow> 'e world option" where
  "close_or_migrate room gameMatchUsers w =
     (if gameMatchUsers = [] then do {
        w \<leftarrow> SetGameMatch None room w;
        w \<leftarrow> set_room_state RoomState_Waiting room w;
        r \<leftarrow> w_rooms w room;
        roomUsers \<leftarrow> connected_users w (r_roomUsers r);
        announce_room_state RoomState_Waiting room roomUsers w
      }
      else migrate_host room gameMatchUsers w)"

definition parsePacket_Room_ReturnToRoom :: "ptr \<Rightarrow> 'e world \<Rightarrow> 'e world option" where
  "parsePacket_Room_ReturnToRoom user w =
     (if user = 0 then Some w
      else do {
        u \<leftarrow> w_users w user;
        (if u_connection u = 0 then Some w
         else if \<not> in_room u then Some w
         else do {
           room \<leftarrow> GetRoomByRoomID (u_currentRoomID u) w;
           (if room = 0 then Some w
            else do {
              r \<leftarrow> w_rooms w room;
              (case r_gameMatch r of
                 None \<Rightarrow> Some w
               | Some gm \<Rightarrow> do {
                   gm \<leftarrow> leave_match user gm;
                   w \<leftarrow> SetGameMatch (Some gm) room w;
                   w \<leftarrow> (if user = r_roomHostUser r then do {
                           gameMatchUsers \<leftarrow> connected_match_users w (gm_gameMatchUsers gm);
                           close_or_migrate room gameMatchUsers w
                         }
                         else Some w);
                   SetUserStatus InRoom user w
                 })
            })
         })
      })"

section \<open>Dispatch\<close>

definition ParsePacket_Room :: "'e env \<Rightarrow> packet \<Rightarrow> 'e world \<Rightarrow> 'e world option" where
  "ParsePacket_Room E packet w =
     (if p_connection packet = 0 then Some w
      else do {
        user \<leftarrow> GetUserByConnection (p_connection packet) w;
        loggedIn \<leftarrow> IsUserLoggedIn user w;
        (if \<not> loggedIn then Some w
         else do {
           let (t, packet) = ReadUInt8 packet;
           (if t = 0 then parsePacket_Room_CreateRoom E user packet w
            else if t = 1 then parsePacket_Room_JoinRoom E user packet w
            else if t = 2 then parsePacket_Room_LeaveRoom E user packet w
            else if t = 4 then parsePacket_Room_StartGame user w
            else if t = 5 then parsePacket_Room_UpdateRoomSettings E user packet w
            else if t = 6 then parsePacket_Room_ResultConfirm user packet w
            else if t = 11 then parsePacket_Room_ReturnToRoom user w
            else Some w)
         })
      })"

end
