(* ===== verification/HostPackets.thy ===== *)
theory HostPackets
  imports RoomPackets
begin

text \<open>
  The handlers of \<open>managers/packet_hostmanager.cpp\<close>: what the client that hosts a game
  reports about it.
\<close>

definition SAVEDATA_MAX_SIZE :: nat where "SAVEDATA_MAX_SIZE = 51200"
definition USERSTATUS_INGAME :: u8 where "USERSTATUS_INGAME = 1"

section \<open>The common guards\<close>

text \<open>
  Every handler but the first starts with the same tests, in this order: the user's
  status, its room, the room's match, and that the user is the room's host. The rest of the
  handler, \<open>k\<close>, runs when all of them pass; otherwise the packet is ignored.
\<close>

definition with_match ::
  "(user \<Rightarrow> bool) \<Rightarrow> ptr \<Rightarrow> 'e world \<Rightarrow> (ptr \<Rightarrow> room \<Rightarrow> GameMatch \<Rightarrow> 'e world option) \<Rightarrow> 'e world option" where
  "with_match status_ok user w k =
     (if user = 0 then Some w
      else do {
        u \<leftarrow> w_users w user;
        (if \<not> status_ok u then Some w
         else do {
           room \<leftarrow> GetRoomByRoomID (u_currentRoomID u) w;
           (if room = 0 then Some w
            else do {
              r \<leftarrow> w_rooms w room;
              (case r_gameMatch r of
                 None \<Rightarrow> Some w
               | Some gm \<Rightarrow> if r_roomHostUser r \<noteq> user then Some w else k room r gm)
            })
         })
      })"

abbreviation in_game :: "user \<Rightarrow> bool" where
  "in_game u \<equiv> u_userStatus u = InGame"

text \<open>The match user with a given user id: NULL unless both lookups succeed.\<close>

definition match_user_by_id :: "u32 \<Rightarrow> GameMatch \<Rightarrow> 'e world \<Rightarrow> GameMatchUser option option" where
  "match_user_by_id userID gm w = do {
     targetUser \<leftarrow> GetUserByUserID userID w;
     Some (GetGameMatchUserByUser targetUser gm)
   }"

section \<open>The match begins\<close>

definition parsePacket_Host_ServerIsActivated :: "ptr \<Rightarrow> 'e world \<Rightarrow> 'e world option" where
  "parsePacket_Host_ServerIsActivated user w =
     (if user = 0 then Some w
      else do {
        u \<leftarrow> w_users w user;
        (if \<not> in_room u then Some w
         else do {
           room \<leftarrow> GetRoomByRoomID (u_currentRoomID u) w;
           (if room = 0 then Some w
            else do {
              r \<leftarrow> w_rooms w room;
              (if r_roomHostUser r \<noteq> user then Some w
               else if r_gameMatch r \<noteq> None then Some w
               else do {
                 w \<leftarrow> SetGameMatch (Some (new_GameMatch (r_roomID r))) room w;
                 w \<leftarrow> set_room_state RoomState_Playing room w;
                 roomUsers \<leftarrow> connected_users w (r_roomUsers r);
                 announce_room_state RoomState_Playing room roomUsers w
               })
            })
         })
      })"

definition parsePacket_Host_SaveData :: "ptr \<Rightarrow> packet \<Rightarrow> 'e world \<Rightarrow> 'e world option" where
  "parsePacket_Host_SaveData user packet w =
     with_match in_game user w (\<lambda>room r gm.
       let (saveSize, packet) = ReadUInt16_LE packet in
       if saveSize = 0 \<or> unat saveSize > SAVEDATA_MAX_SIZE then Some w
       else let (saveData, packet) = ReadArray_UInt8 (unat saveSize) packet in
         SetGameMatch (Some (gm\<lparr>gm_saveData := saveData\<rparr>)) room w)"

text \<open>A user of the host's room enters the game.\<close>

definition parsePacket_Host_SendUserStatus :: "ptr \<Rightarrow> packet \<Rightarrow> 'e world \<Rightarrow> 'e world option" where
  "parsePacket_Host_SendUserStatus user packet w =
     with_match in_room user w (\<lambda>room r gm. do {
       let (userID, packet) = ReadUInt32_LE packet;
       targetUser \<leftarrow> GetUserByUserID userID w;
       (if targetUser = 0 then Some w
        else do {
          t \<leftarrow> w_users w targetUser;
          (if \<not> in_room t then Some w
           else do {
             targetRoom \<leftarrow> GetRoomByRoomID (u_currentRoomID t) w;
             (if targetRoom \<noteq> room then Some w
              else
                let (status, packet) = ReadUInt8 packet in
                if status \<noteq> USERSTATUS_INGAME then Some w
                else if GetGameMatchUserByUser targetUser gm \<noteq> None then Some w
                else do {
                  w \<leftarrow> SetGameMatch (Some (AddGameMatchUser (new_GameMatchUser targetUser) gm)) room w;
                  SetUserStatus InGame targetUser w
                })
           })
        })
     })"

section \<open>During the match\<close>

text \<open>
  These handlers check the users they name and log; the reads after the checks have no
  effect.
\<close>

definition parsePacket_Host_PlayerKilled :: "ptr \<Rightarrow> packet \<Rightarrow> 'e world \<Rightarrow> 'e world option" where
  "parsePacket_Host_PlayerKilled user packet w =
     with_match in_game user w (\<lambda>room r gm. do {
       let (attackerUserID, packet) = ReadUInt32_LE packet;
       (if attackerUserID \<noteq> 0 then do { _ \<leftarrow> match_user_by_id attackerUserID gm w; Some w } else Some w)
     })"

definition parsePacket_Host_AddKill :: "ptr \<Rightarrow> packet \<Rightarrow> 'e world \<Rightarrow> 'e world option" where
  "parsePacket_Host_AddKill user packet w =
     with_match in_game user w (\<lambda>room r gm. do {
       let (userID, packet) = ReadUInt32_LE packet;
       (if userID \<noteq> 0 then do { _ \<leftarrow> match_user_by_id userID gm w; Some w } else Some w)
     })"

definition parsePacket_Host_AddDeath :: "ptr \<Rightarrow> packet \<Rightarrow> 'e world \<Rightarrow> 'e world option" where
  "parsePacket_Host_AddDeath user packet w =
     with_match in_game user w (\<lambda>room r gm. do {
       let (userID, packet) = ReadUInt32_LE packet;
       _ \<leftarrow> match_user_by_id userID gm w;
       Some w
     })"

definition parsePacket_Host_RoundResult :: "ptr \<Rightarrow> packet \<Rightarrow> 'e world \<Rightarrow> 'e world option" where
  "parsePacket_Host_RoundResult user packet w = with_match in_game user w (\<lambda>room r gm. Some w)"

text \<open>
  \<open>rejoinFailUserIDs\<close> is the text of the ids; writing its last character is undefined
  when there is none.
\<close>

definition parsePacket_Host_RejoinFail :: "ptr \<Rightarrow> packet \<Rightarrow> 'e world \<Rightarrow> 'e world option" where
  "parsePacket_Host_RejoinFail user packet w =
     with_match in_game user w (\<lambda>room r gm. do {
       let (rejoinFailUserCount, packet) = ReadUInt8 packet;
       let (ids, packet) = read_many ReadUInt32_LE (unat rejoinFailUserCount) packet;
       let rejoinFailUserIDs = concat (map (\<lambda>i. '' '' @ fmt i @ '','') ids);
       _ \<leftarrow> set_last CHR '' '' rejoinFailUserIDs;
       Some w
     })"

text \<open>\<open>SetTeam\<close> on the match user found: the first one of that user.\<close>

fun update_first :: "('a \<Rightarrow> bool) \<Rightarrow> ('a \<Rightarrow> 'a) \<Rightarrow> 'a list \<Rightarrow> 'a list" where
  "update_first P f [] = []"
| "update_first P f (x # xs) = (if P x then f x # xs else x # update_first P f xs)"

definition parsePacket_Host_SelectTeam :: "ptr \<Rightarrow> packet \<Rightarrow> 'e world \<Rightarrow> 'e world option" where
  "parsePacket_Host_SelectTeam user packet w =
     with_match in_game user w (\<lambda>room r gm. do {
       let (userID, packet) = ReadUInt32_LE packet;
       targetUser \<leftarrow> GetUserByUserID userID w;
       (if targetUser = 0 \<or> GetGameMatchUserByUser targetUser gm = None then Some w
        else
          let (team, packet) = ReadUInt8 packet in
          if team \<noteq> Team_Terrorist \<and> team \<noteq> Team_CounterTerrorist then Some w
          else SetGameMatch (Some (gm\<lparr>gm_gameMatchUsers :=
                 update_first (\<lambda>g. gmu_user g = targetUser) (\<lambda>g. g\<lparr>gmu_team := team\<rparr>)
                   (gm_gameMatchUsers gm)\<rparr>)) room w)
     })"

section \<open>The match ends\<close>

definition end_game_user :: "ptr \<Rightarrow> 'e world \<Rightarrow> 'e world option" where
  "end_game_user u w = do {
     w \<leftarrow> SetUserStatus InRoom u w;
     c \<leftarrow> conn_of w u;
     Some (SendPacket_Room_GameResult c (sendPacket_Host_HostEndSession c w))
   }"

definition parsePacket_Host_EndGame :: "ptr \<Rightarrow> packet \<Rightarrow> 'e world \<Rightarrow> 'e world option" where
  "parsePacket_Host_EndGame user packet w =
     with_match in_game user w (\<lambda>room r gm. do {
       gameMatchUsers \<leftarrow> connected_match_users w (gm_gameMatchUsers gm);
       w \<leftarrow> foldM end_game_user (map gmu_user gameMatchUsers) w;
       w \<leftarrow> SetGameMatch None room w;
       w \<leftarrow> set_room_state RoomState_Waiting room w;
       r \<leftarrow> w_rooms w room;
       roomUsers \<leftarrow> connected_users w (r_roomUsers r);
       announce_room_state RoomState_Waiting room roomUsers w
     })"

section \<open>Dispatch\<close>

definition ParsePacket_Host :: "packet \<Rightarrow> 'e world \<Rightarrow> 'e world option" where
  "ParsePacket_Host packet w =
     (if p_connection packet = 0 then Some w
      else do {
        user \<leftarrow> GetUserByConnection (p_connection packet) w;
        loggedIn \<leftarrow> IsUserLoggedIn user w;
        (if \<not> loggedIn then Some w
         else do {
           let (t, packet) = ReadUInt8 packet;
           (if t = 0 then parsePacket_Host_ServerIsActivated user w
            else if t = 1 then parsePacket_Host_SaveData user packet w
            else if t = 2 then parsePacket_Host_SendUserStatus user packet w
            else if t = 3 then parsePacket_Host_PlayerKilled user packet w
            else if t = 5 then parsePacket_Host_EndGame user packet w
            else if t = 6 then parsePacket_Host_RejoinFail user packet w
            else if t = 7 then parsePacket_Host_AddKill user packet w
            else if t = 8 then parsePacket_Host_AddDeath user packet w
            else if t = 9 then parsePacket_Host_RoundResult user packet w
            else if t = 10 then parsePacket_Host_SelectTeam user packet w
            else Some w)
         })
      })"

end
