(* ===== verification/LoginPackets.thy ===== *)
theory LoginPackets
  imports "HOL-Library.Sublist" HostPackets
begin

text \<open>
  The handlers that bring a client into the channel: the version check, the login by password
  and by transfer token, the request for a token, the creation of a character and the server
  list (\<open>packet_versionmanager\<close>, \<open>packet_loginmanager\<close>, \<open>packet_transfermanager\<close>,
  \<open>packet_charactermanager\<close>, \<open>packet_serverlistmanager\<close>, \<open>packet_cryptmanager\<close>).
\<close>

section \<open>Shared shapes\<close>

text \<open>
  The prologue of almost every handler: the user of the packet's connection, which must be
  logged in.
\<close>

definition with_user :: "packet \<Rightarrow> 'e world \<Rightarrow> (ptr \<Rightarrow> 'e world option) \<Rightarrow> 'e world option" where
  "with_user packet w f =
     (if p_connection packet = 0 then Some w
      else do {
        user \<leftarrow> GetUserByConnection (p_connection packet) w;
        loggedIn \<leftarrow> IsUserLoggedIn user w;
        (if \<not> loggedIn then Some w else f user)
      })"

text \<open>And of the handlers of a client that must not be logged in.\<close>

definition unless_logged_in :: "ptr \<Rightarrow> 'e world \<Rightarrow> 'e world option \<Rightarrow> 'e world option" where
  "unless_logged_in connection w m = do {
     user \<leftarrow> GetUserByConnection connection w;
     loggedIn \<leftarrow> IsUserLoggedIn user w;
     (if loggedIn then Some w else m)
   }"

definition PacketID_Transfer :: u8 where "PacketID_Transfer = 2"
definition PacketID_Character :: u8 where "PacketID_Character = 6"

section \<open>Version\<close>

definition LAUNCHER_VERSION :: u8 where "LAUNCHER_VERSION = 67"
definition CLIENT_VERSION :: u16 where "CLIENT_VERSION = 11"
definition CLIENT_BUILD_TIMESTAMP :: string where "CLIENT_BUILD_TIMESTAMP = ''11.06.08''"
definition CLIENT_NAR_CHECKSUM :: u32 where "CLIENT_NAR_CHECKSUM = 1860010506"
definition INVALID_CLIENT_VERSION :: int where "INVALID_CLIENT_VERSION = 38"

text \<open>\<open>strftime\<close> with \<open>%d.%m.%y\<close>.\<close>

definition two_digits :: "nat \<Rightarrow> string" where
  "two_digits n = [digit_char (n div 10), digit_char (n mod 10)]"

definition date_string :: "nat \<times> nat \<times> nat \<Rightarrow> string" where
  "date_string d = (case d of (mday, mon, year) \<Rightarrow>
     two_digits mday @ ''.'' @ two_digits (mon + 1) @ ''.'' @ two_digits (year mod 100))"

definition sendPacket_Version :: "ptr \<Rightarrow> 'e world \<Rightarrow> 'e world" where
  "sendPacket_Version connection w = send connection PacketID_Version [] w"

definition ParsePacket_Version :: "'e env \<Rightarrow> packet \<Rightarrow> 'e world \<Rightarrow> 'e world option" where
  "ParsePacket_Version E packet w =
     (let connection = p_connection packet in
      if connection = 0 then Some w
      else if c_versionReceived (w_conns w connection) then Some w
      else unless_logged_in connection w (
        let (launcherVersion, p) = ReadUInt8 packet; (clientVersion, p) = ReadUInt16_LE p;
            (clientBuildTimestamp, p) = ReadUInt32_LE p; (clientNARChecksum, p) = ReadUInt32_LE p
        in if launcherVersion \<noteq> LAUNCHER_VERSION
           then Some (SendPacket_Reply connection INVALID_CLIENT_VERSION [] w)
           else if clientVersion \<noteq> CLIENT_VERSION
           then Some (SendPacket_Reply connection INVALID_CLIENT_VERSION [] w)
           else if date_string (localtime_s E clientBuildTimestamp) \<noteq> CLIENT_BUILD_TIMESTAMP
           then Some (SendPacket_Reply connection INVALID_CLIENT_VERSION [] w)
           else if clientNARChecksum \<noteq> CLIENT_NAR_CHECKSUM
           then Some (SendPacket_Reply connection INVALID_CLIENT_VERSION [] w)
           else Some (sendPacket_Version connection
             (upd_conn connection (\<lambda>c. c\<lparr>c_versionReceived := True\<rparr>) w))))"

section \<open>Login\<close>

definition HARDWARE_ID_SIZE :: nat where "HARDWARE_ID_SIZE = 16"

definition SendPacket_Character :: "ptr \<Rightarrow> 'e world \<Rightarrow> 'e world" where
  "SendPacket_Character connection w = send connection PacketID_Character [] w"

text \<open>\<open>new User(connection, userID, userName)\<close> and \<open>delete\<close>.\<close>

definition alloc_user :: "ptr \<Rightarrow> u32 \<Rightarrow> string \<Rightarrow> 'e world \<Rightarrow> ptr \<times> 'e world" where
  "alloc_user connection userID userName w =
     (w_next w, w\<lparr>w_users := (w_users w)(w_next w \<mapsto> new_user connection userID userName),
                  w_next := w_next w + 1\<rparr>)"

definition free_user :: "ptr \<Rightarrow> 'e world \<Rightarrow> 'e world option" where
  "free_user p w = map_option (\<lambda>_. w\<lparr>w_users := (w_users w)(p := None)\<rparr>) (w_users w p)"

text \<open>\<open>User::IsUserCharacterExists\<close>.\<close>

definition IsUserCharacterExists :: "'e env \<Rightarrow> ptr \<Rightarrow> 'e world \<Rightarrow> (int \<times> 'e world) option" where
  "IsUserCharacterExists E user w = do {
     ((_, result), w) \<leftarrow> user_character E user 0 w;
     Some (result, w)
   }"

text \<open>
  The admission that \<open>ParsePacket_Login\<close> and \<open>ParsePacket_TransferLogin\<close> share, text for
  text: \<open>AddUser\<close> on the new object and the replies when it refuses; \<open>f\<close> goes on with the
  admitted user.
\<close>

definition admit_new_user ::
  "'e env \<Rightarrow> ptr \<Rightarrow> ptr \<Rightarrow> (ptr \<Rightarrow> 'e world \<Rightarrow> 'e world option) \<Rightarrow> 'e world \<Rightarrow> 'e world option" where
  "admit_new_user E connection newUser f w = do {
     (userResult, w) \<leftarrow> AddUser E newUser w;
     (if userResult \<le> 0 then
        (if userResult < 0 then free_user newUser (SendPacket_Reply connection SysError [] w)
         else free_user newUser (SendPacket_Reply connection Playing [] w))
      else if userResult = EXCEED_MAX_CONNECTION then
        free_user newUser (SendPacket_Reply connection EXCEED_MAX_CONNECTION [] w)
      else f newUser w)
   }"

text \<open>What an admitted user gets: its character, or the request to create one.\<close>

definition login_or_create :: "'e env \<Rightarrow> ptr \<Rightarrow> ptr \<Rightarrow> 'e world \<Rightarrow> 'e world option" where
  "login_or_create E connection newUser w = do {
     (exists, w) \<leftarrow> IsUserCharacterExists E newUser w;
     (if exists \<le> 0 then
        (if exists < 0 then RemoveUser E newUser (SendPacket_Reply connection SysError [] w)
         else Some (SendPacket_Character connection (SendPacket_Reply connection LoginSuccess [] w)))
      else SendLoginPackets E newUser LoginSuccess w)
   }"

definition ParsePacket_Login :: "'e env \<Rightarrow> packet \<Rightarrow> 'e world \<Rightarrow> 'e world option" where
  "ParsePacket_Login E packet w =
     (let connection = p_connection packet in
      if connection = 0 then Some w
      else if \<not> c_versionReceived (w_conns w connection) then Some w
      else unless_logged_in connection w (
        let (userName, p) = ReadString packet; (pw, p) = ReadString p;
            (hardwareID, p) = ReadArray_UInt8 HARDWARE_ID_SIZE p; (pcBang, p) = ReadUInt32_LE p
        in do {
          ((userID, reply), e) \<leftarrow> Login E userName pw (w_ext w);
          let w = w\<lparr>w_ext := e\<rparr>;
          (if reply > LoginSuccess then Some (SendPacket_Reply connection reply [] w)
           else
             let (newUser, w) = alloc_user connection userID userName w
             in admit_new_user E connection newUser (login_or_create E connection) w)
        }))"

section \<open>Transfers\<close>

definition ParsePacket_TransferLogin :: "'e env \<Rightarrow> packet \<Rightarrow> 'e world \<Rightarrow> 'e world option" where
  "ParsePacket_TransferLogin E packet w =
     (let connection = p_connection packet in
      if connection = 0 then Some w
      else unless_logged_in connection w (
        let (authToken, p) = ReadString packet;
            (hardwareID, p) = ReadArray_UInt8 HARDWARE_ID_SIZE p; (pcBang, p) = ReadUInt32_LE p;
            (unk, p) = ReadUInt8 p
        in do {
          ((userID, userName, reply), e) \<leftarrow> TransferLogin E (w_cfg w) authToken (w_ext w);
          let w = w\<lparr>w_ext := e\<rparr>;
          (if reply > LoginSuccess then Some (SendPacket_Reply connection reply [] w)
           else
             let (newUser, w) = alloc_user connection userID userName w
             in admit_new_user E connection newUser (\<lambda>newUser. SendLoginPackets E newUser NoReply) w)
        }))"

definition sendPacket_Transfer :: "ptr \<Rightarrow> u32 \<Rightarrow> u16 \<Rightarrow> string \<Rightarrow> 'e world \<Rightarrow> 'e world" where
  "sendPacket_Transfer connection ip port authToken w =
     send connection PacketID_Transfer
       [WriteUInt32_LE ip, WriteUInt16_LE port, WriteUInt8 0, WriteString authToken] w"

definition InvalidServer :: int where "InvalidServer = 11"
definition SERVER_SELECT_FAIL_SERVER_DOWN :: string where
  "SERVER_SELECT_FAIL_SERVER_DOWN = ''SERVER_SELECT_FAIL_SERVER_DOWN''"
definition SERVER_SELECT_FAIL_LOBBY_FULL :: string where
  "SERVER_SELECT_FAIL_LOBBY_FULL = ''SERVER_SELECT_FAIL_LOBBY_FULL''"
definition SERVER_SELECT_FAIL_LEVEL_LIMIT :: string where
  "SERVER_SELECT_FAIL_LEVEL_LIMIT = ''SERVER_SELECT_FAIL_LEVEL_LIMIT''"

text \<open>
  The two outcomes of a transfer: into the lobby of this channel, or a token for another one.
  \<open>now\<close> is \<open>serverConsole.GetCurrentTime()\<close>; the address is 0 when \<open>inet_pton\<close> fails.
\<close>

definition enter_lobby :: "'e env \<Rightarrow> ptr \<Rightarrow> ptr \<Rightarrow> 'e world \<Rightarrow> 'e world option" where
  "enter_lobby E user connection w = do {
     w \<leftarrow> SetUserStatus InLobby user w;
     w \<leftarrow> SendAddUserPacketToAll E user w;
     w \<leftarrow> SendFullUserListPacket E connection w;
     SendFullRoomListPacket connection w
   }"

definition transfer_away ::
  "'e env \<Rightarrow> u64 \<Rightarrow> ptr \<Rightarrow> ptr \<Rightarrow> u8 \<Rightarrow> u8 \<Rightarrow> 'e world \<Rightarrow> 'e world option" where
  "transfer_away E now user connection serverID channelID w = do {
     server \<leftarrow> server_at (w_cfg w) serverID;
     channel \<leftarrow> channel_at (w_cfg w) serverID channelID;
     (if \<not> ch_isOnline channel then
        Some (SendPacket_UMsg_ServerMessage connection WarningMessage SERVER_SELECT_FAIL_SERVER_DOWN [] w)
      else if ch_numPlayers channel \<ge> ch_maxPlayers channel then
        Some (SendPacket_UMsg_ServerMessage connection WarningMessage SERVER_SELECT_FAIL_LOBBY_FULL [] w)
      else do {
        ((userCharacter, result), w) \<leftarrow> user_character E user USERCHARACTER_FLAG_LEVEL w;
        (if result \<le> 0 then Some (SendPacket_Reply connection SysError [] w)
         else if sv_type server = Newbie \<and> uc_level userCharacter \<ge> LIMIT_NEWBIE_LEVEL then
           Some (SendPacket_UMsg_ServerMessage connection WarningMessage SERVER_SELECT_FAIL_LEVEL_LIMIT [] w)
         else
           case bcrypt_gensalt E 12 (w_ext w) of
             (None, e) \<Rightarrow> Some (SendPacket_Reply connection SysError [] (w\<lparr>w_ext := e\<rparr>))
           | (Some authToken, e) \<Rightarrow> do {
               u \<leftarrow> w_users w user;
               let (res, e) = AddUserTransfer E now (u_userID u) authToken serverID channelID e;
               let w = w\<lparr>w_ext := e\<rparr>;
               (if res \<le> 0 then
                  (if res < 0 then Some (SendPacket_Reply connection SysError [] w)
                   else Some (SendPacket_Reply connection TRANSFER_ERR [] w))
                else
                  let addr = (case inet_pton E (ch_ip channel) of None \<Rightarrow> 0 | Some a \<Rightarrow> a)
                  in Some (sendPacket_Transfer connection addr (ch_port channel) authToken w))
             })
      })
   }"

definition ParsePacket_RequestTransfer :: "'e env \<Rightarrow> u64 \<Rightarrow> packet \<Rightarrow> 'e world \<Rightarrow> 'e world option" where
  "ParsePacket_RequestTransfer E now packet w =
     with_user packet w (\<lambda>user. do {
       let connection = p_connection packet;
       let (serverID, p) = ReadUInt8 packet;
       let (channelID, p) = ReadUInt8 p;
       let cfg = w_cfg w;
       (if serverID = 0 \<or> unat serverID > length (cfg_serverList cfg) then
          Some (SendPacket_Reply connection InvalidServer [] w)
        else do {
          server \<leftarrow> server_at cfg serverID;
          (if channelID = 0 \<or> unat channelID > length (sv_channels server) then
             Some (SendPacket_Reply connection InvalidServer [] w)
           else if serverID = cfg_serverID cfg \<and> channelID = cfg_channelID cfg then do {
             u \<leftarrow> w_users w user;
             (if u_userStatus u = InServerList then enter_lobby E user connection w else Some w)
           }
           else transfer_away E now user connection serverID channelID w)
        })
     })"

section \<open>Character creation\<close>

definition NICKNAME_MIN_SIZE :: nat where "NICKNAME_MIN_SIZE = 4"
definition NICKNAME_MAX_SIZE :: nat where "NICKNAME_MAX_SIZE = 16"
definition NICKNAME_MAX_CHAR_COUNT :: nat where "NICKNAME_MAX_CHAR_COUNT = 3"

definition ID_TOO_SHORT :: int where "ID_TOO_SHORT = 20"
definition ID_TOO_LONG :: int where "ID_TOO_LONG = 21"
definition INVALID_CHAR :: int where "INVALID_CHAR = 22"
definition ID_DIGIT_BEFORE_CHAR :: int where "ID_DIGIT_BEFORE_CHAR = 23"
definition ID_EXCEED_CHAR_COUNT :: int where "ID_EXCEED_CHAR_COUNT = 24"
definition ALREADY_EXIST :: int where "ALREADY_EXIST = 25"
definition ID_PROHIBITED :: int where "ID_PROHIBITED = 26"

text \<open>
  \<open>find_first_of\<close> and \<open>find_last_not_of\<close>: a position, or \<open>npos\<close>, the greatest
  \<open>size_t\<close>, which \<open>pos_greater\<close> compares as the code's \<open>>\<close> does. \<open>tolower\<close> is the one
  of the "C" locale.
\<close>

definition find_first_of :: "string \<Rightarrow> string \<Rightarrow> nat option" where
  "find_first_of cs s = find (\<lambda>i. s ! i \<in> set cs) [0..<length s]"

definition find_last_not_of :: "string \<Rightarrow> string \<Rightarrow> nat option" where
  "find_last_not_of cs s = find (\<lambda>i. s ! i \<notin> set cs) (rev [0..<length s])"

fun pos_greater :: "nat option \<Rightarrow> nat option \<Rightarrow> bool" where
  "pos_greater None (Some j) = True"
| "pos_greater (Some i) (Some j) = (i > j)"
| "pos_greater p None = False"

definition forbidden_chars :: string where
  "forbidden_chars = ''!@#$%^&*()_+-=[]{}|;'' @ squote @ '':'' @ [CHR 0x22] @ '',.<>'' @
     [CHR 0x5C] @ ''/?'' @ [CHR 0x60] @ ''~ ''"

definition digit_chars :: string where "digit_chars = ''0123456789''"

definition tolower :: "char \<Rightarrow> char" where
  "tolower c = (let n = of_char c :: nat in if 65 \<le> n \<and> n \<le> 90 then char_of (n + 32) else c)"

text \<open>The checks on a nickname: the reply of the first that fails.\<close>

definition check_nickName :: "string list \<Rightarrow> string \<Rightarrow> int option" where
  "check_nickName prohibited nickName =
     (if length nickName < NICKNAME_MIN_SIZE then Some ID_TOO_SHORT
      else if length nickName > NICKNAME_MAX_SIZE then Some ID_TOO_LONG
      else if find_first_of forbidden_chars nickName \<noteq> None then Some INVALID_CHAR
      else if find_first_of digit_chars nickName \<noteq> None \<and>
          pos_greater (find_last_not_of digit_chars nickName) (find_first_of digit_chars nickName)
        then Some ID_DIGIT_BEFORE_CHAR
      else if list_ex (\<lambda>c. count_list nickName c > NICKNAME_MAX_CHAR_COUNT) nickName
        then Some ID_EXCEED_CHAR_COUNT
      else if list_ex (\<lambda>name. sublist name (map tolower nickName)) prohibited then Some ID_PROHIBITED
      else None)"

text \<open>What is created for a new character, in the code's order; the reply when a step fails.\<close>

definition create_character ::
  "'e env \<Rightarrow> ServerConfig \<Rightarrow> u32 \<Rightarrow> string \<Rightarrow> 'e \<Rightarrow> (int option \<times> 'e) option" where
  "create_character E cfg userID nickName e = do {
     (ok, e) \<leftarrow> CreateUserBuymenus E cfg userID e;
     (if \<not> ok then Some (Some SysError, e)
      else do {
        (ok, e) \<leftarrow> CreateUserBookmarks E userID e;
        (if \<not> ok then Some (Some SysError, e)
         else do {
           (ok, e) \<leftarrow> CreateUserInventory E cfg userID e;
           (if \<not> ok then Some (Some SysError, e)
            else
              let (res, e) = CreateUserCharacter E userID nickName e
              in Some (if res > 0 then None else if res < 0 then Some SysError else Some ALREADY_EXIST, e))
         })
      })
   }"

definition ParsePacket_RecvCharacter :: "'e env \<Rightarrow> packet \<Rightarrow> 'e world \<Rightarrow> 'e world option" where
  "ParsePacket_RecvCharacter E packet w =
     (let connection = p_connection packet in
      if connection = 0 then Some w
      else do {
        user \<leftarrow> GetUserByConnection connection w;
        (if user = 0 then Some w
         else do {
           u \<leftarrow> w_users w user;
           (if u_userStatus u \<noteq> InLogin then Some w
            else do {
              let (nickName, p) = ReadString packet;
              (exists, w) \<leftarrow> IsUserCharacterExists E user w;
              (if exists < 0 then Some (SendPacket_Reply connection SysError [] w)
               else if exists \<noteq> 0 then Some w
               else case check_nickName (cfg_prohibitedNames (w_cfg w)) nickName of
                 Some reply \<Rightarrow> Some (SendPacket_Reply connection reply [] w)
               | None \<Rightarrow> do {
                   (failed, e) \<leftarrow> create_character E (w_cfg w) (u_userID u) nickName (w_ext w);
                   let w = w\<lparr>w_ext := e\<rparr>;
                   (case failed of
                      Some reply \<Rightarrow> Some (SendPacket_Reply connection reply [] w)
                    | None \<Rightarrow> SendLoginPackets E user CreateCharacterSuccess w)
                 })
            })
         })
      })"

section \<open>Server list and ciphers\<close>

definition ParsePacket_RequestServerList :: "packet \<Rightarrow> 'e world \<Rightarrow> 'e world option" where
  "ParsePacket_RequestServerList packet w =
     with_user packet w (\<lambda>user. do {
       u \<leftarrow> w_users w user;
       w \<leftarrow> (if u_userStatus u = InLobby then do {
               w \<leftarrow> SetUserStatus InServerList user w;
               SendRemoveUserPacketToAll user w
             }
             else Some w);
       u \<leftarrow> w_users w user;
       Some (if u_userStatus u \<noteq> InServerList then w
             else SendPacket_ServerList (p_connection packet) (cfg_serverList (w_cfg w)) w)
     })"

definition ParsePacket_RecvCrypt :: "packet \<Rightarrow> 'e world \<Rightarrow> 'e world option" where
  "ParsePacket_RecvCrypt packet w = with_user packet w (\<lambda>user. Some w)"

end
