(* ===== verification/ClientPackets.thy ===== *)
theory ClientPackets
  imports LoginPackets
begin

text \<open>
  The remaining handlers (\<open>packet_umsgmanager\<close>, \<open>packet_udpmanager\<close>, \<open>packet_optionmanager\<close>,
  \<open>packet_favoritemanager\<close>, \<open>packet_shopmanager\<close>, \<open>packet_searchroommanager\<close> and those that
  only read) and the dispatch of \<open>PacketManager::ParsePacket\<close>.
\<close>

definition PacketID_Udp :: u8 where "PacketID_Udp = 70"
definition PacketID_Shop :: u8 where "PacketID_Shop = 72"
definition PacketID_SearchRoom :: u8 where "PacketID_SearchRoom = 80"

section \<open>Chat\<close>

definition MSG_TELL_OK :: string where "MSG_TELL_OK = ''MSG_TELL_OK''"
definition MSG_TELL_USER_NOT_FOUND :: string where
  "MSG_TELL_USER_NOT_FOUND = ''MSG_TELL_USER_NOT_FOUND''"

text \<open>
  The loop of a whisper over the users: the first with a readable character of that
  nickname, or none; the database is asked for every user on the way.
\<close>

fun find_nickName :: "'e env \<Rightarrow> string \<Rightarrow> ptr list \<Rightarrow> 'e world \<Rightarrow> (ptr option \<times> 'e world) option" where
  "find_nickName E nickName [] w = Some (None, w)"
| "find_nickName E nickName (u # users) w = do {
     ((userCharacter, result), w) \<leftarrow> user_character E u USERCHARACTER_FLAG_NICKNAME w;
     (if result > 0 \<and> uc_nickName userCharacter = nickName then Some (Some u, w)
      else find_nickName E nickName users w)
   }"

definition parsePacket_UMsg_WhisperChat :: "'e env \<Rightarrow> ptr \<Rightarrow> packet \<Rightarrow> 'e world \<Rightarrow> 'e world option" where
  "parsePacket_UMsg_WhisperChat E user packet w =
     (if user = 0 then Some w
      else do {
        u \<leftarrow> w_users w user;
        let connection = u_connection u;
        (if connection = 0 then Some w
         else if u_userStatus u = InServerList then Some w
         else do {
           ((userCharacter, result), w) \<leftarrow> user_character E user USERCHARACTER_FLAG_NICKNAME w;
           (if result \<le> 0 then Some (SendPacket_Reply connection SysError [] w)
            else do {
              let (receiverNickName, p) = ReadString packet;
              let (txt, p) = ReadString p;
              users \<leftarrow> filterM (keep_user (\<lambda>u x. u_connection x \<noteq> 0) w) (w_userList w);
              (found, w) \<leftarrow> find_nickName E receiverNickName users w;
              (case found of
                 Some r \<Rightarrow> do {
                   c \<leftarrow> conn_of w r;
                   Some (sendPacket_UMsg_Chat c 0 (uc_nickName userCharacter) txt
                     (SendPacket_UMsg_ServerMessage connection InfoMessage MSG_TELL_OK [receiverNickName] w))
                 }
               | None \<Rightarrow> Some (SendPacket_UMsg_ServerMessage connection InfoMessage
                   MSG_TELL_USER_NOT_FOUND [receiverNickName] w))
            })
         })
      })"

definition parsePacket_UMsg_ChannelChat :: "'e env \<Rightarrow> ptr \<Rightarrow> packet \<Rightarrow> 'e world \<Rightarrow> 'e world option" where
  "parsePacket_UMsg_ChannelChat E user packet w =
     (if user = 0 then Some w
      else do {
        u \<leftarrow> w_users w user;
        let connection = u_connection u;
        (if connection = 0 then Some w
         else if u_userStatus u \<noteq> InLobby then Some w
         else do {
           ((userCharacter, result), w) \<leftarrow> user_character E user USERCHARACTER_FLAG_NICKNAME w;
           (if result \<le> 0 then Some (SendPacket_Reply connection SysError [] w)
            else do {
              let (txt, p) = ReadString packet;
              users \<leftarrow> lobby_users w;
              for_users (\<lambda>c w. Some (sendPacket_UMsg_Chat c 1 (uc_nickName userCharacter) txt w)) users w
            })
         })
      })"

definition parsePacket_UMsg_RoomChat :: "'e env \<Rightarrow> ptr \<Rightarrow> packet \<Rightarrow> 'e world \<Rightarrow> 'e world option" where
  "parsePacket_UMsg_RoomChat E user packet w =
     (if user = 0 then Some w
      else do {
        u \<leftarrow> w_users w user;
        let connection = u_connection u;
        (if connection = 0 then Some w
         else if u_userStatus u \<noteq> InRoom then Some w
         else do {
           room \<leftarrow> GetRoomByRoomID (u_currentRoomID u) w;
           (if room = 0 then Some w
            else do {
              ((userCharacter, result), w) \<leftarrow> user_character E user USERCHARACTER_FLAG_NICKNAME w;
              (if result \<le> 0 then Some (SendPacket_Reply connection SysError [] w)
               else do {
                 let (txt, p) = ReadString packet;
                 r \<leftarrow> w_rooms w room;
                 roomUsers \<leftarrow> filterM (keep_user (\<lambda>u x. u_connection x \<noteq> 0 \<and> u_userStatus x = InRoom) w)
                   (r_roomUsers r);
                 for_users (\<lambda>c w. Some (sendPacket_UMsg_Chat c 2 (uc_nickName userCharacter) txt w))
                   roomUsers w
               })
            })
         })
      })"

definition ParsePacket_UMsg :: "'e env \<Rightarrow> packet \<Rightarrow> 'e world \<Rightarrow> 'e world option" where
  "ParsePacket_UMsg E packet w =
     with_user packet w (\<lambda>user.
       let (t, packet) = ReadUInt8 packet
       in if t = 0 then parsePacket_UMsg_WhisperChat E user packet w
          else if t = 1 then parsePacket_UMsg_ChannelChat E user packet w
          else if t = 2 then parsePacket_UMsg_RoomChat E user packet w
          else Some w)"

section \<open>Peer-to-peer networking\<close>

definition DISCONNECTED_BY_NETWORK_FAILURE :: string where
  "DISCONNECTED_BY_NETWORK_FAILURE = ''DISCONNECTED_BY_NETWORK_FAILURE''"

definition PortType_num :: "PortType \<Rightarrow> u8" where
  "PortType_num t = (case t of Guest \<Rightarrow> 0 | Host \<Rightarrow> 1)"

definition sendPacket_Udp_ModifySocketInfo ::
  "ptr \<Rightarrow> PortType \<Rightarrow> u32 \<Rightarrow> u32 \<Rightarrow> u16 \<Rightarrow> 'e world \<Rightarrow> 'e world" where
  "sendPacket_Udp_ModifySocketInfo connection portType userID ip port w =
     send connection PacketID_Udp
       [WriteUInt8 1, WriteUInt8 (PortType_num portType), WriteUInt32_LE userID, WriteUInt32_LE ip,
        WriteUInt16_LE port] w"

definition parsePacket_Udp_NetworkFailure :: "ptr \<Rightarrow> 'e world \<Rightarrow> 'e world option" where
  "parsePacket_Udp_NetworkFailure user w =
     (if user = 0 then Some w
      else do {
        connection \<leftarrow> conn_of w user;
        (if connection = 0 then Some w
         else DisconnectUser user
           (SendPacket_UMsg_ServerMessage connection WarningMessage DISCONNECTED_BY_NETWORK_FAILURE [] w))
      })"

definition parsePacket_Udp_HolepunchFail :: "ptr \<Rightarrow> packet \<Rightarrow> 'e world \<Rightarrow> 'e world option" where
  "parsePacket_Udp_HolepunchFail user packet w =
     (if user = 0 then Some w
      else do {
        u \<leftarrow> w_users w user;
        let connection = u_connection u;
        (if connection = 0 then Some w
         else if \<not> in_room u then Some w
         else do {
           room \<leftarrow> GetRoomByRoomID (u_currentRoomID u) w;
           (if room = 0 then Some w
            else do {
              let (userID, p) = ReadUInt32_LE packet;
              targetUser \<leftarrow> GetUserByUserID userID w;
              (if targetUser = 0 then Some w
               else do {
                 t \<leftarrow> w_users w targetUser;
                 (if \<not> in_room t then Some w
                  else do {
                    targetRoom \<leftarrow> GetRoomByRoomID (u_currentRoomID t) w;
                    Some (if targetRoom \<noteq> room then w
                      else sendPacket_Udp_ModifySocketInfo connection Host userID
                             (cfg_ip (w_cfg w)) (cfg_port (w_cfg w))
                           (sendPacket_Udp_ModifySocketInfo connection Guest userID
                             (cfg_ip (w_cfg w)) (cfg_port (w_cfg w)) w))
                  })
               })
            })
         })
      })"

text \<open>Of the socket reports only \<open>RelayFail\<close> does more than read and log.\<close>

definition parsePacket_Udp_SocketInfo :: "ptr \<Rightarrow> packet \<Rightarrow> 'e world \<Rightarrow> 'e world option" where
  "parsePacket_Udp_SocketInfo user packet w =
     (if user = 0 then Some w
      else do {
        connection \<leftarrow> conn_of w user;
        (if connection = 0 then Some w
         else
           let (t, p) = ReadUInt8 packet
           in if t = 4 then DisconnectUser user
                (SendPacket_UMsg_ServerMessage connection WarningMessage DISCONNECTED_BY_NETWORK_FAILURE [] w)
              else Some w)
      })"

definition ParsePacket_Udp :: "packet \<Rightarrow> 'e world \<Rightarrow> 'e world option" where
  "ParsePacket_Udp packet w =
     with_user packet w (\<lambda>user.
       let (t, packet) = ReadUInt8 packet
       in if t = 0 then parsePacket_Udp_NetworkFailure user w
          else if t = 1 then parsePacket_Udp_HolepunchFail user packet w
          else if t = 2 then parsePacket_Udp_SocketInfo user packet w
          else Some w)"

section \<open>Options\<close>

definition USERCONFIG_MAX_SIZE :: u16 where "USERCONFIG_MAX_SIZE = 5120"

text \<open>Whether saving worked is only logged.\<close>

definition parsePacket_Option_UserConfig :: "'e env \<Rightarrow> ptr \<Rightarrow> packet \<Rightarrow> 'e world \<Rightarrow> 'e world option" where
  "parsePacket_Option_UserConfig E user packet w =
     (if user = 0 then Some w
      else
        let (sz, p) = ReadUInt16_LE packet
        in if sz = 0 \<or> sz > USERCONFIG_MAX_SIZE then Some w
           else do {
             let (userConfig, p) = ReadArray_UInt8 (unat sz) p;
             u \<leftarrow> w_users w user;
             let (ok, e) = SaveUserConfig E (u_userID u) userConfig (w_ext w);
             Some (w\<lparr>w_ext := e\<rparr>)
           })"

definition parsePacket_Option_UserQuickStart ::
  "'e env \<Rightarrow> ptr \<Rightarrow> packet \<Rightarrow> 'e world \<Rightarrow> 'e world option" where
  "parsePacket_Option_UserQuickStart E user packet w =
     (if user = 0 then Some w
      else do {
        let (userQuickStart, p) = ReadUInt32_LE packet;
        u \<leftarrow> w_users w user;
        let (ok, e) = SaveUserQuickStart E (u_userID u) userQuickStart (w_ext w);
        Some (w\<lparr>w_ext := e\<rparr>)
      })"

definition ParsePacket_Option :: "'e env \<Rightarrow> packet \<Rightarrow> 'e world \<Rightarrow> 'e world option" where
  "ParsePacket_Option E packet w =
     with_user packet w (\<lambda>user.
       let (t, packet) = ReadUInt8 packet
       in if t = 0 then parsePacket_Option_UserConfig E user packet w
          else if t = 1 then parsePacket_Option_UserQuickStart E user packet w
          else Some w)"

section \<open>Favourites\<close>

definition BOOKMARK_NAME_MAX_SIZE :: nat where "BOOKMARK_NAME_MAX_SIZE = 12"
definition BOOKMARK_FLASHBANG_MAX :: u8 where "BOOKMARK_FLASHBANG_MAX = 2"
definition BOOKMARK_KEVLAR_MAX :: u8 where "BOOKMARK_KEVLAR_MAX = 2"

definition parsePacket_Favorite_UserBuyMenu ::
  "'e env \<Rightarrow> ptr \<Rightarrow> packet \<Rightarrow> 'e world \<Rightarrow> 'e world option" where
  "parsePacket_Favorite_UserBuyMenu E user packet w =
     (if user = 0 then Some w
      else
        let (categoryID, p) = ReadUInt8 packet
        in if categoryID \<ge> BUYMENU_MAX_CATEGORY * 2 then Some w
           else
             let (slotID, p) = ReadUInt8 p
             in if unat slotID \<ge> BUYMENU_MAX_SLOT then Some w
                else do {
                  let (itemID, p) = ReadUInt8 p;
                  u \<leftarrow> w_users w user;
                  let (ok, e) = SaveUserBuyMenu E (u_userID u) categoryID slotID itemID (w_ext w);
                  Some (w\<lparr>w_ext := e\<rparr>)
                })"

definition read_bookmark :: "u8 \<Rightarrow> packet \<Rightarrow> BookMark" where
  "read_bookmark slotID p =
     (let (name, p) = ReadString p;
          name = take BOOKMARK_NAME_MAX_SIZE name;
          (primaryItemID, p) = ReadUInt8 p; (primaryAmmo, p) = ReadBool p;
          (secondaryItemID, p) = ReadUInt8 p; (secondaryAmmo, p) = ReadBool p;
          (flashbang, p) = ReadUInt8 p;
          flashbang = (if flashbang > BOOKMARK_FLASHBANG_MAX then BOOKMARK_FLASHBANG_MAX else flashbang);
          (hegrenade, p) = ReadBool p; (smokegrenade, p) = ReadBool p;
          (defusekit, p) = ReadBool p; (nightvision, p) = ReadBool p;
          (kevlar, p) = ReadUInt8 p;
          kevlar = (if kevlar > BOOKMARK_KEVLAR_MAX then BOOKMARK_KEVLAR_MAX else kevlar);
          (unk1, p) = ReadUInt8 p
      in \<lparr>bk_slotID = slotID, bk_name = name, bk_primaryItemID = primaryItemID,
          bk_primaryAmmo = primaryAmmo, bk_secondaryItemID = secondaryItemID,
          bk_secondaryAmmo = secondaryAmmo, bk_flashbang = flashbang, bk_hegrenade = hegrenade,
          bk_smokegrenade = smokegrenade, bk_defusekit = defusekit, bk_nightvision = nightvision,
          bk_kevlar = kevlar, bk_unk1 = unk1\<rparr>)"

definition parsePacket_Favorite_UserBookMark ::
  "'e env \<Rightarrow> ptr \<Rightarrow> packet \<Rightarrow> 'e world \<Rightarrow> 'e world option" where
  "parsePacket_Favorite_UserBookMark E user packet w =
     (if user = 0 then Some w
      else
        let (slotID, p) = ReadUInt8 packet
        in if unat slotID \<ge> BOOKMARK_MAX_SLOT then Some w
           else do {
             u \<leftarrow> w_users w user;
             let (ok, e) = SaveUserBookMark E (u_userID u) (read_bookmark slotID p) (w_ext w);
             Some (w\<lparr>w_ext := e\<rparr>)
           })"

definition ParsePacket_Favorite :: "'e env \<Rightarrow> packet \<Rightarrow> 'e world \<Rightarrow> 'e world option" where
  "ParsePacket_Favorite E packet w =
     with_user packet w (\<lambda>user.
       let (t, packet) = ReadUInt8 packet
       in if t = 0 then parsePacket_Favorite_UserBuyMenu E user packet w
          else if t = 1 then parsePacket_Favorite_UserBookMark E user packet w
          else Some w)"

section \<open>Shop and room search\<close>

definition sendPacket_Shop_ShopList :: "ptr \<Rightarrow> 'e world \<Rightarrow> 'e world" where
  "sendPacket_Shop_ShopList connection w =
     send connection PacketID_Shop [WriteUInt8 0, WriteUInt8 0] w"

definition parsePacket_Shop_RequestShopList :: "ptr \<Rightarrow> 'e world \<Rightarrow> 'e world option" where
  "parsePacket_Shop_RequestShopList user w =
     (if user = 0 then Some w
      else do { c \<leftarrow> conn_of w user; Some (sendPacket_Shop_ShopList c w) })"

definition ParsePacket_Shop :: "packet \<Rightarrow> 'e world \<Rightarrow> 'e world option" where
  "ParsePacket_Shop packet w =
     with_user packet w (\<lambda>user.
       let (t, packet) = ReadUInt8 packet
       in if t = 0 then parsePacket_Shop_RequestShopList user w else Some w)"

definition sendPacket_SearchRoom_SearchRoomReply ::
  "ptr \<Rightarrow> u8 \<Rightarrow> u8 \<Rightarrow> u16 \<Rightarrow> 'e world \<Rightarrow> 'e world" where
  "sendPacket_SearchRoom_SearchRoomReply connection serverID channelID roomID w =
     send connection PacketID_SearchRoom
       [WriteUInt8 0, WriteUInt8 serverID, WriteUInt8 channelID, WriteUInt16_LE roomID] w"

definition ParsePacket_SearchRoom :: "'e env \<Rightarrow> packet \<Rightarrow> 'e world \<Rightarrow> 'e world option" where
  "ParsePacket_SearchRoom E packet w =
     with_user packet w (\<lambda>user. do {
       let connection = p_connection packet;
       let (mode, p) = ReadUInt8 packet;
       let (map_id, p) = ReadUInt8 p;
       let (lvl, p) = ReadUInt8 p;
       let (clanBattle, p) = ReadUInt8 p;
       ((userCharacter, result), w) \<leftarrow> user_character E user USERCHARACTER_FLAG_LEVEL w;
       (if result \<le> 0 then Some (SendPacket_Reply connection SysError [] w)
        else do {
          ((serverID, channelID, roomID), w) \<leftarrow> SearchRoom E (uc_level userCharacter) mode map_id lvl clanBattle w;
          Some (sendPacket_SearchRoom_SearchRoomReply connection serverID channelID roomID w)
        })
     })"

section \<open>Messages that are only read\<close>

text \<open>
  \<open>ClientCheck\<close>, \<open>UpdateInfo\<close>, \<open>RecvReport\<close> and \<open>Item\<close> read their packet and
  write to the log: what they read does not leave the function.
\<close>

definition ParsePacket_ClientCheck :: "packet \<Rightarrow> 'e world \<Rightarrow> 'e world option" where
  "ParsePacket_ClientCheck packet w = with_user packet w (\<lambda>user. Some w)"

definition ParsePacket_UpdateInfo :: "packet \<Rightarrow> 'e world \<Rightarrow> 'e world option" where
  "ParsePacket_UpdateInfo packet w = with_user packet w (\<lambda>user. Some w)"

definition ParsePacket_RecvReport :: "packet \<Rightarrow> 'e world \<Rightarrow> 'e world option" where
  "ParsePacket_RecvReport packet w = with_user packet w (\<lambda>user. Some w)"

definition parsePacket_Item_SelectClass :: "ptr \<Rightarrow> 'e world \<Rightarrow> 'e world option" where
  "parsePacket_Item_SelectClass user w =
     (if user = 0 then Some w
      else do {
        u \<leftarrow> w_users w user;
        (if u_connection u = 0 \<or> u_userStatus u \<noteq> InGame then Some w
         else do {
           room \<leftarrow> GetRoomByRoomID (u_currentRoomID u) w;
           (if room = 0 then Some w else do { r \<leftarrow> w_rooms w room; Some w })
         })
      })"

definition parsePacket_Item_BuyWeapon :: "ptr \<Rightarrow> 'e world \<Rightarrow> 'e world option" where
  "parsePacket_Item_BuyWeapon user w = parsePacket_Item_SelectClass user w"

definition ParsePacket_Item :: "packet \<Rightarrow> 'e world \<Rightarrow> 'e world option" where
  "ParsePacket_Item packet w =
     with_user packet w (\<lambda>user.
       let (t, packet) = ReadUInt8 packet
       in if t = 1 then parsePacket_Item_SelectClass user w
          else if t = 2 then parsePacket_Item_BuyWeapon user w
          else Some w)"

section \<open>PacketManager::ParsePacket\<close>

definition ParsePacket :: "'e env \<Rightarrow> u64 \<Rightarrow> packet \<Rightarrow> 'e world \<Rightarrow> 'e world option" where
  "ParsePacket E now packet w =
     (if p_connection packet = 0 then Some w
      else
        let (packetID, packet) = ReadUInt8 packet
        in if packetID = 0 then ParsePacket_Version E packet w
           else if packetID = 2 then ParsePacket_RecvCharacter E packet w
           else if packetID = 3 then ParsePacket_Login E packet w
           else if packetID = 5 then ParsePacket_TransferLogin E packet w
           else if packetID = 7 then ParsePacket_RequestTransfer E now packet w
           else if packetID = 10 then ParsePacket_RequestServerList packet w
           else if packetID = 12 then ParsePacket_RecvCrypt packet w
           else if packetID = 65 then ParsePacket_Room E packet w
           else if packetID = 66 then ParsePacket_ClientCheck packet w
           else if packetID = 67 then ParsePacket_UMsg E packet w
           else if packetID = 68 then ParsePacket_Host packet w
           else if packetID = 69 then ParsePacket_UpdateInfo packet w
           else if packetID = 70 then ParsePacket_Udp packet w
           else if packetID = 72 then ParsePacket_Shop packet w
           else if packetID = 76 then ParsePacket_Option E packet w
           else if packetID = 77 then ParsePacket_Favorite E packet w
           else if packetID = 78 then ParsePacket_Item packet w
           else if packetID = 80 then ParsePacket_SearchRoom E packet w
           else if packetID = 150 then ParsePacket_RecvReport packet w
           else Some w)"

end
