(* ===== verification/UdpPacket.thy ===== *)
theory UdpPacket
  imports Packet
begin

text \<open>
  \<open>UDPPacket\<close> of \<open>networking/udp_server.{h,cpp}\<close>: a class of its own that repeats the accessors of
  \<open>TCPConnection::Packet\<close> without the header and the length field. The locale \<open>same_reads\<close> is the
  contract between the two classes: a reader of one returns what the reader of the other returns on
  the same bytes and moves as far. It is interpreted on every reader, so that what is proved of
  the packets of TCP holds for datagrams.
\<close>

section \<open>The object\<close>

record udp_packet =
  up_buffer :: bytes
  up_endpoint :: "string \<times> u16"
  up_signature :: u8
  up_readOffset :: nat
  up_writeOffset :: nat

definition new_UDPPacket :: "string \<times> u16 \<Rightarrow> bytes \<Rightarrow> udp_packet" where
  "new_UDPPacket endpoint buffer = \<lparr>up_buffer = buffer, up_endpoint = endpoint,
     up_signature = (if buffer = [] then 0 else hd buffer), up_readOffset = 0,
     up_writeOffset = length buffer\<rparr>"

definition UDP_ByteStr :: "bool \<Rightarrow> udp_packet \<Rightarrow> string" where
  "UDP_ByteStr LE p = concat (map hex_byte (if LE then up_buffer p else rev (up_buffer p)))"

section \<open>Writing\<close>

definition UDP_insert_byte :: "u8 \<Rightarrow> udp_packet \<Rightarrow> udp_packet" where
  "UDP_insert_byte b p = p\<lparr>
     up_buffer := take (up_writeOffset p) (up_buffer p) @ b # drop (up_writeOffset p) (up_buffer p),
     up_writeOffset := up_writeOffset p + 1\<rparr>"

definition UDP_WriteBytes :: "nat \<Rightarrow> 'a::len word \<Rightarrow> bool \<Rightarrow> udp_packet \<Rightarrow> udp_packet" where
  "UDP_WriteBytes n v LE p = fold UDP_insert_byte (if LE then le_bytes n v else rev (le_bytes n v)) p"

fun UDP_run_write :: "wcall \<Rightarrow> udp_packet \<Rightarrow> udp_packet" where
  "UDP_run_write (WriteBool b) p = UDP_WriteBytes 1 (if b then 1 else 0 :: u8) True p"
| "UDP_run_write (WriteString s) p =
     UDP_WriteBytes 1 (0 :: u8) True (fold (\<lambda>c. UDP_WriteBytes 1 (byte_of c) True) s p)"
| "UDP_run_write (WriteInt8 v) p = UDP_WriteBytes 1 v True p"
| "UDP_run_write (WriteUInt8 v) p = UDP_WriteBytes 1 v True p"
| "UDP_run_write (WriteInt16_LE v) p = UDP_WriteBytes 2 v True p"
| "UDP_run_write (WriteInt16_BE v) p = UDP_WriteBytes 2 v False p"
| "UDP_run_write (WriteUInt16_LE v) p = UDP_WriteBytes 2 v True p"
| "UDP_run_write (WriteUInt16_BE v) p = UDP_WriteBytes 2 v False p"
| "UDP_run_write (WriteInt32_LE v) p = UDP_WriteBytes 4 v True p"
| "UDP_run_write (WriteInt32_BE v) p = UDP_WriteBytes 4 v False p"
| "UDP_run_write (WriteUInt32_LE v) p = UDP_WriteBytes 4 v True p"
| "UDP_run_write (WriteUInt32_BE v) p = UDP_WriteBytes 4 v False p"
| "UDP_run_write (WriteInt64_LE v) p = UDP_WriteBytes 8 v True p"
| "UDP_run_write (WriteInt64_BE v) p = UDP_WriteBytes 8 v False p"
| "UDP_run_write (WriteUInt64_LE v) p = UDP_WriteBytes 8 v True p"
| "UDP_run_write (WriteUInt64_BE v) p = UDP_WriteBytes 8 v False p"
| "UDP_run_write (WriteFloat_LE v) p = UDP_WriteBytes 4 v True p"
| "UDP_run_write (WriteFloat_BE v) p = UDP_WriteBytes 4 v False p"
| "UDP_run_write (WriteDouble_LE v) p = UDP_WriteBytes 8 v True p"
| "UDP_run_write (WriteDouble_BE v) p = UDP_WriteBytes 8 v False p"
| "UDP_run_write (WriteArray_Int8 vs) p = fold (\<lambda>v. UDP_WriteBytes 1 v True) vs p"
| "UDP_run_write (WriteArray_UInt8 vs) p = fold (\<lambda>v. UDP_WriteBytes 1 v True) vs p"

definition UDP_run_writes :: "wcall list \<Rightarrow> udp_packet \<Rightarrow> udp_packet" where
  "UDP_run_writes ws p = fold UDP_run_write ws p"

section \<open>Reading\<close>

definition UDP_ReadBytes :: "nat \<Rightarrow> bool \<Rightarrow> udp_packet \<Rightarrow> bytes \<times> udp_packet" where
  "UDP_ReadBytes n LE p =
     (if up_readOffset p + n > length (up_buffer p) then (replicate n 0, p)
      else (let src = take n (drop (up_readOffset p) (up_buffer p));
                dst = (if LE then src else rev src)
            in (dst, p\<lparr>up_readOffset := up_readOffset p + n\<rparr>)))"

definition UDP_ReadBool :: "udp_packet \<Rightarrow> bool \<times> udp_packet" where
  "UDP_ReadBool p = (let (bs, p) = UDP_ReadBytes 1 True p in ((le_word bs :: u8) \<noteq> 0, p))"

definition UDP_ReadInt8 :: "udp_packet \<Rightarrow> u8 \<times> udp_packet" where
  "UDP_ReadInt8 p = (let (bs, p) = UDP_ReadBytes 1 True p in (le_word bs, p))"

definition UDP_ReadUInt8 :: "udp_packet \<Rightarrow> u8 \<times> udp_packet" where
  "UDP_ReadUInt8 p = (let (bs, p) = UDP_ReadBytes 1 True p in (le_word bs, p))"

definition UDP_ReadInt16_LE :: "udp_packet \<Rightarrow> u16 \<times> udp_packet" where
  "UDP_ReadInt16_LE p = (let (bs, p) = UDP_ReadBytes 2 True p in (le_word bs, p))"

definition UDP_ReadInt16_BE :: "udp_packet \<Rightarrow> u16 \<times> udp_packet" where
  "UDP_ReadInt16_BE p = (let (bs, p) = UDP_ReadBytes 2 False p in (le_word bs, p))"

definition UDP_ReadUInt16_LE :: "udp_packet \<Rightarrow> u16 \<times> udp_packet" where
  "UDP_ReadUInt16_LE p = (let (bs, p) = UDP_ReadBytes 2 True p in (le_word bs, p))"

definition UDP_ReadUInt16_BE :: "udp_packet \<Rightarrow> u16 \<times> udp_packet" where
  "UDP_ReadUInt16_BE p = (let (bs, p) = UDP_ReadBytes 2 False p in (le_word bs, p))"

definition UDP_ReadInt32_LE :: "udp_packet \<Rightarrow> u32 \<times> udp_packet" where
  "UDP_ReadInt32_LE p = (let (bs, p) = UDP_ReadBytes 4 True p in (le_word bs, p))"

definition UDP_ReadInt32_BE :: "udp_packet \<Rightarrow> u32 \<times> udp_packet" where
  "UDP_ReadInt32_BE p = (let (bs, p) = UDP_ReadBytes 4 False p in (le_word bs, p))"

definition UDP_ReadUInt32_LE :: "udp_packet \<Rightarrow> u32 \<times> udp_packet" where
  "UDP_ReadUInt32_LE p = (let (bs, p) = UDP_ReadBytes 4 True p in (le_word bs, p))"

definition UDP_ReadUInt32_BE :: "udp_packet \<Rightarrow> u32 \<times> udp_packet" where
  "UDP_ReadUInt32_BE p = (let (bs, p) = UDP_ReadBytes 4 False p in (le_word bs, p))"

definition UDP_ReadInt64_LE :: "udp_packet \<Rightarrow> u64 \<times> udp_packet" where
  "UDP_ReadInt64_LE p = (let (bs, p) = UDP_ReadBytes 8 True p in (le_word bs, p))"

definition UDP_ReadInt64_BE :: "udp_packet \<Rightarrow> u64 \<times> udp_packet" where
  "UDP_ReadInt64_BE p = (let (bs, p) = UDP_ReadBytes 8 False p in (le_word bs, p))"

definition UDP_ReadUInt64_LE :: "udp_packet \<Rightarrow> u64 \<times> udp_packet" where
  "UDP_ReadUInt64_LE p = (let (bs, p) = UDP_ReadBytes 8 True p in (le_word bs, p))"

definition UDP_ReadUInt64_BE :: "udp_packet \<Rightarrow> u64 \<times> udp_packet" where
  "UDP_ReadUInt64_BE p = (let (bs, p) = UDP_ReadBytes 8 False p in (le_word bs, p))"

definition UDP_ReadFloat_LE :: "udp_packet \<Rightarrow> u32 \<times> udp_packet" where
  "UDP_ReadFloat_LE p = (let (bs, p) = UDP_ReadBytes 4 True p in (le_word bs, p))"

definition UDP_ReadFloat_BE :: "udp_packet \<Rightarrow> u32 \<times> udp_packet" where
  "UDP_ReadFloat_BE p = (let (bs, p) = UDP_ReadBytes 4 False p in (le_word bs, p))"

definition UDP_ReadDouble_LE :: "udp_packet \<Rightarrow> u64 \<times> udp_packet" where
  "UDP_ReadDouble_LE p = (let (bs, p) = UDP_ReadBytes 8 True p in (le_word bs, p))"

definition UDP_ReadDouble_BE :: "udp_packet \<Rightarrow> u64 \<times> udp_packet" where
  "UDP_ReadDouble_BE p = (let (bs, p) = UDP_ReadBytes 8 False p in (le_word bs, p))"

lemma UDP_ReadInt8_nonzero:
  "UDP_ReadInt8 p = (c, p') \<Longrightarrow> c \<noteq> 0 \<Longrightarrow>
    up_readOffset p < length (up_buffer p) \<and> up_buffer p' = up_buffer p \<and>
    up_readOffset p' = Suc (up_readOffset p)"
  by (auto simp: UDP_ReadInt8_def UDP_ReadBytes_def split: if_splits)

function UDP_ReadString :: "udp_packet \<Rightarrow> string \<times> udp_packet" where
  "UDP_ReadString p =
     (let (curChar, p') = UDP_ReadInt8 p
      in if curChar = 0 then ([], p')
         else let (rest, p'') = UDP_ReadString p' in (char_of_byte curChar # rest, p''))"
  by pat_completeness auto
termination
proof (relation "measure (\<lambda>p. length (up_buffer p) - up_readOffset p)", goal_cases)
  case (2 p x c p')
  then have "UDP_ReadInt8 p = (c, p')" and "c \<noteq> 0" by simp_all
  from UDP_ReadInt8_nonzero [OF this] show ?case by auto
qed simp

declare UDP_ReadString.simps [simp del]

primrec UDP_ReadArray_Int8 :: "nat \<Rightarrow> udp_packet \<Rightarrow> bytes \<times> udp_packet" where
  "UDP_ReadArray_Int8 0 p = ([], p)"
| "UDP_ReadArray_Int8 (Suc len) p =
     (let (b, p) = UDP_ReadInt8 p; (bs, p) = UDP_ReadArray_Int8 len p in (b # bs, p))"

primrec UDP_ReadArray_UInt8 :: "nat \<Rightarrow> udp_packet \<Rightarrow> bytes \<times> udp_packet" where
  "UDP_ReadArray_UInt8 0 p = ([], p)"
| "UDP_ReadArray_UInt8 (Suc len) p =
     (let (b, p) = UDP_ReadUInt8 p; (bs, p) = UDP_ReadArray_UInt8 len p in (b # bs, p))"

section \<open>The two classes agree\<close>

text \<open>The same bytes, and the offsets at the same places.\<close>

definition alike :: "udp_packet \<Rightarrow> packet \<Rightarrow> bool" where
  "alike p q \<longleftrightarrow> up_buffer p = p_buffer q \<and> up_readOffset p = p_readOffset q \<and>
     up_writeOffset p = p_writeOffset q"

locale same_reads =
  fixes urd :: "udp_packet \<Rightarrow> 'a \<times> udp_packet"
    and rd :: "packet \<Rightarrow> 'a \<times> packet"
  assumes same: "alike p q \<Longrightarrow> fst (urd p) = fst (rd q) \<and> alike (snd (urd p)) (snd (rd q))"
begin

lemma step:
  assumes "alike p q"
  obtains x p' q' where "urd p = (x, p')" and "rd q = (x, q')" and "alike p' q'"
  using same [OF assms] by (cases "urd p"; cases "rd q") auto

end

lemma alike_ReadBytes:
  assumes "alike p q"
  shows "fst (UDP_ReadBytes n LE p) = fst (ReadBytes n LE q) \<and>
    alike (snd (UDP_ReadBytes n LE p)) (snd (ReadBytes n LE q))"
  using assms by (auto simp: UDP_ReadBytes_def ReadBytes_def alike_def Let_def)

interpretation same_bytes: same_reads "UDP_ReadBytes n LE" "ReadBytes n LE" for n LE
  by unfold_locales (rule alike_ReadBytes)

lemma same_reads_map:
  assumes "\<And>p. urd p = (let (bs, p) = UDP_ReadBytes n LE p in (f bs, p))"
    and "\<And>q. rd q = (let (bs, q) = ReadBytes n LE q in (f bs, q))"
  shows "same_reads urd rd"
proof
  fix p q assume "alike p q"
  then show "fst (urd p) = fst (rd q) \<and> alike (snd (urd p)) (snd (rd q))"
    using alike_ReadBytes [of p q n LE] by (simp add: assms split_def Let_def)
qed

interpretation same_bool: same_reads UDP_ReadBool ReadBool
  by (rule same_reads_map [OF UDP_ReadBool_def ReadBool_def])

interpretation same_int8: same_reads UDP_ReadInt8 ReadInt8
  by (rule same_reads_map [OF UDP_ReadInt8_def ReadInt8_def])

interpretation same_uint8: same_reads UDP_ReadUInt8 ReadUInt8
  by (rule same_reads_map [OF UDP_ReadUInt8_def ReadUInt8_def])

interpretation same_int16_le: same_reads UDP_ReadInt16_LE ReadInt16_LE
  by (rule same_reads_map [OF UDP_ReadInt16_LE_def ReadInt16_LE_def])

interpretation same_int16_be: same_reads UDP_ReadInt16_BE ReadInt16_BE
  by (rule same_reads_map [OF UDP_ReadInt16_BE_def ReadInt16_BE_def])

interpretation same_uint16_le: same_reads UDP_ReadUInt16_LE ReadUInt16_LE
  by (rule same_reads_map [OF UDP_ReadUInt16_LE_def ReadUInt16_LE_def])

interpretation same_uint16_be: same_reads UDP_ReadUInt16_BE ReadUInt16_BE
  by (rule same_reads_map [OF UDP_ReadUInt16_BE_def ReadUInt16_BE_def])

interpretation same_int32_le: same_reads UDP_ReadInt32_LE ReadInt32_LE
  by (rule same_reads_map [OF UDP_ReadInt32_LE_def ReadInt32_LE_def])

interpretation same_int32_be: same_reads UDP_ReadInt32_BE ReadInt32_BE
  by (rule same_reads_map [OF UDP_ReadInt32_BE_def ReadInt32_BE_def])

interpretation same_uint32_le: same_reads UDP_ReadUInt32_LE ReadUInt32_LE
  by (rule same_reads_map [OF UDP_ReadUInt32_LE_def ReadUInt32_LE_def])

interpretation same_uint32_be: same_reads UDP_ReadUInt32_BE ReadUInt32_BE
  by (rule same_reads_map [OF UDP_ReadUInt32_BE_def ReadUInt32_BE_def])

interpretation same_int64_le: same_reads UDP_ReadInt64_LE ReadInt64_LE
  by (rule same_reads_map [OF UDP_ReadInt64_LE_def ReadInt64_LE_def])

interpretation same_int64_be: same_reads UDP_ReadInt64_BE ReadInt64_BE
  by (rule same_reads_map [OF UDP_ReadInt64_BE_def ReadInt64_BE_def])

interpretation same_uint64_le: same_reads UDP_ReadUInt64_LE ReadUInt64_LE
  by (rule same_reads_map [OF UDP_ReadUInt64_LE_def ReadUInt64_LE_def])

interpretation same_uint64_be: same_reads UDP_ReadUInt64_BE ReadUInt64_BE
  by (rule same_reads_map [OF UDP_ReadUInt64_BE_def ReadUInt64_BE_def])

interpretation same_float_le: same_reads UDP_ReadFloat_LE ReadFloat_LE
  by (rule same_reads_map [OF UDP_ReadFloat_LE_def ReadFloat_LE_def])

interpretation same_float_be: same_reads UDP_ReadFloat_BE ReadFloat_BE
  by (rule same_reads_map [OF UDP_ReadFloat_BE_def ReadFloat_BE_def])

interpretation same_double_le: same_reads UDP_ReadDouble_LE ReadDouble_LE
  by (rule same_reads_map [OF UDP_ReadDouble_LE_def ReadDouble_LE_def])

interpretation same_double_be: same_reads UDP_ReadDouble_BE ReadDouble_BE
  by (rule same_reads_map [OF UDP_ReadDouble_BE_def ReadDouble_BE_def])

interpretation same_string: same_reads UDP_ReadString ReadString
proof
  show "fst (UDP_ReadString p) = fst (ReadString q) \<and> alike (snd (UDP_ReadString p)) (snd (ReadString q))"
    if "alike p q" for p q
    using that
  proof (induction p arbitrary: q rule: UDP_ReadString.induct)
    case (1 p)
    obtain c p' q' where s: "UDP_ReadInt8 p = (c, p')" "ReadInt8 q = (c, q')" "alike p' q'"
      by (rule same_int8.step [OF 1(2)])
    show ?case
      using 1(1) [OF s(1) [symmetric] refl _ s(3)] s
      by (subst (1 2) UDP_ReadString.simps, subst (1 2) ReadString.simps) (auto simp: split_def Let_def)
  qed
qed

interpretation same_array_uint8: same_reads "UDP_ReadArray_UInt8 n" "ReadArray_UInt8 n" for n
proof
  show "fst (UDP_ReadArray_UInt8 n p) = fst (ReadArray_UInt8 n q) \<and>
      alike (snd (UDP_ReadArray_UInt8 n p)) (snd (ReadArray_UInt8 n q))" if "alike p q" for p q
    using that
  proof (induction n arbitrary: p q)
    case (Suc n)
    obtain b p' q' where "UDP_ReadUInt8 p = (b, p')" "ReadUInt8 q = (b, q')" "alike p' q'"
      by (rule same_uint8.step [OF Suc.prems])
    then show ?case using Suc.IH by (simp add: split_def Let_def)
  qed simp
qed

interpretation same_array_int8: same_reads "UDP_ReadArray_Int8 n" "ReadArray_Int8 n" for n
proof
  show "fst (UDP_ReadArray_Int8 n p) = fst (ReadArray_Int8 n q) \<and>
      alike (snd (UDP_ReadArray_Int8 n p)) (snd (ReadArray_Int8 n q))" if "alike p q" for p q
    using that
  proof (induction n arbitrary: p q)
    case (Suc n)
    obtain b p' q' where "UDP_ReadInt8 p = (b, p')" "ReadInt8 q = (b, q')" "alike p' q'"
      by (rule same_int8.step [OF Suc.prems])
    then show ?case using Suc.IH by (simp add: split_def Let_def)
  qed simp
qed

section \<open>Writing appends\<close>

definition UDP_append :: "bytes \<Rightarrow> udp_packet \<Rightarrow> udp_packet" where
  "UDP_append bs p = p\<lparr>up_buffer := up_buffer p @ bs, up_writeOffset := up_writeOffset p + length bs\<rparr>"

definition UDP_at_end :: "udp_packet \<Rightarrow> bool" where
  "UDP_at_end p \<longleftrightarrow> up_writeOffset p = length (up_buffer p)"

lemma UDP_at_end_append [simp]: "UDP_at_end p \<Longrightarrow> UDP_at_end (UDP_append bs p)"
  by (simp add: UDP_at_end_def UDP_append_def)

lemma UDP_append_append: "UDP_append cs (UDP_append bs p) = UDP_append (bs @ cs) p"
  by (simp add: UDP_append_def)

lemma UDP_append_Nil [simp]: "UDP_append [] p = p"
  by (simp add: UDP_append_def)

lemma UDP_fold_insert_byte: "UDP_at_end p \<Longrightarrow> fold UDP_insert_byte bs p = UDP_append bs p"
proof (induction bs arbitrary: p)
  case (Cons b bs)
  have "UDP_insert_byte b p = UDP_append [b] p"
    using Cons.prems by (simp add: UDP_insert_byte_def UDP_append_def UDP_at_end_def)
  then show ?case using Cons by (simp add: UDP_append_append)
qed simp

lemma UDP_WriteBytes_append:
  "UDP_at_end p \<Longrightarrow> UDP_WriteBytes n v LE p = UDP_append (if LE then le_bytes n v else rev (le_bytes n v)) p"
  by (simp add: UDP_WriteBytes_def UDP_fold_insert_byte)

lemma fold_UDP_WriteBytes_append:
  "UDP_at_end p \<Longrightarrow> fold (\<lambda>c. UDP_WriteBytes (Suc 0) (f c :: u8) True) cs p = UDP_append (map f cs) p"
  by (induction cs arbitrary: p) (simp_all add: UDP_WriteBytes_append UDP_append_append)

lemma UDP_run_write_append: "UDP_at_end p \<Longrightarrow> UDP_run_write w p = UDP_append (encode w) p"
  by (cases w)
    (simp_all add: UDP_WriteBytes_append fold_UDP_WriteBytes_append UDP_append_append
      fold_UDP_WriteBytes_append [where f = "\<lambda>v. v", simplified])

lemma UDP_run_writes_append: "UDP_at_end p \<Longrightarrow> UDP_run_writes ws p = UDP_append (encodes ws) p"
  unfolding UDP_run_writes_def encodes_def
  by (induction ws arbitrary: p) (simp_all add: UDP_run_write_append UDP_append_append)

lemma up_buffer_run_writes [simp]:
  "up_buffer (UDP_run_writes ws (new_UDPPacket ep bs)) = bs @ encodes ws"
  by (simp add: UDP_run_writes_append UDP_at_end_def new_UDPPacket_def UDP_append_def)

section \<open>Reading what was written\<close>

definition upos :: "bytes \<Rightarrow> bytes \<Rightarrow> udp_packet \<Rightarrow> udp_packet" where
  "upos pre post p = p\<lparr>up_buffer := pre @ post, up_readOffset := length pre\<rparr>"

lemma UDP_ReadBytes_pos:
  "length bs = n \<Longrightarrow> UDP_ReadBytes n LE (upos pre (bs @ post) p) =
    (if LE then bs else rev bs, upos (pre @ bs) post p)"
  by (auto simp: UDP_ReadBytes_def upos_def)

lemma UDP_ReadUInt8_pos: "UDP_ReadUInt8 (upos pre (x # post) p) = (x, upos (pre @ [x]) post p)"
  using UDP_ReadBytes_pos [of "[x]" 1 True] by (simp add: UDP_ReadUInt8_def)

lemma UDP_ReadInt8_pos: "UDP_ReadInt8 (upos pre (x # post) p) = (x, upos (pre @ [x]) post p)"
  using UDP_ReadBytes_pos [of "[x]" 1 True] by (simp add: UDP_ReadInt8_def)

lemma UDP_ReadUInt16_LE_pos:
  "UDP_ReadUInt16_LE (upos pre (le_bytes 2 v @ post) p) = (v, upos (pre @ le_bytes 2 v) post p)"
  by (simp add: UDP_ReadUInt16_LE_def UDP_ReadBytes_pos le_word_le_bytes)

lemma UDP_ReadString_pos:
  "CHR 0x00 \<notin> set s \<Longrightarrow> UDP_ReadString (upos pre (map byte_of s @ 0 # post) p) =
    (s, upos (pre @ map byte_of s @ [0]) post p)"
proof (induction s arbitrary: pre)
  case Nil
  then show ?case by (subst UDP_ReadString.simps) (simp add: UDP_ReadInt8_pos)
next
  case (Cons c s)
  then have "c \<noteq> CHR 0x00" and "CHR 0x00 \<notin> set s" by auto
  with Cons.IH [of "pre @ [byte_of c]"] show ?case
    by (subst UDP_ReadString.simps) (simp add: UDP_ReadInt8_pos)
qed

end
