(* ===== verification/Udp.thy ===== *)
theory Udp
  imports ClientPackets UdpPacket
begin

text \<open>
  The UDP server of \<open>networking/udp_server.cpp\<close>: the datagrams of clients (their endpoints,
  heartbeats, relayed data, pings of a room), the datagrams the servers exchange about their
  channels, and what is done every second.
\<close>

section \<open>Datagrams\<close>

text \<open>
  An endpoint is an address, as \<open>address().to_string()\<close> prints it, and a port. A datagram that
  came in is a \<open>udp_packet\<close> whose endpoint \<open>ep\<close> is passed along; one that goes
  out is the list of its writes. \<open>_isShuttingDown\<close> or a thread not started is
  \<open>\<not> w_udpRunning\<close>. The queues of the class are emptied by the call that fills them,
  as the theory \<open>UdpQueues\<close> shows, so they are not part of the state.
\<close>

type_synonym endpoint = "string \<times> u16"

definition UDP_CLIENT_PACKET_SIGNATURE :: u8 where "UDP_CLIENT_PACKET_SIGNATURE = 87"
definition UDP_RELAY_PACKET_SIGNATURE :: u8 where "UDP_RELAY_PACKET_SIGNATURE = 89"
definition UDP_PING_PACKET_SIGNATURE :: u8 where "UDP_PING_PACKET_SIGNATURE = 96"
definition UDP_CLIENT_HEARTBEAT_TIMEOUT :: u64 where "UDP_CLIENT_HEARTBEAT_TIMEOUT = 15"
definition UDP_SERVER_HEARTBEAT_TIMEOUT :: u64 where "UDP_SERVER_HEARTBEAT_TIMEOUT = 3"
definition RELAY_HEADER_SIZE :: nat where "RELAY_HEADER_SIZE = 10"

definition HELLO :: u8 where "HELLO = 0"
definition HELLO_ANSWER :: u8 where "HELLO_ANSWER = 1"
definition GOODBYE :: u8 where "GOODBYE = 2"
definition HEARTBEAT :: u8 where "HEARTBEAT = 3"
definition NUMPLAYERS :: u8 where "NUMPLAYERS = 4"

lemmas udp_defs = UDP_CLIENT_PACKET_SIGNATURE_def UDP_RELAY_PACKET_SIGNATURE_def UDP_PING_PACKET_SIGNATURE_def
  UDP_SERVER_PACKET_SIGNATURE_def HELLO_def HELLO_ANSWER_def GOODBYE_def HEARTBEAT_def NUMPLAYERS_def

record PingRequest =
  pr_requestEndpoint :: endpoint
  pr_replyEndpoint :: endpoint
  pr_timestamp :: u64

record udp =
  us_currentTime :: u64
  us_pingRequests :: "PingRequest list"

section \<open>Sending\<close>

definition sendPacket :: "endpoint \<Rightarrow> wcall list \<Rightarrow> 'e world \<Rightarrow> 'e world" where
  "sendPacket ep ws w =
     (if w_udpRunning w then w\<lparr>w_udpOut := w_udpOut w @ [(fst ep, snd ep, ws)]\<rparr> else w)"

definition sendClientPacket :: "endpoint \<Rightarrow> 'e world \<Rightarrow> 'e world" where
  "sendClientPacket ep = sendPacket ep [WriteUInt8 UDP_CLIENT_PACKET_SIGNATURE, WriteUInt8 0, WriteUInt8 1]"

text \<open>\<open>buffer.erase(buffer.begin(), buffer.begin() + 10)\<close> is undefined on a shorter buffer.\<close>

definition sendRelayPacket :: "endpoint \<Rightarrow> bytes \<Rightarrow> 'e world \<Rightarrow> 'e world option" where
  "sendRelayPacket ep buffer w =
     (if length buffer < RELAY_HEADER_SIZE then None
      else Some (sendPacket ep [WriteArray_UInt8 (drop RELAY_HEADER_SIZE buffer)] w))"

definition sendPingPacket :: "endpoint \<Rightarrow> bytes \<Rightarrow> 'e world \<Rightarrow> 'e world" where
  "sendPingPacket ep buffer = sendPacket ep [WriteArray_UInt8 buffer]"

text \<open>What the packets between the servers start with.\<close>

definition peer_header :: "ServerConfig \<Rightarrow> u8 \<Rightarrow> wcall list" where
  "peer_header cfg t = [WriteUInt8 UDP_SERVER_PACKET_SIGNATURE, WriteString (cfg_udpAuthKey cfg),
     WriteUInt8 (cfg_serverID cfg), WriteUInt8 (cfg_channelID cfg), WriteUInt8 t]"

definition is_own :: "ServerConfig \<Rightarrow> Server \<Rightarrow> Channel \<Rightarrow> bool" where
  "is_own cfg server channel \<longleftrightarrow> sv_id server = cfg_serverID cfg \<and> ch_id channel = cfg_channelID cfg"

definition other_channels :: "ServerConfig \<Rightarrow> Channel list" where
  "other_channels cfg = concat (map (\<lambda>server. filter (\<lambda>channel. \<not> is_own cfg server channel) (sv_channels server))
     (cfg_serverList cfg))"

definition send_to_channels :: "(Channel \<Rightarrow> bool) \<Rightarrow> wcall list \<Rightarrow> 'e world \<Rightarrow> 'e world" where
  "send_to_channels P ws w =
     fold (\<lambda>channel. sendPacket (ch_ip channel, ch_port channel) ws) (filter P (other_channels (w_cfg w))) w"

definition sendHelloAnswerPacket :: "endpoint \<Rightarrow> 'e world \<Rightarrow> 'e world" where
  "sendHelloAnswerPacket ep w =
     sendPacket ep (peer_header (w_cfg w) HELLO_ANSWER @ [WriteUInt16_LE (of_nat (length (w_userList w)))]) w"

definition sendHelloPacketToAll :: "'e world \<Rightarrow> 'e world" where
  "sendHelloPacketToAll w =
     send_to_channels (\<lambda>_. True) (peer_header (w_cfg w) HELLO @ [WriteUInt16_LE (of_nat (length (w_userList w)))]) w"

definition sendGoodbytePacketToAll :: "'e world \<Rightarrow> 'e world" where
  "sendGoodbytePacketToAll w = send_to_channels ch_isOnline (peer_header (w_cfg w) GOODBYE) w"

definition sendHeartbeatPacket :: "u8 \<Rightarrow> u8 \<Rightarrow> 'e world \<Rightarrow> 'e world option" where
  "sendHeartbeatPacket serverID channelID w = do {
     channel \<leftarrow> channel_at (w_cfg w) serverID channelID;
     Some (sendPacket (ch_ip channel, ch_port channel) (peer_header (w_cfg w) HEARTBEAT) w)
   }"

section \<open>Datagrams of clients\<close>

definition port_type :: "u8 \<Rightarrow> PortType option" where
  "port_type b = (if b = 0 then Some Guest else if b = 1 then Some Host else None)"

definition user_address :: "ptr \<Rightarrow> 'e world \<Rightarrow> string option" where
  "user_address user w = do { c \<leftarrow> conn_of w user; (if c = 0 then None else Some (c_ipAddress (w_conns w c))) }"

text \<open>
  A client names its user; the user must be logged in and the datagram come from its address.
\<close>

definition with_sender :: "udp_packet \<Rightarrow> endpoint \<Rightarrow> 'e world \<Rightarrow> (ptr \<Rightarrow> udp_packet \<Rightarrow> 'e world option) \<Rightarrow> 'e world option" where
  "with_sender packet ep w f =
     (let (userID, packet) = UDP_ReadUInt32_LE packet in do {
        user \<leftarrow> GetUserByUserID userID w;
        logged_in \<leftarrow> IsUserLoggedIn user w;
        (if \<not> logged_in then Some w
         else do {
           ip \<leftarrow> user_address user w;
           (if fst ep \<noteq> ip then Some w else f user packet)
         })
      })"

definition SocketInfo :: "'e env \<Rightarrow> u64 \<Rightarrow> endpoint \<Rightarrow> ptr \<Rightarrow> udp_packet \<Rightarrow> 'e world \<Rightarrow> 'e world option" where
  "SocketInfo E now ep user packet w =
     (let (portType, packet) = UDP_ReadUInt8 packet in
      case port_type portType of
        None \<Rightarrow> Some w
      | Some portType \<Rightarrow>
          let (ip, packet) = UDP_ReadUInt32_LE packet;
              (localPort, packet) = UDP_ReadUInt16_LE packet;
              (retryNum, packet) = UDP_ReadUInt8 packet;
              addr = (case inet_pton E (fst ep) of None \<Rightarrow> 0 | Some a \<Rightarrow> a)
          in do {
            w \<leftarrow> upd_user user (SetUserNetwork portType addr (snd ep) (NOT ip) localPort now) w;
            Some (sendClientPacket ep w)
          })"

definition Heartbeat :: "u64 \<Rightarrow> endpoint \<Rightarrow> ptr \<Rightarrow> 'e world \<Rightarrow> 'e world option" where
  "Heartbeat now ep user w = do {
     u \<leftarrow> w_users w user;
     let n = u_userNetwork u;
     (if snd ep = un_externalGuestPort n then upd_user user (SetUserNetworkHeartbeat Guest now) w
      else if snd ep = un_externalHostPort n then upd_user user (SetUserNetworkHeartbeat Host now) w
      else Some w)
   }"

definition handle_client :: "'e env \<Rightarrow> u64 \<Rightarrow> endpoint \<Rightarrow> udp_packet \<Rightarrow> 'e world \<Rightarrow> 'e world option" where
  "handle_client E now ep packet w =
     with_sender packet ep w (\<lambda>user packet.
       let (t, packet) = UDP_ReadUInt8 packet in
       if t = 0 then SocketInfo E now ep user packet w
       else if t = 1 then Heartbeat now ep user w
       else Some w)"

definition handle_relay :: "endpoint \<Rightarrow> udp_packet \<Rightarrow> 'e world \<Rightarrow> 'e world option" where
  "handle_relay ep packet w =
     with_sender packet ep w (\<lambda>user packet. do {
       u \<leftarrow> w_users w user;
       let n = u_userNetwork u;
       (if snd ep \<noteq> un_externalHostPort n \<and> snd ep \<noteq> un_externalGuestPort n then Some w
        else do {
          room \<leftarrow> GetRoomByRoomID (u_currentRoomID u) w;
          (if room = 0 then Some w
           else
             let (portType, packet) = UDP_ReadUInt8 packet in
             case port_type portType of
               None \<Rightarrow> Some w
             | Some portType \<Rightarrow>
                 let (targetUserID, packet) = UDP_ReadUInt32_LE packet in
                 if targetUserID = 0 then Some w
                 else do {
                   target \<leftarrow> GetUserByUserID targetUserID w;
                   logged_in \<leftarrow> IsUserLoggedIn target w;
                   (if \<not> logged_in then Some w
                    else do {
                      v \<leftarrow> w_users w target;
                      targetRoom \<leftarrow> GetRoomByRoomID (u_currentRoomID v) w;
                      (if targetRoom \<noteq> room then Some w
                       else do {
                         ip \<leftarrow> user_address target w;
                         let m = u_userNetwork v;
                         sendRelayPacket
                           (ip, if portType = Host then un_externalHostPort m else un_externalGuestPort m)
                           (up_buffer packet) w
                       })
                    })
                 })
        })
     })"

text \<open>A request is passed on to the host of the room, its reply back to who asked.\<close>

definition ping_request :: "endpoint \<Rightarrow> bytes \<Rightarrow> ptr \<Rightarrow> udp \<times> 'e world \<Rightarrow> (udp \<times> 'e world) option" where
  "ping_request ep buffer host = (\<lambda>(us, w). do {
     h \<leftarrow> w_users w host;
     ip \<leftarrow> user_address host w;
     let dest = (ip, un_externalHostPort (u_userNetwork h));
     let us = us\<lparr>us_pingRequests := us_pingRequests us @
           [\<lparr>pr_requestEndpoint = ep, pr_replyEndpoint = dest, pr_timestamp = 0\<rparr>]\<rparr>;
     Some (us, sendPingPacket dest buffer w)
   })"

definition ping_reply :: "endpoint \<Rightarrow> bytes \<Rightarrow> udp \<times> 'e world \<Rightarrow> udp \<times> 'e world" where
  "ping_reply ep buffer = (\<lambda>(us, w).
     case find (\<lambda>p. pr_replyEndpoint p = ep) (us_pingRequests us) of
       None \<Rightarrow> (us, w)
     | Some p \<Rightarrow> (us\<lparr>us_pingRequests := remove1 p (us_pingRequests us)\<rparr>,
                  sendPingPacket (pr_requestEndpoint p) buffer w))"

definition handle_ping :: "endpoint \<Rightarrow> udp_packet \<Rightarrow> udp \<times> 'e world \<Rightarrow> (udp \<times> 'e world) option" where
  "handle_ping ep packet = (\<lambda>(us, w).
     let (t, packet) = UDP_ReadUInt8 packet in
     if t \<noteq> 0 \<and> t \<noteq> 1 then Some (us, w)
     else
       let (roomID, packet) = UDP_ReadUInt16_LE packet in do {
         room \<leftarrow> GetRoomByRoomID roomID w;
         (if room = 0 then Some (us, w)
          else do {
            r \<leftarrow> w_rooms w room;
            (if r_roomHostUser r = 0 then Some (us, w)
             else if t = 0 then ping_request ep (up_buffer packet) (r_roomHostUser r) (us, w)
             else Some (ping_reply ep (up_buffer packet) (us, w)))
          })
       })"

section \<open>Datagrams of the other servers\<close>

definition upd_channel :: "u8 \<Rightarrow> u8 \<Rightarrow> (Channel \<Rightarrow> Channel) \<Rightarrow> 'e world \<Rightarrow> 'e world option" where
  "upd_channel serverID channelID f w = do {
     server \<leftarrow> server_at (w_cfg w) serverID;
     channel \<leftarrow> vec_at (sv_channels server) (unat (channelID - 1));
     let server = server\<lparr>sv_channels := (sv_channels server)[unat (channelID - 1) := f channel]\<rparr>;
     Some (w\<lparr>w_cfg := (w_cfg w)\<lparr>cfg_serverList := (cfg_serverList (w_cfg w))[unat (serverID - 1) := server]\<rparr>\<rparr>)
   }"

definition upd_server :: "u8 \<Rightarrow> (Server \<Rightarrow> Server) \<Rightarrow> 'e world \<Rightarrow> 'e world option" where
  "upd_server serverID f w = do {
     server \<leftarrow> server_at (w_cfg w) serverID;
     Some (w\<lparr>w_cfg := (w_cfg w)\<lparr>cfg_serverList := (cfg_serverList (w_cfg w))[unat (serverID - 1) := f server]\<rparr>\<rparr>)
   }"

definition go_offline :: "Channel \<Rightarrow> Channel" where
  "go_offline ch = ch\<lparr>ch_isOnline := False, ch_lastHeartbeat := 0, ch_numPlayers := 0\<rparr>"

definition go_online :: "u64 \<Rightarrow> u16 \<Rightarrow> Channel \<Rightarrow> Channel" where
  "go_online now numPlayers ch = ch\<lparr>ch_isOnline := True, ch_lastHeartbeat := now, ch_numPlayers := numPlayers\<rparr>"

text \<open>A server other than this one is ready when one of its channels is online.\<close>

definition update_status :: "u8 \<Rightarrow> 'e world \<Rightarrow> 'e world option" where
  "update_status serverID w =
     (if serverID \<noteq> cfg_serverID (w_cfg w) then
        upd_server serverID (\<lambda>s. s\<lparr>sv_status := (if list_ex ch_isOnline (sv_channels s) then Ready else NotReady)\<rparr>) w
      else Some w)"

definition handle_server :: "u64 \<Rightarrow> endpoint \<Rightarrow> udp_packet \<Rightarrow> 'e world \<Rightarrow> 'e world option" where
  "handle_server now ep packet w =
     (let (authKey, packet) = UDP_ReadString packet in
      if authKey \<noteq> cfg_udpAuthKey (w_cfg w) then Some w
      else
        let (serverID, packet) = UDP_ReadUInt8 packet;
            (channelID, packet) = UDP_ReadUInt8 packet
        in if serverID = 0 \<or> unat serverID > length (cfg_serverList (w_cfg w)) then Some w
        else do {
          server \<leftarrow> server_at (w_cfg w) serverID;
          (if channelID = 0 \<or> unat channelID > length (sv_channels server) then Some w
           else
             let (t, packet) = UDP_ReadUInt8 packet in
             if t = HELLO \<or> t = HELLO_ANSWER then do {
               let (numPlayers, packet) = UDP_ReadUInt16_LE packet;
               w \<leftarrow> upd_channel serverID channelID (go_online now numPlayers) w;
               w \<leftarrow> (if serverID \<noteq> cfg_serverID (w_cfg w) then upd_server serverID (\<lambda>s. s\<lparr>sv_status := Ready\<rparr>) w
                     else Some w);
               Some (if t = HELLO then sendHelloAnswerPacket ep w else w)
             }
             else if t = GOODBYE then do {
               w \<leftarrow> upd_channel serverID channelID go_offline w;
               update_status serverID w
             }
             else if t = HEARTBEAT then upd_channel serverID channelID (\<lambda>ch. ch\<lparr>ch_lastHeartbeat := now\<rparr>) w
             else if t = NUMPLAYERS then do {
               let (numPlayers, packet) = UDP_ReadUInt16_LE packet;
               upd_channel serverID channelID (\<lambda>ch. ch\<lparr>ch_numPlayers := numPlayers\<rparr>) w
             }
             else Some w)
        })"

text \<open>\<open>handleReceive\<close> with the two handlers it queues for.\<close>

definition handleReceive :: "'e env \<Rightarrow> endpoint \<Rightarrow> bytes \<Rightarrow> udp \<times> 'e world \<Rightarrow> (udp \<times> 'e world) option" where
  "handleReceive E ep buffer = (\<lambda>(us, w).
     if \<not> w_udpRunning w then Some (us, w)
     else
       let (sig, packet) = UDP_ReadUInt8 (new_UDPPacket ep buffer) in
       if sig = UDP_CLIENT_PACKET_SIGNATURE then
         map_option (Pair us) (handle_client E (us_currentTime us) ep packet w)
       else if sig = UDP_RELAY_PACKET_SIGNATURE then map_option (Pair us) (handle_relay ep packet w)
       else if sig = UDP_PING_PACKET_SIGNATURE then handle_ping ep packet (us, w)
       else if sig = UDP_SERVER_PACKET_SIGNATURE then
         map_option (Pair us) (handle_server (us_currentTime us) ep packet w)
       else Some (us, w))"

section \<open>Every second\<close>

text \<open>
  The loops over the server list run over positions, while their bodies write at the positions
  the ids give.
\<close>

definition for_servers :: "(nat \<Rightarrow> Server \<Rightarrow> 'e world \<Rightarrow> 'e world option) \<Rightarrow> 'e world \<Rightarrow> 'e world option" where
  "for_servers f w = foldM (\<lambda>i w. do { server \<leftarrow> vec_at (cfg_serverList (w_cfg w)) i; f i server w })
     [0..<length (cfg_serverList (w_cfg w))] w"

definition for_channels ::
  "nat \<Rightarrow> (Server \<Rightarrow> Channel \<Rightarrow> 'e world \<Rightarrow> 'e world option) \<Rightarrow> 'e world \<Rightarrow> 'e world option" where
  "for_channels i f w = do {
     server \<leftarrow> vec_at (cfg_serverList (w_cfg w)) i;
     foldM (\<lambda>j w. do {
       server \<leftarrow> vec_at (cfg_serverList (w_cfg w)) i;
       channel \<leftarrow> vec_at (sv_channels server) j;
       (if is_own (w_cfg w) server channel then Some w else f server channel w)
     }) [0..<length (sv_channels server)] w
   }"

definition forget_peers :: "'e world \<Rightarrow> 'e world option" where
  "forget_peers = for_servers (\<lambda>i server w. do {
     w \<leftarrow> (if sv_id server \<noteq> cfg_serverID (w_cfg w) then
             upd_server (sv_id server) (\<lambda>s. s\<lparr>sv_status := NotReady\<rparr>) w else Some w);
     for_channels i (\<lambda>server channel. upd_channel (sv_id server) (ch_id channel) go_offline) w
   })"

text \<open>The session row of a user is renewed; without one the user is disconnected.\<close>

definition renew_session :: "'e env \<Rightarrow> ptr \<Rightarrow> 'e world \<Rightarrow> 'e world option" where
  "renew_session E user w = do {
     u \<leftarrow> w_users w user;
     (added, e) \<leftarrow> IsUserSessionAdded E (w_cfg w) (u_userID u) (w_ext w);
     let w = w\<lparr>w_ext := e\<rparr>;
     (if added < 0 \<or> added = 2 then DisconnectUser user w
      else if added = 0 then do {
        (result, e) \<leftarrow> AddUserSession E (w_cfg w) (u_userID u) (w_ext w);
        let w = w\<lparr>w_ext := e\<rparr>;
        (if result \<le> 0 then DisconnectUser user w else Some w)
      }
      else Some w)
   }"

definition renew_room :: "'e env \<Rightarrow> ptr \<Rightarrow> 'e world \<Rightarrow> 'e world option" where
  "renew_room E room w = do {
     r \<leftarrow> w_rooms w room;
     let rs = r_roomSettings r;
     let (result, e) = DB_AddRoom E (w_cfg w) (r_roomID r) False (password rs \<noteq> []) (levelLimit rs)
           (gameModeID rs) (mapID rs) (of_nat (length (r_roomUsers r))) (maxPlayers rs) (w_ext w);
     let w = w\<lparr>w_ext := e\<rparr>;
     (if result \<le> 0 then RemoveRoom E room w else Some w)
   }"

text \<open>After a pause longer than the timeout the state shared with the others is set up again.\<close>

definition resume :: "'e env \<Rightarrow> ptr list \<Rightarrow> 'e world \<Rightarrow> 'e world option" where
  "resume E users w = do {
     w \<leftarrow> forget_peers w;
     let w = sendHelloPacketToAll w;
     w \<leftarrow> foldM (renew_session E) users w;
     let w = w\<lparr>w_ext := DB_RemoveAllRooms E (w_cfg w) (w_ext w)\<rparr>;
     foldM (renew_room E) (filter (\<lambda>room. room \<noteq> 0) (w_roomList w)) w
   }"

definition check_client :: "u64 \<Rightarrow> ptr \<Rightarrow> 'e world \<Rightarrow> 'e world option" where
  "check_client now user w = do {
     u \<leftarrow> w_users w user;
     let n = u_userNetwork u;
     (if un_networkSet n = 3 \<and>
         (un_lastGuestHeartbeat n + UDP_CLIENT_HEARTBEAT_TIMEOUT < now \<or>
          un_lastHostHeartbeat n + UDP_CLIENT_HEARTBEAT_TIMEOUT < now)
      then DisconnectUser user
        (SendPacket_UMsg_ServerMessage (u_connection u) WarningMessage DISCONNECTED_BY_NETWORK_FAILURE [] w)
      else Some w)
   }"

definition check_peer :: "u64 \<Rightarrow> Server \<Rightarrow> Channel \<Rightarrow> 'e world \<Rightarrow> 'e world option" where
  "check_peer now server channel w =
     (if \<not> ch_isOnline channel then Some w
      else if ch_lastHeartbeat channel + UDP_SERVER_HEARTBEAT_TIMEOUT < now then do {
        w \<leftarrow> upd_channel (sv_id server) (ch_id channel) go_offline w;
        update_status (sv_id server) w
      }
      else sendHeartbeatPacket (sv_id server) (ch_id channel) w)"

definition expire_pings :: "u64 \<Rightarrow> udp \<Rightarrow> udp" where
  "expire_pings now us = us\<lparr>us_pingRequests := filter (\<lambda>p. \<not> pr_timestamp p + 3 > now) (us_pingRequests us)\<rparr>"

definition OnSecondTick :: "'e env \<Rightarrow> u64 \<Rightarrow> udp \<times> 'e world \<Rightarrow> (udp \<times> 'e world) option" where
  "OnSecondTick E now = (\<lambda>(us, w).
     if \<not> w_udpRunning w then Some (us, w)
     else do {
       users \<leftarrow> filterM (keep_user (\<lambda>u x. u_connection x \<noteq> 0) w) (w_userList w);
       w \<leftarrow> (if us_currentTime us + UDP_SERVER_HEARTBEAT_TIMEOUT < now then resume E users w else Some w);
       let us = us\<lparr>us_currentTime := now\<rparr>;
       w \<leftarrow> foldM (check_client now) users w;
       let us = expire_pings now us;
       w \<leftarrow> for_servers (\<lambda>i _. for_channels i (check_peer now)) w;
       Some (us, w)
     })"

section \<open>Start and stop\<close>

definition udp_start :: "u64 \<Rightarrow> udp \<times> 'e world \<Rightarrow> udp \<times> 'e world" where
  "udp_start now = (\<lambda>(us, w).
     if w_udpRunning w then (us, w)
     else (us\<lparr>us_currentTime := now\<rparr>, sendHelloPacketToAll (w\<lparr>w_udpRunning := True\<rparr>)))"

definition udp_shutdown :: "udp \<times> 'e world \<Rightarrow> udp \<times> 'e world" where
  "udp_shutdown = (\<lambda>(us, w).
     if \<not> w_udpRunning w then (us, w)
     else (us, (sendGoodbytePacketToAll w)\<lparr>w_udpRunning := False\<rparr>))"

end
