(* ===== verification/Server.thy ===== *)
theory Server
  imports Udp
begin

text \<open>
  The whole process: \<open>TCPServer\<close> and the world side of \<open>TCPConnection\<close>, \<open>ServerConsole\<close> with its
  ticks and commands, \<open>main\<close> and its control handler, and the events that drive them.
\<close>

section \<open>The state of the process\<close>

text \<open>
  The TCP connections (\<open>_connections\<close>, an unordered set, here in some order), the header read last
  on a connection, the seconds since the last minute, the UDP server and the world of the managers.
\<close>

record 'e machine =
  m_connections :: "ptr list"
  m_pending :: "ptr \<Rightarrow> packet option"
  m_secondCount :: nat
  m_udp :: udp
  m_world :: "'e world"

section \<open>TCP server\<close>

definition startAccept :: "ptr \<Rightarrow> string \<Rightarrow> u16 \<Rightarrow> 'e machine \<Rightarrow> 'e machine" where
  "startAccept c ip port m = m\<lparr>m_connections := m_connections m @ [c], m_pending := (m_pending m)(c := None),
     m_world := upd_conn c (\<lambda>_. new_conn ip port) (m_world m)\<rparr>"

text \<open>
  Why a connection is given up: the server closes it (no error code), the socket failed, or it
  failed because it had been closed before. Only the second removes it from the set.
\<close>

datatype cause = NoError | SocketError | BadDescriptor

definition disconnect :: "'e env \<Rightarrow> ptr \<Rightarrow> cause \<Rightarrow> 'e machine \<Rightarrow> 'e machine option" where
  "disconnect E c reason m = do {
     w \<leftarrow> DisconnectUserByConnection E c (reason = BadDescriptor) (m_world m);
     Some (m\<lparr>m_world := w,
       m_connections := (if reason = SocketError then remove1 c (m_connections m) else m_connections m)\<rparr>)
   }"

text \<open>
  \<open>DisconnectClient(ec)\<close>: sending the greeting or the TLS handshake failed. There is no user yet.
\<close>

definition start_failed :: "ptr \<Rightarrow> cause \<Rightarrow> 'e machine \<Rightarrow> 'e machine" where
  "start_failed c reason m =
     (if reason = BadDescriptor then m
      else m\<lparr>m_connections := remove1 c (m_connections m), m_world := upd_conn c DisconnectClient (m_world m)\<rparr>)"

definition set_conn :: "ptr \<Rightarrow> conn \<Rightarrow> 'e \<Rightarrow> 'e machine \<Rightarrow> 'e machine" where
  "set_conn c k e m = m\<lparr>m_world := (upd_conn c (\<lambda>_. k) (m_world m))\<lparr>w_ext := e\<rparr>\<rparr>"

definition receive_header :: "'e env \<Rightarrow> ptr \<Rightarrow> bytes \<Rightarrow> 'e machine \<Rightarrow> 'e machine option" where
  "receive_header E c buffer m =
     (let (outcome, k, e) = onReadHeader E c buffer (w_conns (m_world m) c) (w_ext (m_world m));
          m = set_conn c k e m
      in case outcome of
           ReadBody packet \<Rightarrow> Some (m\<lparr>m_pending := (m_pending m)(c \<mapsto> packet)\<rparr>)
         | _ \<Rightarrow> disconnect E c NoError m)"

text \<open>
  \<open>processPacket\<close>: the packets that are queued are handled in order and leave the queue one by
  one. Nothing is queued meanwhile, since reading and handling share a thread.
\<close>

definition processPacket :: "'e env \<Rightarrow> u64 \<Rightarrow> ptr \<Rightarrow> 'e world \<Rightarrow> 'e world option" where
  "processPacket E now c w = foldM (\<lambda>packet w. do {
       w \<leftarrow> ParsePacket E now packet w;
       Some (upd_conn c (\<lambda>k. k\<lparr>c_incomingPackets := tl (c_incomingPackets k)\<rparr>) w)
     }) (c_incomingPackets (w_conns w c)) w"

definition receive_body :: "'e env \<Rightarrow> u64 \<Rightarrow> ptr \<Rightarrow> bytes \<Rightarrow> 'e machine \<Rightarrow> 'e machine option" where
  "receive_body E now c buffer m =
     (case m_pending m c of
        None \<Rightarrow> Some m
      | Some packet \<Rightarrow> do {
          (outcome, k, e) \<leftarrow> onReadBody E packet buffer (w_conns (m_world m) c) (w_ext (m_world m));
          let m = (set_conn c k e m)\<lparr>m_pending := (m_pending m)(c := None)\<rparr>;
          (case outcome of
             ReadDone True \<Rightarrow> map_option (\<lambda>w. m\<lparr>m_world := w\<rparr>) (processPacket E now c (m_world m))
           | ReadDone False \<Rightarrow> Some m
           | _ \<Rightarrow> disconnect E c NoError m)
        })"

definition write_front :: "'e env \<Rightarrow> ptr \<Rightarrow> 'e machine \<Rightarrow> 'e machine option" where
  "write_front E c m = do {
     (outcome, k, e) \<leftarrow> asyncWrite E (cfg_ssl (w_cfg (m_world m))) (w_conns (m_world m) c) (w_ext (m_world m));
     let m = set_conn c k e m;
     (if outcome = WriteDisconnect then disconnect E c NoError m else Some m)
   }"

definition written :: "ptr \<Rightarrow> 'e machine \<Rightarrow> 'e machine" where
  "written c m = m\<lparr>m_world := upd_conn c (\<lambda>k. snd (onWrite k)) (m_world m)\<rparr>"

text \<open>\<open>TCPServer::shutdown\<close>: every connection is closed and leaves the set.\<close>

definition drop_connections :: "ptr list \<Rightarrow> 'e machine \<Rightarrow> 'e machine" where
  "drop_connections cs m = fold (\<lambda>c m. m\<lparr>m_connections := remove1 c (m_connections m),
     m_world := upd_conn c DisconnectClient (m_world m)\<rparr>) cs m"

definition tcp_shutdown :: "'e machine \<Rightarrow> 'e machine" where
  "tcp_shutdown m = drop_connections (m_connections m) m"

section \<open>Server console\<close>

definition console_second_tick :: "'e env \<Rightarrow> u64 \<Rightarrow> 'e machine \<Rightarrow> 'e machine option" where
  "console_second_tick E now m = do {
     (us, w) \<leftarrow> OnSecondTick E now (m_udp m, m_world m);
     let n = m_secondCount m + 1;
     Some (if n = 60 then m\<lparr>m_udp := us, m_world := OnMinuteTick E now w, m_secondCount := 0\<rparr>
           else m\<lparr>m_udp := us, m_world := w, m_secondCount := n\<rparr>)
   }"

definition clear_rooms :: "'e env \<Rightarrow> 'e world \<Rightarrow> 'e world option" where
  "clear_rooms E w =
     (if w_roomList w = [] then Some w
      else do {
        w \<leftarrow> RemoveAllRooms E w;
        Some (w\<lparr>w_ext := DB_RemoveAllRooms E (w_cfg w) (w_ext w)\<rparr>)
      })"

text \<open>The connections without a user are closed at once; those of users when their read fails.\<close>

definition strangers :: "'e world \<Rightarrow> ptr list \<Rightarrow> ptr list option" where
  "strangers w cs = filterM (\<lambda>c. map_option (\<lambda>user. user = 0) (GetUserByConnection c w)) cs"

definition disconnect_all_clients :: "'e env \<Rightarrow> 'e machine \<Rightarrow> 'e machine option" where
  "disconnect_all_clients E m =
     (if m_connections m = [] then Some m
      else do {
        w \<leftarrow> clear_rooms E (m_world m);
        cs \<leftarrow> strangers w (m_connections m);
        let m = drop_connections cs (m\<lparr>m_world := w\<rparr>);
        w \<leftarrow> DisconnectAllUsers (m_world m);
        Some (m\<lparr>m_world := w\<rparr>)
      })"

text \<open>The \<open>status\<close> command: connections, logged in, not logged in, rooms.\<close>

definition console_status :: "'e machine \<Rightarrow> u64 \<times> u64 \<times> u64 \<times> u64" where
  "console_status m = (let w = m_world m; n = of_nat (length (m_connections m)); k = of_nat (length (w_userList w))
     in (n, k, n - k, of_nat (length (w_roomList w))))"

datatype command = Status | Clients | DisconnectAllClients | RemoveAllRoomsCommand | Unknown | Stop

definition command_of :: "string \<Rightarrow> command" where
  "command_of s = (if s = ''stop'' then Stop else if s = ''status'' then Status else if s = ''clients'' then Clients
     else if s = ''disconnectallclients'' then DisconnectAllClients
     else if s = ''removeallrooms'' then RemoveAllRoomsCommand else Unknown)"

fun run_command :: "'e env \<Rightarrow> command \<Rightarrow> 'e machine \<Rightarrow> 'e machine option" where
  "run_command E DisconnectAllClients m = disconnect_all_clients E m"
| "run_command E RemoveAllRoomsCommand m = map_option (\<lambda>w. m\<lparr>m_world := w\<rparr>) (clear_rooms E (m_world m))"
| "run_command E _ m = Some m"

section \<open>Start and end of the process\<close>

definition clean_database :: "'e env \<Rightarrow> ServerConfig \<Rightarrow> 'e \<Rightarrow> 'e" where
  "clean_database E cfg e =
     DB_RemoveAllRooms E cfg (RemoveAllUserTransfers E cfg (RemoveAllUserSessions E cfg e))"

definition start_server :: "'e env \<Rightarrow> u64 \<Rightarrow> ServerConfig \<Rightarrow> 'e \<Rightarrow> 'e machine" where
  "start_server E now cfg e =
     (let w = \<lparr>w_users = (\<lambda>_. None), w_rooms = (\<lambda>_. None), w_conns = (\<lambda>_. new_conn [] 0), w_userList = [],
               w_roomList = [], w_next = 1, w_cfg = cfg, w_udpRunning = False, w_udpOut = [],
               w_ext = clean_database E cfg e\<rparr>;
          (us, w) = udp_start now (\<lparr>us_currentTime = 0, us_pingRequests = []\<rparr>, w)
      in \<lparr>m_connections = [], m_pending = (\<lambda>_. None), m_secondCount = 0, m_udp = us, m_world = w\<rparr>)"

text \<open>\<open>ConsoleCtrlHandler\<close> on the events that end the process.\<close>

definition ctrl_close :: "'e env \<Rightarrow> 'e machine \<Rightarrow> 'e machine option" where
  "ctrl_close E m = do {
     w \<leftarrow> RemoveAllRooms E (m_world m);
     w \<leftarrow> DisconnectAllUsers w;
     let w = w\<lparr>w_ext := DB_Shutdown E (w_cfg w) (w_ext w)\<rparr>;
     let m = tcp_shutdown (m\<lparr>m_world := w\<rparr>);
     let (us, w) = udp_shutdown (m_udp m, m_world m);
     Some (m\<lparr>m_udp := us, m_world := w\<rparr>)
   }"

section \<open>Events\<close>

datatype event =
    Accept ptr string u16
  | Received_Header ptr bytes
  | Received_Body u64 ptr bytes
  | Start_Failed ptr cause
  | Read_Failed ptr cause
  | Write_Front ptr
  | Written ptr
  | Datagram endpoint bytes
  | Second_Tick u64
  | Command command

fun perform :: "'e env \<Rightarrow> event \<Rightarrow> 'e machine \<Rightarrow> 'e machine option" where
  "perform E (Accept c ip port) m = Some (startAccept c ip port m)"
| "perform E (Received_Header c bs) m = receive_header E c bs m"
| "perform E (Received_Body now c bs) m = receive_body E now c bs m"
| "perform E (Start_Failed c reason) m = Some (start_failed c reason m)"
| "perform E (Read_Failed c reason) m = disconnect E c reason m"
| "perform E (Write_Front c) m = write_front E c m"
| "perform E (Written c) m = Some (written c m)"
| "perform E (Datagram ep bs) m =
     map_option (\<lambda>(us, w). m\<lparr>m_udp := us, m_world := w\<rparr>) (handleReceive E ep bs (m_udp m, m_world m))"
| "perform E (Second_Tick now) m = console_second_tick E now m"
| "perform E (Command cmd) m = run_command E cmd m"

end
