(* ===== verification/Queues.thy ===== *)
theory Queues
  imports Udp
begin

text \<open>
  What no handler does to a connection: the packets it has received stay as they are (only
  \<open>onReadBody\<close> appends one and only \<open>processPacket\<close> takes one off), and every frame in its write
  queue keeps a packet id behind the header, which \<open>asyncWrite\<close> looks at. \<open>link w w'\<close> says so of the
  worlds before and after; one lemma per group of operations shows that they keep it, by the rules
  for the constructs they are built from.
\<close>

section \<open>The relation\<close>

definition queue_ok :: "conn \<Rightarrow> bool" where
  "queue_ok c \<longleftrightarrow> list_all (\<lambda>b. PACKET_HEADER_SIZE < length b) (c_outgoingPackets c)"

definition link :: "'e world \<Rightarrow> 'e world \<Rightarrow> bool" where
  "link w w' \<longleftrightarrow> (\<forall>c. c_incomingPackets (w_conns w' c) = c_incomingPackets (w_conns w c) \<and>
     c_decrypt (w_conns w' c) = c_decrypt (w_conns w c) \<and>
     (queue_ok (w_conns w c) \<longrightarrow> queue_ok (w_conns w' c)))"

definition conn_link :: "conn \<Rightarrow> conn \<Rightarrow> bool" where
  "conn_link c c' \<longleftrightarrow> c_incomingPackets c' = c_incomingPackets c \<and> c_decrypt c' = c_decrypt c \<and> (queue_ok c \<longrightarrow> queue_ok c')"

text \<open>\<open>kept g w0 m\<close>: when \<open>m\<close> returns, the world \<open>g\<close> reads off its result is linked to \<open>w0\<close>.\<close>

definition kept :: "('a \<Rightarrow> 'e world) \<Rightarrow> 'e world \<Rightarrow> 'a option \<Rightarrow> bool" where
  "kept g w0 m \<longleftrightarrow> (\<forall>x. m = Some x \<longrightarrow> link w0 (g x))"

abbreviation keeps_queues :: "'e world \<Rightarrow> 'e world option \<Rightarrow> bool" where
  "keeps_queues \<equiv> kept (\<lambda>w. w)"

lemma link_refl [simp]: "link w w"
  by (simp add: link_def)

lemma link_trans: "link w0 w \<Longrightarrow> link w w1 \<Longrightarrow> link w0 w1"
  by (simp add: link_def)

lemma link_fields [simp]:
  "link w0 (w\<lparr>w_ext := e\<rparr>) = link w0 w"
  "link w0 (w\<lparr>w_users := us\<rparr>) = link w0 w"
  "link w0 (w\<lparr>w_rooms := rs\<rparr>) = link w0 w"
  "link w0 (w\<lparr>w_userList := ul\<rparr>) = link w0 w"
  "link w0 (w\<lparr>w_roomList := rl\<rparr>) = link w0 w"
  "link w0 (w\<lparr>w_next := n\<rparr>) = link w0 w"
  "link w0 (w\<lparr>w_cfg := cfg\<rparr>) = link w0 w"
  "link w0 (w\<lparr>w_udpRunning := b\<rparr>) = link w0 w"
  "link w0 (w\<lparr>w_udpOut := out\<rparr>) = link w0 w"
  by (simp_all add: link_def)

lemma link_conns:
  assumes "link w0 w" and "conn_link (w_conns w c) k" and "w_conns w1 = (w_conns w)(c := k)"
  shows "link w0 w1"
  using assms by (auto simp: link_def conn_link_def)

lemma link_upd_conn:
  "link w0 w \<Longrightarrow> (\<And>k. conn_link k (f k)) \<Longrightarrow> link w0 (upd_conn c f w)"
  by (rule link_conns [where c = c and k = "f (w_conns w c)"]) (simp_all add: upd_conn_def)

lemma conn_link_WritePacket:
  "server_packet p \<Longrightarrow> conn_link k (WritePacket p k)"
  by (auto simp: conn_link_def WritePacket_frame queue_ok_def PACKET_HEADER_SIZE_def server_packet_def)

lemma link_send [simp, intro]: "link w0 w \<Longrightarrow> link w0 (send c pid ws w)"
  by (auto simp: send_def server_packet_run_writes intro!: link_upd_conn conn_link_WritePacket)

section \<open>Rules\<close>

lemma kept_Some [simp]: "kept g w0 (Some x) = link w0 (g x)"
  by (simp add: kept_def)

lemma kept_None [simp]: "kept g w0 None"
  by (simp add: kept_def)

lemma kept_if: "(b \<Longrightarrow> kept g w0 m) \<Longrightarrow> (\<not> b \<Longrightarrow> kept g w0 n) \<Longrightarrow> kept g w0 (if b then m else n)"
  by simp

lemma link_if: "(b \<Longrightarrow> link w0 m) \<Longrightarrow> (\<not> b \<Longrightarrow> link w0 n) \<Longrightarrow> link w0 (if b then m else n)"
  by simp

lemma kept_option: "kept g w0 m \<Longrightarrow> (\<And>x. kept g w0 (f x)) \<Longrightarrow> kept g w0 (case o' of None \<Rightarrow> m | Some x \<Rightarrow> f x)"
  by (cases o') simp_all

lemma kept_bind_world:
  assumes "kept (\<lambda>w. w) w0 m" and "\<And>w. link w0 w \<Longrightarrow> kept g w0 (f w)"
  shows "kept g w0 (Option.bind m f)"
  using assms by (cases m) (simp_all add: kept_def)

lemma kept_bind_pair:
  assumes "kept snd w0 m" and "\<And>x w. link w0 w \<Longrightarrow> kept g w0 (f (x, w))"
  shows "kept g w0 (Option.bind m f)"
  using assms by (cases m) (auto simp: kept_def)

lemma kept_bind_value: "(\<And>x. kept g w0 (f x)) \<Longrightarrow> kept g w0 (Option.bind m f)"
  by (cases m) simp_all

lemma kept_map_option_world:
  assumes "kept (\<lambda>w. w) w0 m" and "\<And>w. link w0 w \<Longrightarrow> link w0 (g (f w))"
  shows "kept g w0 (map_option f m)"
  using assms by (cases m) (simp_all add: kept_def)

lemma kept_map_option: "(\<And>x. link w0 (g (f x))) \<Longrightarrow> kept g w0 (map_option f m)"
  by (cases m) simp_all

lemma kept_foldM:
  assumes "link w0 (g s)" and "\<And>x s. link w0 (g s) \<Longrightarrow> kept g w0 (f x s)"
  shows "kept g w0 (foldM f xs s)"
  using assms(1)
proof (induction xs arbitrary: s)
  case (Cons x xs)
  then show ?case
    using assms(2) [of s x] by (cases "f x s") (simp_all add: kept_def)
qed simp

lemma kept_foldM_world:
  "link w0 w \<Longrightarrow> (\<And>x w. link w0 w \<Longrightarrow> kept (\<lambda>w. w) w0 (f x w)) \<Longrightarrow> kept (\<lambda>w. w) w0 (foldM f xs w)"
  by (rule kept_foldM)

lemma kept_foldM_pair:
  "link w0 w \<Longrightarrow> (\<And>x a w. link w0 w \<Longrightarrow> kept snd w0 (f x (a, w))) \<Longrightarrow> kept snd w0 (foldM f xs (a, w))"
  by (rule kept_foldM) auto

lemmas kept_rules = kept_Some [THEN iffD2] kept_if link_if kept_option kept_bind_world kept_bind_pair kept_bind_value
  kept_foldM_world kept_foldM_pair link_send

named_theorems frames \<open>which operations keep the queues\<close>

lemma upd_frames [frames]:
  "link w0 w \<Longrightarrow> keeps_queues w0 (upd_user p f w)"
  "link w0 w \<Longrightarrow> keeps_queues w0 (upd_room p h w)"
  "link w0 w \<Longrightarrow> keeps_queues w0 (SetUserStatus s p w)"
  "link w0 w \<Longrightarrow> keeps_queues w0 (SetCurrentRoomID i p w)"
  "link w0 w \<Longrightarrow> keeps_queues w0 (SetGameMatch gm p w)"
  by (simp_all add: upd_user_def upd_room_def SetUserStatus_def SetCurrentRoomID_def SetGameMatch_def kept_map_option)

section \<open>Messages\<close>

lemma user_character_frame [frames]: "link w0 w \<Longrightarrow> kept snd w0 (user_character E p flag w)"
  unfolding user_character_def split_def
  by (rule frames kept_rules | assumption | simp)+

lemmas message_defs = SendPacket_Reply_def SendPacket_Inventory_def SendPacket_Crypt_def SendPacket_ClientCheck_def
  SendPacket_Option_UserConfig_def SendPacket_Option_UserQuickStart_def SendPacket_Favorite_UserBuyMenu_def
  SendPacket_Favorite_UserBookMark_def SendPacket_UMsg_NoticeMessage_def SendPacket_UMsg_ServerMessage_def
  sendPacket_UMsg_Chat_def SendPacket_ServerList_def SendPacket_Lobby_RemoveUser_def SendPacket_RoomList_RemoveRoom_def
  SendPacket_Room_UserLeave_def SendPacket_Room_ReplyUpdateRoomSettings_def SendPacket_Room_GameResult_def
  SendPacket_Room_LeaveRoomInGame_def sendPacket_Room_UserReady_def SendPacket_Host_HostJoin_def
  SendPacket_Host_ResultClose_def sendPacket_Host_HostEndSession_def SendRoomUserLeavePacket_def

lemma message_frames [simp]:
  "link w0 w \<Longrightarrow> link w0 (SendPacket_Reply c t txt w)"
  "link w0 w \<Longrightarrow> link w0 (SendPacket_Inventory c items w)"
  "link w0 w \<Longrightarrow> link w0 (SendPacket_Crypt c ct ci w)"
  "link w0 w \<Longrightarrow> link w0 (SendPacket_ClientCheck c w)"
  "link w0 w \<Longrightarrow> link w0 (SendPacket_Option_UserConfig c bs w)"
  "link w0 w \<Longrightarrow> link w0 (SendPacket_Option_UserQuickStart c q w)"
  "link w0 w \<Longrightarrow> link w0 (SendPacket_Favorite_UserBuyMenu c bm w)"
  "link w0 w \<Longrightarrow> link w0 (SendPacket_Favorite_UserBookMark c bk w)"
  "link w0 w \<Longrightarrow> link w0 (SendPacket_UMsg_NoticeMessage c s w)"
  "link w0 w \<Longrightarrow> link w0 (SendPacket_UMsg_ServerMessage c b s ss w)"
  "link w0 w \<Longrightarrow> link w0 (sendPacket_UMsg_Chat c b s s' w)"
  "link w0 w \<Longrightarrow> link w0 (SendPacket_ServerList c svs w)"
  "link w0 w \<Longrightarrow> link w0 (SendPacket_Lobby_RemoveUser c i w)"
  "link w0 w \<Longrightarrow> link w0 (SendPacket_RoomList_RemoveRoom c rid w)"
  "link w0 w \<Longrightarrow> link w0 (SendPacket_Room_UserLeave c i w)"
  "link w0 w \<Longrightarrow> link w0 (SendPacket_Room_ReplyUpdateRoomSettings c rs w)"
  "link w0 w \<Longrightarrow> link w0 (SendPacket_Room_GameResult c w)"
  "link w0 w \<Longrightarrow> link w0 (SendPacket_Room_LeaveRoomInGame c w)"
  "link w0 w \<Longrightarrow> link w0 (sendPacket_Room_UserReady c i b w)"
  "link w0 w \<Longrightarrow> link w0 (SendPacket_Host_HostJoin c i w)"
  "link w0 w \<Longrightarrow> link w0 (SendPacket_Host_ResultClose c w)"
  "link w0 w \<Longrightarrow> link w0 (sendPacket_Host_HostEndSession c w)"
  "link w0 w \<Longrightarrow> link w0 (SendRoomUserLeavePacket c i w)"
  by (simp_all add: message_defs Let_def)

lemma answer_frames [frames]:
  "link w0 w \<Longrightarrow> keeps_queues w0 (SendPacket_UserStart g w)"
  "link w0 w \<Longrightarrow> keeps_queues w0 (SendPacket_UpdateInfo g w)"
  "link w0 w \<Longrightarrow> keeps_queues w0 (SendPacket_Lobby_FullUserList c gs w)"
  "link w0 w \<Longrightarrow> keeps_queues w0 (SendPacket_Lobby_AddUser c g w)"
  "link w0 w \<Longrightarrow> keeps_queues w0 (SendPacket_RoomList_FullRoomList c ps flag w)"
  "link w0 w \<Longrightarrow> keeps_queues w0 (SendPacket_RoomList_AddRoom c p flag w)"
  "link w0 w \<Longrightarrow> keeps_queues w0 (SendPacket_RoomList_UpdateRoom c p flag w)"
  "link w0 w \<Longrightarrow> keeps_queues w0 (sendPacket_Room_ReplyCreateAndJoin c p gs w)"
  "link w0 w \<Longrightarrow> keeps_queues w0 (sendPacket_Room_UserJoin c g w)"
  "link w0 w \<Longrightarrow> keeps_queues w0 (SendPacket_Host_HostStart p w)"
  "link w0 w \<Longrightarrow> keeps_queues w0 (SendPacket_Host_HostRestart c b i ms sd w)"
  unfolding SendPacket_UserStart_def SendPacket_UpdateInfo_def SendPacket_Lobby_FullUserList_def
    SendPacket_Lobby_AddUser_def SendPacket_RoomList_FullRoomList_def SendPacket_RoomList_AddRoom_def
    SendPacket_RoomList_UpdateRoom_def sendPacket_Room_ReplyCreateAndJoin_def sendPacket_Room_UserJoin_def
    SendPacket_Host_HostStart_def SendPacket_Host_HostRestart_def Let_def
  by (rule kept_rules | simp)+

section \<open>Managers\<close>

lemma for_users_frame [frames]:
  "link w0 w \<Longrightarrow> (\<And>c w. link w0 w \<Longrightarrow> keeps_queues w0 (f c w)) \<Longrightarrow> keeps_queues w0 (for_users f us w)"
  unfolding for_users_def by (rule kept_rules | assumption)+

lemma collect_characters_frame [frames]:
  "link w0 w \<Longrightarrow> kept snd w0 (collect_characters E us (gs, w))"
  unfolding collect_characters_def split_def
  by (rule frames kept_rules | assumption | simp)+

lemma manager_frames [frames]:
  "link w0 w \<Longrightarrow> keeps_queues w0 (SendFullUserListPacket E c w)"
  "link w0 w \<Longrightarrow> keeps_queues w0 (SendAddUserPacketToAll E p w)"
  "link w0 w \<Longrightarrow> keeps_queues w0 (SendRemoveUserPacketToAll p w)"
  "link w0 w \<Longrightarrow> keeps_queues w0 (SendFullRoomListPacket c w)"
  "link w0 w \<Longrightarrow> keeps_queues w0 (SendAddRoomPacketToAll p flag w)"
  "link w0 w \<Longrightarrow> keeps_queues w0 (SendRemoveRoomPacketToAll rid w)"
  "link w0 w \<Longrightarrow> keeps_queues w0 (SendUpdateRoomPacket c p flag w)"
  "link w0 w \<Longrightarrow> keeps_queues w0 (SendUpdateRoomPacketToAll p flag w)"
  "link w0 w \<Longrightarrow> keeps_queues w0 (UpdateRoom E p w)"
  unfolding SendFullUserListPacket_def SendAddUserPacketToAll_def SendRemoveUserPacketToAll_def
    SendFullRoomListPacket_def SendAddRoomPacketToAll_def SendRemoveRoomPacketToAll_def SendUpdateRoomPacket_def
    SendUpdateRoomPacketToAll_def UpdateRoom_def Let_def split_def
  by (rule frames kept_rules | assumption | simp)+

lemma SearchRoom_frame [frames]: "link w0 w \<Longrightarrow> kept snd w0 (SearchRoom E l mode map_id lvl cb w)"
  unfolding SearchRoom_def split_def by (rule frames kept_rules | assumption | simp)+

section \<open>Rooms and users\<close>

lemma room_frames [frames]:
  "link w0 w \<Longrightarrow> keeps_queues w0 (UpdateRoomHostUser p q w)"
  "link w0 w \<Longrightarrow> keeps_queues w0 (Room_UpdateRoomSettings rs p w)"
  "link w0 w \<Longrightarrow> kept snd w0 (AddRoomUser p q w)"
  "link w0 w \<Longrightarrow> kept snd w0 (AddRoom E p w)"
  unfolding UpdateRoomHostUser_def Room_UpdateRoomSettings_def AddRoomUser_def AddRoom_def Let_def split_def
  by (rule frames kept_rules | assumption | simp)+

lemma room_state_frames [frames]:
  "link w0 w \<Longrightarrow> keeps_queues w0 (set_room_state st p w)"
  "link w0 w \<Longrightarrow> keeps_queues w0 (announce_room_state st p us w)"
  "link w0 w \<Longrightarrow> keeps_queues w0 (migrate_host p ms w)"
  "link w0 w \<Longrightarrow> keeps_queues w0 (evict_user E p w)"
  unfolding set_room_state_def announce_room_state_def migrate_host_def evict_user_def Let_def
  by (rule frames kept_rules | assumption | simp)+

lemma delete_room_frame [frames]: "link w0 w \<Longrightarrow> keeps_queues w0 (delete_room E p w)"
  unfolding delete_room_def by (rule frames kept_rules | assumption | simp)+

lemma remove_room_frames [frames]:
  "link w0 w \<Longrightarrow> keeps_queues w0 (RemoveRoom E p w)"
  "link w0 w \<Longrightarrow> keeps_queues w0 (RemoveAllRooms E w)"
  "link w0 w \<Longrightarrow> keeps_queues w0 (replace_host p us w)"
  unfolding RemoveRoom_def RemoveAllRooms_def replace_host_def Let_def
  by (rule frames kept_rules | assumption | simp)+

lemma RemoveRoomUser_frame [frames]: "link w0 w \<Longrightarrow> keeps_queues w0 (RemoveRoomUser E p q w)"
  unfolding RemoveRoomUser_def by (rule frames kept_rules | assumption | simp)+

lemma link_SendNumPlayersPacketToAll [simp]: "link w0 (SendNumPlayersPacketToAll w) = link w0 w"
  by (simp add: SendNumPlayersPacketToAll_def Let_def)

lemma UpdateChannelNumPlayers_frame [frames]: "link w0 w \<Longrightarrow> keeps_queues w0 (UpdateChannelNumPlayers w)"
  unfolding UpdateChannelNumPlayers_def Let_def by (rule frames kept_rules | assumption | simp)+

lemma conn_link_DisconnectClient: "conn_link k (DisconnectClient k)"
  by (simp add: conn_link_def DisconnectClient_def queue_ok_def)

lemma link_DisconnectClient [simp]: "link w0 w \<Longrightarrow> link w0 (upd_conn c DisconnectClient w)"
  by (erule link_upd_conn) (rule conn_link_DisconnectClient)

lemma user_frames [frames]:
  "link w0 w \<Longrightarrow> kept snd w0 (AddUser E p w)"
  "link w0 w \<Longrightarrow> keeps_queues w0 (RemoveUser E p w)"
  "link w0 w \<Longrightarrow> keeps_queues w0 (DisconnectUser p w)"
  unfolding AddUser_def RemoveUser_def DisconnectUser_def Let_def split_def
  by (rule frames kept_rules link_DisconnectClient | assumption | simp)+

lemma disconnect_frames [frames]:
  "link w0 w \<Longrightarrow> keeps_queues w0 (DisconnectAllUsers w)"
  "link w0 w \<Longrightarrow> keeps_queues w0 (DisconnectUserByConnection E c bad w)"
  unfolding DisconnectAllUsers_def DisconnectUserByConnection_def
  by (rule frames kept_rules link_DisconnectClient | assumption | simp)+

lemma conn_link_SetupCipher:
  "SetupEncryptCipher E meth k e = (ok, k', e') \<Longrightarrow> conn_link k k'"
  "SetupDecryptCipher E meth k e = (ok, k', e') \<Longrightarrow> conn_link k k'"
  by (auto simp: SetupEncryptCipher_def SetupDecryptCipher_def Let_def conn_link_def queue_ok_def
      split: prod.splits option.splits if_splits)

lemma link_offer_cipher:
  assumes "link w0 w" and "\<And>k e ok k' e'. setup E meth k e = (ok, k', e') \<Longrightarrow> conn_link k k'"
  shows "link w0 (offer_cipher setup of' t E meth c w)"
proof -
  obtain ok k e where s: "setup E meth (w_conns w c) (w_ext w) = (ok, k, e)" by (metis prod_cases3)
  have "link w0 (w\<lparr>w_conns := (w_conns w)(c := k), w_ext := e\<rparr>)"
    by (rule link_conns [OF assms(1) assms(2) [OF s]]) simp
  then show ?thesis by (simp add: offer_cipher_def s Let_def)
qed

lemma offer_cipher_frames [simp]:
  "link w0 w \<Longrightarrow> link w0 (offer_cipher SetupEncryptCipher of' t E meth c w)"
  "link w0 w \<Longrightarrow> link w0 (offer_cipher SetupDecryptCipher of' t E meth c w)"
  by (rule link_offer_cipher, assumption, erule conn_link_SetupCipher)+

lemma send_login_data_frame [frames]: "link w0 w \<Longrightarrow> keeps_queues w0 (send_login_data E c i w)"
  unfolding send_login_data_def Let_def split_def by (rule frames kept_rules | assumption | simp)+

lemma SendLoginPackets_frame [frames]: "link w0 w \<Longrightarrow> keeps_queues w0 (SendLoginPackets E p r w)"
  unfolding SendLoginPackets_def Let_def split_def by (rule frames kept_rules | assumption | simp)+

section \<open>Handlers\<close>

lemma with_user_frame:
  "link w0 w \<Longrightarrow> (\<And>p. keeps_queues w0 (f p)) \<Longrightarrow> keeps_queues w0 (with_user packet w f)"
  unfolding with_user_def by (rule frames kept_rules | assumption)+

lemma unless_logged_in_frame:
  "link w0 w \<Longrightarrow> keeps_queues w0 m \<Longrightarrow> keeps_queues w0 (unless_logged_in c w m)"
  unfolding unless_logged_in_def by (rule frames kept_rules | assumption)+

lemma with_match_frame:
  "link w0 w \<Longrightarrow> (\<And>p r gm. keeps_queues w0 (f p r gm)) \<Longrightarrow> keeps_queues w0 (with_match status_ok u w f)"
  unfolding with_match_def by (rule frames kept_rules | assumption)+

lemmas guard_frames = with_user_frame unless_logged_in_frame with_match_frame

lemma room_packet_frames [frames]:
  "link w0 w \<Longrightarrow> keeps_queues w0 (parsePacket_Room_CreateRoom E p packet w)"
  "link w0 w \<Longrightarrow> kept snd w0 (greet_room_user E p uc i q (gs, w))"
  "link w0 w \<Longrightarrow> keeps_queues w0 (parsePacket_Room_LeaveRoom E p packet w)"
  "link w0 w \<Longrightarrow> keeps_queues w0 (parsePacket_Room_StartGame p w)"
  "link w0 w \<Longrightarrow> keeps_queues w0 (parsePacket_Room_UpdateRoomSettings E p packet w)"
  "link w0 w \<Longrightarrow> keeps_queues w0 (parsePacket_Room_ResultConfirm p packet w)"
  "link w0 w \<Longrightarrow> keeps_queues w0 (parsePacket_Room_ReturnToRoom p w)"
  unfolding parsePacket_Room_CreateRoom_def alloc_room_def greet_room_user_def parsePacket_Room_LeaveRoom_def
    parsePacket_Room_StartGame_def parsePacket_Room_UpdateRoomSettings_def parsePacket_Room_ResultConfirm_def
    parsePacket_Room_ReturnToRoom_def close_or_migrate_def Let_def split_def
  by (rule frames kept_rules | assumption | simp)+

lemma parsePacket_Room_JoinRoom_frame [frames]:
  "link w0 w \<Longrightarrow> keeps_queues w0 (parsePacket_Room_JoinRoom E p packet w)"
  unfolding parsePacket_Room_JoinRoom_def Let_def split_def
  by (rule frames kept_rules | assumption | simp)+

lemma host_packet_frames [frames]:
  "link w0 w \<Longrightarrow> keeps_queues w0 (parsePacket_Host_ServerIsActivated p w)"
  "link w0 w \<Longrightarrow> keeps_queues w0 (parsePacket_Host_SaveData p packet w)"
  "link w0 w \<Longrightarrow> keeps_queues w0 (parsePacket_Host_SendUserStatus p packet w)"
  "link w0 w \<Longrightarrow> keeps_queues w0 (parsePacket_Host_PlayerKilled p packet w)"
  "link w0 w \<Longrightarrow> keeps_queues w0 (parsePacket_Host_EndGame p packet w)"
  "link w0 w \<Longrightarrow> keeps_queues w0 (parsePacket_Host_RejoinFail p packet w)"
  "link w0 w \<Longrightarrow> keeps_queues w0 (parsePacket_Host_AddKill p packet w)"
  "link w0 w \<Longrightarrow> keeps_queues w0 (parsePacket_Host_AddDeath p packet w)"
  "link w0 w \<Longrightarrow> keeps_queues w0 (parsePacket_Host_RoundResult p packet w)"
  "link w0 w \<Longrightarrow> keeps_queues w0 (parsePacket_Host_SelectTeam p packet w)"
  unfolding parsePacket_Host_ServerIsActivated_def parsePacket_Host_SaveData_def parsePacket_Host_SendUserStatus_def
    parsePacket_Host_PlayerKilled_def parsePacket_Host_EndGame_def end_game_user_def parsePacket_Host_RejoinFail_def
    parsePacket_Host_AddKill_def parsePacket_Host_AddDeath_def parsePacket_Host_RoundResult_def
    parsePacket_Host_SelectTeam_def Let_def split_def
  by (rule frames kept_rules guard_frames | assumption | simp)+

lemma dispatch_frames [frames]:
  "link w0 w \<Longrightarrow> keeps_queues w0 (ParsePacket_Room E packet w)"
  "link w0 w \<Longrightarrow> keeps_queues w0 (ParsePacket_Host packet w)"
  unfolding ParsePacket_Room_def ParsePacket_Host_def Let_def split_def
  by (rule frames kept_rules | assumption | simp)+

lemma login_frames [frames]:
  "link w0 w \<Longrightarrow> keeps_queues w0 (free_user p w)"
  "link w0 w \<Longrightarrow> kept snd w0 (IsUserCharacterExists E p w)"
  unfolding free_user_def IsUserCharacterExists_def split_def
  by (rule frames kept_rules kept_map_option | assumption | simp)+

lemma admit_new_user_frame:
  "link w0 w \<Longrightarrow> (\<And>p w. link w0 w \<Longrightarrow> keeps_queues w0 (f p w)) \<Longrightarrow> keeps_queues w0 (admit_new_user E c p f w)"
  unfolding admit_new_user_def split_def by (rule frames kept_rules | assumption | simp)+

lemma login_or_create_frame [frames]: "link w0 w \<Longrightarrow> keeps_queues w0 (login_or_create E c p w)"
  unfolding login_or_create_def SendPacket_Character_def split_def by (rule frames kept_rules | assumption | simp)+

lemma link_version [simp]: "link w0 w \<Longrightarrow> link w0 (upd_conn c (c_versionReceived_update f) w)"
  by (erule link_upd_conn) (simp add: conn_link_def queue_ok_def)

lemma login_packet_frames [frames]:
  "link w0 w \<Longrightarrow> keeps_queues w0 (ParsePacket_Version E packet w)"
  "link w0 w \<Longrightarrow> keeps_queues w0 (ParsePacket_Login E packet w)"
  "link w0 w \<Longrightarrow> keeps_queues w0 (ParsePacket_TransferLogin E packet w)"
  unfolding ParsePacket_Version_def sendPacket_Version_def ParsePacket_Login_def ParsePacket_TransferLogin_def
    alloc_user_def Let_def split_def
  by (rule frames kept_rules guard_frames admit_new_user_frame | assumption | simp)+

lemma transfer_frames [frames]:
  "link w0 w \<Longrightarrow> keeps_queues w0 (enter_lobby E p c w)"
  "link w0 w \<Longrightarrow> keeps_queues w0 (transfer_away E now p c si ci w)"
  unfolding enter_lobby_def transfer_away_def sendPacket_Transfer_def Let_def split_def
  by (rule frames kept_rules | assumption | simp)+

lemma client_login_frames [frames]:
  "link w0 w \<Longrightarrow> keeps_queues w0 (ParsePacket_RequestTransfer E now packet w)"
  "link w0 w \<Longrightarrow> keeps_queues w0 (ParsePacket_RecvCharacter E packet w)"
  "link w0 w \<Longrightarrow> keeps_queues w0 (ParsePacket_RequestServerList packet w)"
  "link w0 w \<Longrightarrow> keeps_queues w0 (ParsePacket_RecvCrypt packet w)"
  unfolding ParsePacket_RequestTransfer_def ParsePacket_RecvCharacter_def ParsePacket_RequestServerList_def
    ParsePacket_RecvCrypt_def Let_def split_def
  by (rule frames kept_rules guard_frames | assumption | simp)+

lemma find_nickName_frame [frames]: "link w0 w \<Longrightarrow> kept snd w0 (find_nickName E name us w)"
proof (induction us arbitrary: w)
  case (Cons u us)
  show ?case
    unfolding find_nickName.simps split_def
    by (rule frames kept_rules Cons.IH Cons.prems | assumption | simp)+
qed simp

lemma chat_frames [frames]:
  "link w0 w \<Longrightarrow> keeps_queues w0 (parsePacket_UMsg_WhisperChat E p packet w)"
  "link w0 w \<Longrightarrow> keeps_queues w0 (parsePacket_UMsg_ChannelChat E p packet w)"
  "link w0 w \<Longrightarrow> keeps_queues w0 (parsePacket_UMsg_RoomChat E p packet w)"
  unfolding parsePacket_UMsg_WhisperChat_def parsePacket_UMsg_ChannelChat_def parsePacket_UMsg_RoomChat_def
    Let_def split_def
  by (rule frames kept_rules | assumption | simp)+

lemma network_frames [frames]:
  "link w0 w \<Longrightarrow> keeps_queues w0 (parsePacket_Udp_NetworkFailure p w)"
  "link w0 w \<Longrightarrow> keeps_queues w0 (parsePacket_Udp_HolepunchFail p packet w)"
  "link w0 w \<Longrightarrow> keeps_queues w0 (parsePacket_Udp_SocketInfo p packet w)"
  unfolding parsePacket_Udp_NetworkFailure_def parsePacket_Udp_HolepunchFail_def parsePacket_Udp_SocketInfo_def
    sendPacket_Udp_ModifySocketInfo_def Let_def split_def
  by (rule frames kept_rules | assumption | simp)+

lemma preference_frames [frames]:
  "link w0 w \<Longrightarrow> keeps_queues w0 (parsePacket_Option_UserConfig E p packet w)"
  "link w0 w \<Longrightarrow> keeps_queues w0 (parsePacket_Option_UserQuickStart E p packet w)"
  "link w0 w \<Longrightarrow> keeps_queues w0 (parsePacket_Favorite_UserBuyMenu E p packet w)"
  "link w0 w \<Longrightarrow> keeps_queues w0 (parsePacket_Favorite_UserBookMark E p packet w)"
  "link w0 w \<Longrightarrow> keeps_queues w0 (parsePacket_Shop_RequestShopList p w)"
  "link w0 w \<Longrightarrow> keeps_queues w0 (parsePacket_Item_SelectClass p w)"
  unfolding parsePacket_Option_UserConfig_def parsePacket_Option_UserQuickStart_def
    parsePacket_Favorite_UserBuyMenu_def parsePacket_Favorite_UserBookMark_def parsePacket_Shop_RequestShopList_def
    sendPacket_Shop_ShopList_def parsePacket_Item_SelectClass_def Let_def split_def
  by (rule frames kept_rules | assumption | simp)+

lemma client_packet_frames [frames]:
  "link w0 w \<Longrightarrow> keeps_queues w0 (ParsePacket_UMsg E packet w)"
  "link w0 w \<Longrightarrow> keeps_queues w0 (ParsePacket_Udp packet w)"
  "link w0 w \<Longrightarrow> keeps_queues w0 (ParsePacket_Option E packet w)"
  "link w0 w \<Longrightarrow> keeps_queues w0 (ParsePacket_Favorite E packet w)"
  "link w0 w \<Longrightarrow> keeps_queues w0 (ParsePacket_Shop packet w)"
  "link w0 w \<Longrightarrow> keeps_queues w0 (ParsePacket_SearchRoom E packet w)"
  "link w0 w \<Longrightarrow> keeps_queues w0 (ParsePacket_ClientCheck packet w)"
  "link w0 w \<Longrightarrow> keeps_queues w0 (ParsePacket_UpdateInfo packet w)"
  "link w0 w \<Longrightarrow> keeps_queues w0 (ParsePacket_RecvReport packet w)"
  "link w0 w \<Longrightarrow> keeps_queues w0 (ParsePacket_Item packet w)"
  unfolding ParsePacket_UMsg_def ParsePacket_Udp_def ParsePacket_Option_def ParsePacket_Favorite_def
    ParsePacket_Shop_def ParsePacket_SearchRoom_def sendPacket_SearchRoom_SearchRoomReply_def
    ParsePacket_ClientCheck_def ParsePacket_UpdateInfo_def ParsePacket_RecvReport_def ParsePacket_Item_def
    parsePacket_Item_BuyWeapon_def Let_def split_def
  by (rule frames kept_rules guard_frames | assumption | simp)+

lemma ParsePacket_frame [frames]: "link w0 w \<Longrightarrow> keeps_queues w0 (ParsePacket E now packet w)"
  unfolding ParsePacket_def Let_def split_def by (rule frames kept_rules | assumption)+

section \<open>UDP and console\<close>

lemma link_sendPacket [simp]: "link w0 (sendPacket ep ws w) = link w0 w"
  by (simp add: sendPacket_def)

lemma link_send_to_channels [simp]: "link w0 (send_to_channels P ws w) = link w0 w"
proof -
  have "link w0 (fold (\<lambda>channel. sendPacket (ch_ip channel, ch_port channel) ws) chs w) = link w0 w" for chs
    by (induction chs arbitrary: w) simp_all
  then show ?thesis by (simp add: send_to_channels_def)
qed

lemma udp_send_frames [simp]:
  "link w0 (sendHelloPacketToAll w) = link w0 w" "link w0 (sendGoodbytePacketToAll w) = link w0 w"
  "link w0 (sendHelloAnswerPacket ep w) = link w0 w" "link w0 (sendClientPacket ep w) = link w0 w"
  "link w0 (sendPingPacket ep bs w) = link w0 w"
  by (simp_all add: sendHelloPacketToAll_def sendGoodbytePacketToAll_def sendHelloAnswerPacket_def
      sendClientPacket_def sendPingPacket_def)

lemma peer_frames [frames]:
  "link w0 w \<Longrightarrow> keeps_queues w0 (upd_channel si ci f w)"
  "link w0 w \<Longrightarrow> keeps_queues w0 (upd_server si h w)"
  "link w0 w \<Longrightarrow> keeps_queues w0 (sendHeartbeatPacket si ci w)"
  "link w0 w \<Longrightarrow> keeps_queues w0 (sendRelayPacket ep bs w)"
  unfolding upd_channel_def upd_server_def sendHeartbeatPacket_def sendRelayPacket_def Let_def
  by (rule kept_rules | assumption | simp)+

lemma update_status_frame [frames]: "link w0 w \<Longrightarrow> keeps_queues w0 (update_status si w)"
  unfolding update_status_def by (rule frames kept_rules | assumption)+

lemma with_sender_frame:
  "link w0 w \<Longrightarrow> (\<And>p q. keeps_queues w0 (f p q)) \<Longrightarrow> keeps_queues w0 (with_sender packet ep w f)"
  unfolding with_sender_def Let_def split_def by (rule frames kept_rules | assumption)+

lemma datagram_frames [frames]:
  "link w0 w \<Longrightarrow> keeps_queues w0 (handle_client E now ep packet w)"
  "link w0 w \<Longrightarrow> keeps_queues w0 (handle_relay ep packet w)"
  "link w0 w \<Longrightarrow> kept snd w0 (handle_ping ep packet (us, w))"
  "link w0 w \<Longrightarrow> keeps_queues w0 (handle_server now ep packet w)"
  unfolding handle_client_def SocketInfo_def Heartbeat_def handle_relay_def handle_ping_def ping_request_def
    ping_reply_def handle_server_def Let_def split_def
  by (rule frames kept_rules with_sender_frame | assumption | simp split: option.split)+

lemma handleReceive_frame [frames]: "link w0 w \<Longrightarrow> kept snd w0 (handleReceive E ep bs (us, w))"
  unfolding handleReceive_def Let_def split_def
  by (rule frames kept_rules kept_map_option_world | assumption | simp)+

lemma loop_frames:
  "link w0 w \<Longrightarrow> (\<And>i s w. link w0 w \<Longrightarrow> keeps_queues w0 (f i s w)) \<Longrightarrow> keeps_queues w0 (for_servers f w)"
  "link w0 w \<Longrightarrow> (\<And>s ch w. link w0 w \<Longrightarrow> keeps_queues w0 (h s ch w)) \<Longrightarrow> keeps_queues w0 (for_channels i h w)"
  unfolding for_servers_def for_channels_def by (rule kept_rules | assumption)+

lemma tick_frames [frames]:
  "link w0 w \<Longrightarrow> keeps_queues w0 (forget_peers w)"
  "link w0 w \<Longrightarrow> keeps_queues w0 (renew_session E p w)"
  "link w0 w \<Longrightarrow> keeps_queues w0 (renew_room E p w)"
  "link w0 w \<Longrightarrow> keeps_queues w0 (check_client now p w)"
  "link w0 w \<Longrightarrow> keeps_queues w0 (check_peer now s ch w)"
  unfolding forget_peers_def renew_session_def renew_room_def check_client_def check_peer_def Let_def split_def
  by (rule frames kept_rules loop_frames | assumption | simp)+

lemma OnSecondTick_frame [frames]: "link w0 w \<Longrightarrow> kept snd w0 (OnSecondTick E now (us, w))"
  unfolding OnSecondTick_def resume_def Let_def split_def
  by (rule frames kept_rules loop_frames | assumption | simp)+

section \<open>Idle connections\<close>

text \<open>Between two events no connection has a packet waiting and all write queues are well formed.\<close>

definition idle_conn :: "conn \<Rightarrow> bool" where
  "idle_conn k \<longleftrightarrow> c_incomingPackets k = [] \<and> queue_ok k"

definition idle :: "'e world \<Rightarrow> bool" where
  "idle w \<longleftrightarrow> (\<forall>c. idle_conn (w_conns w c))"

lemma idle_link: "link w w' \<Longrightarrow> idle w \<Longrightarrow> idle w'"
  by (simp add: link_def idle_def idle_conn_def)

lemma idle_kept: "kept g w m \<Longrightarrow> idle w \<Longrightarrow> m = Some x \<Longrightarrow> idle (g x)"
  by (auto simp: kept_def intro: idle_link)

lemma idle_conn_link: "conn_link k k' \<Longrightarrow> idle_conn k \<Longrightarrow> idle_conn k'"
  by (simp add: conn_link_def idle_conn_def)

lemma idle_upd_conn: "idle w \<Longrightarrow> idle_conn (f (w_conns w c)) \<Longrightarrow> idle (upd_conn c f w)"
  by (simp add: idle_def upd_conn_def)

lemma idle_conns [simp]: "idle (w\<lparr>w_ext := e\<rparr>) = idle w"
  by (simp add: idle_def)

lemma idle_new_conn: "idle_conn (new_conn ip port)"
  by (simp add: idle_conn_def new_conn_def queue_ok_def)

end
