(* ===== verification/Sends.thy ===== *)
theory Sends
  imports Managers
begin

text \<open>
  The managers' \<open>Send*\<close> functions are defined and harmless: in a world without dangling
  pointers they reach no undefined behaviour and change nothing but the queues of
  the connections and the outside. The locale \<open>broadcast\<close> is the contract between a send to
  one user and the loops that send to many; it is interpreted on every send the loops use.
\<close>

section \<open>Quiet steps\<close>

lemma wp_quiet:
  "quiet w m \<Longrightarrow> (\<And>w'. core w' = core w \<Longrightarrow> P w') \<Longrightarrow> wp m P"
  by (auto simp: quiet_def wp_iff)

lemma quiet_Some [simp]: "quiet w (Some w') \<longleftrightarrow> core w' = core w"
  by (simp add: quiet_def)

lemma quiet_bind:
  "quiet w m \<Longrightarrow> (\<And>w'. core w' = core w \<Longrightarrow> quiet w' (f w')) \<Longrightarrow> quiet w (Option.bind m f)"
  by (auto simp: quiet_def wp_iff)

lemma quiet_bindI: "wp m (\<lambda>x. quiet w (f x)) \<Longrightarrow> quiet w (Option.bind m f)"
  by (auto simp: quiet_def wp_iff)

lemma quiet_trans: "quiet w' m \<Longrightarrow> core w' = core w \<Longrightarrow> quiet w m"
  by (simp add: quiet_def)

text \<open>
  No dangling pointers: the users and rooms in the two lists exist, and so do the users a
  listed room refers to.
\<close>

definition room_live :: "'e world \<Rightarrow> room \<Rightarrow> bool" where
  "room_live w r \<longleftrightarrow> w_users w (r_roomHostUser r) \<noteq> None \<and>
     (\<forall>u \<in> set (r_roomUsers r). w_users w u \<noteq> None)"

definition live :: "'e world \<Rightarrow> bool" where
  "live w \<longleftrightarrow> w_users w 0 = None \<and> w_rooms w 0 = None \<and>
     (\<forall>u \<in> set (w_userList w). w_users w u \<noteq> None) \<and>
     (\<forall>p \<in> set (w_roomList w). \<exists>r. w_rooms w p = Some r \<and> room_live w r)"

definition room_at :: "'e world \<Rightarrow> ptr \<Rightarrow> bool" where
  "room_at w p \<longleftrightarrow> (\<exists>r. w_rooms w p = Some r \<and> room_live w r)"

definition users_at :: "'e world \<Rightarrow> ptr list \<Rightarrow> bool" where
  "users_at w us \<longleftrightarrow> (\<forall>u \<in> set us. w_users w u \<noteq> None)"

lemma core_live: "core w' = core w \<Longrightarrow> live w' = live w"
  by (simp add: live_def room_live_def core_def)

lemma core_room_at: "core w' = core w \<Longrightarrow> room_at w' p = room_at w p"
  by (simp add: room_at_def room_live_def core_def)

lemma core_users_at: "core w' = core w \<Longrightarrow> users_at w' us = users_at w us"
  by (simp add: users_at_def core_def)

lemma live_null [dest]: "live w \<Longrightarrow> w_users w 0 = None" "live w \<Longrightarrow> w_rooms w 0 = None"
  by (simp_all add: live_def)

lemma users_at_userList: "live w \<Longrightarrow> users_at w (w_userList w)"
  by (simp add: live_def users_at_def)

lemma room_at_roomList: "live w \<Longrightarrow> p \<in> set (w_roomList w) \<Longrightarrow> room_at w p"
  by (simp add: live_def room_at_def)

lemma users_at_mono: "users_at w us \<Longrightarrow> set vs \<subseteq> set us \<Longrightarrow> users_at w vs"
  by (auto simp: users_at_def)

section \<open>Selections and loops\<close>

lemma keep_user_total:
  "w_users w 0 = None \<Longrightarrow> users_at w us \<Longrightarrow> u \<in> set us \<Longrightarrow>
    keep_user P w u = Some (P u (the (w_users w u)))"
  by (auto simp: keep_user_def users_at_def)

lemma filterM_keep_user:
  "w_users w 0 = None \<Longrightarrow> users_at w us \<Longrightarrow>
    filterM (keep_user P w) us = Some (filter (\<lambda>u. P u (the (w_users w u))) us)"
  by (rule filterM_total) (rule keep_user_total)

locale broadcast =
  fixes sendTo :: "ptr \<Rightarrow> 'e world \<Rightarrow> 'e world option"
    and ok :: "'e world \<Rightarrow> bool"
  assumes quiet_send: "ok w \<Longrightarrow> quiet w (sendTo c w)"
    and ok_core: "core w' = core w \<Longrightarrow> ok w' = ok w"
begin

lemma for_users_quiet:
  "ok w \<Longrightarrow> users_at w us \<Longrightarrow> quiet w (for_users sendTo us w)"
proof (induction us arbitrary: w)
  case (Cons u us)
  obtain x where x: "w_users w u = Some x" using Cons.prems(2) by (auto simp: users_at_def)
  have us: "users_at w us" using Cons.prems(2) by (simp add: users_at_def)
  have "quiet w (Option.bind (sendTo (u_connection x) w) (for_users sendTo us))"
  proof (rule quiet_bind [OF quiet_send [OF Cons.prems(1)]])
    fix w' :: "'e world" assume c: "core w' = core w"
    with Cons.prems(1) us show "quiet w' (for_users sendTo us w')"
      by (intro Cons.IH) (simp_all add: ok_core [OF c] core_users_at [OF c])
  qed
  then show ?case by (simp add: for_users_def [abs_def] conn_of_def x)
qed (simp add: for_users_def)

lemma to_all_quiet:
  "ok w \<Longrightarrow> live w \<Longrightarrow> users_at w us \<Longrightarrow>
    quiet w (Option.bind (filterM (keep_user P w) us) (\<lambda>vs. for_users sendTo vs w))"
  by (simp add: filterM_keep_user live_null) (rule for_users_quiet, simp, rule users_at_mono, auto)

end

section \<open>Single packets\<close>

lemmas plain_send_defs = SendPacket_Reply_def SendPacket_Inventory_def SendPacket_Crypt_def
  SendPacket_ClientCheck_def SendPacket_Option_UserConfig_def SendPacket_Option_UserQuickStart_def
  SendPacket_Favorite_UserBuyMenu_def SendPacket_Favorite_UserBookMark_def
  SendPacket_UMsg_NoticeMessage_def SendPacket_UMsg_ServerMessage_def sendPacket_UMsg_Chat_def
  SendPacket_ServerList_def SendPacket_Lobby_RemoveUser_def SendPacket_RoomList_RemoveRoom_def
  SendPacket_Room_UserLeave_def SendPacket_Room_ReplyUpdateRoomSettings_def
  SendPacket_Room_GameResult_def SendPacket_Room_LeaveRoomInGame_def sendPacket_Room_UserReady_def
  SendPacket_Host_HostJoin_def SendPacket_Host_ResultClose_def sendPacket_Host_HostEndSession_def
  SendRoomUserLeavePacket_def

lemma core_plain_sends [simp]:
  "core (SendPacket_Reply c t xs w) = core w"
  "core (SendPacket_Inventory c is w) = core w"
  "core (SendPacket_Crypt c ct ci w) = core w"
  "core (SendPacket_ClientCheck c w) = core w"
  "core (SendPacket_Option_UserConfig c bs w) = core w"
  "core (SendPacket_Option_UserQuickStart c q w) = core w"
  "core (SendPacket_Favorite_UserBuyMenu c ms w) = core w"
  "core (SendPacket_Favorite_UserBookMark c ks w) = core w"
  "core (SendPacket_UMsg_ServerMessage c k txt xs w) = core w"
  "core (sendPacket_UMsg_Chat c k s txt w) = core w"
  "core (SendPacket_ServerList c ss w) = core w"
  "core (SendPacket_Lobby_RemoveUser c i w) = core w"
  "core (SendPacket_RoomList_RemoveRoom c ri w) = core w"
  "core (SendPacket_Room_UserLeave c i w) = core w"
  "core (SendPacket_Room_ReplyUpdateRoomSettings c rs w) = core w"
  "core (SendPacket_Room_GameResult c w) = core w"
  "core (SendPacket_Room_LeaveRoomInGame c w) = core w"
  "core (sendPacket_Room_UserReady c i k w) = core w"
  "core (SendPacket_Host_HostJoin c i w) = core w"
  "core (SendPacket_Host_ResultClose c w) = core w"
  "core (sendPacket_Host_HostEndSession c w) = core w"
  "core (SendRoomUserLeavePacket c i w) = core w"
  by (simp_all add: plain_send_defs)

lemma those_map_total:
  "(\<And>x. x \<in> set xs \<Longrightarrow> f x \<noteq> None) \<Longrightarrow> \<exists>ys. those (map f xs) = Some ys"
  by (induction xs) (auto split: option.splits)

lemma buildRoomInfo_total: "room_at w p \<Longrightarrow> \<exists>ws. buildRoomInfo w p flag = Some ws"
  by (auto simp: room_at_def room_live_def buildRoomInfo_def Let_def)

lemma buildGameUser_total: "w_users w u \<noteq> None \<Longrightarrow> buildGameUser w (u, uc) \<noteq> None"
  by (auto simp: buildGameUser_def)

lemma buildRoomUserInfo_total: "w_users w u \<noteq> None \<Longrightarrow> buildRoomUserInfo w (u, uc) \<noteq> None"
  by (auto simp: buildRoomUserInfo_def Let_def)

lemma quiet_UpdateRoom_packet: "room_at w p \<Longrightarrow> quiet w (SendPacket_RoomList_UpdateRoom c p flag w)"
  using buildRoomInfo_total [of w p flag] by (auto simp: SendPacket_RoomList_UpdateRoom_def)

lemma quiet_AddRoom_packet: "room_at w p \<Longrightarrow> quiet w (SendPacket_RoomList_AddRoom c p flag w)"
  using buildRoomInfo_total [of w p flag] by (auto simp: SendPacket_RoomList_AddRoom_def)

lemma quiet_SendUpdateRoomPacket: "room_at w p \<Longrightarrow> quiet w (SendUpdateRoomPacket c p flag w)"
  using quiet_UpdateRoom_packet [of w p c flag] by (auto simp: SendUpdateRoomPacket_def)

lemma quiet_Lobby_AddUser: "w_users w u \<noteq> None \<Longrightarrow> quiet w (SendPacket_Lobby_AddUser c (u, uc) w)"
  using buildGameUser_total [of w u uc] by (auto simp: SendPacket_Lobby_AddUser_def)

lemma quiet_UserJoin: "w_users w u \<noteq> None \<Longrightarrow> quiet w (sendPacket_Room_UserJoin c (u, uc) w)"
  using buildRoomUserInfo_total [of w u uc] by (auto simp: sendPacket_Room_UserJoin_def)

lemma quiet_SendFullRoomListPacket: "live w \<Longrightarrow> quiet w (SendFullRoomListPacket c w)"
proof -
  assume "live w"
  then have "\<exists>ys. those (map (\<lambda>room. buildRoomInfo w room ROOMLIST_FLAG_ALL)
      (filter (\<lambda>room. room \<noteq> 0) (w_roomList w))) = Some ys"
    using buildRoomInfo_total room_at_roomList by (intro those_map_total) fastforce
  then show ?thesis
    by (auto simp: SendFullRoomListPacket_def SendPacket_RoomList_FullRoomList_def)
qed

section \<open>Interpretations of the broadcast contract\<close>

interpretation update_room: broadcast "\<lambda>c. SendPacket_RoomList_UpdateRoom c p flag" "\<lambda>w. room_at w p"
  for p flag
  by unfold_locales (simp add: quiet_UpdateRoom_packet, rule core_room_at)

interpretation update_room_one: broadcast "\<lambda>c. SendUpdateRoomPacket c p flag" "\<lambda>w. room_at w p"
  for p flag
  by unfold_locales (simp add: quiet_SendUpdateRoomPacket, rule core_room_at)

interpretation add_room: broadcast "\<lambda>c. SendPacket_RoomList_AddRoom c p flag" "\<lambda>w. room_at w p"
  for p flag
  by unfold_locales (simp add: quiet_AddRoom_packet, rule core_room_at)

interpretation remove_room: broadcast "\<lambda>c w. Some (SendPacket_RoomList_RemoveRoom c roomID w)" "\<lambda>_. True"
  for roomID
  by unfold_locales simp_all

interpretation lobby_add: broadcast "\<lambda>c. SendPacket_Lobby_AddUser c (u, uc)" "\<lambda>w. w_users w u \<noteq> None"
  for u uc
  by unfold_locales (simp add: quiet_Lobby_AddUser, simp add: core_def)

interpretation lobby_remove: broadcast "\<lambda>c w. Some (SendPacket_Lobby_RemoveUser c i w)" "\<lambda>_. True"
  for i
  by unfold_locales simp_all

interpretation user_leave: broadcast "\<lambda>c w. Some (SendRoomUserLeavePacket c i w)" "\<lambda>_. True"
  for i
  by unfold_locales simp_all

interpretation reply_settings: broadcast "\<lambda>c w. Some (SendPacket_Room_ReplyUpdateRoomSettings c rs w)" "\<lambda>_. True"
  for rs
  by unfold_locales simp_all

section \<open>Sends of the managers\<close>

lemma user_character_total:
  assumes "characters_ok E" and "w_users w u \<noteq> None"
  shows "\<exists>uc result w'. user_character E u USERCHARACTER_FLAG_ALL w = Some ((uc, result), w') \<and> core w' = core w"
proof -
  obtain x where x: "w_users w u = Some x" using assms(2) by auto
  obtain res e' where "GetUserCharacter E (u_userID x) USERCHARACTER_FLAG_ALL (w_ext w) = Some (res, e')"
    using GetUserCharacter_total [OF assms(1) character_info_all] by blast
  with x show ?thesis by (cases res) (auto simp: user_character_def)
qed

lemma wp_collect_characters:
  fixes w :: "'e world"
  assumes "characters_ok E" and "users_at w users"
    and "\<And>gs' w'. core w' = core w \<Longrightarrow> set (map fst gs') \<subseteq> set (map fst gs) \<union> set users \<Longrightarrow> P (gs', w')"
  shows "wp (collect_characters E users (gs, w)) P"
  using assms(2,3)
proof (induction users arbitrary: gs w)
  case Nil
  then show ?case by (simp add: collect_characters_def)
next
  case (Cons u users)
  have "w_users w u \<noteq> None" using Cons.prems(1) by (simp add: users_at_def)
  then obtain uc result w1 where
    1: "user_character E u USERCHARACTER_FLAG_ALL w = Some ((uc, result), w1)" "core w1 = core w"
    using user_character_total [OF assms(1)] by blast
  have "wp (collect_characters E users (if result > 0 then gs @ [(u, uc)] else gs, w1)) P"
  proof (rule Cons.IH)
    show "users_at w1 users" using Cons.prems(1) 1(2) by (simp add: users_at_def core_def)
    fix gs' :: "GameUser list" and w' :: "'e world" assume "core w' = core w1"
      and "set (map fst gs') \<subseteq> set (map fst (if result > 0 then gs @ [(u, uc)] else gs)) \<union> set users"
    then show "P (gs', w')" using 1(2) by (intro Cons.prems(2)) (auto split: if_splits)
  qed
  then show ?case using 1(1) by (simp add: collect_characters_def)
qed

lemma quiet_SendFullUserListPacket:
  fixes w :: "'e world"
  assumes "characters_ok E" and "live w"
  shows "quiet w (SendFullUserListPacket E c w)"
proof -
  let ?us = "filter (\<lambda>u. u_userStatus (the (w_users w u)) = InLobby) (w_userList w)"
  have us: "users_at w ?us" using users_at_userList [OF assms(2)] by (auto simp: users_at_def)
  have "wp (collect_characters E ?us ([], w)) (\<lambda>(gs, w'). quiet w (SendPacket_Lobby_FullUserList c gs w'))"
  proof (rule wp_collect_characters [OF assms(1) us])
    fix gs' :: "GameUser list" and w' :: "'e world"
    assume 1: "core w' = core w" "set (map fst gs') \<subseteq> set (map fst []) \<union> set ?us"
    have "\<exists>ys. those (map (buildGameUser w') gs') = Some ys"
    proof (rule those_map_total)
      fix g assume "g \<in> set gs'"
      then have "fst g \<in> set ?us" using 1(2) by auto
      then have "w_users w' (fst g) \<noteq> None" using us 1(1) by (simp add: users_at_def core_def)
      then show "buildGameUser w' g \<noteq> None" using buildGameUser_total [of w' "fst g" "snd g"] by simp
    qed
    then show "case (gs', w') of (gs, w') \<Rightarrow> quiet w (SendPacket_Lobby_FullUserList c gs w')"
      using 1(1) by (auto simp: SendPacket_Lobby_FullUserList_def)
  qed
  then show ?thesis
    using users_at_userList [OF assms(2)] assms(2)
    by (auto simp: SendFullUserListPacket_def filterM_keep_user live_null intro!: quiet_bindI elim: wp_mono)
qed

lemma quiet_SendAddUserPacketToAll:
  assumes "characters_ok E" and "live w" and "w_users w u \<noteq> None"
  shows "quiet w (SendAddUserPacketToAll E u w)"
proof -
  obtain uc result w' where
    1: "user_character E u USERCHARACTER_FLAG_ALL w = Some ((uc, result), w')" and c: "core w' = core w"
    using user_character_total [OF assms(1,3)] by blast
  have "quiet w' (Option.bind (filterM (keep_user P w') (w_userList w'))
      (\<lambda>vs. for_users (\<lambda>c. SendPacket_Lobby_AddUser c (u, uc)) vs w'))" for P
    using assms core_live [OF c] users_at_userList [of w']
    by (intro lobby_add.to_all_quiet) (simp_all add: core_eqD(1) [OF c])
  then show ?thesis using 1 c by (auto simp: SendAddUserPacketToAll_def intro: quiet_trans)
qed

lemma quiet_SendRemoveUserPacketToAll:
  assumes "live w" and "w_users w u \<noteq> None"
  shows "quiet w (SendRemoveUserPacketToAll u w)"
proof -
  obtain x where x: "w_users w u = Some x" using assms(2) by auto
  have "quiet w (Option.bind (filterM (keep_user P w) (w_userList w))
      (\<lambda>vs. for_users (\<lambda>c w. Some (SendPacket_Lobby_RemoveUser c (u_userID x) w)) vs w))" for P
    using assms(1) users_at_userList by (intro lobby_remove.to_all_quiet) simp_all
  then show ?thesis using x by (simp add: SendRemoveUserPacketToAll_def)
qed

lemma quiet_SendAddRoomPacketToAll:
  "live w \<Longrightarrow> room_at w p \<Longrightarrow> quiet w (SendAddRoomPacketToAll p flag w)"
  using add_room.to_all_quiet [of w p "w_userList w"] users_at_userList [of w]
  by (simp add: SendAddRoomPacketToAll_def lobby_users_def)

lemma quiet_SendRemoveRoomPacketToAll:
  "live w \<Longrightarrow> quiet w (SendRemoveRoomPacketToAll roomID w)"
  using remove_room.to_all_quiet [of w "w_userList w"] users_at_userList [of w]
  by (simp add: SendRemoveRoomPacketToAll_def lobby_users_def)

lemma quiet_SendUpdateRoomPacketToAll:
  "live w \<Longrightarrow> room_at w p \<Longrightarrow> quiet w (SendUpdateRoomPacketToAll p flag w)"
  using update_room.to_all_quiet [of w p "w_userList w"] users_at_userList [of w]
  by (simp add: SendUpdateRoomPacketToAll_def lobby_users_def)

lemma quiet_UpdateRoom:
  "room_at w p \<Longrightarrow> quiet w (UpdateRoom E p w)"
  by (auto simp: UpdateRoom_def room_at_def Let_def split: prod.split)

section \<open>Lookup in a vector of objects\<close>

text \<open>
  The contract of \<open>GetRoomByRoomID\<close>, \<open>GetUserByConnection\<close> and \<open>GetUserByUserID\<close>: a
  vector of pointers to live objects is searched for a key; the null key finds nothing.
\<close>

definition allocated :: "('w \<Rightarrow> ptr \<Rightarrow> 'o option) \<Rightarrow> ('w \<Rightarrow> ptr list) \<Rightarrow> 'w \<Rightarrow> bool" where
  "allocated objs vec w \<longleftrightarrow> objs w 0 = None \<and> (\<forall>p \<in> set (vec w). objs w p \<noteq> None)"

locale registry =
  fixes objs :: "'w \<Rightarrow> ptr \<Rightarrow> 'o option"
    and vec :: "'w \<Rightarrow> ptr list"
    and key :: "'o \<Rightarrow> 'k::zero"
    and lookup :: "'k \<Rightarrow> 'w \<Rightarrow> ptr option"
  assumes lookup_null: "lookup 0 w = Some 0"
    and lookup_find: "k \<noteq> 0 \<Longrightarrow>
      lookup k w = findM (\<lambda>p. map_option (\<lambda>x. key x = k) (objs w p)) (vec w)"
begin

lemma lookup_eq:
  assumes "allocated objs vec w" and "k \<noteq> 0"
  shows "lookup k w =
    Some (case find (\<lambda>p. key (the (objs w p)) = k) (vec w) of None \<Rightarrow> 0 | Some p \<Rightarrow> p)"
proof -
  have "map_option (\<lambda>x. key x = k) (objs w p) = Some (key (the (objs w p)) = k)" if "p \<in> set (vec w)" for p
    using assms(1) that by (auto simp: allocated_def)
  then show ?thesis using assms(2) by (simp add: lookup_find) (rule findM_total, simp)
qed

lemma lookup_cases:
  assumes "allocated objs vec w"
  obtains (null) "lookup k w = Some 0" "k = 0 \<or> (\<forall>p \<in> set (vec w). key (the (objs w p)) \<noteq> k)"
  | (hit) p x where "lookup k w = Some p" "p \<in> set (vec w)" "objs w p = Some x" "key x = k" "p \<noteq> 0" "k \<noteq> 0"
proof (cases "k = 0")
  case True
  then show ?thesis using null by (simp add: lookup_null)
next
  case False
  show ?thesis
  proof (cases "find (\<lambda>p. key (the (objs w p)) = k) (vec w)")
    case None
    then have "\<forall>p \<in> set (vec w). key (the (objs w p)) \<noteq> k" by (auto simp: find_None_iff)
    moreover have "lookup k w = Some 0" using lookup_eq [OF assms False] by (simp add: None)
    ultimately show ?thesis using null by blast
  next
    case (Some p)
    then have p: "p \<in> set (vec w)" "key (the (objs w p)) = k" using find_SomeD by fastforce+
    then obtain x where "objs w p = Some x" using assms by (auto simp: allocated_def)
    moreover have "p \<noteq> 0" using assms p(1) by (metis allocated_def)
    ultimately show ?thesis using hit Some p lookup_eq [OF assms False] False by simp
  qed
qed

lemma lookup_unique:
  assumes "allocated objs vec w" and "p \<in> set (vec w)" and "objs w p = Some x" and "key x \<noteq> 0"
    and "\<And>q y. q \<in> set (vec w) \<Longrightarrow> objs w q = Some y \<Longrightarrow> key y = key x \<Longrightarrow> q = p"
  shows "lookup (key x) w = Some p"
proof -
  have "find (\<lambda>q. key (the (objs w q)) = key x) (vec w) = Some p"
  proof (rule find_unique [OF assms(2)])
    fix q assume "q \<in> set (vec w)" and k: "key (the (objs w q)) = key x"
    then obtain y where "objs w q = Some y" using assms(1) by (auto simp: allocated_def)
    with k show "q = p" using assms(5) [OF \<open>q \<in> set (vec w)\<close>] by simp
  qed (simp add: assms(3))
  then show ?thesis using lookup_eq [OF assms(1,4)] by simp
qed

end

interpretation rooms_by_id: registry w_rooms w_roomList r_roomID GetRoomByRoomID
  by unfold_locales (simp_all add: GetRoomByRoomID_def)

interpretation users_by_connection: registry w_users w_userList u_connection GetUserByConnection
  by unfold_locales (simp_all add: GetUserByConnection_def)

interpretation users_by_id: registry w_users w_userList u_userID GetUserByUserID
  by unfold_locales (simp_all add: GetUserByUserID_def)

end
