(* ===== verification/Schema.thy ===== *)
theory Schema
  imports ClientPackets Sends
begin

text \<open>
  What the server relies on of the tables and of its configuration (columns that are there, not
  NULL and in range; server and channel ids that exist; full default menus), and the operations
  of the database manager that are defined under it. The hypotheses describe the schema of
  \<open>cso.sql\<close>; they say nothing about which rows there are.
\<close>

section \<open>The tables\<close>

definition rows_ok :: "'e env \<Rightarrow> string \<Rightarrow> col_kind list \<Rightarrow> bool" where
  "rows_ok E q ks \<longleftrightarrow> (\<forall>e rows e' row. mysql_query E q e = (Inr rows, e') \<longrightarrow> row \<in> set rows \<longrightarrow>
     list_all2 col_ok ks row)"

definition schema_ok :: "'e env \<Rightarrow> bool" where
  "schema_ok E \<longleftrightarrow> characters_ok E \<and>
     (\<forall>name. rows_ok E (''SELECT userID, password FROM users WHERE userName = '' @ squote @
        mysql_real_escape_string E name @ squote @ '';'') [ColInt, ColText]) \<and>
     (\<forall>cfg token. rows_ok E (''SELECT userID FROM user_transfers WHERE authToken = '' @ squote @
        token @ squote @ '' AND '' @ of_this_channel cfg @ '';'') [ColInt]) \<and>
     (\<forall>userID :: u32.
        rows_ok E (''SELECT userName FROM users WHERE userID = '' @ fmt userID @ '';'') [ColText] \<and>
        rows_ok E (''SELECT serverID, channelID FROM user_sessions WHERE userID = '' @ fmt userID @ '';'')
          [ColInt, ColInt] \<and>
        rows_ok E (''SELECT userConfig FROM user_configs WHERE userID = '' @ fmt userID @ '';'') [ColAny] \<and>
        rows_ok E (''SELECT gameModeID, mapID, levelLimit, clanBattle FROM user_quickstarts WHERE userID = ''
          @ fmt userID @ '';'') (replicate 4 ColByte) \<and>
        rows_ok E (''SELECT categoryID, slot1, slot2, slot3, slot4, slot5, slot6, slot7, slot8, slot9 FROM user_buymenus WHERE userID = ''
          @ fmt userID @ '';'') (replicate 10 ColInt) \<and>
        rows_ok E (''SELECT slotID, name, primaryItemID, primaryAmmo, secondaryItemID, secondaryAmmo, flashbang, hegrenade, smokegrenade, defusekit, nightvision, kevlar, unk1 FROM user_bookmarks WHERE userID = ''
          @ fmt userID @ '';'') (ColInt # ColText # replicate 11 ColInt) \<and>
        rows_ok E (''SELECT slotID, itemID, count, inUse, obtainTime, expirationTime FROM user_inventory WHERE userID = ''
          @ fmt userID @ '';'') (replicate 6 ColInt))"

lemma schema_characters: "schema_ok E \<Longrightarrow> characters_ok E"
  by (simp add: schema_ok_def)

text \<open>The rooms of the other channels: their server and channel are in the server list.\<close>

definition rooms_table_ok :: "'e env \<Rightarrow> ServerConfig \<Rightarrow> bool" where
  "rooms_table_ok E cfg \<longleftrightarrow> (\<forall>conds e rows e' row.
     mysql_query E (''SELECT serverID, channelID, roomID FROM rooms WHERE NOT ('' @ conds) e = (Inr rows, e') \<longrightarrow>
     row \<in> set rows \<longrightarrow>
     (\<exists>serverID channelID. list_all2 col_ok [ColInt, ColInt, ColInt] row \<and> col_byte row 0 = Some serverID \<and>
        col_byte row 1 = Some channelID \<and> channel_at cfg serverID channelID \<noteq> None))"

text \<open>The default buy menus of the configuration are full.\<close>

definition menus_ok :: "ServerConfig \<Rightarrow> bool" where
  "menus_ok cfg \<longleftrightarrow> (\<forall>m \<in> set (cfg_defaultBuyMenus cfg). BUYMENU_MAX_SLOT \<le> length (bm_items m))"

section \<open>Reading a row\<close>

lemma rows_okD: "rows_ok E q ks \<Longrightarrow> mysql_query E q e = (Inr rows, e') \<Longrightarrow> row \<in> set rows \<Longrightarrow>
    list_all2 col_ok ks row"
  by (auto simp: rows_ok_def)

lemma col_okE:
  assumes "list_all2 col_ok ks row" and "i < length ks"
  shows "i < length row" and "col_ok (ks ! i) (row ! i)"
  using assms by (auto simp: list_all2_conv_all_nth)

lemma col_ok_text: "col_ok k c \<Longrightarrow> k \<noteq> ColAny \<Longrightarrow> \<exists>s. c = Some s"
  by (cases c) auto

lemma read_text:
  assumes "list_all2 col_ok ks row" and "i < length ks" and "ks ! i \<noteq> ColAny"
  shows "\<exists>s. col_text row i = Some s"
  using col_okE [OF assms(1,2)] col_ok_text [of "ks ! i" "row ! i"] assms(3)
  by (auto simp: col_text_def)

lemma read_int:
  assumes "list_all2 col_ok ks row" and "i < length ks" and "ks ! i \<in> {ColInt, ColByte}"
  shows "\<exists>v. col_int row i = Some v \<and> (ks ! i = ColByte \<longrightarrow> 0 \<le> v \<and> v < 256)"
  using col_okE [OF assms(1,2)] assms(3)
  by (cases "row ! i") (auto simp: col_int_def col_text_def split: option.splits)

lemma read_byte:
  "list_all2 col_ok ks row \<Longrightarrow> i < length ks \<Longrightarrow> ks ! i \<in> {ColInt, ColByte} \<Longrightarrow> \<exists>b. col_byte row i = Some b"
  using read_int [of ks row i] by (auto simp: col_byte_def)

lemma read_bool:
  "list_all2 col_ok ks row \<Longrightarrow> i < length ks \<Longrightarrow> ks ! i \<in> {ColInt, ColByte} \<Longrightarrow> \<exists>b. col_bool row i = Some b"
  using read_int [of ks row i] by (auto simp: col_bool_def)

section \<open>The operations are defined\<close>

lemma Login_total:
  assumes "schema_ok E" shows "\<exists>res e'. Login E name pw e = Some (res, e')"
proof -
  let ?q = "''SELECT userID, password FROM users WHERE userName = '' @ squote @ mysql_real_escape_string E name @ squote @ '';''"
  obtain r e' where q: "mysql_query E ?q e = (r, e')" by (cases "mysql_query E ?q e")
  show ?thesis
  proof (cases r)
    case (Inr rows)
    show ?thesis
    proof (cases rows)
      case (Cons row rows')
      have "rows_ok E ?q [ColInt, ColText]" using assms unfolding schema_ok_def by blast
      then have ok: "list_all2 col_ok [ColInt, ColText] row"
        by (rule rows_okD) (use q Inr Cons in auto)
      obtain s v where "col_text row 1 = Some s" "col_int row 0 = Some v"
        using read_text [OF ok, of 1] read_int [OF ok, of 0] by auto
      then show ?thesis using q Inr Cons by (simp add: Login_def Let_def)
    qed (use q Inr in \<open>simp add: Login_def\<close>)
  qed (use q in \<open>simp add: Login_def\<close>)
qed

lemma TransferLogin_total:
  assumes "schema_ok E" shows "\<exists>res e'. TransferLogin E cfg token e = Some (res, e')"
proof -
  let ?q = "''SELECT userID FROM user_transfers WHERE authToken = '' @ squote @ token @ squote @ '' AND '' @ of_this_channel cfg @ '';''"
  obtain r e' where q: "mysql_query E ?q e = (r, e')" by (cases "mysql_query E ?q e")
  show ?thesis
  proof (cases r)
    case (Inr rows)
    show ?thesis
    proof (cases rows)
      case (Cons row rows')
      have "rows_ok E ?q [ColInt]" using assms unfolding schema_ok_def by blast
      then have ok: "list_all2 col_ok [ColInt] row"
        by (rule rows_okD) (use q Inr Cons in auto)
      then obtain n where n: "col_int row 0 = Some n" using read_int [OF ok, of 0] by auto
      let ?u = "word_of_int n :: u32"
      let ?p = "''SELECT userName FROM users WHERE userID = '' @ fmt ?u @ '';''"
      obtain s e'' where p: "mysql_query E ?p e' = (s, e'')" by (cases "mysql_query E ?p e'")
      have p_ok: "rows_ok E ?p [ColText]" using assms unfolding schema_ok_def by blast
      have "\<exists>name. col_text x 0 = Some name" if "s = Inr (x # xs)" for x xs
        using read_text [OF rows_okD [OF p_ok p [unfolded that]], of x 0] by simp
      then show ?thesis using q Inr Cons n p
        by (cases s; cases "projr s") (force simp: TransferLogin_def Let_def)+
    qed (use q Inr in \<open>simp add: TransferLogin_def\<close>)
  qed (use q in \<open>simp add: TransferLogin_def\<close>)
qed

lemma vec_at_minus_one: "(i :: u8) \<noteq> 0 \<Longrightarrow> unat i \<le> length v \<Longrightarrow> \<exists>x. vec_at v (unat (i - 1)) = Some x"
  using unat_minus_one [of i] by (auto simp: vec_at_def) (metis unsigned_eq_0_iff Suc_le_lessD Suc_pred gr0I)

lemma server_at_total: "s \<noteq> 0 \<Longrightarrow> unat s \<le> length (cfg_serverList cfg) \<Longrightarrow> \<exists>server. server_at cfg s = Some server"
  unfolding server_at_def by (rule vec_at_minus_one)

lemma channel_at_total:
  "server_at cfg s = Some server \<Longrightarrow> c \<noteq> 0 \<Longrightarrow> unat c \<le> length (sv_channels server) \<Longrightarrow>
    \<exists>channel. channel_at cfg s c = Some channel"
  unfolding channel_at_def by (simp add: vec_at_minus_one)

lemma AddUserSession_total:
  assumes "schema_ok E" shows "\<exists>res e'. AddUserSession E cfg userID e = Some (res, e') \<and> res \<in> {-1, 0, 1}"
proof -
  let ?q = "''SELECT serverID, channelID FROM user_sessions WHERE userID = '' @ fmt userID @ '';''"
  let ?ins = "\<lambda>e. case mysql_query E (insert_session_query cfg userID) e of
            (Inl errno, e) \<Rightarrow> Some (if errno = ER_DUP_ENTRY then 0 else -1, e)
          | (Inr _, e) \<Rightarrow> Some (1 :: int, e)"
  have ins: "\<exists>res e'. ?ins e = Some (res, e') \<and> res \<in> {-1, 0, 1}" for e
    by (auto split: prod.split sum.split)
  obtain r e' where q: "mysql_query E ?q e = (r, e')" by (cases "mysql_query E ?q e")
  show ?thesis
  proof (cases r)
    case (Inr rows)
    show ?thesis
    proof (cases rows)
      case (Cons row rows')
      have "rows_ok E ?q [ColInt, ColInt]" using assms unfolding schema_ok_def by blast
      then have ok: "list_all2 col_ok [ColInt, ColInt] row"
        by (rule rows_okD) (use q Inr Cons in auto)
      obtain s c where row: "col_byte row 0 = Some s" "col_byte row 1 = Some c"
        using read_byte [OF ok, of 0] read_byte [OF ok, of 1] by auto
      show ?thesis
      proof (cases "s = 0 \<or> unat s > length (cfg_serverList cfg)")
        case True
        then show ?thesis using q Inr Cons row by (simp add: AddUserSession_def Let_def)
      next
        case False
        then obtain server where server: "server_at cfg s = Some server"
          using server_at_total [of s cfg] by auto
        show ?thesis
        proof (cases "c = 0 \<or> unat c > length (sv_channels server)")
          case True
          then show ?thesis using q Inr Cons row False server by (simp add: AddUserSession_def Let_def)
        next
          case ch: False
          then obtain channel where channel: "channel_at cfg s c = Some channel"
            using channel_at_total [OF server, of c] by auto
          show ?thesis
            using q Inr Cons row False ch server channel ins
            by (auto simp: AddUserSession_def Let_def split: prod.split sum.split)
        qed
      qed
    qed (use q Inr ins in \<open>simp add: AddUserSession_def Let_def\<close>)
  qed (use q in \<open>simp add: AddUserSession_def Let_def\<close>)
qed

lemma GetUserConfig_total:
  assumes "schema_ok E" shows "\<exists>res e'. GetUserConfig E userID e = Some (res, e')"
proof -
  let ?q = "''SELECT userConfig FROM user_configs WHERE userID = '' @ fmt userID @ '';''"
  have "rows_ok E ?q [ColAny]" using assms unfolding schema_ok_def by blast
  then have "vec_at row 0 \<noteq> None" if "mysql_query E ?q e = (Inr (row # rows), e')" for row rows e'
    using col_okE(1) [OF rows_okD [OF _ that], of "[ColAny]" row 0] by simp
  then show ?thesis
    by (cases "mysql_query E ?q e") (fastforce simp: GetUserConfig_def split: sum.split list.split)
qed

lemma GetUserQuickStart_total:
  assumes "schema_ok E" shows "\<exists>res e'. GetUserQuickStart E userID e = Some (res, e')"
proof -
  let ?q = "''SELECT gameModeID, mapID, levelLimit, clanBattle FROM user_quickstarts WHERE userID = '' @ fmt userID @ '';''"
  have q_ok: "rows_ok E ?q (replicate 4 ColByte)" using assms unfolding schema_ok_def by blast
  obtain r e' where q: "mysql_query E ?q e = (r, e')" by (cases "mysql_query E ?q e")
  show ?thesis
  proof (cases r)
    case (Inr rows)
    show ?thesis
    proof (cases rows)
      case (Cons row rows')
      have ok: "list_all2 col_ok (replicate 4 ColByte) row"
        using q_ok by (rule rows_okD) (use q Inr Cons in auto)
      have "\<exists>v. col_int row i = Some v \<and> 0 \<le> v \<and> v < 256" if "i < 4" for i
        using read_int [OF ok, of i] that by simp
      from this [of 0] this [of 1] this [of 2] this [of 3]
      show ?thesis using q Inr Cons by (auto simp: GetUserQuickStart_def int_ok_def)
    qed (use q Inr in \<open>simp add: GetUserQuickStart_def\<close>)
  qed (use q in \<open>simp add: GetUserQuickStart_def\<close>)
qed

text \<open>A loop over all rows of an answer.\<close>

lemma rows_total:
  assumes "rows_ok E q ks" and "\<And>row. list_all2 col_ok ks row \<Longrightarrow> f row \<noteq> None"
    and "mysql_query E q e = (Inr rows, e')"
  shows "\<exists>xs. those (map f rows) = Some xs"
  using rows_okD [OF assms(1,3)] assms(2) by (intro those_map_total) blast

lemma GetUserBuyMenus_total:
  assumes "schema_ok E" shows "\<exists>res e'. GetUserBuyMenus E userID e = Some (res, e')"
proof -
  let ?q = "''SELECT categoryID, slot1, slot2, slot3, slot4, slot5, slot6, slot7, slot8, slot9 FROM user_buymenus WHERE userID = '' @ fmt userID @ '';''"
  let ?f = "\<lambda>row. do {
      categoryID \<leftarrow> col_byte row 0;
      items \<leftarrow> those (map (\<lambda>slotID. col_byte row (slotID + 1)) [0..<BUYMENU_MAX_SLOT]);
      Some \<lparr>bm_categoryID = categoryID, bm_items = items\<rparr> }"
  have q_ok: "rows_ok E ?q (replicate 10 ColInt)" using assms unfolding schema_ok_def by blast
  have "?f row \<noteq> None" if ok: "list_all2 col_ok (replicate 10 ColInt) row" for row
  proof -
    have "\<exists>items. those (map (\<lambda>slotID. col_byte row (slotID + 1)) [0..<BUYMENU_MAX_SLOT]) = Some items"
      using read_byte [OF ok] by (intro those_map_total) (force simp: BUYMENU_MAX_SLOT_def)
    then show ?thesis using read_byte [OF ok, of 0] by auto
  qed
  then have "\<exists>xs. those (map ?f rows) = Some xs" if "mysql_query E ?q e = (Inr rows, e')" for rows e'
    by (rule rows_total [OF q_ok _ that])
  then show ?thesis
    by (cases "mysql_query E ?q e") (fastforce simp: GetUserBuyMenus_def split: sum.split)
qed

lemma ex_bind_Some: "\<exists>x. m = Some x \<Longrightarrow> \<exists>res e. Option.bind m (\<lambda>x. Some (x, e')) = Some (res, e)"
  by auto

lemma GetUserBookMarks_total:
  assumes "schema_ok E" shows "\<exists>res e'. GetUserBookMarks E userID e = Some (res, e')"
proof -
  let ?q = "''SELECT slotID, name, primaryItemID, primaryAmmo, secondaryItemID, secondaryAmmo, flashbang, hegrenade, smokegrenade, defusekit, nightvision, kevlar, unk1 FROM user_bookmarks WHERE userID = '' @ fmt userID @ '';''"
  let ?ks = "ColInt # ColText # replicate 11 ColInt"
  have q_ok: "rows_ok E ?q ?ks" using assms unfolding schema_ok_def by blast
  have reads: "(\<exists>t. col_text row 1 = Some t) \<and> list_all (\<lambda>i. \<exists>b. col_byte row i = Some b) [0, 2, 4, 6, 11, 12] \<and>
      list_all (\<lambda>i. \<exists>b. col_bool row i = Some b) [3, 5, 7, 8, 9, 10]"
    if ok: "list_all2 col_ok ?ks row" for row
    using read_text [OF ok, of 1] read_byte [OF ok] read_bool [OF ok] by (auto simp: nth_Cons')
  show ?thesis
  proof (cases "mysql_query E ?q e")
    case (Pair r e')
    show ?thesis
    proof (cases r)
      case (Inr rows)
      have "\<exists>xs. those (map f rows) = Some xs" if "\<And>row. list_all2 col_ok ?ks row \<Longrightarrow> f row \<noteq> None" for f :: "row \<Rightarrow> BookMark option"
        using Pair Inr by (intro rows_total [OF q_ok that]) auto
      note all = this
      show ?thesis
        unfolding GetUserBookMarks_def Pair Inr prod.case sum.case
        by (rule ex_bind_Some, rule all) (auto dest!: reads)
    qed (use Pair in \<open>simp add: GetUserBookMarks_def\<close>)
  qed
qed

lemma GetUserInventory_total:
  assumes "schema_ok E" shows "\<exists>res e'. GetUserInventory E userID e = Some (res, e')"
proof -
  let ?q = "''SELECT slotID, itemID, count, inUse, obtainTime, expirationTime FROM user_inventory WHERE userID = '' @ fmt userID @ '';''"
  have q_ok: "rows_ok E ?q (replicate 6 ColInt)" using assms unfolding schema_ok_def by blast
  have reads: "list_all (\<lambda>i. \<exists>b. col_byte row i = Some b) [0, 1, 2] \<and> (\<exists>b. col_bool row 3 = Some b) \<and>
      list_all (\<lambda>i. \<exists>v. col_int row i = Some v) [4, 5]"
    if ok: "list_all2 col_ok (replicate 6 ColInt) row" for row
    using read_byte [OF ok] read_bool [OF ok] read_int [OF ok] by auto
  show ?thesis
  proof (cases "mysql_query E ?q e")
    case (Pair r e')
    show ?thesis
    proof (cases r)
      case (Inr rows)
      have all: "\<exists>xs. those (map f rows) = Some xs"
        if "\<And>row. list_all2 col_ok (replicate 6 ColInt) row \<Longrightarrow> f row \<noteq> None" for f :: "row \<Rightarrow> InventoryItem option"
        using Pair Inr by (intro rows_total [OF q_ok that]) auto
      show ?thesis
        unfolding GetUserInventory_def Pair Inr prod.case sum.case
        by (rule ex_bind_Some, rule all) (auto dest!: reads)
    qed (use Pair in \<open>simp add: GetUserInventory_def\<close>)
  qed
qed

lemma set_last_total: "s \<noteq> [] \<Longrightarrow> set_last c s = Some (butlast s @ [c])"
  by (simp add: set_last_def)

lemma CreateUserBuymenus_total:
  assumes "menus_ok cfg" shows "\<exists>res e'. CreateUserBuymenus E cfg userID e = Some (res, e')"
proof -
  have slots: "those (map (\<lambda>slotID. map_option (\<lambda>i. '', '' @ fmt i) (vec_at (bm_items m) slotID)) [0..<BUYMENU_MAX_SLOT]) \<noteq> None"
    if "m \<in> set (cfg_defaultBuyMenus cfg)" for m
  proof -
    have "\<exists>ys. those (map (\<lambda>slotID. map_option (\<lambda>i. '', '' @ fmt i) (vec_at (bm_items m) slotID)) [0..<BUYMENU_MAX_SLOT]) = Some ys"
      using assms that by (intro those_map_total) (auto simp: menus_ok_def)
    then show ?thesis by auto
  qed
  have "\<exists>ys. those (map (\<lambda>buyMenu. do {
              slots \<leftarrow> those (map (\<lambda>slotID. map_option (\<lambda>i. '', '' @ fmt i) (vec_at (bm_items buyMenu) slotID))
                         [0..<BUYMENU_MAX_SLOT]);
              Some ('' ('' @ fmt userID @ '', '' @ fmt (bm_categoryID buyMenu) @ concat slots @ ''),'')
            }) (cfg_defaultBuyMenus cfg)) = Some ys"
    by (rule those_map_total, drule slots, force)
  then show ?thesis
    by (auto simp: CreateUserBuymenus_def set_last_total split: prod.split sum.split list.split)
qed

lemma CreateUserBookmarks_total: "\<exists>res e'. CreateUserBookmarks E userID e = Some (res, e')"
  by (auto simp: CreateUserBookmarks_def set_last_total split: prod.split sum.split list.split)

lemma CreateUserInventory_total: "\<exists>res e'. CreateUserInventory E cfg userID e = Some (res, e')"
  by (auto simp: CreateUserInventory_def set_last_total Let_def split: prod.split sum.split list.split)

lemma create_character_total:
  assumes "menus_ok cfg" shows "\<exists>res e'. create_character E cfg userID nick e = Some (res, e')"
proof -
  obtain b1 e1 where 1: "CreateUserBuymenus E cfg userID e = Some (b1, e1)"
    using CreateUserBuymenus_total [OF assms, of E userID e] by auto
  obtain b2 e2 where 2: "CreateUserBookmarks E userID e1 = Some (b2, e2)"
    using CreateUserBookmarks_total [of E userID e1] by auto
  obtain b3 e3 where 3: "CreateUserInventory E cfg userID e2 = Some (b3, e3)"
    using CreateUserInventory_total [of E cfg userID e2] by auto
  show ?thesis using 1 2 3 by (simp add: create_character_def split: prod.split)
qed

lemma DB_SearchRoom_total:
  assumes "rooms_table_ok E cfg"
  shows "\<exists>res e'. DB_SearchRoom E cfg level mode map_id lvl clanBattle e = Some (res, e')"
proof -
  let ?conds = "of_this_channel cfg @ '') AND isPassworded = 0 AND currentPlayers < maxPlayers AND levelLimit = '' @
       fmt lvl @ '' AND clanBattle = '' @ fmt clanBattle @ '' '' @
       (if mode \<noteq> 99 then ''AND gameModeID = '' @ fmt mode @ '' '' else []) @
       (if map_id \<noteq> 99 then ''AND mapID = '' @ fmt map_id @ '' '' else [])"
  let ?s = "''SELECT serverID, channelID, roomID FROM rooms WHERE NOT (''"
  have conds: "?conds \<noteq> []" by simp
  have q: "set_last CHR '';'' (?s @ ?conds) = Some (?s @ (butlast ?conds @ '';''))"
    using conds by (simp add: set_last_total butlast_append del: append.simps)
  have row: "wp (search_row cfg level row res) (\<lambda>_. True)"
    if "mysql_query E (?s @ (butlast ?conds @ '';'')) e = (Inr rows, e')" "row \<in> set rows" for row rows e' res
  proof -
    note t = that
    obtain s c where r: "list_all2 col_ok [ColInt, ColInt, ColInt] row" "col_byte row 0 = Some s"
        "col_byte row 1 = Some c" "channel_at cfg s c \<noteq> None"
      using assms [unfolded rooms_table_ok_def, rule_format, OF t] by auto
    moreover obtain v where "col_int row 2 = Some v" using read_int [OF r(1), of 2] by auto
    moreover have "server_at cfg s \<noteq> None" using r(4) by (cases "server_at cfg s") (simp_all add: channel_at_def)
    ultimately show ?thesis by (auto simp: search_row_def)
  qed
  have fold: "wp (foldM (search_row cfg level) rows (0, 0, 0)) (\<lambda>_. True)"
    if "mysql_query E (?s @ (butlast ?conds @ '';'')) e = (Inr rows, e')" for rows e'
    by (rule foldM_inv) (use row [OF that] in auto)
  show ?thesis
  proof (cases "mysql_query E (?s @ (butlast ?conds @ '';'')) e")
    case (Pair r e')
    have "\<exists>res. foldM (search_row cfg level) rows (0, 0, 0) = Some res" if "r = Inr rows" for rows
      using fold Pair that by (auto simp only: wp_iff)
    then show ?thesis unfolding DB_SearchRoom_def q Option.bind.bind_lunit Pair by (cases r) auto
  qed
qed

end
