(* ===== verification/RoomSpec.thy ===== *)
theory RoomSpec
  imports HostPackets Sends
begin

text \<open>
  Rooms without messages: what leaving a room, closing a match and handing it over do to the
  objects of the server, and the proof that \<open>Room::RemoveRoomUser\<close> and the operations under it
  do exactly that. \<open>leave_room\<close> is the room a user has left, \<open>hand_over\<close> the choice of the new host.
\<close>

section \<open>Changes of one object\<close>

definition set_user :: "(user \<Rightarrow> user) \<Rightarrow> ptr \<Rightarrow> 'e world \<Rightarrow> 'e world" where
  "set_user f p w = w\<lparr>w_users := (w_users w)(p := map_option f (w_users w p))\<rparr>"

definition put_room :: "ptr \<Rightarrow> room \<Rightarrow> 'e world \<Rightarrow> 'e world" where
  "put_room p r w = w\<lparr>w_rooms := (w_rooms w)(p \<mapsto> r)\<rparr>"

definition drop_room :: "ptr \<Rightarrow> 'e world \<Rightarrow> 'e world" where
  "drop_room p w = w\<lparr>w_rooms := (w_rooms w)(p := None), w_roomList := remove1 p (w_roomList w)\<rparr>"

lemma set_user_simps [simp]:
  "w_users (set_user f p w) = (w_users w)(p := map_option f (w_users w p))"
  "w_rooms (set_user f p w) = w_rooms w"
  "w_userList (set_user f p w) = w_userList w"
  "w_roomList (set_user f p w) = w_roomList w"
  "w_next (set_user f p w) = w_next w"
  "w_cfg (set_user f p w) = w_cfg w"
  "w_udpRunning (set_user f p w) = w_udpRunning w"
  by (simp_all add: set_user_def)

lemma put_room_simps [simp]:
  "w_users (put_room p r w) = w_users w"
  "w_rooms (put_room p r w) = (w_rooms w)(p \<mapsto> r)"
  "w_userList (put_room p r w) = w_userList w"
  "w_roomList (put_room p r w) = w_roomList w"
  "w_next (put_room p r w) = w_next w"
  "w_cfg (put_room p r w) = w_cfg w"
  "w_udpRunning (put_room p r w) = w_udpRunning w"
  by (simp_all add: put_room_def)

lemma drop_room_simps [simp]:
  "w_users (drop_room p w) = w_users w"
  "w_rooms (drop_room p w) = (w_rooms w)(p := None)"
  "w_userList (drop_room p w) = w_userList w"
  "w_roomList (drop_room p w) = remove1 p (w_roomList w)"
  "w_next (drop_room p w) = w_next w"
  "w_cfg (drop_room p w) = w_cfg w"
  "w_udpRunning (drop_room p w) = w_udpRunning w"
  by (simp_all add: drop_room_def)

lemma SetUserStatus_eq: "w_users w p \<noteq> None \<Longrightarrow>
    SetUserStatus s p w = Some (set_user (\<lambda>u. u\<lparr>u_userStatus := s\<rparr>) p w)"
  by (auto simp: SetUserStatus_def upd_user_def set_user_def)

lemma SetCurrentRoomID_eq: "w_users w p \<noteq> None \<Longrightarrow>
    SetCurrentRoomID i p w = Some (set_user (\<lambda>u. u\<lparr>u_currentRoomID := i\<rparr>) p w)"
  by (auto simp: SetCurrentRoomID_def upd_user_def set_user_def)

lemma upd_room_eq: "w_rooms w p = Some r \<Longrightarrow> upd_room p f w = Some (put_room p (f r) w)"
  by (simp add: upd_room_def put_room_def)


lemma set_user_None: "w_users (set_user f p w) u = None \<longleftrightarrow> w_users w u = None"
  by simp

lemma set_user_live: "live (set_user f p w) = live w"
  unfolding live_def room_live_def set_user_None by (simp only: set_user_simps)

lemma set_user_room_live: "room_live (set_user f p w) r = room_live w r"
  unfolding room_live_def set_user_None ..

lemma set_user_room_at: "room_at (set_user f p w) q = room_at w q"
  unfolding room_at_def set_user_room_live by simp

section \<open>Abstract rooms\<close>

text \<open>
  What leaving does to a room, without any of the messages: \<open>leave_room\<close> is the room a user
  has left, \<open>hand_over\<close> the choice of the new host when it was the host.
\<close>

definition drop_match_user :: "ptr \<Rightarrow> GameMatch \<Rightarrow> GameMatch" where
  "drop_match_user user gm =
     gm\<lparr>gm_gameMatchUsers := filter (\<lambda>g. gmu_user g \<noteq> user) (gm_gameMatchUsers gm)\<rparr>"

definition set_state :: "RoomState \<Rightarrow> room \<Rightarrow> room" where
  "set_state st r = r\<lparr>r_roomSettings := UpdateRoomSettings (state_settings st) (r_roomSettings r)\<rparr>"

definition hand_over_match :: "GameMatch \<Rightarrow> room \<Rightarrow> room" where
  "hand_over_match gm r = r\<lparr>r_roomHostUser := gmu_user (hd (gm_gameMatchUsers gm)),
     r_gameMatch := (if gm_saveData gm = [] then None else Some gm)\<rparr>"

definition hand_over :: "room \<Rightarrow> room" where
  "hand_over r = (case r_gameMatch r of
       None \<Rightarrow> r\<lparr>r_roomHostUser := hd (r_roomUsers r)\<rparr>
     | Some gm \<Rightarrow>
         if gm_gameMatchUsers gm = []
         then (set_state RoomState_Waiting r)\<lparr>r_gameMatch := None, r_roomHostUser := hd (r_roomUsers r)\<rparr>
         else hand_over_match gm r)"

definition leave_room :: "ptr \<Rightarrow> room \<Rightarrow> room" where
  "leave_room user r =
     (let r' = r\<lparr>r_gameMatch := map_option (drop_match_user user) (r_gameMatch r),
                 r_roomUsers := remove1 user (r_roomUsers r)\<rparr>
      in if r_roomHostUser r = user then hand_over r' else r')"

section \<open>The host and the messages about it\<close>

lemma quietE:
  assumes "quiet w m"
  obtains w' where "m = Some w'" "core w' = core w"
  using assms by (auto simp: quiet_def wp_iff)

definition connected :: "'e world \<Rightarrow> ptr list \<Rightarrow> bool" where
  "connected w us \<longleftrightarrow> (\<forall>u \<in> set us. \<exists>x. w_users w u = Some x \<and> u_connection x \<noteq> 0)"

lemma connected_users_at: "connected w us \<Longrightarrow> users_at w us"
  by (auto simp: connected_def users_at_def)

lemma core_connected: "core w' = core w \<Longrightarrow> connected w' us = connected w us"
  by (simp add: connected_def core_def)

lemma connected_users_all:
  assumes "w_users w 0 = None" and "connected w us"
  shows "connected_users w us = Some us"
proof -
  have "filter (\<lambda>u. u_connection (the (w_users w u)) \<noteq> 0) us = us"
    using assms(2) by (intro filter_True) (auto simp: connected_def)
  then show ?thesis
    using filterM_keep_user [OF assms(1) connected_users_at [OF assms(2)]] by (simp add: connected_users_def)
qed

lemma connected_match_users_all:
  assumes "w_users w 0 = None" and "connected w (map gmu_user gs)"
  shows "connected_match_users w gs = Some gs"
proof -
  have "connected_match_users w gs = Some (filter (\<lambda>g. u_connection (the (w_users w (gmu_user g))) \<noteq> 0) gs)"
    unfolding connected_match_users_def
    using connected_users_at [OF assms(2)] assms(1)
    by (intro filterM_total keep_user_total [where us = "map gmu_user gs"]) auto
  moreover have "filter (\<lambda>g. u_connection (the (w_users w (gmu_user g))) \<noteq> 0) gs = gs"
    using assms(2) by (intro filter_True) (auto simp: connected_def)
  ultimately show ?thesis by simp
qed

lemma UpdateRoomHostUser_step:
  assumes "w_users w 0 = None" and "room \<noteq> 0" and "w_rooms w room = Some r"
    and "w_users w user \<noteq> None" and "connected w (r_roomUsers r)"
  shows "wp (UpdateRoomHostUser user room w)
    (\<lambda>w'. core w' = core (put_room room (r\<lparr>r_roomHostUser := user\<rparr>) w))"
proof -
  let ?w = "put_room room (r\<lparr>r_roomHostUser := user\<rparr>) w"
  have "user \<noteq> 0" using assms(1,4) by metis
  moreover have "upd_room room (\<lambda>r. r\<lparr>r_roomHostUser := user\<rparr>) w = Some ?w"
    using assms(3) by (simp add: upd_room_eq)
  moreover have "connected_users ?w (r_roomUsers r) = Some (r_roomUsers r)"
    using assms(1,5) by (intro connected_users_all) (simp_all add: connected_def)
  moreover have "room_at ?w room"
    using assms connected_users_at [OF assms(5)] by (auto simp: room_at_def room_live_def users_at_def)
  then have "quiet ?w (for_users (\<lambda>c. SendUpdateRoomPacket c room ROOMLIST_FLAG_ROOMHOST) (r_roomUsers r) ?w)"
    using connected_users_at [OF assms(5)] by (intro update_room_one.for_users_quiet) (simp_all add: users_at_def)
  ultimately show ?thesis
    by (simp add: UpdateRoomHostUser_def quiet_def)
qed

lemma set_room_state_step:
  assumes "live w" and "w_rooms w room = Some r" and "room_live w r"
  shows "wp (set_room_state st room w)
    (\<lambda>w'. core w' = core (put_room room (set_state st r) w))"
proof -
  let ?w = "put_room room (set_state st r) w"
  have "room_live ?w (set_state st r)" using assms(3) by (simp add: room_live_def set_state_def)
  moreover have "room \<noteq> 0" using assms(1,2) by (metis live_null(2) option.distinct(1))
  ultimately have "live ?w" "room_at ?w room"
    using assms(1) by (auto simp: live_def room_at_def room_live_def)
  then have "quiet ?w (SendUpdateRoomPacketToAll room ROOMLIST_FLAG_ROOMSTATE ?w)"
    by (rule quiet_SendUpdateRoomPacketToAll)
  then show ?thesis
    using assms(2)
    by (simp add: set_room_state_def Room_UpdateRoomSettings_def upd_room_eq set_state_def quiet_def)
qed

interpretation announce: broadcast
  "\<lambda>c w. SendUpdateRoomPacket c p flag (SendPacket_Room_ReplyUpdateRoomSettings c rs w)" "\<lambda>w. room_at w p"
  for p flag rs
proof
  fix w :: "'a world" and c
  assume "room_at w p"
  then have "room_at (SendPacket_Room_ReplyUpdateRoomSettings c rs w) p"
    by (simp add: core_room_at [of "SendPacket_Room_ReplyUpdateRoomSettings c rs w" w])
  then show "quiet w (SendUpdateRoomPacket c p flag (SendPacket_Room_ReplyUpdateRoomSettings c rs w))"
    by (intro quiet_trans [OF quiet_SendUpdateRoomPacket]) simp_all
qed (rule core_room_at)

lemma quiet_announce_room_state:
  "room_at w room \<Longrightarrow> users_at w us \<Longrightarrow> quiet w (announce_room_state st room us w)"
  unfolding announce_room_state_def by (rule announce.for_users_quiet)

section \<open>Handing over a match\<close>

lemma quiet_HostRestart:
  assumes "users_at w (map gmu_user gs)"
  shows "quiet w (SendPacket_Host_HostRestart c b i gs sd w)"
proof -
  have "\<exists>ys. those (map (match_user_id w) gs) = Some ys"
    using assms by (intro those_map_total) (auto simp: match_user_id_def users_at_def)
  then show ?thesis by (auto simp: SendPacket_Host_HostRestart_def)
qed

interpretation restart_guest: broadcast
  "\<lambda>c w. do { w \<leftarrow> SendPacket_Host_HostRestart c False i [] [] w; Some (SendPacket_Host_HostJoin c i w) }"
  "\<lambda>_. True"
  for i
  by unfold_locales
    (auto intro!: quiet_bind [OF quiet_HostRestart] simp: users_at_def simp del: bind.bind_lunit)

lemma migrate_host_step:
  assumes "w_users w 0 = None" and "room \<noteq> 0" and "w_rooms w room = Some r"
    and "connected w (r_roomUsers r)" and "r_gameMatch r = Some gm"
    and "gm_gameMatchUsers gm \<noteq> []" and "users_at w (map gmu_user (gm_gameMatchUsers gm))"
  shows "wp (migrate_host room (gm_gameMatchUsers gm) w)
    (\<lambda>w'. core w' = core (put_room room (hand_over_match gm r) w))"
proof -
  let ?gs = "gm_gameMatchUsers gm"
  define host where "host = gmu_user (hd ?gs)"
  define gs where "gs = filter (\<lambda>g. gmu_user g \<noteq> host) ?gs"
  have at: "vec_at ?gs 0 = Some (hd ?gs)" using assms(6) by (simp add: hd_conv_nth)
  have "w_users w host \<noteq> None" using assms(6,7) by (simp add: host_def users_at_def)
  then obtain x where x: "w_users w host = Some x" by auto
  let ?w1 = "put_room room (r\<lparr>r_roomHostUser := host\<rparr>) w"
  obtain w1 where w1: "UpdateRoomHostUser host room w = Some w1" and c1: "core w1 = core ?w1"
    using UpdateRoomHostUser_step [OF assms(1-3) _ assms(4), of host] x by (auto simp: wp_iff)
  have gs: "users_at w1 (map gmu_user gs)"
    using c1 assms(7) by (auto simp: core_def users_at_def gs_def)
  obtain w2 where w2: "SendPacket_Host_HostRestart (u_connection x) True (u_userID x) gs
      (gm_saveData gm) w1 = Some w2" and c2: "core w2 = core w1"
    using quiet_HostRestart [OF gs] by (rule quietE)
  obtain w3 where w3: "for_users (\<lambda>c w. do {
        w \<leftarrow> SendPacket_Host_HostRestart c False (u_userID x) [] [] w;
        Some (SendPacket_Host_HostJoin c (u_userID x) w) }) (map gmu_user gs) w2 = Some w3"
    and c3: "core w3 = core w2"
    using restart_guest.for_users_quiet [OF TrueI] gs core_users_at [OF c2] by (blast elim: quietE)
  have r1: "w_rooms w1 room = Some (r\<lparr>r_roomHostUser := host\<rparr>)" "w_users w1 host = Some x"
    using c1 x by (simp_all add: core_def)
  have r3: "w_rooms w3 room = Some (r\<lparr>r_roomHostUser := host\<rparr>)"
    using c3 c2 r1 by (simp add: core_def)
  have "core (w3\<lparr>w_rooms := (w_rooms w3)(room \<mapsto> y)\<rparr>) = core (put_room room (y) w)" for y
    using c1 c2 c3 by (simp add: core_def)
  moreover have "core w3 = core ?w1" using c1 c2 c3 by simp
  moreover have "hand_over_match gm r = (if gm_saveData gm = [] then r\<lparr>r_roomHostUser := host, r_gameMatch := None\<rparr>
      else r\<lparr>r_roomHostUser := host\<rparr>)"
    using assms(5) by (cases r) (simp add: hand_over_match_def host_def)
  ultimately show ?thesis
    using at w1 w2 w3 r1 r3 assms(5)
    by (auto simp: migrate_host_def host_def gs_def SetGameMatch_def upd_room_def Let_def)
qed

section \<open>RemoveRoomUser\<close>

lemma leave_match_eq:
  assumes "user \<noteq> 0" and "distinct (map gmu_user (gm_gameMatchUsers gm))"
  shows "leave_match user gm = Some (drop_match_user user gm)"
proof -
  have "distinct (map gmu_user gs) \<Longrightarrow>
    (case find (\<lambda>g. gmu_user g = user) gs of
       None \<Rightarrow> filter (\<lambda>g. gmu_user g \<noteq> user) gs = gs
     | Some g \<Rightarrow> g \<in> set gs \<and> remove1 g gs = filter (\<lambda>g. gmu_user g \<noteq> user) gs)" for gs
  proof (induction gs)
    case (Cons a gs)
    show ?case
    proof (cases "gmu_user a = user")
      case True
      then have "filter (\<lambda>g. gmu_user g \<noteq> user) gs = gs"
        using Cons.prems by (auto simp: filter_id_conv) (metis image_eqI)
      with True show ?thesis by simp
    next
      case False
      then show ?thesis using Cons by (auto split: option.splits)
    qed
  qed simp
  from this [OF assms(2)] show ?thesis using assms(1)
    by (auto simp: leave_match_def GetGameMatchUserByUser_def RemoveGameMatchUser_def drop_match_user_def
        split: option.splits)
qed

text \<open>What leaving does to the server: the user is back in the lobby, its room has lost it.\<close>

definition to_lobby :: "user \<Rightarrow> user" where
  "to_lobby u = u\<lparr>u_userStatus := InLobby, u_currentRoomID := 0\<rparr>"

definition quit_room :: "ptr \<Rightarrow> ptr \<Rightarrow> room \<Rightarrow> 'e world \<Rightarrow> 'e world" where
  "quit_room user room r w =
     (let w = set_user to_lobby user w in
      if remove1 user (r_roomUsers r) = [] then drop_room room w else put_room room (leave_room user r) w)"

lemma delete_empty_room:
  assumes "w_rooms w room = Some r" and "r_roomUsers r = []"
  shows "wp (delete_room E room w) (\<lambda>w'. core w' = core (w\<lparr>w_rooms := (w_rooms w)(room := None)\<rparr>))"
  using assms by (auto simp: delete_room_def SetGameMatch_def upd_room_def core_def)

lemma RemoveRoom_step:
  assumes "live w" and "w_rooms w room = Some r" and "r_roomUsers r = []" and "room \<in> set (w_roomList w)"
  shows "wp (RemoveRoom E room w) (\<lambda>w'. core w' = core (drop_room room w))"
proof -
  have "room \<noteq> 0" using assms(1,2) by (metis live_null(2) option.distinct(1))
  moreover obtain w1 where w1: "SendRemoveRoomPacketToAll (r_roomID r) w = Some w1" and c: "core w1 = core w"
    using quiet_SendRemoveRoomPacketToAll [OF assms(1)] by (rule quietE)
  let ?w = "w1\<lparr>w_ext := DB_RemoveRoom E (w_cfg w1) (r_roomID r) (w_ext w1), w_roomList := remove1 room (w_roomList w)\<rparr>"
  have "wp (delete_room E room ?w) (\<lambda>w'. core w' = core (?w\<lparr>w_rooms := (w_rooms ?w)(room := None)\<rparr>))"
    by (rule delete_empty_room [where r = r]) (use c assms in \<open>simp_all add: core_def\<close>)
  moreover have "core (?w\<lparr>w_rooms := (w_rooms ?w)(room := None)\<rparr>) = core (drop_room room w)"
    using c by (simp add: core_def)
  ultimately show ?thesis
    using w1 assms(2,4) c by (simp add: RemoveRoom_def core_eqD(4) [OF c])
qed

text \<open>
  The rooms the code keeps: the users are present and connected, and the match, if there is
  one, holds each of them at most once.
\<close>

definition match_ok :: "room \<Rightarrow> bool" where
  "match_ok r \<longleftrightarrow> (case r_gameMatch r of None \<Rightarrow> True
     | Some gm \<Rightarrow> distinct (map gmu_user (gm_gameMatchUsers gm)) \<and>
         set (map gmu_user (gm_gameMatchUsers gm)) \<subseteq> set (r_roomUsers r))"

lemma match_users_connected:
  "match_ok r \<Longrightarrow> r_gameMatch r = Some gm \<Longrightarrow> connected w (r_roomUsers r) \<Longrightarrow>
    connected w (map gmu_user (gm_gameMatchUsers gm))"
  by (auto simp: match_ok_def connected_def)

lemma put_room_again [simp]:
  "core (put_room p r' (put_room p r w)) = core (put_room p r' w)"
  by (simp add: core_def)

lemma core_put_room: "core w' = core w \<Longrightarrow> core (put_room p r w') = core (put_room p r w)"
  by (simp add: core_def)

lemma put_room_live:
  assumes "live w" and "w_rooms w room \<noteq> None" and "room_live w r"
  shows "live (put_room room r w)" "room_at (put_room room r w) room"
proof -
  have "room \<noteq> 0" using assms(1,2) by (metis live_null(2))
  with assms show "live (put_room room r w)" "room_at (put_room room r w) room"
    by (auto simp: live_def room_at_def room_live_def)
qed

lemma connected_room_live:
  "connected w (r_roomUsers r) \<Longrightarrow> w_users w (r_roomHostUser r) \<noteq> None \<Longrightarrow> room_live w r"
  by (auto simp: connected_def room_live_def)

text \<open>The end of a match: the room is waiting again, and the users still there are told.\<close>

lemma close_match_step:
  assumes "live w" and "w_rooms w room = Some r" and "room_live w r" and "users_at w us"
  shows "wp (do { w \<leftarrow> SetGameMatch None room w; w \<leftarrow> set_room_state RoomState_Waiting room w;
        announce_room_state RoomState_Waiting room us w })
    (\<lambda>w'. core w' = core (put_room room ((set_state RoomState_Waiting r)\<lparr>r_gameMatch := None\<rparr>) w))"
proof -
  let ?r = "r\<lparr>r_gameMatch := None\<rparr>"
  have r: "room_live w ?r" using assms(3) by (simp add: room_live_def)
  then have l: "live (put_room room ?r w)" using assms(1,2) by (intro put_room_live) simp_all
  obtain w1 where w1: "set_room_state RoomState_Waiting room (put_room room ?r w) = Some w1"
    and c1: "core w1 = core (put_room room (set_state RoomState_Waiting ?r) (put_room room ?r w))"
    using set_room_state_step [OF l, of room ?r] r by (auto simp: wp_iff room_live_def)
  have "room_live w (set_state RoomState_Waiting ?r)" using r by (simp add: room_live_def set_state_def)
  then have "room_at w1 room" "users_at w1 us"
    using c1 assms(1,2,4) by (auto simp: core_def room_at_def users_at_def room_live_def)
  then have "quiet w1 (announce_room_state RoomState_Waiting room us w1)"
    by (rule quiet_announce_room_state)
  moreover have "set_state RoomState_Waiting ?r = (set_state RoomState_Waiting r)\<lparr>r_gameMatch := None\<rparr>"
    by (simp add: set_state_def)
  ultimately show ?thesis
    using w1 c1 assms(2) by (auto simp: SetGameMatch_def upd_room_eq elim!: wp_quiet)
qed

lemma replace_host_step:
  assumes "live w" and "w_rooms w room = Some r" and "connected w (r_roomUsers r)" and "match_ok r"
    and "w_users w (r_roomHostUser r) \<noteq> None" and "r_roomUsers r \<noteq> []"
  shows "wp (replace_host room (r_roomUsers r) w) (\<lambda>w'. core w' = core (put_room room (hand_over r) w))"
proof -
  have room: "room \<noteq> 0" using assms(1,2) by (metis live_null(2) option.distinct(1))
  have at: "vec_at (r_roomUsers r) 0 = Some (hd (r_roomUsers r))" using assms(6) by (simp add: hd_conv_nth)
  have first: "w_users w (hd (r_roomUsers r)) \<noteq> None" using assms(3,6) by (auto simp: connected_def)
  show ?thesis
  proof (cases "r_gameMatch r")
    case None
    then show ?thesis
      using UpdateRoomHostUser_step [OF live_null(1) [OF assms(1)] room assms(2) first assms(3)] at assms(2)
      by (simp add: replace_host_def hand_over_def)
  next
    case (Some gm)
    note con = match_users_connected [OF assms(4) Some assms(3)]
    have cm: "connected_match_users w (gm_gameMatchUsers gm) = Some (gm_gameMatchUsers gm)"
      using connected_match_users_all [OF live_null(1) [OF assms(1)] con] .
    show ?thesis
    proof (cases "gm_gameMatchUsers gm = []")
      case False
      then show ?thesis
        using migrate_host_step [OF live_null(1) [OF assms(1)] room assms(2,3) Some False connected_users_at [OF con]]
          assms(2) Some cm by (simp add: replace_host_def hand_over_def)
    next
      case True
      let ?r = "(set_state RoomState_Waiting r)\<lparr>r_gameMatch := None\<rparr>"
      obtain w1 where w1: "Option.bind (SetGameMatch None room w) (\<lambda>w.
          Option.bind (set_room_state RoomState_Waiting room w) (announce_room_state RoomState_Waiting room (r_roomUsers r)))
          = Some w1" and c1: "core w1 = core (put_room room ?r w)"
        using close_match_step [OF assms(1,2) connected_room_live [OF assms(3,5)] connected_users_at [OF assms(3)]]
        by (auto simp: wp_iff)
      have "wp (UpdateRoomHostUser (hd (r_roomUsers r)) room w1)
          (\<lambda>w'. core w' = core (put_room room (?r\<lparr>r_roomHostUser := hd (r_roomUsers r)\<rparr>) w1))"
        using c1 assms(1,3) first room
        by (intro UpdateRoomHostUser_step) (auto simp: core_def connected_def set_state_def)
      then show ?thesis
        using w1 c1 Some True assms(2) cm at core_put_room [OF c1]
        by (auto simp: replace_host_def hand_over_def bind_eq_Some_conv elim!: wp_mono)
    qed
  qed
qed

lemma drop_match_user_ok:
  "match_ok r \<Longrightarrow> match_ok (r\<lparr>r_gameMatch := map_option (drop_match_user user) (r_gameMatch r),
     r_roomUsers := remove1 user (r_roomUsers r)\<rparr>)"
  by (auto simp: match_ok_def drop_match_user_def distinct_map inj_on_def split: option.splits)

lemma leave_match_step:
  assumes "user \<noteq> 0" and "w_rooms w room = Some r" and "match_ok r"
  shows "(case r_gameMatch r of None \<Rightarrow> Some w
      | Some gm \<Rightarrow> do { gm \<leftarrow> leave_match user gm; SetGameMatch (Some gm) room w }) =
    Some (put_room room (r\<lparr>r_gameMatch := map_option (drop_match_user user) (r_gameMatch r)\<rparr>) w)"
proof (cases "r_gameMatch r")
  case None
  then have "r\<lparr>r_gameMatch := None\<rparr> = r" by simp
  with None assms(2) show ?thesis by (simp add: put_room_def fun_upd_idem)
next
  case (Some gm)
  with assms show ?thesis by (simp add: leave_match_eq match_ok_def SetGameMatch_def upd_room_eq)
qed

lemma connected_remove1: "connected w us \<Longrightarrow> connected w (remove1 u us)"
  by (auto simp: connected_def dest: set_remove1_subset [THEN subsetD])

lemma RemoveRoomUser_goes_on:
  assumes live: "live w" and r: "w_rooms w room = Some r" and users: "connected w (r_roomUsers r)" "r_roomUsers r \<noteq> []"
    and host: "w_users w (r_roomHostUser r) \<noteq> None" and gm: "match_ok r" and u: "w_users w user = Some y"
  shows "wp (do {
      w \<leftarrow> UpdateRoom E room w;
      roomUsers \<leftarrow> connected_users w (r_roomUsers r);
      u \<leftarrow> w_users w user;
      w \<leftarrow> for_users (\<lambda>c w. Some (SendRoomUserLeavePacket c (u_userID u) w)) roomUsers w;
      (if host_left then replace_host room roomUsers w else Some w)
    }) (\<lambda>w'. core w' = core (if host_left then put_room room (hand_over r) w else w))"
proof -
  have "room_at w room" using r users host connected_room_live [of w r] by (auto simp: room_at_def)
  then obtain w1 where w1: "UpdateRoom E room w = Some w1" and c1: "core w1 = core w"
    using quiet_UpdateRoom by (blast elim: quietE)
  have cu: "connected_users w1 (r_roomUsers r) = Some (r_roomUsers r)"
    using live users(1) by (intro connected_users_all) (simp_all add: core_connected [OF c1] core_eqD(1) [OF c1] live_null)
  have u1: "w_users w1 user = Some y" using u by (simp add: core_eqD(1) [OF c1])
  obtain w2 where w2: "for_users (\<lambda>c w. Some (SendRoomUserLeavePacket c (u_userID y) w)) (r_roomUsers r) w1 = Some w2"
    and c2: "core w2 = core w1"
    using user_leave.for_users_quiet [OF TrueI, of w1 "r_roomUsers r"] connected_users_at [OF users(1)] core_users_at [OF c1]
    by (blast elim: quietE)
  have c: "core w2 = core w" using c1 c2 by simp
  have "wp (replace_host room (r_roomUsers r) w2) (\<lambda>w'. core w' = core (put_room room (hand_over r) w2))"
    using live users host gm r core_live [OF c]
    by (intro replace_host_step) (simp_all add: core_connected [OF c] core_eqD(1,2) [OF c])
  then show ?thesis using w1 cu u1 w2 c core_put_room [OF c] by (auto elim!: wp_mono)
qed

lemma RemoveRoomUser_begins:
  assumes "live w" and "w_rooms w room = Some r" and "room \<in> set (w_roomList w)"
    and "connected w (r_roomUsers r)" and "match_ok r" and "user \<in> set (r_roomUsers r)"
    and r': "r' = r\<lparr>r_gameMatch := map_option (drop_match_user user) (r_gameMatch r), r_roomUsers := remove1 user (r_roomUsers r)\<rparr>"
  shows "\<exists>w5. live w5 \<and> core w5 = core (put_room room r' (set_user to_lobby user w)) \<and>
    RemoveRoomUser E user room w = (if r_roomUsers r' = [] then RemoveRoom E room w5
       else do {
         w \<leftarrow> UpdateRoom E room w5;
         roomUsers \<leftarrow> connected_users w (r_roomUsers r');
         u \<leftarrow> w_users w user;
         w \<leftarrow> for_users (\<lambda>c w. Some (SendRoomUserLeavePacket c (u_userID u) w)) roomUsers w;
         (if r_roomHostUser r = user then replace_host room roomUsers w else Some w)
       })"
proof -
  have room: "room \<noteq> 0" using assms(1,2) by (metis live_null(2) option.distinct(1))
  obtain x where x: "w_users w user = Some x" using assms(4,6) by (auto simp: connected_def)
  have user: "user \<noteq> 0" using assms(1) x by (metis live_null(1) option.distinct(1))
  have host: "w_users w (r_roomHostUser r) \<noteq> None" using assms(1-3) by (auto simp: live_def room_live_def)
  let ?us = "remove1 user (r_roomUsers r)"
  let ?r = "r\<lparr>r_gameMatch := map_option (drop_match_user user) (r_gameMatch r), r_roomUsers := ?us\<rparr>"
  let ?w2 = "put_room room ?r (put_room room (r\<lparr>r_gameMatch := map_option (drop_match_user user) (r_gameMatch r)\<rparr>) w)"
  have us: "connected w ?us" using assms(4) by (rule connected_remove1)
  have live2: "live ?w2" "room_at ?w2 room"
  proof -
    let ?v = "put_room room (r\<lparr>r_gameMatch := map_option (drop_match_user user) (r_gameMatch r)\<rparr>) w"
    have "live ?v" using assms(1,2,4) host
      by (intro put_room_live) (auto intro: connected_room_live)
    moreover have "room_live ?v ?r" using us host by (intro connected_room_live) (simp_all add: connected_def)
    ultimately show "live ?w2" "room_at ?w2 room" by (auto intro: put_room_live)
  qed
  obtain w3 where w3: "SendUpdateRoomPacketToAll room ROOMLIST_FLAG_CURRENTPLAYERS ?w2 = Some w3" and c3: "core w3 = core ?w2"
    using quiet_SendUpdateRoomPacketToAll [OF live2] by (rule quietE)
  define w5 where "w5 = set_user (\<lambda>u. u\<lparr>u_currentRoomID := 0\<rparr>) user (set_user (\<lambda>u. u\<lparr>u_userStatus := InLobby\<rparr>) user w3)"
  have c5: "core w5 = core (put_room room ?r (set_user to_lobby user w))"
    using c3 x by (simp add: w5_def core_def to_lobby_def)
  have live5: "live w5"
    using live2(1) by (simp add: w5_def set_user_live core_live [OF c3])
  have steps: "RemoveRoomUser E user room w =
      (if ?us = [] then RemoveRoom E room w5
       else do {
         w \<leftarrow> UpdateRoom E room w5;
         roomUsers \<leftarrow> connected_users w ?us;
         u \<leftarrow> w_users w user;
         w \<leftarrow> for_users (\<lambda>c w. Some (SendRoomUserLeavePacket c (u_userID u) w)) roomUsers w;
         (if r_roomHostUser r = user then replace_host room roomUsers w else Some w)
       })"
    using assms(2,6) user leave_match_step [OF user assms(2,5)] w3 x c3
    by (simp add: RemoveRoomUser_def upd_room_eq SetUserStatus_eq SetCurrentRoomID_eq w5_def core_def cong: if_weak_cong)
  show ?thesis using live5 c5 steps by (intro exI [of _ w5]) (simp add: r')
qed

theorem RemoveRoomUser_step:
  assumes "live w" and "w_rooms w room = Some r" and "room \<in> set (w_roomList w)"
    and "connected w (r_roomUsers r)" and "match_ok r" and "user \<in> set (r_roomUsers r)"
  shows "wp (RemoveRoomUser E user room w) (\<lambda>w'. core w' = core (quit_room user room r w))"
proof -
  let ?us = "remove1 user (r_roomUsers r)"
  let ?r = "r\<lparr>r_gameMatch := map_option (drop_match_user user) (r_gameMatch r), r_roomUsers := ?us\<rparr>"
  obtain x where x: "w_users w user = Some x" using assms(4,6) by (auto simp: connected_def)
  have host: "w_users w (r_roomHostUser r) \<noteq> None" using assms(1-3) by (auto simp: live_def room_live_def)
  from RemoveRoomUser_begins [OF assms refl, of E] obtain w5 where live5: "live w5"
    and c5: "core w5 = core (put_room room ?r (set_user to_lobby user w))"
    and steps: "RemoveRoomUser E user room w = (if ?us = [] then RemoveRoom E room w5
       else do {
         w \<leftarrow> UpdateRoom E room w5;
         roomUsers \<leftarrow> connected_users w ?us;
         u \<leftarrow> w_users w user;
         w \<leftarrow> for_users (\<lambda>c w. Some (SendRoomUserLeavePacket c (u_userID u) w)) roomUsers w;
         (if r_roomHostUser r = user then replace_host room roomUsers w else Some w)
       })" by auto
  have u5: "w_users w5 user = Some (to_lobby x)" and r5: "w_rooms w5 room = Some ?r"
    and list5: "w_roomList w5 = w_roomList w" using c5 x by (simp_all add: core_def)
  show ?thesis
  proof (cases "?us = []")
    case True
    have "wp (RemoveRoom E room w5) (\<lambda>w'. core w' = core (drop_room room w5))"
      using True assms(3) by (intro RemoveRoom_step [OF live5 r5]) (simp_all add: list5)
    then show ?thesis using True c5 by (simp add: steps quit_room_def) (simp add: core_def)
  next
    case False
    have con5: "connected w5 (r_roomUsers ?r)"
      using c5 connected_remove1 [OF assms(4), of user] by (auto simp: core_def connected_def to_lobby_def)
    have host5: "w_users w5 (r_roomHostUser ?r) \<noteq> None" using c5 host by (auto simp: core_def)
    have "core (if r_roomHostUser r = user then put_room room (hand_over ?r) w5 else w5) = core (quit_room user room r w)"
      using False c5 by (simp add: quit_room_def leave_room_def) (simp add: core_def)
    then show ?thesis
      using RemoveRoomUser_goes_on [OF live5 r5 con5 _ host5 _ u5, of E "r_roomHostUser r = user"] False
        drop_match_user_ok [OF assms(5), of user] by (simp add: steps)
  qed
qed

end
