(* ===== verification/Invariant.thy ===== *)
theory Invariant
  imports RoomSpec
begin

text \<open>
  The invariant \<open>lobby_inv\<close> that ties users, rooms and matches together, and the abstract changes
  (leave, join, open a room, admit and forget a user, change a room or a status) that keep it.
\<close>

section \<open>The invariant\<close>

definition user_ok :: "'e world \<Rightarrow> ptr \<Rightarrow> user \<Rightarrow> bool" where
  "user_ok w p u \<longleftrightarrow> u_connection u \<noteq> 0 \<and> (in_room u \<longleftrightarrow> u_currentRoomID u \<noteq> 0) \<and>
     (u_currentRoomID u \<noteq> 0 \<longrightarrow>
       (\<exists>room r. w_rooms w room = Some r \<and> r_roomID r = u_currentRoomID u \<and> p \<in> set (r_roomUsers r)))"

definition member_ok :: "'e world \<Rightarrow> room \<Rightarrow> ptr \<Rightarrow> bool" where
  "member_ok w r p \<longleftrightarrow> (\<exists>u. w_users w p = Some u \<and> u_currentRoomID u = r_roomID r)"

definition players_ok :: "'e world \<Rightarrow> room \<Rightarrow> bool" where
  "players_ok w r \<longleftrightarrow> (\<forall>gm. r_gameMatch r = Some gm \<longrightarrow> gm_roomID gm = r_roomID r \<and>
     (\<forall>g \<in> set (gm_gameMatchUsers gm). \<exists>u. w_users w (gmu_user g) = Some u \<and> u_userStatus u = InGame))"

definition room_ok :: "'e world \<Rightarrow> room \<Rightarrow> bool" where
  "room_ok w r \<longleftrightarrow> r_roomID r \<noteq> 0 \<and> distinct (r_roomUsers r) \<and> r_roomHostUser r \<in> set (r_roomUsers r) \<and>
     (\<forall>p \<in> set (r_roomUsers r). member_ok w r p) \<and> match_ok r \<and> players_ok w r"

definition lists_ok :: "'e world \<Rightarrow> bool" where
  "lists_ok w \<longleftrightarrow> distinct (w_userList w) \<and> distinct (w_roomList w) \<and>
     dom (w_users w) = set (w_userList w) \<and> dom (w_rooms w) = set (w_roomList w) \<and>
     0 \<notin> set (w_userList w) \<and> 0 \<notin> set (w_roomList w) \<and>
     0 < w_next w \<and> (\<forall>p \<in> set (w_userList w) \<union> set (w_roomList w). p < w_next w)"

definition ids_ok :: "'e world \<Rightarrow> bool" where
  "ids_ok w \<longleftrightarrow> (\<forall>p q r s. w_rooms w p = Some r \<longrightarrow> w_rooms w q = Some s \<longrightarrow> r_roomID r = r_roomID s \<longrightarrow> p = q)"

definition lobby_inv :: "'e world \<Rightarrow> bool" where
  "lobby_inv w \<longleftrightarrow> lists_ok w \<and> ids_ok w \<and>
     (\<forall>p u. w_users w p = Some u \<longrightarrow> user_ok w p u) \<and> (\<forall>p r. w_rooms w p = Some r \<longrightarrow> room_ok w r)"

lemma core_lobby_inv: "core w' = core w \<Longrightarrow> lobby_inv w' = lobby_inv w"
  by (simp add: lobby_inv_def lists_ok_def ids_ok_def user_ok_def room_ok_def member_ok_def players_ok_def core_def)

lemma lobby_invD:
  assumes "lobby_inv w"
  shows "lists_ok w" "ids_ok w" "w_users w p = Some u \<Longrightarrow> user_ok w p u" "w_rooms w p = Some r \<Longrightarrow> room_ok w r"
  using assms by (simp_all add: lobby_inv_def)

lemma inv_null: "lobby_inv w \<Longrightarrow> w_users w 0 = None" "lobby_inv w \<Longrightarrow> w_rooms w 0 = None"
  by (auto simp: lobby_inv_def lists_ok_def)

lemma inv_user_listed: "lobby_inv w \<Longrightarrow> w_users w p = Some u \<Longrightarrow> p \<in> set (w_userList w)"
  by (auto simp: lobby_inv_def lists_ok_def)

lemma inv_room_listed: "lobby_inv w \<Longrightarrow> w_rooms w p = Some r \<Longrightarrow> p \<in> set (w_roomList w)"
  by (auto simp: lobby_inv_def lists_ok_def)

lemma inv_members:
  assumes "lobby_inv w" and "w_rooms w room = Some r" and "p \<in> set (r_roomUsers r)"
  shows "\<exists>u. w_users w p = Some u \<and> u_currentRoomID u = r_roomID r \<and> r_roomID r \<noteq> 0 \<and> in_room u \<and> u_connection u \<noteq> 0"
proof -
  have "room_ok w r" using lobby_invD(4) [OF assms(1,2)] .
  then obtain u where u: "w_users w p = Some u" "u_currentRoomID u = r_roomID r" "r_roomID r \<noteq> 0"
    using assms(3) by (auto simp: room_ok_def member_ok_def)
  then show ?thesis using lobby_invD(3) [OF assms(1) u(1)] by (simp add: user_ok_def)
qed

lemma inv_connected: "lobby_inv w \<Longrightarrow> w_rooms w room = Some r \<Longrightarrow> connected w (r_roomUsers r)"
  unfolding connected_def using inv_members by blast

lemma inv_host: "lobby_inv w \<Longrightarrow> w_rooms w room = Some r \<Longrightarrow> r_roomHostUser r \<in> set (r_roomUsers r)"
  using lobby_invD(4) by (auto simp: room_ok_def)

lemma inv_room_live: "lobby_inv w \<Longrightarrow> w_rooms w room = Some r \<Longrightarrow> room_live w r"
  using inv_host [of w room r] inv_members [of w room r "r_roomHostUser r"] inv_connected [of w room r]
  by (intro connected_room_live) auto

lemma inv_live: "lobby_inv w \<Longrightarrow> live w"
  using inv_room_live [of w] inv_null [of w] unfolding live_def lobby_inv_def lists_ok_def by blast

lemma inv_match_ok: "lobby_inv w \<Longrightarrow> w_rooms w room = Some r \<Longrightarrow> match_ok r"
  using lobby_invD(4) by (auto simp: room_ok_def)

text \<open>A user is in at most one room.\<close>

lemma inv_one_room:
  assumes "lobby_inv w" and "w_rooms w p = Some r" and "u \<in> set (r_roomUsers r)"
    and "w_rooms w q = Some s" and "u \<in> set (r_roomUsers s)"
  shows "p = q"
  using assms inv_members [OF assms(1-3)] inv_members [OF assms(1,4,5)] lobby_invD(2) [OF assms(1)]
  by (auto simp: ids_ok_def)

section \<open>Leaving keeps the invariant\<close>

lemma set_state_simps [simp]:
  "r_roomID (set_state st r) = r_roomID r"
  "r_roomUsers (set_state st r) = r_roomUsers r"
  "r_roomHostUser (set_state st r) = r_roomHostUser r"
  "r_gameMatch (set_state st r) = r_gameMatch r"
  by (simp_all add: set_state_def)

lemma hand_over_simps [simp]:
  "r_roomID (hand_over r) = r_roomID r"
  "r_roomUsers (hand_over r) = r_roomUsers r"
  by (simp_all add: hand_over_def hand_over_match_def split: option.split)

lemma leave_room_simps [simp]:
  "r_roomID (leave_room u r) = r_roomID r"
  "r_roomUsers (leave_room u r) = remove1 u (r_roomUsers r)"
  by (simp_all add: leave_room_def Let_def)

lemma hand_over_match_sub: "r_gameMatch (hand_over r) = None \<or> r_gameMatch (hand_over r) = r_gameMatch r"
  by (auto simp: hand_over_def hand_over_match_def split: option.split)

lemma leave_room_match:
  "r_gameMatch (leave_room u r) = None \<or>
   r_gameMatch (leave_room u r) = map_option (drop_match_user u) (r_gameMatch r)"
  using hand_over_match_sub [of "r\<lparr>r_gameMatch := map_option (drop_match_user u) (r_gameMatch r),
      r_roomUsers := remove1 u (r_roomUsers r)\<rparr>"]
  by (auto simp: leave_room_def Let_def)

lemma hand_over_host:
  assumes "r_roomUsers r \<noteq> []" and "match_ok r"
  shows "r_roomHostUser (hand_over r) \<in> set (r_roomUsers r)"
proof (cases "r_gameMatch r")
  case (Some gm)
  then have "gm_gameMatchUsers gm \<noteq> [] \<longrightarrow> gmu_user (hd (gm_gameMatchUsers gm)) \<in> set (r_roomUsers r)"
    using assms(2) by (cases "gm_gameMatchUsers gm") (auto simp: match_ok_def)
  with Some assms(1) show ?thesis by (simp add: hand_over_def hand_over_match_def)
qed (use assms in \<open>simp add: hand_over_def\<close>)

lemma leave_room_host:
  assumes "remove1 u (r_roomUsers r) \<noteq> []" and "match_ok r" and "r_roomHostUser r \<in> set (r_roomUsers r)"
  shows "r_roomHostUser (leave_room u r) \<in> set (remove1 u (r_roomUsers r))"
  using assms hand_over_host [OF _ drop_match_user_ok [OF assms(2), of u]]
  by (auto simp: leave_room_def Let_def)

lemma leave_room_match_ok: "match_ok r \<Longrightarrow> match_ok (leave_room u r)"
  using leave_room_match [of u r] drop_match_user_ok [of r u] by (cases "r_gameMatch r") (auto simp: match_ok_def)

lemma drop_match_user_simps [simp]:
  "gm_roomID (drop_match_user u gm) = gm_roomID gm"
  "set (gm_gameMatchUsers (drop_match_user u gm)) = {g \<in> set (gm_gameMatchUsers gm). gmu_user g \<noteq> u}"
  by (auto simp: drop_match_user_def)

text \<open>
  A change of one user, or of one room, keeps a fact about a room that does not mention it.
\<close>

lemma room_ok_frame:
  assumes "room_ok w r" and "\<And>p. p \<in> set (r_roomUsers r) \<Longrightarrow> w_users w' p = w_users w p"
  shows "room_ok w' r"
proof -
  have "w_users w' (gmu_user g) = w_users w (gmu_user g)"
    if "r_gameMatch r = Some gm" "g \<in> set (gm_gameMatchUsers gm)" for gm g
    using assms that by (intro assms(2)) (auto simp: room_ok_def match_ok_def)
  then show ?thesis using assms by (auto simp: room_ok_def member_ok_def players_ok_def)
qed

lemma user_ok_frame:
  assumes "user_ok w p u"
    and "\<And>q r. w_rooms w q = Some r \<Longrightarrow> p \<in> set (r_roomUsers r) \<Longrightarrow>
      \<exists>r'. w_rooms w' q = Some r' \<and> r_roomID r' = r_roomID r \<and> p \<in> set (r_roomUsers r')"
  shows "user_ok w' p u"
  using assms by (fastforce simp: user_ok_def)

lemma lists_ok_set_user [simp]: "lists_ok (set_user f p w) = lists_ok w"
proof -
  have "dom (w_users (set_user f p w)) = dom (w_users w)" by (auto simp: set_user_def split: if_splits)
  then show ?thesis by (simp add: lists_ok_def del: set_user_simps(1))
qed

lemma lists_ok_put_room: "w_rooms w p \<noteq> None \<Longrightarrow> lists_ok (put_room p r w) = lists_ok w"
  by (auto simp: lists_ok_def insert_absorb domIff simp del: not_None_eq)

lemma lists_ok_drop_room:
  assumes "lists_ok w" shows "lists_ok (drop_room p w)"
proof -
  have "set (remove1 p (w_roomList w)) = set (w_roomList w) - {p}"
    using assms by (simp add: lists_ok_def)
  with assms show ?thesis by (auto simp: lists_ok_def)
qed

lemma ids_ok_set_user [simp]: "ids_ok (set_user f p w) = ids_ok w"
  by (simp add: ids_ok_def)

lemma ids_ok_put_room:
  assumes "ids_ok w" and "w_rooms w p = Some r" and "r_roomID r' = r_roomID r"
  shows "ids_ok (put_room p r' w)"
  unfolding ids_ok_def
proof (intro allI impI)
  fix q s a b assume "w_rooms (put_room p r' w) q = Some a" "w_rooms (put_room p r' w) s = Some b" "r_roomID a = r_roomID b"
  moreover from this obtain a' b' where "w_rooms w q = Some a'" "w_rooms w s = Some b'" "r_roomID a' = r_roomID b'"
    using assms(2,3) by (cases "q = p"; cases "s = p") auto
  ultimately show "q = s" using assms(1) unfolding ids_ok_def by blast
qed

lemma ids_ok_drop_room: "ids_ok w \<Longrightarrow> ids_ok (drop_room p w)"
  by (simp add: ids_ok_def)

lemma remove1_other: "p \<in> set us \<Longrightarrow> p \<noteq> u \<Longrightarrow> remove1 u us \<noteq> []"
  by (metis empty_iff in_set_remove1 list.set(1))

lemma quit_room_inv:
  assumes inv: "lobby_inv w" and r: "w_rooms w room = Some r" and user: "user \<in> set (r_roomUsers r)"
  shows "lobby_inv (quit_room user room r w)"
proof -
  let ?w = "quit_room user room r w"
  have rok: "room_ok w r" using lobby_invD(4) [OF inv r] .
  obtain x where x: "w_users w user = Some x" "u_connection x \<noteq> 0"
    using inv_members [OF inv r user] by blast
  have dist: "distinct (r_roomUsers r)" using rok by (simp add: room_ok_def)
  have users: "w_users ?w = (w_users w)(user \<mapsto> to_lobby x)"
    using x(1) by (simp add: quit_room_def Let_def)
  have rooms: "w_rooms ?w = (w_rooms w)(room := if remove1 user (r_roomUsers r) = [] then None else Some (leave_room user r))"
    by (simp add: quit_room_def Let_def)
  have "user_ok ?w p u" if "w_users ?w p = Some u" for p u
  proof (cases "p = user")
    case True
    then have "u = to_lobby x" using that by (simp add: users)
    then show ?thesis using x by (simp add: user_ok_def to_lobby_def)
  next
    case False
    with that have "user_ok w p u" using lobby_invD(3) [OF inv] by (simp add: users)
    then show ?thesis
    proof (rule user_ok_frame)
      fix q s assume "w_rooms w q = Some s" "p \<in> set (r_roomUsers s)"
      then show "\<exists>s'. w_rooms ?w q = Some s' \<and> r_roomID s' = r_roomID s \<and> p \<in> set (r_roomUsers s')"
        using False r remove1_other [of p "r_roomUsers r" user] by (auto simp: rooms)
    qed
  qed
  moreover have "room_ok ?w s" if s: "w_rooms ?w q = Some s" for q s
  proof (cases "q = room")
    case True
    then have s': "s = leave_room user r" "remove1 user (r_roomUsers r) \<noteq> []"
      using s by (auto simp: rooms split: if_splits)
    then show ?thesis
      using rok leave_room_host [of user r] leave_room_match_ok [of r user] leave_room_match [of user r] dist
      by (auto simp: room_ok_def member_ok_def players_ok_def users)
  next
    case False
    then have q: "w_rooms w q = Some s" using s by (simp add: rooms)
    then have "user \<notin> set (r_roomUsers s)" using inv_one_room [OF inv r user q] False by blast
    then show ?thesis
      by (intro room_ok_frame [OF lobby_invD(4) [OF inv q]]) (auto simp: users)
  qed
  moreover have "lists_ok ?w"
    using lobby_invD(1) [OF inv] r
    by (simp add: quit_room_def Let_def lists_ok_drop_room lists_ok_set_user lists_ok_put_room)
  moreover have "ids_ok ?w"
    using lobby_invD(2) [OF inv] r
    by (auto simp: quit_room_def Let_def intro: ids_ok_drop_room ids_ok_put_room)
  ultimately show ?thesis by (simp add: lobby_inv_def)
qed

section \<open>The other changes\<close>

lemma lobby_invI:
  assumes "lists_ok w" "ids_ok w"
    and "\<And>p u. w_users w p = Some u \<Longrightarrow> user_ok w p u" and "\<And>p r. w_rooms w p = Some r \<Longrightarrow> room_ok w r"
  shows "lobby_inv w"
  using assms by (simp add: lobby_inv_def)

text \<open>A room keeps its id and its users.\<close>

lemma put_room_inv:
  assumes inv: "lobby_inv w" and r: "w_rooms w room = Some r"
    and same: "r_roomID r' = r_roomID r" "r_roomUsers r' = r_roomUsers r"
    and host: "r_roomHostUser r' \<in> set (r_roomUsers r)" and gm: "match_ok r'" "players_ok w r'"
  shows "lobby_inv (put_room room r' w)"
proof (rule lobby_invI)
  show "lists_ok (put_room room r' w)" "ids_ok (put_room room r' w)"
    using lobby_invD(1,2) [OF inv] r same by (simp_all add: lists_ok_put_room ids_ok_put_room)
next
  fix p u assume "w_users (put_room room r' w) p = Some u"
  then have "user_ok w p u" using lobby_invD(3) [OF inv] by simp
  then show "user_ok (put_room room r' w) p u"
    using r same by (elim user_ok_frame) auto
next
  fix q s assume "w_rooms (put_room room r' w) q = Some s"
  then have "room_ok w s"
    using lobby_invD(4) [OF inv] r same host gm by (cases "q = room") (auto simp: room_ok_def member_ok_def)
  then show "room_ok (put_room room r' w) s" by (rule room_ok_frame) simp
qed

text \<open>A user keeps its connection, its room and whether it is in one; a player stays in game.\<close>

lemma set_user_inv:
  assumes inv: "lobby_inv w" and x: "w_users w p = Some x"
    and same: "u_connection (f x) = u_connection x" "u_currentRoomID (f x) = u_currentRoomID x" "in_room (f x) \<longleftrightarrow> in_room x"
    and player: "\<And>room r gm. w_rooms w room = Some r \<Longrightarrow> r_gameMatch r = Some gm \<Longrightarrow>
      p \<in> gmu_user ` set (gm_gameMatchUsers gm) \<Longrightarrow> u_userStatus (f x) = InGame"
  shows "lobby_inv (set_user f p w)"
proof (rule lobby_invI)
  show "lists_ok (set_user f p w)" "ids_ok (set_user f p w)"
    using lobby_invD(1,2) [OF inv] by simp_all
next
  fix q u assume u: "w_users (set_user f p w) q = Some u"
  show "user_ok (set_user f p w) q u"
  proof (cases "q = p")
    case True
    then have "u = f x" using u x by simp
    then show ?thesis using lobby_invD(3) [OF inv x] same True by (auto simp: user_ok_def)
  next
    case False
    then show ?thesis using u lobby_invD(3) [OF inv, of q u] by (auto simp: user_ok_def)
  qed
next
  fix q r assume r: "w_rooms (set_user f p w) q = Some r"
  then have q: "w_rooms w q = Some r" by simp
  have "room_ok w r" using lobby_invD(4) [OF inv q] .
  moreover have "players_ok (set_user f p w) r"
    using calculation player [OF q] x by (fastforce simp: room_ok_def players_ok_def)
  ultimately show "room_ok (set_user f p w) r"
    using x same by (auto simp: room_ok_def member_ok_def)
qed

section \<open>Entering\<close>

definition enter :: "u16 \<Rightarrow> user \<Rightarrow> user" where
  "enter i u = u\<lparr>u_userStatus := InRoom, u_currentRoomID := i\<rparr>"

definition join_room :: "ptr \<Rightarrow> ptr \<Rightarrow> room \<Rightarrow> 'e world \<Rightarrow> 'e world" where
  "join_room user room r w =
     set_user (enter (r_roomID r)) user (put_room room (r\<lparr>r_roomUsers := r_roomUsers r @ [user]\<rparr>) w)"

lemma outside_rooms:
  assumes "lobby_inv w" and "w_users w user = Some x" and "u_currentRoomID x = 0" and "w_rooms w q = Some r"
  shows "user \<notin> set (r_roomUsers r)"
  using inv_members [OF assms(1,4), of user] assms(2,3) by auto

lemma join_room_inv:
  assumes inv: "lobby_inv w" and x: "w_users w user = Some x" and out: "u_currentRoomID x = 0"
    and r: "w_rooms w room = Some r"
  shows "lobby_inv (join_room user room r w)"
proof (rule lobby_invI)
  let ?w = "join_room user room r w"
  let ?r = "r\<lparr>r_roomUsers := r_roomUsers r @ [user]\<rparr>"
  have users: "w_users ?w = (w_users w)(user \<mapsto> enter (r_roomID r) x)"
    and rooms: "w_rooms ?w = (w_rooms w)(room \<mapsto> ?r)"
    using x by (simp_all add: join_room_def)
  have rok: "room_ok w r" using lobby_invD(4) [OF inv r] .
  note new = outside_rooms [OF inv x out]
  show "lists_ok ?w" "ids_ok ?w"
    using lobby_invD(1,2) [OF inv] r by (simp_all add: join_room_def lists_ok_put_room ids_ok_put_room)
  show "user_ok ?w p u" if u: "w_users ?w p = Some u" for p u
  proof (cases "p = user")
    case True
    then have "u = enter (r_roomID r) x" using u by (simp add: users)
    then show ?thesis
      using lobby_invD(3) [OF inv x] rok True by (auto simp: user_ok_def enter_def rooms room_ok_def)
  next
    case False
    then have "user_ok w p u" using u lobby_invD(3) [OF inv] by (simp add: users)
    then show ?thesis using r by (elim user_ok_frame) (auto simp: rooms)
  qed
  show "room_ok ?w s" if s: "w_rooms ?w q = Some s" for q s
  proof (cases "q = room")
    case True
    then have s': "s = ?r" using s by (simp add: rooms)
    have "players_ok ?w ?r"
      using rok new [OF r] by (fastforce simp: players_ok_def users room_ok_def match_ok_def)
    then show ?thesis using rok new [OF r]
      by (auto simp: s' room_ok_def member_ok_def match_ok_def users enter_def split: option.splits)
  next
    case False
    then have q: "w_rooms w q = Some s" using s by (simp add: rooms)
    show ?thesis using new [OF q] by (intro room_ok_frame [OF lobby_invD(4) [OF inv q]]) (auto simp: users)
  qed
qed

section \<open>New rooms, users that come and go\<close>

definition open_room :: "ptr \<Rightarrow> room \<Rightarrow> 'e world \<Rightarrow> 'e world" where
  "open_room user r w = set_user (enter (r_roomID r)) user
     (w\<lparr>w_rooms := (w_rooms w)(w_next w \<mapsto> r), w_roomList := w_roomList w @ [w_next w], w_next := w_next w + 1\<rparr>)"

definition forget_user :: "ptr \<Rightarrow> 'e world \<Rightarrow> 'e world" where
  "forget_user user w = w\<lparr>w_userList := remove1 user (w_userList w), w_users := (w_users w)(user := None)\<rparr>"

lemma inv_next_fresh: "lobby_inv w \<Longrightarrow> w_users w (w_next w) = None \<and> w_rooms w (w_next w) = None"
  by (auto simp: lobby_inv_def lists_ok_def dom_def)

lemma open_room_inv:
  assumes inv: "lobby_inv w" and x: "w_users w user = Some x" and out: "u_currentRoomID x = 0"
    and r: "r_roomUsers r = [user]" "r_roomHostUser r = user" "r_gameMatch r = None" "r_roomID r \<noteq> 0"
    and new: "\<And>q s. w_rooms w q = Some s \<Longrightarrow> r_roomID s \<noteq> r_roomID r"
  shows "lobby_inv (open_room user r w)"
proof (rule lobby_invI)
  let ?w = "open_room user r w"
  have users: "w_users ?w = (w_users w)(user \<mapsto> enter (r_roomID r) x)"
    and rooms: "w_rooms ?w = (w_rooms w)(w_next w \<mapsto> r)"
    using x by (simp_all add: open_room_def)
  note fresh = inv_next_fresh [OF inv]
  have "0 < w_next w" "w_next w \<notin> set (w_roomList w)" "w_next w \<notin> set (w_userList w)"
    using lobby_invD(1) [OF inv] by (auto simp: lists_ok_def)
  then have "lists_ok (w\<lparr>w_rooms := (w_rooms w)(w_next w \<mapsto> r), w_roomList := w_roomList w @ [w_next w], w_next := w_next w + 1\<rparr>)"
    using lobby_invD(1) [OF inv] unfolding lists_ok_def by (auto simp: less_Suc_eq)
  then show "lists_ok ?w" by (simp add: open_room_def)
  show "ids_ok ?w"
    using lobby_invD(2) [OF inv] new unfolding ids_ok_def rooms fun_upd_apply by (metis option.inject)
  show "user_ok ?w p u" if u: "w_users ?w p = Some u" for p u
  proof (cases "p = user")
    case True
    then have "u = enter (r_roomID r) x" using u by (simp add: users)
    then show ?thesis using lobby_invD(3) [OF inv x] r True by (auto simp: user_ok_def enter_def rooms)
  next
    case False
    then have "user_ok w p u" using u lobby_invD(3) [OF inv] by (simp add: users)
    then show ?thesis using fresh by (elim user_ok_frame) (auto simp: rooms)
  qed
  show "room_ok ?w s" if s: "w_rooms ?w q = Some s" for q s
  proof (cases "q = w_next w")
    case True
    then have "s = r" using s by (simp add: rooms)
    then show ?thesis using r by (simp add: room_ok_def member_ok_def match_ok_def players_ok_def users enter_def)
  next
    case False
    then have q: "w_rooms w q = Some s" using s by (simp add: rooms)
    show ?thesis using outside_rooms [OF inv x out q]
      by (intro room_ok_frame [OF lobby_invD(4) [OF inv q]]) (auto simp: users)
  qed
qed

lemma forget_user_inv:
  assumes inv: "lobby_inv w" and x: "w_users w user = Some x" and out: "u_currentRoomID x = 0"
  shows "lobby_inv (forget_user user w)"
proof (rule lobby_invI)
  let ?w = "forget_user user w"
  have users: "w_users ?w = (w_users w)(user := None)" and rooms: "w_rooms ?w = w_rooms w"
    by (simp_all add: forget_user_def)
  have "set (remove1 user (w_userList w)) = set (w_userList w) - {user}"
    using lobby_invD(1) [OF inv] by (simp add: lists_ok_def)
  then show "lists_ok ?w" using lobby_invD(1) [OF inv] unfolding lists_ok_def forget_user_def by auto
  show "ids_ok ?w" using lobby_invD(2) [OF inv] by (simp add: ids_ok_def rooms)
  show "user_ok ?w p u" if "w_users ?w p = Some u" for p u
    using that lobby_invD(3) [OF inv, of p u] by (auto simp: users user_ok_def rooms split: if_splits)
  show "room_ok ?w s" if "w_rooms ?w q = Some s" for q s
  proof -
    have q: "w_rooms w q = Some s" using that by (simp add: rooms)
    show ?thesis using outside_rooms [OF inv x out q]
      by (intro room_ok_frame [OF lobby_invD(4) [OF inv q]]) (auto simp: users)
  qed
qed

text \<open>\<open>new User\<close> and its entry in the list: the user is in no room.\<close>

definition admit_user :: "user \<Rightarrow> 'e world \<Rightarrow> 'e world" where
  "admit_user u w = w\<lparr>w_users := (w_users w)(w_next w \<mapsto> u), w_userList := w_userList w @ [w_next w],
     w_next := w_next w + 1\<rparr>"

lemma admit_user_inv:
  assumes inv: "lobby_inv w" and u: "u_connection u \<noteq> 0" "u_currentRoomID u = 0" "\<not> in_room u"
  shows "lobby_inv (admit_user u w)"
proof (rule lobby_invI)
  let ?w = "admit_user u w"
  have users: "w_users ?w = (w_users w)(w_next w \<mapsto> u)" and rooms: "w_rooms ?w = w_rooms w"
    by (simp_all add: admit_user_def)
  note fresh = inv_next_fresh [OF inv]
  have "0 < w_next w" "w_next w \<notin> set (w_userList w)"
    using lobby_invD(1) [OF inv] by (auto simp: lists_ok_def)
  then show "lists_ok ?w"
    using lobby_invD(1) [OF inv] unfolding lists_ok_def admit_user_def by (auto simp: less_Suc_eq)
  show "ids_ok ?w" using lobby_invD(2) [OF inv] by (simp add: ids_ok_def rooms)
  show "user_ok ?w p v" if "w_users ?w p = Some v" for p v
    using that u lobby_invD(3) [OF inv, of p v] by (auto simp: users user_ok_def rooms split: if_splits)
  show "room_ok ?w s" if "w_rooms ?w q = Some s" for q s
  proof -
    have q: "w_rooms w q = Some s" using that by (simp add: rooms)
    have "w_next w \<notin> set (r_roomUsers s)" using inv_members [OF inv q] fresh by fastforce
    then show ?thesis by (intro room_ok_frame [OF lobby_invD(4) [OF inv q]]) (auto simp: users)
  qed
qed

end
