(* ===== verification/Leaving.thy ===== *)
theory Leaving
  imports Invariant
begin

text \<open>
  How the code leaves a room: \<open>LeaveRoom\<close>, the removal of a user and the disconnection of a
  client are defined under the invariant, do what \<open>quit_room\<close> and \<open>forget_user\<close> say, and keep it.
\<close>

section \<open>Using the invariant\<close>

lemma inv_allocated: "lobby_inv w \<Longrightarrow> allocated w_rooms w_roomList w"
  "lobby_inv w \<Longrightarrow> allocated w_users w_userList w"
  by (auto simp: lobby_inv_def lists_ok_def allocated_def)

lemma inv_null_ptr: "lobby_inv w \<Longrightarrow> w_users w p = Some u \<Longrightarrow> p \<noteq> 0"
  "lobby_inv w \<Longrightarrow> w_rooms w q = Some r \<Longrightarrow> q \<noteq> 0"
  by (metis inv_null(1) option.distinct(1), metis inv_null(2) option.distinct(1))

lemma inv_conn: "lobby_inv w \<Longrightarrow> w_users w p = Some u \<Longrightarrow> u_connection u \<noteq> 0"
  using lobby_invD(3) by (auto simp: user_ok_def)

lemma inv_outside: "lobby_inv w \<Longrightarrow> w_users w p = Some u \<Longrightarrow> \<not> in_room u \<Longrightarrow> u_currentRoomID u = 0"
  using lobby_invD(3) by (auto simp: user_ok_def)

text \<open>\<open>GetRoomByRoomID(user->GetCurrentRoomID())\<close> finds the room of a user in a room.\<close>

lemma inv_own_room:
  assumes inv: "lobby_inv w" and u: "w_users w p = Some u" and i: "in_room u"
  obtains room r where "GetRoomByRoomID (u_currentRoomID u) w = Some room" "room \<noteq> 0"
    "w_rooms w room = Some r" "r_roomID r = u_currentRoomID u" "p \<in> set (r_roomUsers r)"
proof -
  have ok: "user_ok w p u" using lobby_invD(3) [OF inv u] .
  then obtain room r where r: "w_rooms w room = Some r" "r_roomID r = u_currentRoomID u" "p \<in> set (r_roomUsers r)"
    using i by (auto simp: user_ok_def)
  have "GetRoomByRoomID (r_roomID r) w = Some room"
  proof (rule rooms_by_id.lookup_unique [OF inv_allocated(1) [OF inv]])
    show "room \<in> set (w_roomList w)" using inv_room_listed [OF inv r(1)] .
    show "r_roomID r \<noteq> 0" using lobby_invD(4) [OF inv r(1)] by (simp add: room_ok_def)
    show "w_rooms w room = Some r" using r(1) .
    show "q = room" if "w_rooms w q = Some s" "r_roomID s = r_roomID r" for q s
      using that r(1) lobby_invD(2) [OF inv] unfolding ids_ok_def by blast
  qed
  with r inv_null_ptr(2) [OF inv r(1)] that show ?thesis by simp
qed

lemma inv_no_room:
  "lobby_inv w \<Longrightarrow> w_users w p = Some u \<Longrightarrow> \<not> in_room u \<Longrightarrow> GetRoomByRoomID (u_currentRoomID u) w = Some 0"
  by (simp add: inv_outside GetRoomByRoomID_def)

text \<open>What the code sends to a user that is back in the lobby.\<close>

lemma quiet_back_in_lobby:
  fixes w :: "'e world"
  assumes "characters_ok E" and "live w" and "w_users w u \<noteq> None"
  shows "quiet w (do { w \<leftarrow> SendAddUserPacketToAll E u w;
     w \<leftarrow> SendFullUserListPacket E c (SendPacket_Room_LeaveRoomInGame c w);
     SendFullRoomListPacket c w })"
proof (rule quiet_bind [OF quiet_SendAddUserPacketToAll [OF assms]])
  fix w1 :: "'e world" assume 1: "core w1 = core w"
  let ?w = "SendPacket_Room_LeaveRoomInGame c w1"
  have "core ?w = core w" using 1 by simp
  then have "live ?w" using assms(2) core_live [of ?w w] by simp
  then have "quiet ?w (Option.bind (SendFullUserListPacket E c ?w) (SendFullRoomListPacket c))"
  proof (intro quiet_bind [OF quiet_SendFullUserListPacket [OF assms(1)]])
    fix w2 :: "'e world" assume "core w2 = core ?w"
    with \<open>live ?w\<close> show "quiet w2 (SendFullRoomListPacket c w2)"
      using core_live [of w2 ?w] by (intro quiet_SendFullRoomListPacket) simp
  qed
  then show "quiet w1 (Option.bind (SendFullUserListPacket E c ?w) (SendFullRoomListPacket c))"
    by (rule quiet_trans) simp
qed

section \<open>LeaveRoom and removal\<close>

lemma RemoveRoomUser_inv:
  assumes "lobby_inv w" and "w_rooms w room = Some r" and "user \<in> set (r_roomUsers r)"
  shows "wp (RemoveRoomUser E user room w) (\<lambda>w'. core w' = core (quit_room user room r w))"
  using RemoveRoomUser_step [OF inv_live [OF assms(1)] assms(2) inv_room_listed [OF assms(1,2)]
      inv_connected [OF assms(1,2)] inv_match_ok [OF assms(1,2)] assms(3)] .

lemma quit_room_user: "w_users w user = Some x \<Longrightarrow> w_users (quit_room user room r w) user = Some (to_lobby x)"
  by (simp add: quit_room_def Let_def)

lemma LeaveRoom_step:
  fixes w :: "'e world"
  assumes E: "characters_ok E" and inv: "lobby_inv w" and x: "w_users w user = Some x"
  shows "wp (parsePacket_Room_LeaveRoom E user packet w)
    (\<lambda>w'. if in_room x then \<exists>room r. w_rooms w room = Some r \<and> user \<in> set (r_roomUsers r) \<and>
        core w' = core (quit_room user room r w) else core w' = core w)"
proof (cases "in_room x")
  case True
  then obtain room r where room: "GetRoomByRoomID (u_currentRoomID x) w = Some room" "room \<noteq> 0"
    and r: "w_rooms w room = Some r" "user \<in> set (r_roomUsers r)"
    using inv_own_room [OF inv x] by metis
  obtain w1 where w1: "RemoveRoomUser E user room w = Some w1" and c1: "core w1 = core (quit_room user room r w)"
    using RemoveRoomUser_inv [OF inv r] by (auto simp: wp_iff)
  have "lobby_inv w1" using quit_room_inv [OF inv r] core_lobby_inv [OF c1] by simp
  moreover have "w_users w1 user \<noteq> None" using quit_room_user [OF x] by (simp add: core_eqD(1) [OF c1])
  ultimately have "quiet w1 (do { w \<leftarrow> SendAddUserPacketToAll E user w1;
     w \<leftarrow> SendFullUserListPacket E (u_connection x) (SendPacket_Room_LeaveRoomInGame (u_connection x) w);
     SendFullRoomListPacket (u_connection x) w })"
    using inv_live by (intro quiet_back_in_lobby [OF E]) blast+
  then have "wp (parsePacket_Room_LeaveRoom E user packet w) (\<lambda>w'. core w' = core (quit_room user room r w))"
    using True x inv_null_ptr(1) [OF inv x] inv_conn [OF inv x] room w1 c1
    by (simp add: parsePacket_Room_LeaveRoom_def quiet_def Let_def)
  then show ?thesis using True r by (auto elim!: wp_mono)
qed (use x inv_null_ptr(1) [OF inv x] inv_conn [OF inv x] in \<open>simp add: parsePacket_Room_LeaveRoom_def\<close>)

text \<open>
  The channel of this server is in the server list, as the configuration must have it: the
  player count is kept there.
\<close>

definition channel_ok :: "'e world \<Rightarrow> bool" where
  "channel_ok w \<longleftrightarrow> channel_at (w_cfg w) (cfg_serverID (w_cfg w)) (cfg_channelID (w_cfg w)) \<noteq> None"

definition lobby :: "'e world \<Rightarrow> _" where
  "lobby w = (w_users w, w_rooms w, w_userList w, w_roomList w, w_next w)"

lemma core_lobby: "core w' = core w \<Longrightarrow> lobby w' = lobby w"
  by (simp add: core_def lobby_def)

lemma lobby_lobby_inv: "lobby w' = lobby w \<Longrightarrow> lobby_inv w' = lobby_inv w"
  by (simp add: lobby_inv_def lists_ok_def ids_ok_def user_ok_def room_ok_def member_ok_def players_ok_def lobby_def)

lemma core_channel_ok: "core w' = core w \<Longrightarrow> channel_ok w' = channel_ok w"
  by (simp add: core_def channel_ok_def)

text \<open>
  What of the configuration never changes: which channels there are, which one is this one, the
  default menus. \<open>counted\<close>: the player count of this channel is right.
\<close>

definition server_ids :: "ServerConfig \<Rightarrow> (u8 \<times> u8 list) list" where
  "server_ids cfg = map (\<lambda>s. (sv_id s, map ch_id (sv_channels s))) (cfg_serverList cfg)"

definition shape :: "ServerConfig \<Rightarrow> bool \<times> u8 \<times> u8 \<times> (u8 \<times> u8 list) list \<times> BuyMenu list" where
  "shape cfg = (cfg_ssl cfg, cfg_serverID cfg, cfg_channelID cfg, server_ids cfg, cfg_defaultBuyMenus cfg)"

definition counted :: "'e world \<Rightarrow> bool" where
  "counted w \<longleftrightarrow> map_option ch_numPlayers (channel_at (w_cfg w) (cfg_serverID (w_cfg w)) (cfg_channelID (w_cfg w)))
     = Some (of_nat (length (w_userList w)))"

definition recounted :: "'e world \<Rightarrow> 'e world \<Rightarrow> bool" where
  "recounted w w' \<longleftrightarrow> channel_ok w' \<and> shape (w_cfg w') = shape (w_cfg w) \<and> counted w'"

lemma channel_at_iff:
  "(\<exists>ch. channel_at cfg s c = Some ch) \<longleftrightarrow> (let ns = map (\<lambda>s. length (sv_channels s)) (cfg_serverList cfg) in
     unat (s - 1) < length ns \<and> unat (c - 1) < ns ! unat (s - 1))"
  by (auto simp: channel_at_def server_at_def vec_at_def Let_def)

lemma shape_channel_at:
  assumes "shape cfg' = shape cfg"
  shows "(channel_at cfg' s c = None) = (channel_at cfg s c = None)"
proof -
  have "map (\<lambda>s. length (sv_channels s)) (cfg_serverList c) = map (length \<circ> snd) (server_ids c)" for c
    by (simp add: server_ids_def)
  then have "map (\<lambda>s. length (sv_channels s)) (cfg_serverList cfg') = map (\<lambda>s. length (sv_channels s)) (cfg_serverList cfg)"
    using assms by (simp add: shape_def)
  then have "(\<exists>ch. channel_at cfg' s c = Some ch) \<longleftrightarrow> (\<exists>ch. channel_at cfg s c = Some ch)"
    unfolding channel_at_iff by (simp only:)
  then show ?thesis by (cases "channel_at cfg' s c"; cases "channel_at cfg s c") simp_all
qed

lemma core_shape: "core w' = core w \<Longrightarrow> shape (w_cfg w') = shape (w_cfg w)"
  by (simp add: core_def)

lemma core_counted: "core w' = core w \<Longrightarrow> counted w' = counted w"
  by (simp add: core_def counted_def)

text \<open>Overwriting an entry by one with the same key keeps the keys.\<close>

lemma map_update_same: "i < length xs \<Longrightarrow> f y = f (xs ! i) \<Longrightarrow> map f (xs[i := y]) = map f xs"
  by (simp add: map_update) (metis list_update_id map_update)

lemma server_ids_update:
  assumes "channel_at cfg s c = Some ch" and "server_at cfg s = Some sv" and "ch_id ch' = ch_id ch"
  shows "map (\<lambda>s. (sv_id s, map ch_id (sv_channels s)))
    ((cfg_serverList cfg)[unat (s - 1) := sv\<lparr>sv_channels := (sv_channels sv)[unat (c - 1) := ch']\<rparr>])
    = map (\<lambda>s. (sv_id s, map ch_id (sv_channels s))) (cfg_serverList cfg)"
  using assms
  by (intro map_update_same)
     (auto simp: channel_at_def server_at_def vec_at_def bind_eq_Some_conv intro!: map_update_same split: if_splits)

lemma UpdateChannelNumPlayers_step:
  assumes "channel_ok w"
  shows "wp (UpdateChannelNumPlayers w) (\<lambda>w'. lobby w' = lobby w \<and> recounted w w')"
proof -
  obtain ch where ch: "channel_at (w_cfg w) (cfg_serverID (w_cfg w)) (cfg_channelID (w_cfg w)) = Some ch"
    using assms by (auto simp: channel_ok_def)
  then obtain sv where sv: "server_at (w_cfg w) (cfg_serverID (w_cfg w)) = Some sv"
    by (auto simp: channel_at_def bind_eq_Some_conv)
  show ?thesis
    using ch sv server_ids_update [OF ch sv]
    by (auto simp: UpdateChannelNumPlayers_def SendNumPlayersPacketToAll_def lobby_def channel_ok_def Let_def
        channel_at_def server_at_def vec_at_def bind_eq_Some_conv recounted_def counted_def shape_def server_ids_def
        split: if_splits)
qed

lemma lobby_forget: "lobby w' = lobby w \<Longrightarrow> lobby (forget_user u w') = lobby (forget_user u w)"
  by (simp add: lobby_def forget_user_def)

lemma RemoveUser_tail:
  assumes "channel_ok w" and "w_users w user = Some u" and "user \<in> set (w_userList w)"
  shows "wp (do {
      u \<leftarrow> w_users w user;
      let w = w\<lparr>w_ext := RemoveUserSession E (u_userID u) (w_ext w)\<rparr>;
      users \<leftarrow> vec_erase user (w_userList w);
      let w = w\<lparr>w_userList := users, w_users := (w_users w)(user := None)\<rparr>;
      UpdateChannelNumPlayers w }) (\<lambda>w'. lobby w' = lobby (forget_user user w) \<and> recounted w w')"
proof -
  let ?w = "w\<lparr>w_ext := RemoveUserSession E (u_userID u) (w_ext w), w_userList := remove1 user (w_userList w),
    w_users := (w_users w)(user := None)\<rparr>"
  have "channel_ok ?w" using assms(1) by (simp add: channel_ok_def)
  then have "wp (UpdateChannelNumPlayers ?w) (\<lambda>w'. lobby w' = lobby ?w \<and> recounted ?w w')"
    by (rule UpdateChannelNumPlayers_step)
  moreover have "lobby ?w = lobby (forget_user user w)" by (simp add: lobby_def forget_user_def)
  ultimately show ?thesis using assms(2,3) by (simp add: Let_def recounted_def)
qed

theorem RemoveUser_step:
  fixes w :: "'e world"
  assumes inv: "lobby_inv w" and ch: "channel_ok w" and x: "w_users w user = Some x"
  shows "wp (RemoveUser E user w) (\<lambda>w'. recounted w w' \<and>
    (if in_room x then \<exists>room r. w_rooms w room = Some r \<and> user \<in> set (r_roomUsers r) \<and>
        lobby w' = lobby (forget_user user (quit_room user room r w))
     else lobby w' = lobby (forget_user user w)))"
proof -
  note user = inv_null_ptr(1) [OF inv x] and listed = inv_user_listed [OF inv x]
  obtain w1 where w1: "(if u_userStatus x = InLobby then SendRemoveUserPacketToAll user w else Some w) = Some w1"
    and c1: "core w1 = core w"
    using quiet_SendRemoveUserPacketToAll [OF inv_live [OF inv], of user] x
    by (cases "u_userStatus x = InLobby") (auto elim: quietE)
  have inv1: "lobby_inv w1" using inv core_lobby_inv [OF c1] by simp
  have x1: "w_users w1 user = Some x" using x by (simp add: core_eqD(1) [OF c1])
  show ?thesis
  proof (cases "in_room x")
    case True
    obtain room r where room: "GetRoomByRoomID (u_currentRoomID x) w1 = Some room" "room \<noteq> 0"
      and r: "w_rooms w1 room = Some r" "user \<in> set (r_roomUsers r)"
      using inv_own_room [OF inv1 x1 True] by metis
    obtain w2 where w2: "RemoveRoomUser E user room w1 = Some w2" and c2: "core w2 = core (quit_room user room r w1)"
      using RemoveRoomUser_inv [OF inv1 r] by (auto simp: wp_iff)
    have c21: "core w2 = core (quit_room user room r w)"
      using c2 c1 by (simp add: quit_room_def Let_def core_def)
    have ch2: "channel_ok w2"
      using ch c21 by (simp add: channel_ok_def core_def quit_room_def Let_def)
    have u2: "w_users w2 user = Some (to_lobby x)" using quit_room_user [OF x] by (simp add: core_eqD(1) [OF c21])
    have l2: "user \<in> set (w_userList w2)"
      using listed by (simp add: core_eqD(3) [OF c21] quit_room_def Let_def)
    have "wp (RemoveUser E user w) (\<lambda>w'. lobby w' = lobby (forget_user user w2) \<and> recounted w2 w')"
      using RemoveUser_tail [OF ch2 u2 l2] x user w1 x1 room w2 by (simp add: RemoveUser_def)
    moreover have "lobby (forget_user user w2) = lobby (forget_user user (quit_room user room r w))"
      using core_lobby [OF c21] by (rule lobby_forget)
    moreover have "w_rooms w room = Some r" using r(1) by (simp add: core_eqD(2) [OF c1])
    moreover have "shape (w_cfg w2) = shape (w_cfg w)"
      using c21 by (simp add: core_def quit_room_def Let_def)
    ultimately show ?thesis using True r(2) by (auto elim!: wp_mono simp: recounted_def)
  next
    case False
    have ch1: "channel_ok w1" using ch core_channel_ok [OF c1] by simp
    have l1: "user \<in> set (w_userList w1)" using listed by (simp add: core_eqD(3) [OF c1])
    have "wp (RemoveUser E user w) (\<lambda>w'. lobby w' = lobby (forget_user user w1) \<and> recounted w1 w')"
      using RemoveUser_tail [OF ch1 x1 l1] x user w1 x1 inv_no_room [OF inv1 x1 False] by (simp add: RemoveUser_def)
    moreover have "lobby (forget_user user w1) = lobby (forget_user user w)"
      using core_lobby [OF c1] by (rule lobby_forget)
    ultimately show ?thesis using False core_shape [OF c1] by (auto elim!: wp_mono simp: recounted_def)
  qed
qed

lemma RemoveUser_inv:
  assumes "lobby_inv w" and "channel_ok w" and "w_users w user = Some x"
  shows "wp (RemoveUser E user w) (\<lambda>w'. lobby_inv w' \<and> recounted w w' \<and> w_users w' = (w_users w)(user := None) \<and>
    w_userList w' = remove1 user (w_userList w))"
  using RemoveUser_step [OF assms]
proof (rule wp_mono)
  fix w' :: "'a world"
  assume s: "recounted w w' \<and> (if in_room x then \<exists>room r. w_rooms w room = Some r \<and> user \<in> set (r_roomUsers r) \<and>
      lobby w' = lobby (forget_user user (quit_room user room r w)) else lobby w' = lobby (forget_user user w))"
  show "lobby_inv w' \<and> recounted w w' \<and> w_users w' = (w_users w)(user := None) \<and> w_userList w' = remove1 user (w_userList w)"
  proof (cases "in_room x")
    case True
    with s obtain room r where r: "w_rooms w room = Some r" "user \<in> set (r_roomUsers r)"
      and l: "lobby w' = lobby (forget_user user (quit_room user room r w))" by auto
    have "lobby_inv (forget_user user (quit_room user room r w))"
      using quit_room_inv [OF assms(1) r] by (rule forget_user_inv)
        (rule quit_room_user [OF assms(3)], simp add: to_lobby_def)
    then show ?thesis using s lobby_lobby_inv [OF l] l
      by (simp add: lobby_def forget_user_def quit_room_def Let_def)
  next
    case False
    then have "lobby_inv (forget_user user w)"
      using assms inv_outside by (intro forget_user_inv)
    then show ?thesis using s False lobby_lobby_inv [of w' "forget_user user w"]
      by (simp add: lobby_def forget_user_def)
  qed
qed

lemma upd_conn_simps [simp]:
  "lobby (upd_conn c f w) = lobby w" "channel_ok (upd_conn c f w) = channel_ok w"
  "core (upd_conn c f w) = core w" "w_cfg (upd_conn c f w) = w_cfg w" "counted (upd_conn c f w) = counted w"
  by (simp_all add: lobby_def upd_conn_def channel_ok_def core_def counted_def)

lemma lobby_inv_upd_conn [simp]: "lobby_inv (upd_conn c f w) = lobby_inv w"
  by (rule lobby_lobby_inv) simp

lemma DisconnectUserByConnection_inv:
  assumes inv: "lobby_inv w" and ch: "channel_ok w"
  shows "wp (DisconnectUserByConnection E c bad w) (\<lambda>w'. lobby_inv w' \<and>
    shape (w_cfg w') = shape (w_cfg w) \<and> (counted w \<longrightarrow> counted w'))"
proof (rule users_by_connection.lookup_cases [OF inv_allocated(2) [OF inv], of c])
  assume "GetUserByConnection c w = Some 0"
  then show ?thesis using inv by (simp add: DisconnectUserByConnection_def Let_def)
next
  fix p x assume hit: "GetUserByConnection c w = Some p" "p \<in> set (w_userList w)" "w_users w p = Some x"
    "u_connection x = c" "p \<noteq> 0" "c \<noteq> 0"
  have "wp (RemoveUser E p w) (\<lambda>w'. lobby_inv w' \<and> recounted w w')"
    using RemoveUser_inv [OF inv ch hit(3)] by (rule wp_mono) simp
  then show ?thesis using hit
    by (auto simp: DisconnectUserByConnection_def Let_def recounted_def elim!: wp_mono)
qed

end
