(* ===== verification/Entering.thy ===== *)
theory Entering
  imports Leaving
begin

text \<open>
  How the code enters a room: the free room id, \<open>CreateRoom\<close> and \<open>JoinRoom\<close> are defined under
  the invariant for a user that is not in a game, and either leave the lobby as it was or open
  the room, respectively join it, as \<open>open_room\<close> and \<open>join_room\<close> say.
\<close>

section \<open>Free room ids\<close>

definition room_id_used :: "'e world \<Rightarrow> u16 \<Rightarrow> bool" where
  "room_id_used w i \<longleftrightarrow> (\<exists>p \<in> set (w_roomList w). \<exists>r. w_rooms w p = Some r \<and> r_roomID r = i)"

lemma GetRoomByRoomID_used:
  assumes "allocated w_rooms w_roomList w" and "i \<noteq> 0"
  shows "\<exists>p. GetRoomByRoomID i w = Some p \<and> (p \<noteq> 0 \<longleftrightarrow> room_id_used w i)"
proof (rule rooms_by_id.lookup_cases [OF assms(1), of i])
  assume *: "GetRoomByRoomID i w = Some 0"
    and "i = 0 \<or> (\<forall>p \<in> set (w_roomList w). r_roomID (the (w_rooms w p)) \<noteq> i)"
  then have "\<not> room_id_used w i" using assms(2) by (auto simp: room_id_used_def)
  with * show ?thesis by simp
next
  fix p x assume "GetRoomByRoomID i w = Some p" "p \<in> set (w_roomList w)" "w_rooms w p = Some x"
    "r_roomID x = i" "p \<noteq> 0"
  then show ?thesis by (auto simp: room_id_used_def)
qed

lemma free_room_from_step:
  assumes "allocated w_rooms w_roomList w" and "i \<noteq> 0"
  shows "free_room_from (Suc n) i w = (if room_id_used w i then free_room_from n (i + 1) w else Some i)"
  using GetRoomByRoomID_used [OF assms] by auto

lemma unat_plus1: "unat i < 65535 \<Longrightarrow> unat (i + 1 :: u16) = Suc (unat i)"
  by (simp add: unat_plus_if_size word_size)

lemma free_room_from_spec:
  assumes "allocated w_rooms w_roomList w" and "i \<noteq> 0" and "unat i + n \<le> 65535"
  shows "wp (free_room_from n i w) (\<lambda>j.
    (j = 0 \<and> (\<forall>k. unat i \<le> unat k \<and> unat k < unat i + n \<longrightarrow> room_id_used w k)) \<or>
    (unat i \<le> unat j \<and> unat j < unat i + n \<and> \<not> room_id_used w j \<and>
     (\<forall>k. unat i \<le> unat k \<and> unat k < unat j \<longrightarrow> room_id_used w k)))"
  using assms(2,3)
proof (induction n arbitrary: i)
  case (Suc n)
  show ?case
  proof (cases "room_id_used w i")
    case False
    have "\<not> (unat i \<le> m \<and> m < unat i)" for m by simp
    then have "\<forall>k. unat i \<le> unat k \<and> unat k < unat i \<longrightarrow> room_id_used w k" by blast
    with False show ?thesis
      unfolding free_room_from_step [OF assms(1) Suc.prems(1)] by (simp only: if_False wp_Some) auto
  next
    case True
    have i1: "unat (i + 1) = Suc (unat i)" using Suc.prems(2) by (intro unat_plus1) simp
    have step: "k = i \<or> Suc (unat i) \<le> unat k" if "unat i \<le> unat k" for k :: u16
      using that word_unat_eq_iff [of k i] by auto
    have "wp (free_room_from n (i + 1) w) (\<lambda>j.
      (j = 0 \<and> (\<forall>k. unat (i + 1) \<le> unat k \<and> unat k < unat (i + 1) + n \<longrightarrow> room_id_used w k)) \<or>
      (unat (i + 1) \<le> unat j \<and> unat j < unat (i + 1) + n \<and> \<not> room_id_used w j \<and>
       (\<forall>k. unat (i + 1) \<le> unat k \<and> unat k < unat j \<longrightarrow> room_id_used w k)))"
      by (rule Suc.IH) (use Suc.prems(2) i1 in \<open>auto simp: unat_eq_0 [symmetric]\<close>)
    then show ?thesis
      unfolding free_room_from_step [OF assms(1) Suc.prems(1)] i1 using True
      by (auto elim!: wp_mono dest!: step)
  qed
qed (simp, use leD in blast)

lemma GetFreeRoomID_spec:
  assumes "allocated w_rooms w_roomList w"
  shows "wp (GetFreeRoomID w) (\<lambda>j.
    if j = 0 then \<forall>k. k \<noteq> 0 \<and> k \<noteq> 65535 \<longrightarrow> room_id_used w k
    else j \<noteq> 65535 \<and> \<not> room_id_used w j \<and> (\<forall>k. k \<noteq> 0 \<and> k < j \<longrightarrow> room_id_used w k))"
proof -
  have "(1 \<le> unat k) = (k \<noteq> 0)" for k :: u16
    by (metis One_nat_def Suc_leI gr0I not_one_le_zero unat_0 unat_eq_zero)
  moreover have "(unat k < 65535) = (k \<noteq> 65535)" for k :: u16
  proof -
    have "unat k < 2 ^ LENGTH(16)" by (rule unsigned_less)
    then show ?thesis using word_unat_eq_iff [of k 65535] by auto
  qed
  ultimately show ?thesis
    using free_room_from_spec [OF assms, of 1 65534] unfolding GetFreeRoomID_def
    by (auto simp: word_less_nat_alt elim!: wp_mono)
qed

section \<open>CreateRoom\<close>

text \<open>The room a \<open>CreateRoom\<close> packet asks for.\<close>

definition created_room :: "u16 \<Rightarrow> ptr \<Rightarrow> packet \<Rightarrow> room" where
  "created_room i user packet =
     (let r = new_room i user in
      r\<lparr>r_roomSettings := fst (read_create_room (r_roomSettings r) packet), r_roomUsers := [user]\<rparr>)"

lemma created_room_simps [simp]:
  "r_roomID (created_room i user packet) = i"
  "r_roomHostUser (created_room i user packet) = user"
  "r_roomUsers (created_room i user packet) = [user]"
  "r_gameMatch (created_room i user packet) = None"
  by (simp_all add: created_room_def new_room_def Let_def)

text \<open>A failed creation only uses up an address.\<close>

definition skip_address :: "'e world \<Rightarrow> 'e world" where
  "skip_address w = w\<lparr>w_next := w_next w + 1\<rparr>"

lemma skip_address_inv:
  assumes "lobby_inv w" shows "lobby_inv (skip_address w)"
proof -
  have "lists_ok (skip_address w)"
    using lobby_invD(1) [OF assms] by (auto simp: lists_ok_def skip_address_def less_Suc_eq)
  then show ?thesis
    using assms by (simp add: lobby_inv_def ids_ok_def user_ok_def room_ok_def member_ok_def players_ok_def skip_address_def)
qed

lemma quiet_ReplyCreateAndJoin:
  assumes "room_at w room" and "users_at w (map fst gs)"
  shows "quiet w (sendPacket_Room_ReplyCreateAndJoin c room gs w)"
proof -
  have "\<exists>ys. those (map (buildRoomUserInfo w) gs) = Some ys"
  proof (rule those_map_total)
    fix g assume "g \<in> set gs"
    then have "w_users w (fst g) \<noteq> None" using assms(2) by (auto simp: users_at_def)
    then show "buildRoomUserInfo w g \<noteq> None" using buildRoomUserInfo_total [of w "fst g" "snd g"] by simp
  qed
  then show ?thesis
    using assms(1) by (auto simp: sendPacket_Room_ReplyCreateAndJoin_def room_at_def room_live_def)
qed

lemma quiet_HostStart: "w_users w user \<noteq> None \<Longrightarrow> quiet w (SendPacket_Host_HostStart user w)"
  by (auto simp: SendPacket_Host_HostStart_def)

text \<open>The room is made and entered before it is in the list.\<close>

definition make_room :: "ptr \<Rightarrow> room \<Rightarrow> 'e world \<Rightarrow> 'e world" where
  "make_room user r w = set_user (enter (r_roomID r)) user
     (w\<lparr>w_rooms := (w_rooms w)(w_next w \<mapsto> r), w_next := w_next w + 1\<rparr>)"

lemma make_room_live:
  assumes inv: "lobby_inv w" and x: "w_users w user = Some x" and r: "r_roomUsers r = [user]" "r_roomHostUser r = user"
  shows "live (make_room user r w)" "room_at (make_room user r w) (w_next w)"
proof -
  let ?w = "w\<lparr>w_rooms := (w_rooms w)(w_next w \<mapsto> r), w_next := w_next w + 1\<rparr>"
  have "w_next w \<notin> set (w_roomList w)" "w_next w \<noteq> 0"
    using lobby_invD(1) [OF inv] by (auto simp: lists_ok_def)
  then have "live ?w" "room_at ?w (w_next w)"
    using inv_live [OF inv] x r by (auto simp: live_def room_at_def room_live_def)
  then show "live (make_room user r w)" "room_at (make_room user r w) (w_next w)"
    by (simp_all add: make_room_def set_user_live set_user_room_at)
qed

lemma AddRoom_cases:
  assumes "room \<noteq> 0" and "w_rooms w room \<noteq> None"
  obtains result w' where "AddRoom E room w = Some (result, w')"
    "core w' = core (if result > 0 then w\<lparr>w_roomList := w_roomList w @ [room]\<rparr> else w)"
proof -
  obtain r where r: "w_rooms w room = Some r" using assms(2) by auto
  obtain result e where "DB_AddRoom E (w_cfg w) (r_roomID r) False (password (r_roomSettings r) \<noteq> [])
      (levelLimit (r_roomSettings r)) (gameModeID (r_roomSettings r)) (mapID (r_roomSettings r))
      (of_nat (length (r_roomUsers r))) (maxPlayers (r_roomSettings r)) (w_ext w) = (result, e)"
    by (rule prod.exhaust)
  then have "AddRoom E room w = Some (result, (if result > 0
      then w\<lparr>w_ext := e, w_roomList := w_roomList w @ [room]\<rparr> else w\<lparr>w_ext := e\<rparr>))"
    using assms(1) r by (simp add: AddRoom_def)
  then show ?thesis by (rule that) (simp add: core_def)
qed

text \<open>Destroying the room of the only user it has, as the failed creation does.\<close>

lemma delete_room_step:
  fixes w :: "'e world"
  assumes E: "characters_ok E" and w: "live w" and r: "w_rooms w room = Some r" "r_gameMatch r = None" "r_roomUsers r = [user]"
    and x: "w_users w user = Some x" "u_connection x \<noteq> 0"
  shows "wp (delete_room E room w) (\<lambda>w'. core w' = core ((set_user to_lobby user w)\<lparr>w_rooms := (w_rooms w)(room := None)\<rparr>))"
proof -
  let ?w = "set_user (\<lambda>u. u\<lparr>u_currentRoomID := 0\<rparr>) user (set_user (\<lambda>u. u\<lparr>u_userStatus := InLobby\<rparr>) user w)"
  have "live ?w" using w by (simp add: set_user_live)
  moreover have "w_users ?w user \<noteq> None" using x by simp
  ultimately have q: "quiet ?w (do { w \<leftarrow> SendAddUserPacketToAll E user ?w;
     w \<leftarrow> SendFullUserListPacket E (u_connection x) (SendPacket_Room_LeaveRoomInGame (u_connection x) w);
     SendFullRoomListPacket (u_connection x) w })"
    by (rule quiet_back_in_lobby [OF E])
  have "evict_user E user w = do { w \<leftarrow> SendAddUserPacketToAll E user ?w;
     w \<leftarrow> SendFullUserListPacket E (u_connection x) (SendPacket_Room_LeaveRoomInGame (u_connection x) w);
     SendFullRoomListPacket (u_connection x) w }"
    using x by (simp add: evict_user_def conn_of_def SetUserStatus_eq SetCurrentRoomID_eq Let_def)
  then have "wp (evict_user E user w) (\<lambda>w'. core w' = core ?w)" using q by (simp add: quiet_def)
  moreover have "core ?w = core (set_user to_lobby user w)" using x by (simp add: core_def to_lobby_def)
  ultimately show ?thesis using r by (auto simp: delete_room_def core_def elim!: wp_mono)
qed

lemma GetFreeRoomID_cases:
  assumes "lobby_inv w"
  obtains (full) "GetFreeRoomID w = Some 0"
  | (free) i where "GetFreeRoomID w = Some i" "i \<noteq> 0" "\<And>q s. w_rooms w q = Some s \<Longrightarrow> r_roomID s \<noteq> i"
proof -
  obtain i where i: "GetFreeRoomID w = Some i" "i \<noteq> 0 \<Longrightarrow> \<not> room_id_used w i"
    using GetFreeRoomID_spec [OF inv_allocated(1) [OF assms]] by (auto simp: wp_iff split: if_splits)
  moreover have "r_roomID s \<noteq> i" if "w_rooms w q = Some s" "\<not> room_id_used w i" for q s
    using that inv_room_listed [OF assms] by (auto simp: room_id_used_def)
  ultimately show ?thesis using full free by blast
qed

text \<open>The steps after the character of the user has been read.\<close>

lemma create_entered:
  assumes "w_users w user = Some x" and "user \<noteq> 0" and "w_rooms w room = Some (new_room i user)"
  shows "AddRoomUser user room (put_room room ((new_room i user)\<lparr>r_roomSettings := rs\<rparr>) w) =
    Some (1, set_user (enter i) user (put_room room ((new_room i user)\<lparr>r_roomSettings := rs, r_roomUsers := [user]\<rparr>) w))"
  using assms
  by (simp add: AddRoomUser_def new_room_def upd_room_eq SetUserStatus_eq SetCurrentRoomID_eq)
    (simp add: put_room_def set_user_def enter_def)


lemma create_refused:
  fixes w :: "'e world"
  assumes E: "characters_ok E" and inv: "lobby_inv w" and x: "w_users w user = Some x"
    and r: "r_roomUsers r = [user]" "r_roomHostUser r = user" "r_gameMatch r = None"
    and c: "core w1 = core (make_room user r w)" and p: "p = w_next w"
  shows "wp (do {
      w \<leftarrow> SetUserStatus InLobby user w1;
      w \<leftarrow> SetCurrentRoomID 0 user w;
      w \<leftarrow> SendAddUserPacketToAll E user w;
      delete_room E p (SendPacket_Reply cn SysError [] w) })
    (\<lambda>w'. core w' = core (set_user to_lobby user (skip_address w)))"
proof -
  note fresh = inv_next_fresh [OF inv]
  have x1: "w_users w1 user = Some (enter (r_roomID r) x)" using c x by (simp add: core_def make_room_def)
  let ?w2 = "set_user (\<lambda>u. u\<lparr>u_currentRoomID := 0\<rparr>) user (set_user (\<lambda>u. u\<lparr>u_userStatus := InLobby\<rparr>) user w1)"
  have x2: "w_users ?w2 user = Some (to_lobby x)" using x1 by (simp add: enter_def to_lobby_def)
  have live2: "live ?w2"
    using make_room_live(1) [OF inv x r(1,2)] by (simp add: set_user_live core_live [OF c])
  obtain w3 where w3: "SendAddUserPacketToAll E user ?w2 = Some w3" and c3: "core w3 = core ?w2"
    using quiet_SendAddUserPacketToAll [OF E live2, of user] x2 by (auto elim: quietE)
  let ?w4 = "SendPacket_Reply cn SysError [] w3"
  have c4: "core ?w4 = core ?w2" using c3 by simp
  have rooms2: "w_rooms ?w2 = (w_rooms w)(p \<mapsto> r)" using c p by (simp add: core_def make_room_def)
  have "wp (delete_room E p ?w4) (\<lambda>w'. core w' = core ((set_user to_lobby user ?w4)\<lparr>w_rooms := (w_rooms ?w4)(p := None)\<rparr>))"
    using live2 r x2 inv_conn [OF inv x] core_live [OF c4] rooms2
    by (intro delete_room_step [OF E, where r = r and x = "to_lobby x"])
      (simp_all add: core_eqD(1,2) [OF c4] to_lobby_def del: set_user_simps)
  moreover have "core ((set_user to_lobby user ?w4)\<lparr>w_rooms := (w_rooms ?w4)(p := None)\<rparr>) =
      core (set_user to_lobby user (skip_address w))"
    using c4 c x p fresh by (simp add: core_def make_room_def skip_address_def enter_def to_lobby_def fun_upd_idem)
  ultimately show ?thesis using x1 w3 by (simp add: SetUserStatus_eq SetCurrentRoomID_eq)
qed

lemma create_admitted:
  fixes w :: "'e world"
  assumes w: "live w" "room_at w p" and user: "w_users w user \<noteq> None"
  shows "quiet w (do {
      w \<leftarrow> SendAddRoomPacketToAll p ROOMLIST_FLAG_ALL w;
      w \<leftarrow> sendPacket_Room_ReplyCreateAndJoin cn p [(user, uc)] w;
      (if fastStart then SendPacket_Host_HostStart user w else Some w) })"
proof (rule quiet_bind [OF quiet_SendAddRoomPacketToAll [OF w]], rule quiet_bind [OF quiet_ReplyCreateAndJoin])
  fix w1 :: "'e world" assume c1: "core w1 = core w"
  show "room_at w1 p" "users_at w1 (map fst [(user, uc)])"
    using w(2) user c1 by (simp_all add: core_room_at [OF c1] core_eqD(1) [OF c1] users_at_def)
  fix w2 :: "'e world" assume "core w2 = core w1"
  then show "quiet w2 (if fastStart then SendPacket_Host_HostStart user w2 else Some w2)"
    using user c1 quiet_HostStart [of w2 user] by (simp add: core_def)
qed

text \<open>
  What \<open>CreateRoom\<close> does once it has an id and has allocated the room: without the character of its user
  it gives up, otherwise the room is opened or, when the manager refuses it, given up again.
\<close>

lemma CreateRoom_gives_up:
  fixes w :: "'e world"
  assumes E: "characters_ok E" and inv: "lobby_inv w" and x: "w_users w user = Some x"
    and status: "u_userStatus x \<notin> {InRoom, InGame}"
    and free: "GetFreeRoomID w = Some i" "i \<noteq> 0" "\<And>q s. w_rooms w q = Some s \<Longrightarrow> r_roomID s \<noteq> i"
    and w2: "user_character E user USERCHARACTER_FLAG_ALL (w\<lparr>w_rooms := (w_rooms w)(w_next w \<mapsto> new_room i user),
      w_next := w_next w + 1\<rparr>) = Some ((uc, result), w2)"
    and c2: "core w2 = core (w\<lparr>w_rooms := (w_rooms w)(w_next w \<mapsto> new_room i user), w_next := w_next w + 1\<rparr>)"
    and result: "result \<le> 0"
  shows "wp (parsePacket_Room_CreateRoom E user packet w) (\<lambda>w'. core w' = core (skip_address w))"
proof -
  let ?p = "w_next w"
  note user = inv_null_ptr(1) [OF inv x] and cn = inv_conn [OF inv x] and fresh = inv_next_fresh [OF inv]
  have "wp (delete_room E ?p (SendPacket_Reply (u_connection x) SysError [] w2)) (\<lambda>w'. core w' = core (skip_address w))"
    using c2 fresh core_plain_sends(1) [of "u_connection x" SysError "[]" w2]
    by (intro delete_empty_room [THEN wp_mono, of _ _ "new_room i user"])
      (auto simp: core_def new_room_def skip_address_def fun_upd_idem)
  then show ?thesis
    using result x user cn status free(1,2) w2
    by (simp add: parsePacket_Room_CreateRoom_def alloc_room_def Let_def)
qed

lemma CreateRoom_opens:
  fixes w :: "'e world"
  assumes E: "characters_ok E" and inv: "lobby_inv w" and x: "w_users w user = Some x"
    and status: "u_userStatus x \<notin> {InRoom, InGame}"
    and free: "GetFreeRoomID w = Some i" "i \<noteq> 0" "\<And>q s. w_rooms w q = Some s \<Longrightarrow> r_roomID s \<noteq> i"
    and w2: "user_character E user USERCHARACTER_FLAG_ALL (w\<lparr>w_rooms := (w_rooms w)(w_next w \<mapsto> new_room i user),
      w_next := w_next w + 1\<rparr>) = Some ((uc, result), w2)"
    and c2: "core w2 = core (w\<lparr>w_rooms := (w_rooms w)(w_next w \<mapsto> new_room i user), w_next := w_next w + 1\<rparr>)"
    and result: "\<not> result \<le> 0"
  shows "wp (parsePacket_Room_CreateRoom E user packet w) (\<lambda>w'.
      core w' = core (set_user to_lobby user (skip_address w)) \<or>
      core w' = core (open_room user (created_room i user packet) w))"
proof -
  let ?p = "w_next w" and ?r = "created_room i user packet"
  note user = inv_null_ptr(1) [OF inv x] and cn = inv_conn [OF inv x]
  have out: "u_currentRoomID x = 0" using inv_outside [OF inv x] status by simp
  have p: "?p \<noteq> 0" using lobby_invD(1) [OF inv] by (simp add: lists_ok_def)
  have r2: "w_rooms w2 ?p = Some (new_room i user)" and x2: "w_users w2 user = Some x"
    using c2 x by (simp_all add: core_def)
  obtain fastStart where rs: "read_create_room (r_roomSettings (new_room i user)) packet = (r_roomSettings ?r, fastStart)"
    by (cases "read_create_room (r_roomSettings (new_room i user)) packet") (simp add: created_room_def Let_def)
  let ?w3 = "set_user (enter i) user (put_room ?p ?r w2)"
  have w3: "AddRoomUser user ?p (put_room ?p ((new_room i user)\<lparr>r_roomSettings := r_roomSettings ?r\<rparr>) w2) = Some (1, ?w3)"
    using create_entered [OF x2 user r2] by (simp add: created_room_def Let_def)
  have c3: "core ?w3 = core (make_room user ?r w)" using c2 by (simp add: core_def make_room_def)
  note live3 = make_room_live [OF inv x created_room_simps(3,2)]
  have "live ?w3" "w_users ?w3 user \<noteq> None" using live3(1) core_live [OF c3] x2 by simp_all
  then obtain w4 where w4: "SendRemoveUserPacketToAll user ?w3 = Some w4" and c4: "core w4 = core ?w3"
    using quiet_SendRemoveUserPacketToAll by (blast elim: quietE)
  have c43: "core w4 = core (make_room user ?r w)" using c3 c4 by simp
  have r4: "w_rooms w4 ?p = Some ?r" using c43 by (simp add: core_def make_room_def)
  obtain added w5 where w5: "AddRoom E ?p w4 = Some (added, w5)"
    and c5: "core w5 = core (if added > 0 then w4\<lparr>w_roomList := w_roomList w4 @ [?p]\<rparr> else w4)"
    using AddRoom_cases [OF p, of w4 E] r4 by auto
  have steps: "parsePacket_Room_CreateRoom E user packet w = (if added \<le> 0 then do {
                w \<leftarrow> SetUserStatus InLobby user w5;
                w \<leftarrow> SetCurrentRoomID 0 user w;
                w \<leftarrow> SendAddUserPacketToAll E user w;
                delete_room E ?p (SendPacket_Reply (u_connection x) SysError [] w)
              }
              else do {
                w \<leftarrow> SendAddRoomPacketToAll ?p ROOMLIST_FLAG_ALL w5;
                w \<leftarrow> sendPacket_Room_ReplyCreateAndJoin (u_connection x) ?p [(user, uc)] w;
                (if fastStart then SendPacket_Host_HostStart user w else Some w)
              })"
    using x user cn status free(1,2) w2 result r2 rs w3 w4 w5
    by (simp add: parsePacket_Room_CreateRoom_def alloc_room_def Let_def upd_room_eq)
  show ?thesis
  proof (cases "added \<le> 0")
    case True
    then have "core w5 = core (make_room user ?r w)" using c5 c43 by simp
    then show ?thesis using create_refused [OF E inv x, of ?r w5 ?p "u_connection x"] True
      unfolding steps by (auto elim!: wp_mono)
  next
    case False
    have c50: "core w5 = core (open_room user ?r w)" using False c5 c43 by (simp add: core_def make_room_def open_room_def)
    then have inv5: "lobby_inv w5"
      using open_room_inv [OF inv x out, of ?r] free(2,3) core_lobby_inv [OF c50] by simp
    have "room_at w5 ?p" using inv_room_live [OF inv5, of ?p ?r] c50 by (auto simp: room_at_def core_def open_room_def)
    moreover have "w_users w5 user \<noteq> None" using c50 x by (simp add: core_def open_room_def)
    ultimately have "wp (parsePacket_Room_CreateRoom E user packet w) (\<lambda>w'. core w' = core w5)"
      using create_admitted [OF inv_live [OF inv5], of ?p user "u_connection x" uc fastStart] False
      by (simp only: steps quiet_def if_False simp_thms)
    then show ?thesis by (rule wp_mono) (use c50 in simp)
  qed
qed

lemma CreateRoom_step:
  fixes w :: "'e world"
  assumes E: "characters_ok E" and inv: "lobby_inv w" and x: "w_users w user = Some x"
    and status: "u_userStatus x \<noteq> InGame"
  shows "wp (parsePacket_Room_CreateRoom E user packet w) (\<lambda>w'.
      core w' = core w \<or> core w' = core (skip_address w) \<or> core w' = core (set_user to_lobby user (skip_address w)) \<or>
      (\<exists>i. GetFreeRoomID w = Some i \<and> i \<noteq> 0 \<and> core w' = core (open_room user (created_room i user packet) w)))"
    (is "wp _ ?Q")
proof -
  note user = inv_null_ptr(1) [OF inv x] and cn = inv_conn [OF inv x]
  show ?thesis
  proof (cases "u_userStatus x = InRoom")
    case True
    then have "parsePacket_Room_CreateRoom E user packet w = Some w"
      using x by (simp add: parsePacket_Room_CreateRoom_def Let_def)
    then show ?thesis by simp
  next
    case False
    then have out: "u_userStatus x \<notin> {InRoom, InGame}" using status by simp
    show ?thesis
    proof (cases rule: GetFreeRoomID_cases [OF inv, case_names full free])
      case full
      then have "parsePacket_Room_CreateRoom E user packet w = Some w"
        using x user cn False by (simp add: parsePacket_Room_CreateRoom_def Let_def)
      then show ?thesis by simp
    next
      case (free i)
      let ?w1 = "w\<lparr>w_rooms := (w_rooms w)(w_next w \<mapsto> new_room i user), w_next := w_next w + 1\<rparr>"
      obtain uc result w2 where w2: "user_character E user USERCHARACTER_FLAG_ALL ?w1 = Some ((uc, result), w2)"
        and c2: "core w2 = core ?w1"
        using user_character_total [OF E, of ?w1 user] x by auto
      show ?thesis
        using CreateRoom_gives_up [OF E inv x out free w2 c2, where packet = packet] CreateRoom_opens [OF E inv x out free w2 c2, where packet = packet]
          free(1,2) by (cases "result \<le> 0") (fastforce elim!: wp_mono)+
    qed
  qed
qed

section \<open>JoinRoom\<close>

text \<open>What a client must present to be let into a room.\<close>

definition may_join :: "packet \<Rightarrow> room \<Rightarrow> bool" where
  "may_join packet r \<longleftrightarrow>
     (let (i, packet) = ReadUInt16_LE packet; (pw, packet) = ReadString packet; rs = r_roomSettings r
      in r_roomID r = i \<and> (password rs = [] \<or> pw = password rs) \<and> length (r_roomUsers r) < unat (maxPlayers rs))"

lemma greet_room_user_inv:
  fixes w w0 :: "'e world"
  assumes E: "characters_ok E" and c: "core w = core w0" and gs: "users_at w0 (map fst gs)"
    and u: "w_users w0 u \<noteq> None" and user: "w_users w0 user \<noteq> None"
  shows "wp (greet_room_user E user uc i u (gs, w)) (\<lambda>(gs', w'). core w' = core w0 \<and> users_at w0 (map fst gs'))"
proof -
  have "w_users w u \<noteq> None" using u by (simp add: core_eqD(1) [OF c])
  then obtain uc' result w1 where w1: "user_character E u USERCHARACTER_FLAG_ALL w = Some ((uc', result), w1)"
    and c1: "core w1 = core w"
    using user_character_total [OF E] by blast
  obtain y where y: "w_users w1 u = Some y" using u c c1 by (auto simp: core_def)
  have "w_users w1 user \<noteq> None" using user c c1 by (simp add: core_def)
  then obtain w2 where "sendPacket_Room_UserJoin (u_connection y) (user, uc) w1 = Some w2" "core w2 = core w1"
    using quiet_UserJoin by (blast elim: quietE)
  then show ?thesis
    using w1 y c c1 gs u by (simp add: greet_room_user_def conn_of_def Let_def users_at_def)
qed

lemma join_entered:
  assumes "w_users w user \<noteq> None" and "user \<noteq> 0" and "w_rooms w room = Some r" and "user \<notin> set (r_roomUsers r)"
  shows "AddRoomUser user room w = Some (1, join_room user room r w)"
  using assms
  by (simp add: AddRoomUser_def upd_room_eq SetUserStatus_eq SetCurrentRoomID_eq)
    (auto simp: join_room_def put_room_def set_user_def enter_def)

text \<open>The messages to the room and to the user who enters it.\<close>

lemma join_announced:
  fixes w :: "'e world"
  assumes E: "characters_ok E" and inv: "lobby_inv w" and r: "w_rooms w room = Some r" and user: "w_users w user \<noteq> None"
  shows "quiet w (do {
      w \<leftarrow> UpdateRoom E room w;
      w \<leftarrow> SendRemoveUserPacketToAll user w;
      w \<leftarrow> SendUpdateRoomPacketToAll room ROOMLIST_FLAG_CURRENTPLAYERS w;
      r \<leftarrow> w_rooms w room;
      roomUsers \<leftarrow> filterM (keep_user (\<lambda>u x. u \<noteq> user \<and> u_connection x \<noteq> 0) w) (r_roomUsers r);
      (gameUsers, w) \<leftarrow> foldM (greet_room_user E user uc i) roomUsers ([], w);
      w \<leftarrow> sendPacket_Room_ReplyCreateAndJoin cn room (gameUsers @ [(user, uc)]) w;
      Some (sendPacket_Room_UserReady cn i 0 w) })"
proof -
  note live = inv_live [OF inv] and at = room_at_roomList [OF inv_live [OF inv] inv_room_listed [OF inv r]]
  obtain w1 where w1: "UpdateRoom E room w = Some w1" and c1: "core w1 = core w"
    using quiet_UpdateRoom [OF at] by (rule quietE)
  obtain w2 where w2: "SendRemoveUserPacketToAll user w1 = Some w2" and c2: "core w2 = core w"
    using quiet_SendRemoveUserPacketToAll [of w1 user] live user c1
    by (auto simp: core_live [OF c1] core_eqD(1) [OF c1] elim: quietE)
  obtain w3 where w3: "SendUpdateRoomPacketToAll room ROOMLIST_FLAG_CURRENTPLAYERS w2 = Some w3" and c3: "core w3 = core w"
    using quiet_SendUpdateRoomPacketToAll [of w2 room ROOMLIST_FLAG_CURRENTPLAYERS] live at c2
    by (auto simp: core_live [OF c2] core_room_at [OF c2] elim: quietE)
  let ?us = "filter (\<lambda>u. u \<noteq> user \<and> u_connection (the (w_users w3 u)) \<noteq> 0) (r_roomUsers r)"
  have us: "users_at w (r_roomUsers r)" using connected_users_at [OF inv_connected [OF inv r]] .
  have f: "filterM (keep_user (\<lambda>u x. u \<noteq> user \<and> u_connection x \<noteq> 0) w3) (r_roomUsers r) = Some ?us"
    using live_null(1) [OF live] us
    by (intro filterM_keep_user) (simp_all add: core_eqD(1) [OF c3] core_users_at [OF c3])
  have "wp (foldM (greet_room_user E user uc i) ?us ([], w3)) (\<lambda>(gs, w'). core w' = core w \<and> users_at w (map fst gs))"
    by (rule foldM_inv) (use c3 us user greet_room_user_inv [OF E] in \<open>auto simp: users_at_def\<close>)
  then obtain gs w4 where w4: "foldM (greet_room_user E user uc i) ?us ([], w3) = Some (gs, w4)"
    and c4: "core w4 = core w" and gs: "users_at w (map fst gs)"
    by (auto simp: wp_iff)
  have "quiet w4 (sendPacket_Room_ReplyCreateAndJoin cn room (gs @ [(user, uc)]) w4)"
    using at gs user by (intro quiet_ReplyCreateAndJoin)
      (auto simp: core_room_at [OF c4] core_eqD(1) [OF c4] users_at_def)
  then show ?thesis
    using w1 w2 w3 f w4 r c4 by (auto simp: core_eqD(2) [OF c3] quiet_def elim!: wp_mono)
qed

lemma JoinRoom_admitted:
  fixes w :: "'e world"
  assumes E: "characters_ok E" and inv: "lobby_inv w" and x: "w_users w user = Some x"
    and status: "u_userStatus x \<notin> {InRoom, InGame}"
    and i: "ReadUInt16_LE packet = (i, p1)" and pw: "ReadString p1 = (pw, p2)"
    and room: "GetRoomByRoomID i w = Some room" "w_rooms w room = Some r" "r_roomID r = i" "room \<noteq> 0"
    and may: "may_join packet r"
  shows "wp (parsePacket_Room_JoinRoom E user packet w) (\<lambda>w'. core w' = core w \<or>
    core w' = core (join_room user room r w))"
proof -
  note user = inv_null_ptr(1) [OF inv x] and cn = inv_conn [OF inv x]
  have out: "u_currentRoomID x = 0" using inv_outside [OF inv x] status by simp
  obtain uc result w1 where w1: "user_character E user USERCHARACTER_FLAG_ALL w = Some ((uc, result), w1)"
    and c1: "core w1 = core w"
    using user_character_total [OF E, of w user] x by auto
  have go: "parsePacket_Room_JoinRoom E user packet w =
      (if result \<le> 0 then Some (SendPacket_Reply (u_connection x) SysError [] w1)
       else do { (added, w) \<leftarrow> AddRoomUser user room w1;
                (if added = 0 then Some w
                 else do {
                   w \<leftarrow> UpdateRoom E room w;
                   w \<leftarrow> SendRemoveUserPacketToAll user w;
                   w \<leftarrow> SendUpdateRoomPacketToAll room ROOMLIST_FLAG_CURRENTPLAYERS w;
                   r \<leftarrow> w_rooms w room;
                   roomUsers \<leftarrow> filterM (keep_user (\<lambda>u x. u \<noteq> user \<and> u_connection x \<noteq> 0) w) (r_roomUsers r);
                   (gameUsers, w) \<leftarrow> foldM (greet_room_user E user uc (u_userID x)) roomUsers ([], w);
                   w \<leftarrow> sendPacket_Room_ReplyCreateAndJoin (u_connection x) room (gameUsers @ [(user, uc)]) w;
                   Some (sendPacket_Room_UserReady (u_connection x) (u_userID x) 0 w) }) })"
    using x user cn status i pw room may w1
    by (auto simp: parsePacket_Room_JoinRoom_def Let_def may_join_def)
  show ?thesis
  proof (cases "result \<le> 0")
    case True
    then show ?thesis using c1 unfolding go by simp
  next
    case res: False
    have "AddRoomUser user room w1 = Some (1, join_room user room r w1)"
      using x user room outside_rooms [OF inv x out room(2)]
      by (intro join_entered) (simp_all add: core_eqD(1,2) [OF c1])
    moreover have inv1: "lobby_inv (join_room user room r w1)"
      using join_room_inv [of w1 user x room r] inv out x room(2)
      by (simp add: core_lobby_inv [OF c1] core_eqD(1,2) [OF c1])
    moreover have r1: "w_rooms (join_room user room r w1) room = Some (r\<lparr>r_roomUsers := r_roomUsers r @ [user]\<rparr>)"
      "w_users (join_room user room r w1) user \<noteq> None"
      using x by (simp_all add: join_room_def core_eqD(1) [OF c1])
    ultimately have "wp (parsePacket_Room_JoinRoom E user packet w) (\<lambda>w'. core w' = core (join_room user room r w1))"
      using join_announced [OF E inv1 r1, of uc "u_userID x" "u_connection x"] res
      unfolding go quiet_def by simp
    moreover have "core (join_room user room r w1) = core (join_room user room r w)"
      using c1 by (simp add: core_def join_room_def)
    ultimately show ?thesis
      using status by (auto elim!: wp_mono)
  qed
qed

lemma JoinRoom_step:
  fixes w :: "'e world"
  assumes E: "characters_ok E" and inv: "lobby_inv w" and x: "w_users w user = Some x"
    and status: "u_userStatus x \<noteq> InGame"
  shows "wp (parsePacket_Room_JoinRoom E user packet w) (\<lambda>w'. core w' = core w \<or>
      (\<exists>room r. w_rooms w room = Some r \<and> may_join packet r \<and> \<not> in_room x \<and>
        core w' = core (join_room user room r w)))" (is "wp _ ?Q")
proof (cases "u_userStatus x = InRoom")
  case True
  then have "parsePacket_Room_JoinRoom E user packet w = Some w"
    using x by (simp add: parsePacket_Room_JoinRoom_def Let_def)
  then show ?thesis by simp
next
  case False
  note user = inv_null_ptr(1) [OF inv x] and cn = inv_conn [OF inv x]
  obtain i p1 where i: "ReadUInt16_LE packet = (i, p1)" by (rule prod.exhaust)
  obtain pw p2 where pw: "ReadString p1 = (pw, p2)" by (rule prod.exhaust)
  show ?thesis
  proof (rule rooms_by_id.lookup_cases [OF inv_allocated(1) [OF inv], of i])
    assume "GetRoomByRoomID i w = Some 0"
    then show ?thesis using x user cn False i pw by (simp add: parsePacket_Room_JoinRoom_def Let_def)
  next
    fix room r assume room: "GetRoomByRoomID i w = Some room" "w_rooms w room = Some r" "r_roomID r = i" "room \<noteq> 0"
    show ?thesis
    proof (cases "may_join packet r")
      case False
      then show ?thesis using x user cn \<open>u_userStatus x \<noteq> InRoom\<close> i pw room
        by (auto simp: parsePacket_Room_JoinRoom_def Let_def may_join_def)
    next
      case True
      then show ?thesis
        using JoinRoom_admitted [OF E inv x _ i pw room True] room(2) \<open>u_userStatus x \<noteq> InRoom\<close> status
        by (auto elim!: wp_mono)
    qed
  qed
qed

end
