(* ===== verification/RoomSafety.thy ===== *)
theory RoomSafety
  imports Entering
begin

text \<open>
  The handlers of the room packets that neither enter nor leave a room, and all of
  \<open>ParsePacket_Room\<close>: defined under the invariant, and keeping it.
\<close>

section \<open>StartGame, settings and the end of a match\<close>

lemma StartGame_step:
  assumes inv: "lobby_inv w" and x: "w_users w user = Some x"
  shows "wp (parsePacket_Room_StartGame user w) (\<lambda>w'. core w' = core w)"
proof (cases "u_userStatus x = InRoom")
  case True
  then obtain room r where room: "GetRoomByRoomID (u_currentRoomID x) w = Some room" "room \<noteq> 0" "w_rooms w room = Some r"
    using inv_own_room [OF inv x] by metis
  have "w_users w (r_roomHostUser r) \<noteq> None" using inv_room_live [OF inv room(3)] by (simp add: room_live_def)
  then show ?thesis
    using True x inv_null_ptr(1) [OF inv x] inv_conn [OF inv x] room
    by (auto simp: parsePacket_Room_StartGame_def Let_def SendPacket_Host_HostStart_def)
qed (use x inv_null_ptr(1) [OF inv x] inv_conn [OF inv x] in \<open>simp add: parsePacket_Room_StartGame_def Let_def\<close>)

lemma ResultConfirm_step:
  assumes inv: "lobby_inv w" and x: "w_users w user = Some x"
  shows "wp (parsePacket_Room_ResultConfirm user packet w) (\<lambda>w'. core w' = core w)"
proof (cases "u_userStatus x = InRoom")
  case True
  then obtain room r where room: "GetRoomByRoomID (u_currentRoomID x) w = Some room" "room \<noteq> 0" "w_rooms w room = Some r"
    using inv_own_room [OF inv x] by metis
  then show ?thesis
    using True x inv_null_ptr(1) [OF inv x] inv_conn [OF inv x]
    by (simp add: parsePacket_Room_ResultConfirm_def Let_def)
qed (use x inv_null_ptr(1) [OF inv x] inv_conn [OF inv x] in \<open>simp add: parsePacket_Room_ResultConfirm_def Let_def\<close>)

lemma match_ok_settings [simp]: "match_ok (r\<lparr>r_roomSettings := rs\<rparr>) = match_ok r"
  by (cases "r_gameMatch r") (simp_all add: match_ok_def)

lemma players_ok_settings [simp]: "players_ok w (r\<lparr>r_roomSettings := rs\<rparr>) = players_ok w r"
  by (simp add: players_ok_def)

lemma settings_inv:
  assumes "lobby_inv w" and "w_rooms w room = Some r"
  shows "lobby_inv (put_room room (r\<lparr>r_roomSettings := rs\<rparr>) w)"
  using lobby_invD(4) [OF assms] by (intro put_room_inv [OF assms]) (simp_all add: room_ok_def)

text \<open>Only the host changes the settings of a room.\<close>

lemma UpdateRoomSettings_step:
  fixes w :: "'e world"
  assumes inv: "lobby_inv w" and x: "w_users w user = Some x"
  shows "wp (parsePacket_Room_UpdateRoomSettings E user packet w) (\<lambda>w'. core w' = core w \<or>
    (\<exists>room r. w_rooms w room = Some r \<and> r_roomHostUser r = user \<and> u_userStatus x = InRoom \<and>
      core w' = core (put_room room (r\<lparr>r_roomSettings :=
        UpdateRoomSettings (fst (fst (readRoomSettings packet))) (r_roomSettings r)\<rparr>) w)))"
proof (cases "u_userStatus x = InRoom")
  case False
  then have "parsePacket_Room_UpdateRoomSettings E user packet w = Some w"
    using x inv_null_ptr(1) [OF inv x] by (simp add: parsePacket_Room_UpdateRoomSettings_def)
  then show ?thesis by simp
next
  case True
  then obtain room r where room: "GetRoomByRoomID (u_currentRoomID x) w = Some room" "room \<noteq> 0" "w_rooms w room = Some r"
    using inv_own_room [OF inv x] by metis
  show ?thesis
  proof (cases "r_roomHostUser r = user")
    case False
    then have "parsePacket_Room_UpdateRoomSettings E user packet w = Some w"
      using x True inv_null_ptr(1) [OF inv x] room by (simp add: parsePacket_Room_UpdateRoomSettings_def)
    then show ?thesis by simp
  next
    case host: True
    obtain rs flag p where rs: "readRoomSettings packet = ((rs, flag), p)" by (metis prod.exhaust)
    let ?r = "r\<lparr>r_roomSettings := UpdateRoomSettings rs (r_roomSettings r)\<rparr>"
    let ?w = "put_room room ?r w"
    have inv': "lobby_inv ?w" using inv room(3) by (rule settings_inv)
    have at: "room_at ?w room" using inv_room_live [OF inv', of room ?r] by (simp add: room_at_def)
    obtain w1 where w1: "UpdateRoom E room ?w = Some w1" and c1: "core w1 = core ?w"
      using quiet_UpdateRoom [OF at] by (rule quietE)
    obtain w2 where w2: "SendUpdateRoomPacketToAll room (ucast flag) w1 = Some w2" and c2: "core w2 = core ?w"
      using quiet_SendUpdateRoomPacketToAll [of w1 room "ucast flag"] inv_live [OF inv'] at c1
      by (auto simp: core_live [OF c1] core_room_at [OF c1] elim: quietE)
    have r2: "w_rooms w2 room = Some ?r" by (simp add: core_eqD(2) [OF c2])
    have inv2: "lobby_inv w2" using inv' by (simp add: core_lobby_inv [OF c2])
    have con: "connected w2 (r_roomUsers r)" using inv_connected [OF inv2 r2] by simp
    have "quiet w2 (for_users (\<lambda>c w. Some (SendPacket_Room_ReplyUpdateRoomSettings c rs w)) (r_roomUsers r) w2)"
      using connected_users_at [OF con] by (intro reply_settings.for_users_quiet) simp_all
    moreover have "connected_users w2 (r_roomUsers r) = Some (r_roomUsers r)"
      by (rule connected_users_all [OF inv_null(1) [OF inv2] con])
    ultimately have "wp (parsePacket_Room_UpdateRoomSettings E user packet w) (\<lambda>w'. core w' = core ?w)"
      using x True inv_null_ptr(1) [OF inv x] room host rs w1 w2 r2 c2
      by (simp add: parsePacket_Room_UpdateRoomSettings_def Room_UpdateRoomSettings_def upd_room_eq quiet_def)
    then show ?thesis using room(3) host True rs by (auto elim!: wp_mono)
  qed
qed

section \<open>ReturnToRoom\<close>

text \<open>
  A room after one of its players has returned: the match has lost it; when it was the host, the
  match is closed or handed over.
\<close>

definition return_room :: "ptr \<Rightarrow> GameMatch \<Rightarrow> room \<Rightarrow> room" where
  "return_room user gm r =
     (let gm' = drop_match_user user gm; r' = r\<lparr>r_gameMatch := Some gm'\<rparr> in
      if r_roomHostUser r \<noteq> user then r'
      else if gm_gameMatchUsers gm' = [] then (set_state RoomState_Waiting r')\<lparr>r_gameMatch := None\<rparr>
      else hand_over_match gm' r')"

lemma match_ok_None [simp]: "match_ok (r\<lparr>r_gameMatch := None\<rparr>)"
  by (simp add: match_ok_def)

lemma players_ok_None [simp]: "players_ok w (r\<lparr>r_gameMatch := None\<rparr>)"
  by (simp add: players_ok_def)

lemma match_ok_SomeD:
  "match_ok r \<Longrightarrow> r_gameMatch r = Some gm \<Longrightarrow>
    distinct (map gmu_user (gm_gameMatchUsers gm)) \<and> set (map gmu_user (gm_gameMatchUsers gm)) \<subseteq> set (r_roomUsers r)"
  by (simp add: match_ok_def)

lemma match_ok_host [simp]: "match_ok (r\<lparr>r_roomHostUser := h\<rparr>) = match_ok r"
  by (cases "r_gameMatch r") (simp_all add: match_ok_def)

lemma dropped_match:
  assumes "room_ok w r" and "r_gameMatch r = Some gm"
  shows "match_ok (r\<lparr>r_gameMatch := Some (drop_match_user u gm)\<rparr>)"
    and "players_ok w (r\<lparr>r_gameMatch := Some (drop_match_user u gm)\<rparr>)"
  using assms by (auto simp: room_ok_def match_ok_def players_ok_def drop_match_user_def distinct_map inj_on_def)

lemma hand_over_match_host:
  "gm_gameMatchUsers gm \<noteq> [] \<Longrightarrow> match_ok r \<Longrightarrow> r_gameMatch r = Some gm \<Longrightarrow>
    r_roomHostUser (hand_over_match gm r) \<in> set (r_roomUsers r)"
  by (cases "gm_gameMatchUsers gm") (auto simp: hand_over_match_def match_ok_def)

lemma hand_over_match_ok:
  assumes "match_ok r" "players_ok w r" "r_gameMatch r = Some gm"
  shows "match_ok (hand_over_match gm r)" "players_ok w (hand_over_match gm r)"
  using assms by (simp_all add: hand_over_match_def match_ok_def players_ok_def)

lemma return_room_ok:
  assumes "room_ok w r" and "r_gameMatch r = Some gm"
  shows "match_ok (return_room u gm r)" "players_ok w (return_room u gm r)"
    "r_roomHostUser (return_room u gm r) \<in> set (r_roomUsers r)"
    "r_roomID (return_room u gm r) = r_roomID r" "r_roomUsers (return_room u gm r) = r_roomUsers r"
    "r_gameMatch (return_room u gm r) = None \<or> r_gameMatch (return_room u gm r) = Some (drop_match_user u gm)"
proof -
  note d = dropped_match [OF assms, of u]
  have h: "r_roomHostUser r \<in> set (r_roomUsers r)" using assms(1) by (simp add: room_ok_def)
  note m = hand_over_match_host [of "drop_match_user u gm", OF _ d(1)]
    hand_over_match_ok [OF d, of "drop_match_user u gm"]
  show "match_ok (return_room u gm r)" using d m by (simp add: return_room_def Let_def)
  show "players_ok w (return_room u gm r)" using d m by (simp add: return_room_def Let_def)
  show "r_roomHostUser (return_room u gm r) \<in> set (r_roomUsers r)" using h m by (auto simp: return_room_def Let_def)
  show "r_roomID (return_room u gm r) = r_roomID r" "r_roomUsers (return_room u gm r) = r_roomUsers r"
    "r_gameMatch (return_room u gm r) = None \<or> r_gameMatch (return_room u gm r) = Some (drop_match_user u gm)"
    by (simp_all add: return_room_def Let_def hand_over_match_def)
qed

lemma return_room_inv:
  assumes inv: "lobby_inv w" and r: "w_rooms w room = Some r" and gm: "r_gameMatch r = Some gm"
    and x: "w_users w user = Some x" and i: "in_room x" and mem: "user \<in> set (r_roomUsers r)"
  shows "lobby_inv (put_room room (return_room user gm r) w)"
    and "lobby_inv (set_user (\<lambda>u. u\<lparr>u_userStatus := InRoom\<rparr>) user (put_room room (return_room user gm r) w))"
proof -
  let ?w = "put_room room (return_room user gm r) w"
  note ok = return_room_ok [OF lobby_invD(4) [OF inv r] gm, of user]
  show inv': "lobby_inv ?w" using ok by (intro put_room_inv [OF inv r]) simp_all
  have "\<not> user \<in> gmu_user ` set (gm_gameMatchUsers g)"
    if q: "w_rooms ?w q = Some s" "r_gameMatch s = Some g" for q s g
  proof (cases "q = room")
    case True
    then show ?thesis using q ok(6) by auto
  next
    case False
    then have "w_rooms w q = Some s" using q(1) by simp
    then have "user \<notin> set (r_roomUsers s)" using inv_one_room [OF inv r mem] False by blast
    then show ?thesis using match_ok_SomeD [OF inv_match_ok [OF inv' q(1)] q(2)] by auto
  qed
  then show "lobby_inv (set_user (\<lambda>u. u\<lparr>u_userStatus := InRoom\<rparr>) user ?w)"
    using x i by (intro set_user_inv [OF inv', of user x]) auto
qed

text \<open>A change of the room state, announced to the users of the room.\<close>

lemma state_announced:
  assumes w: "live w" and r: "w_rooms w room = Some r" "room_live w r" and con: "connected w (r_roomUsers r)"
  shows "wp (do { w \<leftarrow> set_room_state st room w; r \<leftarrow> w_rooms w room; us \<leftarrow> connected_users w (r_roomUsers r);
        announce_room_state st room us w })
    (\<lambda>w'. core w' = core (put_room room (set_state st r) w))"
    and "wp (do { w \<leftarrow> set_room_state st room w; us \<leftarrow> connected_users w (r_roomUsers r);
        announce_room_state st room us w })
    (\<lambda>w'. core w' = core (put_room room (set_state st r) w))"
proof -
  obtain w1 where w1: "set_room_state st room w = Some w1" and c1: "core w1 = core (put_room room (set_state st r) w)"
    using set_room_state_step [OF w r] by (auto simp: wp_iff)
  have r1: "w_rooms w1 room = Some (set_state st r)" by (simp add: core_eqD(2) [OF c1])
  have us: "connected_users w1 (r_roomUsers r) = Some (r_roomUsers r)" "users_at w1 (r_roomUsers r)"
    using con live_null(1) [OF w]
    by (auto simp: core_eqD(1) [OF c1] connected_def users_at_def intro!: connected_users_all)
  have "room_at w1 room" using r by (simp add: room_at_def r1 room_live_def core_eqD(1) [OF c1])
  then have "quiet w1 (announce_room_state st room (r_roomUsers r) w1)"
    using us(2) by (rule quiet_announce_room_state)
  then show "wp (do { w \<leftarrow> set_room_state st room w; r \<leftarrow> w_rooms w room; us \<leftarrow> connected_users w (r_roomUsers r);
        announce_room_state st room us w })
    (\<lambda>w'. core w' = core (put_room room (set_state st r) w))"
    and "wp (do { w \<leftarrow> set_room_state st room w; us \<leftarrow> connected_users w (r_roomUsers r);
        announce_room_state st room us w })
    (\<lambda>w'. core w' = core (put_room room (set_state st r) w))"
    using w1 r1 us(1) c1 by (simp_all add: quiet_def)
qed

lemma match_closed:
  assumes w: "live w" and r: "w_rooms w room = Some r" "room_live w r" and con: "connected w (r_roomUsers r)"
  shows "wp (do { w \<leftarrow> SetGameMatch None room w; w \<leftarrow> set_room_state RoomState_Waiting room w;
        r \<leftarrow> w_rooms w room; us \<leftarrow> connected_users w (r_roomUsers r);
        announce_room_state RoomState_Waiting room us w })
    (\<lambda>w'. core w' = core (put_room room ((set_state RoomState_Waiting r)\<lparr>r_gameMatch := None\<rparr>) w))"
proof -
  let ?r = "r\<lparr>r_gameMatch := None\<rparr>"
  let ?w = "put_room room ?r w"
  have rl: "room_live w ?r" using r(2) by (simp add: room_live_def)
  then have "live ?w" "room_live ?w ?r" using w r(1) by (simp_all add: put_room_live) (simp add: room_live_def)
  moreover have "connected ?w (r_roomUsers ?r)" using con by (simp add: connected_def)
  ultimately have "wp (do { w \<leftarrow> set_room_state RoomState_Waiting room ?w; r \<leftarrow> w_rooms w room;
        us \<leftarrow> connected_users w (r_roomUsers r); announce_room_state RoomState_Waiting room us w })
      (\<lambda>w'. core w' = core (put_room room (set_state RoomState_Waiting ?r) ?w))"
    by (intro state_announced) simp_all
  moreover have "set_state RoomState_Waiting ?r = (set_state RoomState_Waiting r)\<lparr>r_gameMatch := None\<rparr>"
    by (simp add: set_state_def)
  ultimately show ?thesis using r(1) by (simp add: SetGameMatch_def upd_room_eq)
qed

lemma close_or_migrate_step:
  fixes w :: "'e world"
  assumes inv: "lobby_inv w" and r: "w_rooms w room = Some r" and gm: "r_gameMatch r = Some gm"
  shows "wp (close_or_migrate room (gm_gameMatchUsers gm) w) (\<lambda>w'. core w' = core (put_room room
    (if gm_gameMatchUsers gm = [] then (set_state RoomState_Waiting r)\<lparr>r_gameMatch := None\<rparr> else hand_over_match gm r) w))"
proof -
  note con = inv_connected [OF inv r] and live = inv_live [OF inv] and rl = inv_room_live [OF inv r]
  show ?thesis
  proof (cases "gm_gameMatchUsers gm = []")
    case False
    have "users_at w (map gmu_user (gm_gameMatchUsers gm))"
      using match_users_connected [OF inv_match_ok [OF inv r] gm con] by (rule connected_users_at)
    then show ?thesis
      using migrate_host_step [OF live_null(1) [OF live] inv_null_ptr(2) [OF inv r] r con gm False] False
      by (simp add: close_or_migrate_def)
  next
    case True
    note match_closed [OF live r rl con]
    then show ?thesis using True by (simp add: close_or_migrate_def)
  qed
qed

lemma ReturnToRoom_step:
  fixes w :: "'e world"
  assumes inv: "lobby_inv w" and x: "w_users w user = Some x"
  shows "wp (parsePacket_Room_ReturnToRoom user w) (\<lambda>w'. core w' = core w \<or>
    (\<exists>room r gm. w_rooms w room = Some r \<and> r_gameMatch r = Some gm \<and> user \<in> set (r_roomUsers r) \<and> in_room x \<and>
      core w' = core (set_user (\<lambda>u. u\<lparr>u_userStatus := InRoom\<rparr>) user (put_room room (return_room user gm r) w))))"
proof (cases "in_room x")
  case False
  then have "parsePacket_Room_ReturnToRoom user w = Some w"
    using x inv_null_ptr(1) [OF inv x] inv_conn [OF inv x] by (simp add: parsePacket_Room_ReturnToRoom_def)
  then show ?thesis by simp
next
  case True
  obtain room r where room: "GetRoomByRoomID (u_currentRoomID x) w = Some room" "room \<noteq> 0"
    and r: "w_rooms w room = Some r" and mem: "user \<in> set (r_roomUsers r)"
    using inv_own_room [OF inv x True] by metis
  note user = inv_null_ptr(1) [OF inv x]
  show ?thesis
  proof (cases "r_gameMatch r")
    case None
    then have "parsePacket_Room_ReturnToRoom user w = Some w"
      using x user inv_conn [OF inv x] True room r by (simp add: parsePacket_Room_ReturnToRoom_def)
    then show ?thesis by simp
  next
    case (Some gm)
    let ?gm = "drop_match_user user gm"
    let ?r = "r\<lparr>r_gameMatch := Some ?gm\<rparr>"
    let ?w = "put_room room ?r w"
    have inv1: "lobby_inv ?w"
      using dropped_match [OF lobby_invD(4) [OF inv r] Some, of user] inv_host [OF inv r]
      by (intro put_room_inv [OF inv r]) simp_all
    have r1: "w_rooms ?w room = Some ?r" by simp
    have lm: "leave_match user gm = Some ?gm"
      using leave_match_eq [OF user] match_ok_SomeD [OF inv_match_ok [OF inv r] Some] by blast
    have cm: "connected_match_users ?w (gm_gameMatchUsers ?gm) = Some (gm_gameMatchUsers ?gm)"
      using match_users_connected [OF inv_match_ok [OF inv1 r1] _ inv_connected [OF inv1 r1]] inv_null(1) [OF inv1]
      by (intro connected_match_users_all) simp_all
    have step: "wp (if user = r_roomHostUser r then do {
                       gs \<leftarrow> connected_match_users ?w (gm_gameMatchUsers ?gm); close_or_migrate room gs ?w }
                     else Some ?w) (\<lambda>w'. core w' = core (put_room room (return_room user gm r) w))"
      using close_or_migrate_step [OF inv1 r1, of ?gm] cm
      by (auto simp: return_room_def Let_def elim!: wp_mono)
    then obtain w1 where w1: "(if user = r_roomHostUser r then do {
                       gs \<leftarrow> connected_match_users ?w (gm_gameMatchUsers ?gm); close_or_migrate room gs ?w }
                     else Some ?w) = Some w1" and c1: "core w1 = core (put_room room (return_room user gm r) w)"
      by (auto simp only: wp_iff)
    have x1: "w_users w1 user = Some x" using x by (simp add: core_eqD(1) [OF c1])
    have run: "parsePacket_Room_ReturnToRoom user w = Some (set_user (\<lambda>u. u\<lparr>u_userStatus := InRoom\<rparr>) user w1)"
      using x user inv_conn [OF inv x] True room r Some lm w1 x1
      by (simp add: parsePacket_Room_ReturnToRoom_def SetGameMatch_def upd_room_eq SetUserStatus_eq)
    have "core (set_user f user w1) = core (set_user f user (put_room room (return_room user gm r) w))" for f
      using c1 by (simp add: core_def)
    then show ?thesis unfolding run wp_Some using r Some mem True by blast
  qed
qed

section \<open>Room packets keep the invariant\<close>

lemma open_created_room_inv:
  assumes inv: "lobby_inv w" and x: "w_users w user = Some x" and out: "\<not> in_room x"
    and i: "GetFreeRoomID w = Some i" "i \<noteq> 0"
  shows "lobby_inv (open_room user (created_room i user packet) w)"
proof (rule GetFreeRoomID_cases [OF inv])
  fix j assume "GetFreeRoomID w = Some j" "\<And>q s. w_rooms w q = Some s \<Longrightarrow> r_roomID s \<noteq> j"
  then show ?thesis using i inv_outside [OF inv x out] by (intro open_room_inv [OF inv x]) simp_all
qed (use i in simp)

lemma to_lobby_inv:
  assumes inv: "lobby_inv w" and x: "w_users w user = Some x" and out: "\<not> in_room x"
  shows "lobby_inv (set_user to_lobby user w)"
proof (rule set_user_inv [OF inv x])
  fix room r gm assume r: "w_rooms w room = Some r" "r_gameMatch r = Some gm" "user \<in> gmu_user ` set (gm_gameMatchUsers gm)"
  then have "user \<in> set (r_roomUsers r)" using match_ok_SomeD [OF inv_match_ok [OF inv r(1)] r(2)] by auto
  then show "u_userStatus (to_lobby x) = InGame" using outside_rooms [OF inv x inv_outside [OF inv x out] r(1)] by simp
qed (use inv_outside [OF inv x out] out in \<open>simp_all add: to_lobby_def\<close>)

text \<open>
  The handlers of \<open>CreateRoom\<close> and \<open>JoinRoom\<close> trust that a client in a game does not send
  them: \<open>room_packet_ok\<close> says that it does not.
\<close>

definition room_packet_ok :: "packet \<Rightarrow> 'e world \<Rightarrow> bool" where
  "room_packet_ok packet w \<longleftrightarrow> (\<forall>p u. w_users w p = Some u \<longrightarrow> u_connection u = p_connection packet \<longrightarrow>
     u_userStatus u = InGame \<longrightarrow> fst (ReadUInt8 packet) \<notin> {0, 1})"

definition roster :: "'e world \<Rightarrow> ServerConfig \<times> ptr list" where
  "roster w = (w_cfg w, w_userList w)"

definition steady :: "'e world \<Rightarrow> 'e world \<Rightarrow> bool" where
  "steady w w' \<longleftrightarrow> lobby_inv w' \<and> roster w' = roster w"

lemma roster_kept:
  "roster (skip_address w) = roster w" "roster (set_user f p w) = roster w" "roster (put_room q r w) = roster w"
  "roster (open_room p r w) = roster w" "roster (join_room p q r w) = roster w" "roster (quit_room p q r w) = roster w"
  "roster (set_user f p (skip_address w)) = roster w" "roster (set_user f p (put_room q r w)) = roster w"
  by (simp_all add: roster_def skip_address_def open_room_def join_room_def quit_room_def Let_def)

lemma room_handlers_inv:
  fixes w :: "'e world"
  assumes E: "characters_ok E" and inv: "lobby_inv w" and x: "w_users w user = Some x"
  shows "u_userStatus x \<noteq> InGame \<Longrightarrow> wp (parsePacket_Room_CreateRoom E user packet w) (steady w)"
    and "u_userStatus x \<noteq> InGame \<Longrightarrow> wp (parsePacket_Room_JoinRoom E user packet w) (steady w)"
    and "wp (parsePacket_Room_LeaveRoom E user packet w) (steady w)"
    and "wp (parsePacket_Room_StartGame user w) (steady w)"
    and "wp (parsePacket_Room_UpdateRoomSettings E user packet w) (steady w)"
    and "wp (parsePacket_Room_ResultConfirm user packet w) (steady w)"
    and "wp (parsePacket_Room_ReturnToRoom user w) (steady w)"
proof -
  have same: "steady w w'" if "core w' = core v" "lobby_inv v" "roster v = roster w" for w' v :: "'e world"
    using that core_lobby_inv [OF that(1)] by (simp add: steady_def core_def roster_def)
  show "wp (parsePacket_Room_CreateRoom E user packet w) (steady w)" if s: "u_userStatus x \<noteq> InGame"
  proof (cases "u_userStatus x = InRoom")
    case True
    then show ?thesis using x inv by (simp add: parsePacket_Room_CreateRoom_def Let_def steady_def)
  next
    case False
    have out: "\<not> in_room x" using s False by simp
    have "lobby_inv (set_user to_lobby user (skip_address w))"
      using to_lobby_inv [OF skip_address_inv [OF inv], of user x] x s False by (simp add: skip_address_def)
    then show ?thesis
      using CreateRoom_step [OF E inv x s, of packet] same [OF _ skip_address_inv [OF inv] roster_kept(1)]
        same [OF _ inv refl] same [OF _ _ roster_kept(7)] same [OF _ open_created_room_inv [OF inv x out] roster_kept(4)]
      by (elim wp_mono) blast
  qed
  show "wp (parsePacket_Room_JoinRoom E user packet w) (steady w)" if s: "u_userStatus x \<noteq> InGame"
    using JoinRoom_step [OF E inv x s, of packet] same [OF _ inv refl] same [OF _ join_room_inv [OF inv x] roster_kept(5)] inv_outside [OF inv x]
    by (elim wp_mono) blast
  show "wp (parsePacket_Room_LeaveRoom E user packet w) (steady w)"
    using LeaveRoom_step [OF E inv x, of packet] by (rule wp_mono) (use same [OF _ inv refl] same [OF _ quit_room_inv [OF inv] roster_kept(6)] in \<open>meson\<close>)
  show "wp (parsePacket_Room_StartGame user w) (steady w)"
    using StartGame_step [OF inv x] same [OF _ inv refl] by (elim wp_mono) blast
  show "wp (parsePacket_Room_UpdateRoomSettings E user packet w) (steady w)"
    using UpdateRoomSettings_step [OF inv x, of E packet] same [OF _ inv refl] same [OF _ settings_inv [OF inv] roster_kept(3)] by (elim wp_mono) blast
  show "wp (parsePacket_Room_ResultConfirm user packet w) (steady w)"
    using ResultConfirm_step [OF inv x, of packet] same [OF _ inv refl] by (elim wp_mono) blast
  show "wp (parsePacket_Room_ReturnToRoom user w) (steady w)"
    using ReturnToRoom_step [OF inv x] same [OF _ inv refl] same [OF _ return_room_inv(2) [OF inv _ _ x] roster_kept(8)] by (elim wp_mono) blast
qed

lemma ParsePacket_Room_inv:
  fixes w :: "'e world"
  assumes E: "characters_ok E" and inv: "lobby_inv w" and ok: "room_packet_ok packet w"
  shows "wp (ParsePacket_Room E packet w) (steady w)"
proof (cases "p_connection packet = 0")
  case True
  then show ?thesis using inv by (simp add: ParsePacket_Room_def steady_def)
next
  case False
  show ?thesis
  proof (rule users_by_connection.lookup_cases [OF inv_allocated(2) [OF inv], of "p_connection packet"])
    assume "GetUserByConnection (p_connection packet) w = Some 0"
    then show ?thesis using inv False by (simp add: ParsePacket_Room_def IsUserLoggedIn_def steady_def)
  next
    fix user x assume u: "GetUserByConnection (p_connection packet) w = Some user" "w_users w user = Some x"
      "u_connection x = p_connection packet" "user \<noteq> 0"
    obtain t p where t: "ReadUInt8 packet = (t, p)" by (rule prod.exhaust)
    note h = room_handlers_inv [OF E inv u(2)]
    have s: "u_userStatus x \<noteq> InGame" if "t \<in> {0, 1}"
      using ok u that t by (auto simp: room_packet_ok_def)
    show ?thesis
      using u t h(3-7) h(1,2) [OF s] inv False
      by (simp add: ParsePacket_Room_def IsUserLoggedIn_def steady_def)
  qed
qed

end
