(* ===== verification/HostSafety.thy ===== *)
theory HostSafety
  imports RoomSafety
begin

text \<open>
  The handlers of the host packets and all of \<open>ParsePacket_Host\<close>: defined under the
  invariant, and keeping it. Each has a step lemma that says which abstract change it makes.
\<close>

section \<open>The common guards\<close>

lemma with_match_cases:
  assumes inv: "lobby_inv w" and x: "w_users w user = Some x" and ok: "status_ok x \<Longrightarrow> in_room x"
  obtains (ignored) "\<And>k. with_match status_ok user w k = Some w"
  | (host) room r gm where "\<And>k. with_match status_ok user w k = k room r gm" "w_rooms w room = Some r"
      "r_gameMatch r = Some gm" "r_roomHostUser r = user" "user \<in> set (r_roomUsers r)" "room \<noteq> 0"
proof (cases "status_ok x")
  case False
  then show ?thesis using ignored x inv_null_ptr(1) [OF inv x] by (simp add: with_match_def)
next
  case True
  obtain room r where room: "GetRoomByRoomID (u_currentRoomID x) w = Some room" "room \<noteq> 0"
    and r: "w_rooms w room = Some r" "user \<in> set (r_roomUsers r)"
    using inv_own_room [OF inv x ok [OF True]] by metis
  show ?thesis
  proof (cases "r_gameMatch r")
    case None
    then show ?thesis using ignored x inv_null_ptr(1) [OF inv x] True room r by (simp add: with_match_def)
  next
    case (Some gm)
    then have w: "with_match status_ok user w k = (if r_roomHostUser r \<noteq> user then Some w else k room r gm)" for k
      using x inv_null_ptr(1) [OF inv x] True room r by (simp add: with_match_def)
    then show ?thesis using ignored host [of room r gm] Some r room(2) by (cases "r_roomHostUser r = user") simp_all
  qed
qed

lemma with_match_host:
  assumes inv: "lobby_inv w" and x: "w_users w user = Some x" "status_ok x"
    and r: "w_rooms w room = Some r" "r_roomHostUser r = user" and gm: "r_gameMatch r = Some gm"
  shows "with_match status_ok user w k = k room r gm"
proof -
  have mem: "user \<in> set (r_roomUsers r)" using inv_host [OF inv r(1)] r(2) by simp
  have "in_room x" using inv_members [OF inv r(1) mem] x(1) by auto
  then obtain q s where q: "GetRoomByRoomID (u_currentRoomID x) w = Some q" "q \<noteq> 0"
    "w_rooms w q = Some s" "user \<in> set (r_roomUsers s)"
    using inv_own_room [OF inv x(1)] by metis
  then have "q = room" using inv_one_room [OF inv q(3,4) r(1) mem] by simp
  then show ?thesis using x r gm q inv_null_ptr(1) [OF inv x(1)] by (simp add: with_match_def)
qed

lemma match_user_by_id_total: "lobby_inv w \<Longrightarrow> \<exists>g. match_user_by_id i gm w = Some g"
  using users_by_id.lookup_cases [OF inv_allocated(2), of w i] by (metis bind.bind_lunit match_user_by_id_def)

text \<open>
  A change of the match that keeps its room and its users, in order, keeps the invariant.
\<close>

lemma match_inv:
  assumes inv: "lobby_inv w" and r: "w_rooms w room = Some r" and gm: "r_gameMatch r = Some gm"
    and same: "gm_roomID gm' = gm_roomID gm" "map gmu_user (gm_gameMatchUsers gm') = map gmu_user (gm_gameMatchUsers gm)"
  shows "lobby_inv (put_room room (r\<lparr>r_gameMatch := Some gm'\<rparr>) w)"
proof -
  have rok: "room_ok w r" using lobby_invD(4) [OF inv r] .
  have "match_ok (r\<lparr>r_gameMatch := Some gm'\<rparr>)"
    using match_ok_SomeD [OF inv_match_ok [OF inv r] gm] same(2) unfolding match_ok_def by simp
  moreover have "players_ok w (r\<lparr>r_gameMatch := Some gm'\<rparr>)"
    unfolding players_ok_def
  proof (intro allI impI conjI ballI)
    fix g' g assume g': "r_gameMatch (r\<lparr>r_gameMatch := Some gm'\<rparr>) = Some g'"
    show "gm_roomID g' = r_roomID (r\<lparr>r_gameMatch := Some gm'\<rparr>)"
      using g' rok gm same(1) by (simp add: room_ok_def players_ok_def)
    assume "g \<in> set (gm_gameMatchUsers g')"
    then have "gmu_user g \<in> set (map gmu_user (gm_gameMatchUsers gm'))" using g' by simp
    then obtain h where "h \<in> set (gm_gameMatchUsers gm)" "gmu_user h = gmu_user g" unfolding same(2) by auto
    then show "\<exists>u. w_users w (gmu_user g) = Some u \<and> u_userStatus u = InGame"
      using rok gm by (fastforce simp: room_ok_def players_ok_def)
  qed
  ultimately show ?thesis using inv_host [OF inv r] by (intro put_room_inv [OF inv r]) simp_all
qed

section \<open>The match begins\<close>

definition activated_room :: "room \<Rightarrow> room" where
  "activated_room r = (set_state RoomState_Playing r)\<lparr>r_gameMatch := Some (new_GameMatch (r_roomID r))\<rparr>"

lemma activated_room_inv:
  assumes inv: "lobby_inv w" and r: "w_rooms w room = Some r"
  shows "lobby_inv (put_room room (activated_room r) w)"
  using inv_host [OF inv r]
  by (intro put_room_inv [OF inv r])
    (simp_all add: activated_room_def match_ok_def players_ok_def new_GameMatch_def)

lemma ServerIsActivated_step:
  assumes inv: "lobby_inv w" and x: "w_users w user = Some x"
  shows "wp (parsePacket_Host_ServerIsActivated user w) (\<lambda>w'. core w' = core w \<or>
    (\<exists>room r. w_rooms w room = Some r \<and> r_roomHostUser r = user \<and> r_gameMatch r = None \<and>
      core w' = core (put_room room (activated_room r) w)))"
proof (cases "in_room x")
  case False
  then have "parsePacket_Host_ServerIsActivated user w = Some w"
    using x inv_null_ptr(1) [OF inv x] by (simp add: parsePacket_Host_ServerIsActivated_def)
  then show ?thesis by simp
next
  case True
  obtain room r where room: "GetRoomByRoomID (u_currentRoomID x) w = Some room" "room \<noteq> 0"
    and r: "w_rooms w room = Some r"
    using inv_own_room [OF inv x True] by metis
  show ?thesis
  proof (cases "r_roomHostUser r = user \<and> r_gameMatch r = None")
    case False
    then have "parsePacket_Host_ServerIsActivated user w = Some w"
      using x inv_null_ptr(1) [OF inv x] True room r
      by (auto simp: parsePacket_Host_ServerIsActivated_def)
    then show ?thesis by simp
  next
    case go: True
    let ?r = "r\<lparr>r_gameMatch := Some (new_GameMatch (r_roomID r))\<rparr>"
    let ?w = "put_room room ?r w"
    have rl: "room_live w ?r" using inv_room_live [OF inv r] by (simp add: room_live_def)
    then have w1: "live ?w" "room_live ?w ?r" using inv_live [OF inv] r
      by (simp_all add: put_room_live) (simp add: room_live_def)
    have con: "connected ?w (r_roomUsers ?r)" using inv_connected [OF inv r] by (simp add: connected_def)
    have "wp (do { w \<leftarrow> set_room_state RoomState_Playing room ?w;
          us \<leftarrow> connected_users w (r_roomUsers ?r); announce_room_state RoomState_Playing room us w })
        (\<lambda>w'. core w' = core (put_room room (set_state RoomState_Playing ?r) ?w))"
      by (rule state_announced(2) [OF w1(1) _ w1(2) con]) simp
    moreover have "set_state RoomState_Playing ?r = activated_room r" by (simp add: activated_room_def set_state_def)
    ultimately have "wp (parsePacket_Host_ServerIsActivated user w) (\<lambda>w'. core w' = core (put_room room (activated_room r) w))"
      using x inv_null_ptr(1) [OF inv x] True room r go
      by (elim disjE) (simp_all add: parsePacket_Host_ServerIsActivated_def SetGameMatch_def upd_room_eq)
    then show ?thesis using r go by (auto elim!: wp_mono)
  qed
qed

text \<open>A player enters the match: it is added at the end, and is in game.\<close>

definition enter_game :: "ptr \<Rightarrow> ptr \<Rightarrow> room \<Rightarrow> GameMatch \<Rightarrow> 'e world \<Rightarrow> 'e world" where
  "enter_game target room r gm w = set_user (\<lambda>u. u\<lparr>u_userStatus := InGame\<rparr>) target
     (put_room room (r\<lparr>r_gameMatch := Some (AddGameMatchUser (new_GameMatchUser target) gm)\<rparr>) w)"

lemma enter_game_inv:
  assumes inv: "lobby_inv w" and r: "w_rooms w room = Some r" and gm: "r_gameMatch r = Some gm"
    and t: "target \<in> set (r_roomUsers r)" and new: "target \<notin> gmu_user ` set (gm_gameMatchUsers gm)"
  shows "lobby_inv (enter_game target room r gm w)"
proof -
  let ?f = "\<lambda>u. u\<lparr>u_userStatus := InGame\<rparr>"
  let ?w = "set_user ?f target w"
  let ?r = "r\<lparr>r_gameMatch := Some (AddGameMatchUser (new_GameMatchUser target) gm)\<rparr>"
  obtain y where y: "w_users w target = Some y" "in_room y" using inv_members [OF inv r t] by blast
  have inv1: "lobby_inv ?w" using y by (intro set_user_inv [OF inv y(1)]) simp_all
  have r1: "w_rooms ?w room = Some r" using r by simp
  have "match_ok ?r"
    using match_ok_SomeD [OF inv_match_ok [OF inv r] gm] t new
    by (simp add: match_ok_def AddGameMatchUser_def new_GameMatchUser_def)
  moreover have "players_ok ?w ?r"
    using lobby_invD(4) [OF inv1 r1] gm y(1)
    by (auto simp: room_ok_def players_ok_def AddGameMatchUser_def new_GameMatchUser_def)
  ultimately have "lobby_inv (put_room room ?r ?w)"
    using inv_host [OF inv r] by (intro put_room_inv [OF inv1 r1]) simp_all
  moreover have "core (put_room room ?r ?w) = core (enter_game target room r gm w)"
    by (simp add: core_def enter_game_def)
  ultimately show ?thesis using core_lobby_inv by blast
qed

lemma not_found_not_player:
  "target \<noteq> 0 \<Longrightarrow> GetGameMatchUserByUser target gm = None \<Longrightarrow> target \<notin> gmu_user ` set (gm_gameMatchUsers gm)"
  by (auto simp: GetGameMatchUserByUser_def find_None_iff)

lemma SendUserStatus_step:
  assumes inv: "lobby_inv w" and x: "w_users w user = Some x"
  shows "wp (parsePacket_Host_SendUserStatus user packet w) (\<lambda>w'. core w' = core w \<or>
    (\<exists>room r gm target. w_rooms w room = Some r \<and> r_gameMatch r = Some gm \<and> r_roomHostUser r = user \<and>
      target \<in> set (r_roomUsers r) \<and> target \<notin> gmu_user ` set (gm_gameMatchUsers gm) \<and>
      core w' = core (enter_game target room r gm w)))"
proof (rule with_match_cases [OF inv x, of in_room])
  assume "\<And>k. with_match in_room user w k = Some w"
  then show ?thesis by (simp add: parsePacket_Host_SendUserStatus_def)
next
  fix room r gm assume k: "\<And>k. with_match in_room user w k = k room r gm"
    and r: "w_rooms w room = Some r" "r_gameMatch r = Some gm" "r_roomHostUser r = user" "room \<noteq> 0"
  obtain i p where i: "ReadUInt32_LE packet = (i, p)" by (rule prod.exhaust)
  obtain st p' where st: "ReadUInt8 p = (st, p')" by (rule prod.exhaust)
  note run = parsePacket_Host_SendUserStatus_def k i
  show ?thesis
  proof (rule users_by_id.lookup_cases [OF inv_allocated(2) [OF inv], of i])
    assume "GetUserByUserID i w = Some 0"
    then show ?thesis by (simp add: run)
  next
    fix t y assume t: "GetUserByUserID i w = Some t" "w_users w t = Some y" "t \<noteq> 0"
    show ?thesis
    proof (cases "in_room y")
      case False
      then have "parsePacket_Host_SendUserStatus user packet w = Some w" using t by (simp add: run)
      then show ?thesis by simp
    next
      case True
      obtain troom tr where tr: "GetRoomByRoomID (u_currentRoomID y) w = Some troom" "w_rooms w troom = Some tr"
        "t \<in> set (r_roomUsers tr)"
        using inv_own_room [OF inv t(2) True] by metis
      show ?thesis
      proof (cases "troom = room \<and> st = USERSTATUS_INGAME \<and> GetGameMatchUserByUser t gm = None")
        case False
        then have "parsePacket_Host_SendUserStatus user packet w = Some w"
          using t True tr st by (auto simp: run)
        then show ?thesis by simp
      next
        case go: True
        have run': "parsePacket_Host_SendUserStatus user packet w = Some (enter_game t room r gm w)"
          using t True tr st go r by (elim disjE) (simp_all add: run SetGameMatch_def upd_room_eq SetUserStatus_eq enter_game_def)
        have "t \<in> set (r_roomUsers r)" "t \<notin> gmu_user ` set (gm_gameMatchUsers gm)"
          using r go tr not_found_not_player [OF t(3)] by simp_all
        then show ?thesis unfolding run' wp_Some using r(1-3) by blast
      qed
    qed
  qed
qed simp

section \<open>During the match\<close>

text \<open>The handlers that only report leave the lobby as it is.\<close>

lemma reports_step:
  assumes inv: "lobby_inv w" and x: "w_users w user = Some x"
  shows "parsePacket_Host_PlayerKilled user packet w = Some w"
    and "parsePacket_Host_AddKill user packet w = Some w"
    and "parsePacket_Host_AddDeath user packet w = Some w"
    and "parsePacket_Host_RoundResult user packet w = Some w"
proof -
  have lookup: "\<exists>g. match_user_by_id i gm w = Some g" for i gm by (rule match_user_by_id_total [OF inv])
  have drop: "Option.bind (match_user_by_id i gm w) (\<lambda>_. Some w) = Some w" for i gm
    using lookup [of i gm] by auto
  show "parsePacket_Host_PlayerKilled user packet w = Some w" unfolding parsePacket_Host_PlayerKilled_def
    by (rule with_match_cases [OF inv x, of in_game]) (simp_all add: drop split: prod.split)
  show "parsePacket_Host_AddKill user packet w = Some w" unfolding parsePacket_Host_AddKill_def
    by (rule with_match_cases [OF inv x, of in_game]) (simp_all add: drop split: prod.split)
  show "parsePacket_Host_AddDeath user packet w = Some w" unfolding parsePacket_Host_AddDeath_def
    by (rule with_match_cases [OF inv x, of in_game]) (simp_all add: drop split: prod.split)
  show "parsePacket_Host_RoundResult user packet w = Some w" unfolding parsePacket_Host_RoundResult_def
    by (rule with_match_cases [OF inv x, of in_game]) simp_all
qed

lemma read_many_length: "length (fst (read_many f n p)) = n"
proof (induction n arbitrary: p)
  case (Suc n)
  obtain x p1 where 1: "f p = (x, p1)" by (rule prod.exhaust)
  obtain xs p2 where 2: "read_many f n p1 = (xs, p2)" by (rule prod.exhaust)
  have "length (fst (read_many f n p1)) = n" by (rule Suc.IH)
  then show ?case by (simp add: 1 2)
qed simp

lemma RejoinFail_step:
  assumes inv: "lobby_inv w" and x: "w_users w user = Some x" and count: "fst (ReadUInt8 packet) \<noteq> 0"
  shows "parsePacket_Host_RejoinFail user packet w = Some w"
proof -
  obtain n p where n: "ReadUInt8 packet = (n, p)" by (rule prod.exhaust)
  obtain ids p' where ids: "read_many ReadUInt32_LE (unat n) p = (ids, p')" by (rule prod.exhaust)
  have "length ids = unat n" using read_many_length [of ReadUInt32_LE "unat n" p] ids by simp
  then have "ids \<noteq> []" using count n by (auto simp: unat_eq_0)
  then have "concat (map (\<lambda>i. '' '' @ fmt i @ '','') ids) \<noteq> []" by (cases ids) simp_all
  then show ?thesis unfolding parsePacket_Host_RejoinFail_def
    by (rule_tac with_match_cases [OF inv x, of in_game]) (simp_all add: n ids set_last_def)
qed

lemma SaveData_step:
  assumes inv: "lobby_inv w" and x: "w_users w user = Some x"
  shows "wp (parsePacket_Host_SaveData user packet w) (\<lambda>w'. w' = w \<or>
    (\<exists>room r gm sd. w_rooms w room = Some r \<and> r_gameMatch r = Some gm \<and> r_roomHostUser r = user \<and>
      length sd = unat (fst (ReadUInt16_LE packet)) \<and> 0 < length sd \<and> length sd \<le> SAVEDATA_MAX_SIZE \<and>
      w' = put_room room (r\<lparr>r_gameMatch := Some (gm\<lparr>gm_saveData := sd\<rparr>)\<rparr>) w))"
proof (rule with_match_cases [OF inv x, of in_game])
  assume "\<And>k. with_match in_game user w k = Some w"
  then show ?thesis by (simp add: parsePacket_Host_SaveData_def)
next
  fix room r gm assume k: "\<And>k. with_match in_game user w k = k room r gm"
    and r: "w_rooms w room = Some r" "r_gameMatch r = Some gm" "r_roomHostUser r = user"
  obtain n p where n: "ReadUInt16_LE packet = (n, p)" by (rule prod.exhaust)
  obtain sd p' where sd: "ReadArray_UInt8 (unat n) p = (sd, p')" by (rule prod.exhaust)
  have len: "length sd = unat n"
    using read_many_length [of ReadUInt8 "unat n" p] sd by (simp add: ReadArray_UInt8_read_many)
  show ?thesis
  proof (cases "n = 0 \<or> unat n > SAVEDATA_MAX_SIZE")
    case True
    then show ?thesis by (auto simp: parsePacket_Host_SaveData_def k n)
  next
    case False
    then have run: "parsePacket_Host_SaveData user packet w = Some (put_room room (r\<lparr>r_gameMatch := Some (gm\<lparr>gm_saveData := sd\<rparr>)\<rparr>) w)"
      using r by (simp add: parsePacket_Host_SaveData_def k n sd SetGameMatch_def upd_room_eq)
    have "0 < length sd" "length sd \<le> SAVEDATA_MAX_SIZE" "length sd = unat (fst (ReadUInt16_LE packet))"
      using False len n by (simp_all add: unat_gt_0)
    then show ?thesis unfolding run wp_Some using r by blast
  qed
qed simp

lemma map_update_first: "(\<And>x. h (f x) = h x) \<Longrightarrow> map h (update_first P f xs) = map h xs"
  by (induction xs) simp_all

lemma SelectTeam_step:
  assumes inv: "lobby_inv w" and x: "w_users w user = Some x"
  shows "wp (parsePacket_Host_SelectTeam user packet w) (\<lambda>w'. w' = w \<or>
    (\<exists>room r gm target team. w_rooms w room = Some r \<and> r_gameMatch r = Some gm \<and> r_roomHostUser r = user \<and>
      target \<in> gmu_user ` set (gm_gameMatchUsers gm) \<and> team \<in> {Team_Terrorist, Team_CounterTerrorist} \<and>
      w' = put_room room (r\<lparr>r_gameMatch := Some (gm\<lparr>gm_gameMatchUsers :=
        update_first (\<lambda>g. gmu_user g = target) (\<lambda>g. g\<lparr>gmu_team := team\<rparr>) (gm_gameMatchUsers gm)\<rparr>)\<rparr>) w))"
proof (rule with_match_cases [OF inv x, of in_game])
  assume "\<And>k. with_match in_game user w k = Some w"
  then show ?thesis by (simp add: parsePacket_Host_SelectTeam_def)
next
  fix room r gm assume k: "\<And>k. with_match in_game user w k = k room r gm"
    and r: "w_rooms w room = Some r" "r_gameMatch r = Some gm" "r_roomHostUser r = user"
  obtain i p where i: "ReadUInt32_LE packet = (i, p)" by (rule prod.exhaust)
  obtain team p' where team: "ReadUInt8 p = (team, p')" by (rule prod.exhaust)
  obtain t where t: "GetUserByUserID i w = Some t"
    using users_by_id.lookup_cases [OF inv_allocated(2) [OF inv], of i] by metis
  show ?thesis
  proof (cases "t \<noteq> 0 \<and> GetGameMatchUserByUser t gm \<noteq> None \<and> team \<in> {Team_Terrorist, Team_CounterTerrorist}")
    case False
    then have "parsePacket_Host_SelectTeam user packet w = Some w"
      by (auto simp: parsePacket_Host_SelectTeam_def k i t team)
    then show ?thesis by simp
  next
    case True
    let ?w = "put_room room (r\<lparr>r_gameMatch := Some (gm\<lparr>gm_gameMatchUsers :=
        update_first (\<lambda>g. gmu_user g = t) (\<lambda>g. g\<lparr>gmu_team := team\<rparr>) (gm_gameMatchUsers gm)\<rparr>)\<rparr>) w"
    have run: "parsePacket_Host_SelectTeam user packet w = Some ?w"
      using True r by (auto simp: parsePacket_Host_SelectTeam_def k i t team SetGameMatch_def upd_room_eq)
    have "t \<in> gmu_user ` set (gm_gameMatchUsers gm)"
      using True by (auto simp: GetGameMatchUserByUser_def dest!: find_SomeD)
    then show ?thesis unfolding run wp_Some using True r by blast
  qed
qed simp

section \<open>The match ends\<close>

definition all_in_room :: "ptr list \<Rightarrow> 'e world \<Rightarrow> 'e world" where
  "all_in_room us w = fold (set_user (\<lambda>u. u\<lparr>u_userStatus := InRoom\<rparr>)) us w"

definition end_match :: "ptr \<Rightarrow> room \<Rightarrow> GameMatch \<Rightarrow> 'e world \<Rightarrow> 'e world" where
  "end_match room r gm w = all_in_room (map gmu_user (gm_gameMatchUsers gm))
     (put_room room ((set_state RoomState_Waiting r)\<lparr>r_gameMatch := None\<rparr>) w)"

lemma core_set_user: "core w' = core w \<Longrightarrow> core (set_user f p w') = core (set_user f p w)"
  by (simp add: core_def)

lemma core_all_in_room: "core w' = core w \<Longrightarrow> core (all_in_room us w') = core (all_in_room us w)"
proof (induction us arbitrary: w w')
  case (Cons u us)
  show ?case unfolding all_in_room_def fold.simps comp_apply
    using Cons.IH [OF core_set_user [OF Cons.prems]] unfolding all_in_room_def .
qed (simp add: all_in_room_def)

lemma all_in_room_simps [simp]:
  "w_rooms (all_in_room us w) = w_rooms w" "w_userList (all_in_room us w) = w_userList w"
  "w_roomList (all_in_room us w) = w_roomList w" "w_next (all_in_room us w) = w_next w"
  "w_cfg (all_in_room us w) = w_cfg w" "w_udpRunning (all_in_room us w) = w_udpRunning w"
  by (induction us arbitrary: w) (simp_all add: all_in_room_def)

lemma all_in_room_put_room: "all_in_room us (put_room p r w) = put_room p r (all_in_room us w)"
proof (induction us arbitrary: w)
  case (Cons u us)
  have "set_user f u (put_room p r w) = put_room p r (set_user f u w)" for f
    by (simp add: set_user_def put_room_def)
  then show ?case using Cons.IH by (simp add: all_in_room_def)
qed (simp add: all_in_room_def)

lemma all_in_room_users:
  "w_users (all_in_room us w) p =
    (if p \<in> set us then map_option (\<lambda>u. u\<lparr>u_userStatus := InRoom\<rparr>) (w_users w p) else w_users w p)"
proof (induction us arbitrary: w)
  case (Cons u us)
  have "all_in_room (u # us) w = all_in_room us (set_user (\<lambda>u. u\<lparr>u_userStatus := InRoom\<rparr>) u w)"
    by (simp add: all_in_room_def)
  then show ?case using Cons.IH [of "set_user (\<lambda>u. u\<lparr>u_userStatus := InRoom\<rparr>) u w"]
    by (cases "p = u"; cases "w_users w p") simp_all
qed (simp add: all_in_room_def)

lemma all_in_room_inv:
  assumes "lobby_inv w" and "\<forall>p \<in> set us. \<exists>u. w_users w p = Some u \<and> in_room u"
    and "\<forall>q r gm. w_rooms w q = Some r \<longrightarrow> r_gameMatch r = Some gm \<longrightarrow> set us \<inter> gmu_user ` set (gm_gameMatchUsers gm) = {}"
  shows "lobby_inv (all_in_room us w)"
  using assms
proof (induction us arbitrary: w)
  case (Cons p us)
  let ?w = "set_user (\<lambda>u. u\<lparr>u_userStatus := InRoom\<rparr>) p w"
  obtain u where u: "w_users w p = Some u" "in_room u" using Cons.prems(2) by auto
  have "lobby_inv ?w"
    using u Cons.prems(3) by (intro set_user_inv [OF Cons.prems(1) u(1)]) auto
  then have "lobby_inv (all_in_room us ?w)"
    using Cons.prems by (intro Cons.IH) auto
  then show ?case by (simp add: all_in_room_def)
qed (simp add: all_in_room_def)

lemma end_match_inv:
  assumes inv: "lobby_inv w" and r: "w_rooms w room = Some r" and gm: "r_gameMatch r = Some gm"
  shows "lobby_inv (end_match room r gm w)"
proof -
  let ?r = "(set_state RoomState_Waiting r)\<lparr>r_gameMatch := None\<rparr>"
  let ?w = "put_room room ?r w"
  let ?us = "map gmu_user (gm_gameMatchUsers gm)"
  have inv1: "lobby_inv ?w" using inv_host [OF inv r] by (intro put_room_inv [OF inv r]) simp_all
  have sub: "set ?us \<subseteq> set (r_roomUsers r)" using match_ok_SomeD [OF inv_match_ok [OF inv r] gm] by simp
  have "set ?us \<inter> gmu_user ` set (gm_gameMatchUsers g) = {}"
    if q: "w_rooms ?w q = Some s" "r_gameMatch s = Some g" for q s g
  proof -
    have "q \<noteq> room" using q by auto
    then have s: "w_rooms w q = Some s" using q(1) by simp
    then have "gmu_user ` set (gm_gameMatchUsers g) \<subseteq> set (r_roomUsers s)"
      using match_ok_SomeD [OF inv_match_ok [OF inv s] q(2)] by simp
    moreover have "set (r_roomUsers r) \<inter> set (r_roomUsers s) = {}"
      using inv_one_room [OF inv r _ s] \<open>q \<noteq> room\<close> by blast
    ultimately show ?thesis using sub by blast
  qed
  moreover have "\<exists>u. w_users ?w p = Some u \<and> in_room u" if "p \<in> set ?us" for p
    using inv_members [OF inv r, of p] sub that by auto
  ultimately show ?thesis unfolding end_match_def by (intro all_in_room_inv [OF inv1]) blast+
qed

lemma end_game_users_step:
  assumes "users_at w us"
  shows "wp (foldM end_game_user us w) (\<lambda>w'. core w' = core (all_in_room us w))"
  using assms
proof (induction us arbitrary: w)
  case (Cons u us)
  let ?w = "set_user (\<lambda>u. u\<lparr>u_userStatus := InRoom\<rparr>) u w"
  obtain x where x: "w_users w u = Some x" using Cons.prems by (auto simp: users_at_def)
  define w1 where "w1 = SendPacket_Room_GameResult (u_connection x) (sendPacket_Host_HostEndSession (u_connection x) ?w)"
  have c1: "core w1 = core ?w" by (simp add: w1_def)
  have "end_game_user u w = Some w1"
    using x by (simp add: end_game_user_def SetUserStatus_eq conn_of_def w1_def)
  moreover have "wp (foldM end_game_user us w1) (\<lambda>w'. core w' = core (all_in_room us w1))"
    using Cons.prems by (intro Cons.IH) (auto simp: users_at_def core_eqD(1) [OF c1])
  moreover have "core (all_in_room us w1) = core (all_in_room (u # us) w)"
    using core_all_in_room [OF c1] by (simp add: all_in_room_def)
  ultimately show ?case by simp
qed (simp add: all_in_room_def)

lemma EndGame_ends:
  fixes w :: "'e world"
  assumes inv: "lobby_inv w" and k: "\<And>k. with_match in_game user w k = k room r gm"
    and r: "w_rooms w room = Some r" and gm: "r_gameMatch r = Some gm"
  shows "wp (parsePacket_Host_EndGame user packet w) (\<lambda>w'. core w' = core (end_match room r gm w))"
proof -
  let ?us = "map gmu_user (gm_gameMatchUsers gm)"
  note con = match_users_connected [OF inv_match_ok [OF inv r] gm inv_connected [OF inv r]]
  have cm: "connected_match_users w (gm_gameMatchUsers gm) = Some (gm_gameMatchUsers gm)"
    by (rule connected_match_users_all [OF inv_null(1) [OF inv] con])
  obtain w1 where w1: "foldM end_game_user ?us w = Some w1" and c1: "core w1 = core (all_in_room ?us w)"
    using end_game_users_step [OF connected_users_at [OF con]] by (auto simp: wp_iff)
  have none: "w_users w1 p = None \<longleftrightarrow> w_users w p = None" for p
    by (simp add: core_eqD(1) [OF c1] all_in_room_users)
  have lists: "w_rooms w1 = w_rooms w" "w_roomList w1 = w_roomList w" "w_userList w1 = w_userList w"
    using c1 by (simp_all add: core_def)
  have "live w1" using inv_live [OF inv] unfolding live_def room_live_def none lists .
  moreover have "room_live w1 r" using inv_room_live [OF inv r] unfolding room_live_def none .
  moreover have "connected w1 (r_roomUsers r)"
    using inv_connected [OF inv r] by (auto simp: connected_def core_eqD(1) [OF c1] all_in_room_users)
  ultimately have "wp (parsePacket_Host_EndGame user packet w)
      (\<lambda>w'. core w' = core (put_room room ((set_state RoomState_Waiting r)\<lparr>r_gameMatch := None\<rparr>) w1))"
    using match_closed [of w1 room r] r cm w1
    by (simp add: parsePacket_Host_EndGame_def k lists)
  moreover have "core (put_room room y w1) = core (put_room room y (all_in_room ?us w))" for y
    by (rule core_put_room [OF c1])
  ultimately show ?thesis unfolding end_match_def all_in_room_put_room by simp
qed

lemma EndGame_step:
  fixes w :: "'e world"
  assumes inv: "lobby_inv w" and x: "w_users w user = Some x"
  shows "wp (parsePacket_Host_EndGame user packet w) (\<lambda>w'. core w' = core w \<or>
    (\<exists>room r gm. w_rooms w room = Some r \<and> r_gameMatch r = Some gm \<and> r_roomHostUser r = user \<and>
      core w' = core (end_match room r gm w)))"
proof (rule with_match_cases [OF inv x, of in_game])
  assume "\<And>k. with_match in_game user w k = Some w"
  then show ?thesis by (simp add: parsePacket_Host_EndGame_def)
next
  fix room r gm assume "\<And>k. with_match in_game user w k = k room r gm"
    and r: "w_rooms w room = Some r" "r_gameMatch r = Some gm" "r_roomHostUser r = user"
  then have "wp (parsePacket_Host_EndGame user packet w) (\<lambda>w'. core w' = core (end_match room r gm w))"
    by (intro EndGame_ends [OF inv])
  then show ?thesis by (rule wp_mono) (use r in blast)
qed simp

section \<open>Host packets keep the invariant\<close>

text \<open>
  \<open>RejoinFail\<close> writes the last character of the text of the ids: the handler trusts the
  host that there is one.
\<close>

definition host_packet_ok :: "packet \<Rightarrow> bool" where
  "host_packet_ok packet \<longleftrightarrow>
     (let (t, packet) = ReadUInt8 packet in t = 6 \<longrightarrow> fst (ReadUInt8 packet) \<noteq> 0)"

lemma host_handlers_inv:
  fixes w :: "'e world"
  assumes inv: "lobby_inv w" and x: "w_users w user = Some x"
  shows "wp (parsePacket_Host_ServerIsActivated user w) (steady w)"
    and "wp (parsePacket_Host_SaveData user packet w) (steady w)"
    and "wp (parsePacket_Host_SendUserStatus user packet w) (steady w)"
    and "wp (parsePacket_Host_SelectTeam user packet w) (steady w)"
    and "wp (parsePacket_Host_EndGame user packet w) (steady w)"
proof -
  have same: "steady w w'" if "core w' = core v" "lobby_inv v" "roster v = roster w" for w' v :: "'e world"
    using that core_lobby_inv [OF that(1)] by (simp add: steady_def core_def roster_def)
  have put: "steady w (put_room room r w)" if "lobby_inv (put_room room r w)" for room r
    using that by (simp add: steady_def roster_kept)
  have cfg: "roster (enter_game t q r gm w) = roster w" "roster (end_match q r gm w) = roster w" for t q r gm
    by (simp_all add: enter_game_def end_match_def roster_def)
  show "wp (parsePacket_Host_ServerIsActivated user w) (steady w)"
    using ServerIsActivated_step [OF inv x] same [OF _ inv refl] same [OF _ activated_room_inv [OF inv] roster_kept(3)]
    by (elim wp_mono) blast
  show "wp (parsePacket_Host_SaveData user packet w) (steady w)"
  proof (rule wp_mono [OF SaveData_step [OF inv x, of packet]], elim disjE exE conjE)
    fix w' room r gm sd assume "w_rooms w room = Some r" "r_gameMatch r = Some gm"
      and w': "w' = put_room room (r\<lparr>r_gameMatch := Some (gm\<lparr>gm_saveData := sd\<rparr>)\<rparr>) w"
    then show "steady w w'" unfolding w' by (intro put match_inv [OF inv]) simp_all
  qed (simp add: steady_def inv)
  show "wp (parsePacket_Host_SendUserStatus user packet w) (steady w)"
    using SendUserStatus_step [OF inv x, of packet] same [OF _ inv refl] same [OF _ enter_game_inv [OF inv] cfg(1)]
    by (elim wp_mono) blast
  show "wp (parsePacket_Host_SelectTeam user packet w) (steady w)"
  proof (rule wp_mono [OF SelectTeam_step [OF inv x, of packet]], elim disjE exE conjE)
    fix w' room r gm target team assume "w_rooms w room = Some r" "r_gameMatch r = Some gm"
      and w': "w' = put_room room (r\<lparr>r_gameMatch := Some (gm\<lparr>gm_gameMatchUsers :=
        update_first (\<lambda>g. gmu_user g = target) (\<lambda>g. g\<lparr>gmu_team := team\<rparr>) (gm_gameMatchUsers gm)\<rparr>)\<rparr>) w"
    then show "steady w w'" unfolding w' by (intro put match_inv [OF inv]) (simp_all add: map_update_first)
  qed (simp add: steady_def inv)
  show "wp (parsePacket_Host_EndGame user packet w) (steady w)"
    using EndGame_step [OF inv x, of packet] same [OF _ inv refl] same [OF _ end_match_inv [OF inv] cfg(2)]
    by (elim wp_mono) blast
qed

lemma ParsePacket_Host_inv:
  fixes w :: "'e world"
  assumes inv: "lobby_inv w" and ok: "host_packet_ok packet"
  shows "wp (ParsePacket_Host packet w) (steady w)"
proof (cases "p_connection packet = 0")
  case True
  then show ?thesis using inv by (simp add: ParsePacket_Host_def steady_def)
next
  case False
  show ?thesis
  proof (rule users_by_connection.lookup_cases [OF inv_allocated(2) [OF inv], of "p_connection packet"])
    assume "GetUserByConnection (p_connection packet) w = Some 0"
    then show ?thesis using inv False by (simp add: ParsePacket_Host_def IsUserLoggedIn_def steady_def)
  next
    fix user x assume u: "GetUserByConnection (p_connection packet) w = Some user" "w_users w user = Some x" "user \<noteq> 0"
    obtain t p where t: "ReadUInt8 packet = (t, p)" by (rule prod.exhaust)
    note h = host_handlers_inv [OF inv u(2)] and reports = reports_step [OF inv u(2)]
    have "parsePacket_Host_RejoinFail user p w = Some w" if "t = 6"
      using ok that t by (intro RejoinFail_step [OF inv u(2)]) (simp add: host_packet_ok_def)
    then show ?thesis
      using u t h inv False reports by (simp add: ParsePacket_Host_def IsUserLoggedIn_def) (simp add: steady_def)
  qed
qed

end
