(* ===== verification/LoginSafety.thy ===== *)
theory LoginSafety
  imports Schema HostSafety
begin

text \<open>
  The handlers of \<open>LoginPackets\<close> are defined (never meet undefined behaviour) in every world
  that satisfies \<open>server_inv\<close>, and keep it: the admission of a user, the packets after a login,
  transfers, character creation.
\<close>

section \<open>The invariant of a running server\<close>

definition server_inv :: "'e world \<Rightarrow> bool" where
  "server_inv w \<longleftrightarrow> lobby_inv w \<and> counted w"

definition keeps :: "'e world \<Rightarrow> 'e world \<Rightarrow> bool" where
  "keeps w w' \<longleftrightarrow> server_inv w' \<and> shape (w_cfg w') = shape (w_cfg w)"

definition served :: "'e env \<Rightarrow> ServerConfig \<Rightarrow> bool" where
  "served E cfg \<longleftrightarrow> schema_ok E \<and> rooms_table_ok E cfg \<and> menus_ok cfg"

lemma served_shape: "shape cfg' = shape cfg \<Longrightarrow> served E cfg' = served E cfg"
  using shape_channel_at [of cfg' cfg] by (simp add: served_def rooms_table_ok_def menus_ok_def shape_def)

lemma served_characters: "served E cfg \<Longrightarrow> characters_ok E"
  by (simp add: served_def schema_ok_def)

lemma server_invD: "server_inv w \<Longrightarrow> lobby_inv w" "server_inv w \<Longrightarrow> counted w"
  by (simp_all add: server_inv_def)

lemma counted_channel_ok: "counted w \<Longrightarrow> channel_ok w"
  by (auto simp: counted_def channel_ok_def)

lemma keeps_refl: "server_inv w \<Longrightarrow> keeps w w"
  by (simp add: keeps_def)

lemma keeps_trans: "keeps w1 w2 \<Longrightarrow> keeps w w1 \<Longrightarrow> keeps w w2"
  by (simp add: keeps_def)

lemma keeps_core: "server_inv w \<Longrightarrow> core w' = core w \<Longrightarrow> keeps w w'"
  using core_lobby_inv [of w' w] core_counted [of w' w] core_shape [of w' w]
  by (simp add: keeps_def server_inv_def)

lemma keeps_quiet: "server_inv w \<Longrightarrow> quiet w m \<Longrightarrow> wp m (keeps w)"
  unfolding quiet_def by (erule wp_mono) (rule keeps_core)

lemma keeps_steady: "server_inv w \<Longrightarrow> steady w w' \<Longrightarrow> keeps w w'"
  by (simp add: keeps_def server_inv_def steady_def roster_def counted_def)

lemma keeps_recounted: "lobby_inv w' \<Longrightarrow> recounted w w' \<Longrightarrow> keeps w w'"
  by (simp add: keeps_def server_inv_def recounted_def)

text \<open>A user outside the rooms changes its status to another one outside the rooms.\<close>

lemma outside_status_inv:
  assumes inv: "lobby_inv w" and x: "w_users w user = Some x" and out: "\<not> in_room x" and s: "s \<notin> {InRoom, InGame}"
  shows "lobby_inv (set_user (\<lambda>u. u\<lparr>u_userStatus := s\<rparr>) user w)"
proof (rule set_user_inv [OF inv x])
  fix room r gm assume r: "w_rooms w room = Some r" "r_gameMatch r = Some gm" "user \<in> gmu_user ` set (gm_gameMatchUsers gm)"
  then have "user \<in> set (r_roomUsers r)" using match_ok_SomeD [OF inv_match_ok [OF inv r(1)] r(2)] by auto
  then show "u_userStatus (x\<lparr>u_userStatus := s\<rparr>) = InGame"
    using outside_rooms [OF inv x inv_outside [OF inv x out] r(1)] by simp
qed (use out s in auto)

lemma keeps_status:
  assumes "server_inv w" "w_users w user = Some x" "\<not> in_room x" "s \<notin> {InRoom, InGame}"
  shows "keeps w (set_user (\<lambda>u. u\<lparr>u_userStatus := s\<rparr>) user w)"
  using outside_status_inv [of w user x s] assms
  by (simp add: keeps_def server_inv_def counted_def)

section \<open>Prologues and reads\<close>

lemma core_more_sends [simp]:
  "core (sendPacket_Version c w) = core w"
  "core (SendPacket_Character c w) = core w"
  "core (sendPacket_Transfer c ip port tok w) = core w"
  by (simp_all add: sendPacket_Version_def SendPacket_Character_def sendPacket_Transfer_def)

text \<open>
  \<open>GetUserByConnection\<close> under the invariant: no user, or a live one of that connection.
\<close>

lemma by_connection_cases:
  assumes "lobby_inv w"
  obtains "GetUserByConnection c w = Some 0" "IsUserLoggedIn 0 w = Some False"
  | user x where "GetUserByConnection c w = Some user" "w_users w user = Some x" "u_connection x = c"
      "user \<noteq> 0" "IsUserLoggedIn user w = Some (u_userStatus x \<noteq> InLogin)"
proof (rule users_by_connection.lookup_cases [OF inv_allocated(2) [OF assms], of c])
  assume "GetUserByConnection c w = Some 0"
  then show ?thesis using that(1) by (simp add: IsUserLoggedIn_def)
next
  fix user x assume "GetUserByConnection c w = Some user" "w_users w user = Some x" "u_connection x = c" "user \<noteq> 0"
  then show ?thesis using that(2) by (simp add: IsUserLoggedIn_def)
qed

lemma with_user_keeps:
  assumes inv: "server_inv w"
    and "\<And>user x. w_users w user = Some x \<Longrightarrow> u_connection x = p_connection packet \<Longrightarrow>
      u_userStatus x \<noteq> InLogin \<Longrightarrow> user \<noteq> 0 \<Longrightarrow> wp (f user) (keeps w)"
  shows "wp (with_user packet w f) (keeps w)"
proof (rule by_connection_cases [OF server_invD(1) [OF inv], of "p_connection packet"])
  assume "GetUserByConnection (p_connection packet) w = Some 0" "IsUserLoggedIn 0 w = Some False"
  then show ?thesis using keeps_refl [OF inv] by (simp add: with_user_def)
next
  fix user x assume u: "GetUserByConnection (p_connection packet) w = Some user" "w_users w user = Some x"
    "u_connection x = p_connection packet" "user \<noteq> 0" "IsUserLoggedIn user w = Some (u_userStatus x \<noteq> InLogin)"
  then show ?thesis using keeps_refl [OF inv] assms(2) [OF u(2,3) _ u(4)] by (simp add: with_user_def)
qed

lemma character_info_some:
  "character_info 0 \<noteq> None" "character_info USERCHARACTER_FLAG_LEVEL \<noteq> None"
  "character_info USERCHARACTER_FLAG_NICKNAME \<noteq> None"
  by (simp_all add: character_info_def set_last_def send_if_def has_def USERCHARACTER_FLAG_LEVEL_def
      USERCHARACTER_FLAG_NICKNAME_def)

lemma read_character:
  assumes "characters_ok E" and "character_info flag \<noteq> None" and "w_users w u = Some x"
  obtains uc result w' where "user_character E u flag w = Some ((uc, result), w')" and "core w' = core w"
proof -
  obtain res e' where "GetUserCharacter E (u_userID x) flag (w_ext w) = Some (res, e')"
    using GetUserCharacter_total [OF assms(1,2)] by blast
  with assms(3) that show ?thesis by (cases res) (simp add: user_character_def)
qed

section \<open>After a login\<close>

lemma core_upd_conns [simp]: "core (w\<lparr>w_conns := cs\<rparr>) = core w"
  by (simp add: core_def)

lemma core_offer_cipher [simp]: "core (offer_cipher setup cipher_of t E m c w) = core w"
  by (simp add: offer_cipher_def Let_def core_def split: prod.split)
     (simp add: SendPacket_Crypt_def send_def upd_conn_def)

lemma quiet_send_login_data:
  assumes "schema_ok E" shows "quiet w (send_login_data E c userID w)"
proof -
  obtain r1 e1 where 1: "GetUserConfig E userID (w_ext (SendPacket_ServerList c (cfg_serverList (w_cfg w)) w)) = Some (r1, e1)"
    using GetUserConfig_total [OF assms] by blast
  have 2: "\<exists>res e'. GetUserQuickStart E userID e = Some (res, e')" for e
    using GetUserQuickStart_total [OF assms] by blast
  have 3: "\<exists>res e'. GetUserBuyMenus E userID e = Some (res, e')" for e
    using GetUserBuyMenus_total [OF assms] by blast
  have 4: "\<exists>res e'. GetUserBookMarks E userID e = Some (res, e')" for e
    using GetUserBookMarks_total [OF assms] by blast
  have q: "quiet w (do { (q, e) \<leftarrow> GetUserQuickStart E userID (w_ext w');
     let w = SendPacket_Option_UserQuickStart c q (w'\<lparr>w_ext := e\<rparr>);
     (userBuyMenus, e) \<leftarrow> GetUserBuyMenus E userID (w_ext w);
     let w = w\<lparr>w_ext := e\<rparr>;
     let w = (if userBuyMenus \<noteq> [] then SendPacket_Favorite_UserBuyMenu c userBuyMenus w else w);
     (userBookMarks, e) \<leftarrow> GetUserBookMarks E userID (w_ext w);
     let w = w\<lparr>w_ext := e\<rparr>;
     Some (if userBookMarks \<noteq> [] then SendPacket_Favorite_UserBookMark c userBookMarks w else w) })"
    if "core w' = core w" for w'
  proof -
    obtain q e2 where q: "GetUserQuickStart E userID (w_ext w') = Some (q, e2)" using 2 by blast
    let ?w = "SendPacket_Option_UserQuickStart c q (w'\<lparr>w_ext := e2\<rparr>)"
    obtain ms e3 where m: "GetUserBuyMenus E userID (w_ext ?w) = Some (ms, e3)" using 3 by blast
    let ?v = "if ms \<noteq> [] then SendPacket_Favorite_UserBuyMenu c ms (?w\<lparr>w_ext := e3\<rparr>) else ?w\<lparr>w_ext := e3\<rparr>"
    obtain bs e4 where b: "GetUserBookMarks E userID (w_ext ?v) = Some (bs, e4)" using 4 by blast
    show ?thesis unfolding q m b Let_def Option.bind.bind_lunit prod.case using that m b by (simp add: Let_def)
  qed
  show ?thesis
    unfolding send_login_data_def Let_def [of "SendPacket_ServerList c (cfg_serverList (w_cfg w)) w"] 1
      Option.bind.bind_lunit prod.case
    by (subst Let_def, subst Let_def, rule q) simp
qed

text \<open>What follows the change of status into the lobby, in \<open>SendLoginPackets\<close> and in a transfer.\<close>

lemma quiet_lobby_view:
  fixes w :: "'e world"
  assumes "characters_ok E" and "live w" and "w_users w user \<noteq> None"
  shows "quiet w (do { w \<leftarrow> SendAddUserPacketToAll E user w; w \<leftarrow> SendFullUserListPacket E c w;
     SendFullRoomListPacket c w })"
proof (rule quiet_bind [OF quiet_SendAddUserPacketToAll [OF assms]])
  fix w1 :: "'e world" assume "core w1 = core w"
  then have l1: "live w1" using assms(2) core_live [of w1 w] by simp
  show "quiet w1 (Option.bind (SendFullUserListPacket E c w1) (SendFullRoomListPacket c))"
  proof (rule quiet_bind [OF quiet_SendFullUserListPacket [OF assms(1) l1]])
    fix w2 :: "'e world" assume "core w2 = core w1"
    then show "quiet w2 (SendFullRoomListPacket c w2)"
      using l1 core_live [of w2 w1] by (intro quiet_SendFullRoomListPacket) simp
  qed
qed

lemma quiet_UserStart: "w_users w u \<noteq> None \<Longrightarrow> quiet w (SendPacket_UserStart (u, uc) w)"
  by (auto simp: SendPacket_UserStart_def)

lemma quiet_UpdateInfo: "w_users w u \<noteq> None \<Longrightarrow> quiet w (SendPacket_UpdateInfo (u, uc) w)"
  by (auto simp: SendPacket_UpdateInfo_def)

definition login_status :: "int \<Rightarrow> UserStatus" where
  "login_status reply = (if reply \<noteq> NoReply then InServerList else InLobby)"

lemma set_user_status_view:
  assumes "lobby_inv w" and "w_users w user = Some x" and "\<not> in_room x"
  shows "live (set_user (\<lambda>u. u\<lparr>u_userStatus := login_status reply\<rparr>) user w)"
  by (rule inv_live [OF outside_status_inv [OF assms]]) (simp add: login_status_def)

text \<open>What the packets after a login change: nothing, or the status of the user.\<close>

lemma SendLoginPackets_effect:
  fixes w :: "'e world"
  assumes E: "schema_ok E" and inv: "server_inv w" and x: "w_users w user = Some x" and out: "\<not> in_room x"
  shows "wp (SendLoginPackets E user reply w) (\<lambda>w'. core w' = core w \<or>
    core w' = core (set_user (\<lambda>u. u\<lparr>u_userStatus := login_status reply\<rparr>) user w))"
proof -
  note lob = server_invD(1) [OF inv] and ch = schema_characters [OF E]
  have nz: "user \<noteq> 0" "u_connection x \<noteq> 0" using inv_null_ptr(1) [OF lob x] inv_conn [OF lob x] by auto
  let ?c = "u_connection x"
  obtain uc result w1 where 1: "user_character E user USERCHARACTER_FLAG_ALL w = Some ((uc, result), w1)"
    and c1: "core w1 = core w" using user_character_total [OF ch] x by blast
  have x1: "w_users w1 user = Some x" using x by (simp add: core_eqD(1) [OF c1])
  show ?thesis
  proof (cases "result \<le> 0")
    case True
    have "w_users (SendPacket_Reply ?c SysError [] w1) user = Some x"
      using x1 core_eqD(1) [OF core_plain_sends(1)] by metis
    then have "core (the (DisconnectUser user (SendPacket_Reply ?c SysError [] w1))) = core w
        \<and> DisconnectUser user (SendPacket_Reply ?c SysError [] w1) \<noteq> None"
      using c1 by (simp add: DisconnectUser_def conn_of_def)
    then show ?thesis
      using 1 True nz x by (auto simp: SendLoginPackets_def)
  next
    case False
    define w2 where "w2 = (let w = offer_cipher SetupEncryptCipher c_encryptCipher CipherType_Encrypt E
                    (cfg_encryptCipherMethod (w_cfg w1)) ?c w1;
                  w = offer_cipher SetupDecryptCipher c_decryptCipher CipherType_Decrypt E
                    (cfg_decryptCipherMethod (w_cfg w)) ?c w
        in if reply \<noteq> NoReply then SendPacket_Reply ?c reply [] w else w)"
    have c2: "core w2 = core w" by (simp add: w2_def Let_def c1)
    have x2: "w_users w2 user = Some x" using x by (simp add: core_eqD(1) [OF c2])
    obtain w3 where 3: "SendPacket_UserStart (user, uc) w2 = Some w3" and c3: "core w3 = core w2"
      using quiet_UserStart [of w2 user uc] x2 by (auto elim: quietE)
    have x3: "w_users w3 user = Some x" using x2 by (simp add: core_eqD(1) [OF c3])
    obtain w4 where 4: "SendPacket_UpdateInfo (user, uc) w3 = Some w4" and c4: "core w4 = core w3"
      using quiet_UpdateInfo [of w3 user uc] x3 by (auto elim: quietE)
    obtain items e5 where 5: "GetUserInventory E (u_userID x) (w_ext w4) = Some (items, e5)"
      using GetUserInventory_total [OF E] by blast
    define w5 where "w5 = SendPacket_ClientCheck ?c
      (if items \<noteq> [] then SendPacket_Inventory ?c items (w4\<lparr>w_ext := e5\<rparr>) else w4\<lparr>w_ext := e5\<rparr>)"
    have c5: "core w5 = core w" by (simp add: w5_def c4 c3 c2)
    have x5: "w_users w5 user = Some x" using x by (simp add: core_eqD(1) [OF c5])
    have lob5: "lobby_inv w5" using lob by (simp add: core_lobby_inv [OF c5])
    let ?w = "set_user (\<lambda>u. u\<lparr>u_userStatus := login_status reply\<rparr>) user w5"
    have st: "SetUserStatus (login_status reply) user w5 = Some ?w"
      using x5 by (simp add: SetUserStatus_eq)
    have rest: "quiet ?w (if reply \<noteq> NoReply then send_login_data E ?c (u_userID x) ?w else do {
        w \<leftarrow> SendAddUserPacketToAll E user ?w; w \<leftarrow> SendFullUserListPacket E ?c w; SendFullRoomListPacket ?c w })"
      using quiet_send_login_data [OF E] quiet_lobby_view [OF ch set_user_status_view [OF lob5 x5 out, of reply], of user ?c] x5
      by (cases "reply = NoReply") simp_all
    have "SendLoginPackets E user reply w = (if reply \<noteq> NoReply then send_login_data E ?c (u_userID x) ?w else do {
        w \<leftarrow> SendAddUserPacketToAll E user ?w; w \<leftarrow> SendFullUserListPacket E ?c w; SendFullRoomListPacket ?c w })"
      using x nz 1 False 3 [unfolded w2_def] 4 5 st [unfolded w5_def] unfolding w5_def
      by (cases "reply = NoReply") (simp_all add: SendLoginPackets_def login_status_def Let_def)
    then show ?thesis
      using rest core_set_user [OF c5] unfolding quiet_def by (auto elim!: wp_mono)
  qed
qed

lemma SendLoginPackets_step:
  assumes "schema_ok E" and inv: "server_inv w" and x: "w_users w user = Some x" and out: "\<not> in_room x"
  shows "wp (SendLoginPackets E user reply w) (keeps w)"
proof (rule wp_mono [OF SendLoginPackets_effect [OF assms]], elim disjE)
  let ?w = "set_user (\<lambda>u. u\<lparr>u_userStatus := login_status reply\<rparr>) user w"
  have k: "keeps w ?w" by (rule keeps_status [OF inv x out]) (simp add: login_status_def)
  show "keeps w w'" if "core w' = core ?w" for w'
    using k that by (intro keeps_trans [OF keeps_core [OF _ that] k]) (simp add: keeps_def)
qed (rule keeps_core [OF inv])

section \<open>Admission\<close>

lemma admit_alloc:
  "lobby (snd (alloc_user c i name w)\<lparr>w_userList := w_userList w @ [w_next w], w_ext := e\<rparr>) =
    lobby (admit_user (new_user c i name) w)"
  by (simp add: alloc_user_def lobby_def admit_user_def)

lemma free_alloc:
  assumes "w_users w (w_next w) = None" and "core w' = core (snd (alloc_user c i name w))"
  shows "\<exists>w''. free_user (w_next w) w' = Some w'' \<and> core w'' = core (skip_address w)"
  using assms by (auto simp: free_user_def alloc_user_def skip_address_def core_def fun_upd_idem)

lemma recounted_cfg: "w_cfg v = w_cfg w \<Longrightarrow> recounted v w' \<Longrightarrow> recounted w w'"
  by (simp add: recounted_def)

text \<open>
  Of a new object, either nothing is left but its address, or it is a user of the list and the
  player count is right.
\<close>

lemma admit_new_user_wp:
  fixes w :: "'e world"
  assumes E: "schema_ok E" and inv: "server_inv w"
    and refused: "\<And>w'. core w' = core (skip_address w) \<Longrightarrow> Q w'"
    and admitted: "\<And>w'. lobby w' = lobby (admit_user (new_user c i name) w) \<Longrightarrow> recounted w w' \<Longrightarrow>
      length (w_userList w) < unat (cfg_maxPlayers (w_cfg w)) \<Longrightarrow> wp (f (w_next w) w') Q"
  shows "wp (admit_new_user E c (w_next w) f (snd (alloc_user c i name w))) Q"
proof -
  let ?v = "snd (alloc_user c i name w)"
  have lob: "lobby_inv w" using inv by (simp add: server_inv_def)
  have fresh: "w_users w (w_next w) = None" and nz: "w_next w \<noteq> 0"
    using inv_next_fresh [OF lob] lobby_invD(1) [OF lob] by (auto simp: lists_ok_def)
  have v: "w_users ?v (w_next w) = Some (new_user c i name)" "w_userList ?v = w_userList w" "w_cfg ?v = w_cfg w"
    by (simp_all add: alloc_user_def)
  have refuse: "wp (free_user (w_next w) w') Q" if "core w' = core ?v" for w'
    using free_alloc [OF fresh that] refused by (auto simp: wp_iff)
  show ?thesis
  proof (cases "length (w_userList w) \<ge> unat (cfg_maxPlayers (w_cfg w))")
    case True
    then have "AddUser E (w_next w) ?v = Some (EXCEED_MAX_CONNECTION, ?v)"
      using nz v by (simp add: AddUser_def)
    then show ?thesis
      using refuse [of "SendPacket_Reply c EXCEED_MAX_CONNECTION [] ?v"]
      by (simp add: admit_new_user_def EXCEED_MAX_CONNECTION_def)
  next
    case False
    obtain res e1 where 1: "AddUserSession E (w_cfg w) i (w_ext ?v) = Some (res, e1)" and res: "res \<in> {-1, 0, 1}"
      using AddUserSession_total [OF E] by blast
    show ?thesis
    proof (cases "res = 1")
      case True
      let ?u = "?v\<lparr>w_userList := w_userList w @ [w_next w], w_ext := RemoveUserTransfer E i e1\<rparr>"
      have ok: "channel_ok ?u" using counted_channel_ok [OF server_invD(2) [OF inv]] v(3) by (simp add: channel_ok_def)
      obtain w' where w': "UpdateChannelNumPlayers ?u = Some w'" "lobby w' = lobby ?u" "recounted ?u w'"
        using UpdateChannelNumPlayers_step [OF ok] by (auto simp: wp_iff)
      have "AddUser E (w_next w) ?v = Some (1, w')"
        using False nz v 1 True w'(1) by (simp add: AddUser_def new_user_def Let_def)
      moreover have "recounted w w'" by (rule recounted_cfg [OF _ w'(3)]) (simp add: v)
      moreover have "lobby w' = lobby (admit_user (new_user c i name) w)"
        using w'(2) by (simp only: admit_alloc)
      ultimately show ?thesis using admitted False by (simp add: admit_new_user_def EXCEED_MAX_CONNECTION_def)
    next
      case neg: False
      have core: "core (?v\<lparr>w_ext := e1\<rparr>) = core ?v" by simp
      have "AddUser E (w_next w) ?v = Some (res, ?v\<lparr>w_ext := e1\<rparr>)"
        using False nz v 1 res neg by (auto simp: AddUser_def new_user_def Let_def)
      then show ?thesis
        using res neg refuse [of "SendPacket_Reply c SysError [] (?v\<lparr>w_ext := e1\<rparr>)"]
          refuse [of "SendPacket_Reply c Playing [] (?v\<lparr>w_ext := e1\<rparr>)"]
        by (auto simp: admit_new_user_def)
    qed
  qed
qed

text \<open>The world after an admission: the new user is in the list, in no room, not logged in.\<close>

lemma admitted_inv:
  assumes inv: "server_inv w" and c: "c \<noteq> 0" and l: "lobby w' = lobby (admit_user (new_user c i name) w)"
    and r: "recounted w w'"
  shows "keeps w w'" and "w_users w' (w_next w) = Some (new_user c i name)" and "\<not> in_room (new_user c i name)"
    and "w_userList w' = w_userList w @ [w_next w]"
proof -
  have "lobby_inv (admit_user (new_user c i name) w)"
    using server_invD(1) [OF inv] c by (intro admit_user_inv) (simp_all add: new_user_def)
  then have "lobby_inv w'" using lobby_lobby_inv [OF l] by simp
  then show "keeps w w'" using r by (rule keeps_recounted)
  show "w_users w' (w_next w) = Some (new_user c i name)" "w_userList w' = w_userList w @ [w_next w]"
    using l by (simp_all add: lobby_def admit_user_def)
qed (simp add: new_user_def)

lemma keeps_skip: "server_inv w \<Longrightarrow> core w' = core (skip_address w) \<Longrightarrow> keeps w w'"
  using keeps_core [of "skip_address w" w'] skip_address_inv [of w]
  by (simp add: keeps_def server_inv_def counted_def skip_address_def)

lemma server_inv_ext [simp]: "server_inv (w\<lparr>w_ext := e\<rparr>) = server_inv w"
  using keeps_core [of w "w\<lparr>w_ext := e\<rparr>"] keeps_core [of "w\<lparr>w_ext := e\<rparr>" w] by (auto simp: keeps_def)

lemma keeps_ext: "keeps (w\<lparr>w_ext := e\<rparr>) = keeps w"
  by (rule ext) (simp add: keeps_def)

section \<open>The handlers\<close>

lemma unless_logged_in_keeps:
  assumes "server_inv w" and "wp m (keeps w)"
  shows "wp (unless_logged_in c w m) (keeps w)"
  by (rule by_connection_cases [OF server_invD(1) [OF assms(1)], of c])
     (use assms(2) keeps_refl [OF assms(1)] in \<open>simp_all add: unless_logged_in_def\<close>)

lemma ParsePacket_Version_inv:
  assumes "server_inv w" shows "wp (ParsePacket_Version E packet w) (keeps w)"
  using keeps_core [OF assms] keeps_refl [OF assms]
  by (auto simp: ParsePacket_Version_def Let_def split: prod.split intro!: unless_logged_in_keeps [OF assms])

lemma login_or_create_inv:
  fixes w :: "'e world"
  assumes E: "schema_ok E" and inv: "server_inv w" and x: "w_users w user = Some x" and out: "\<not> in_room x"
  shows "wp (login_or_create E c user w) (keeps w)"
proof -
  obtain uc exists v where 1: "user_character E user 0 w = Some ((uc, exists), v)" and v: "core v = core w"
    using read_character [OF schema_characters [OF E] character_info_some(1) x] .
  let ?r = "SendPacket_Reply c SysError [] v"
  have kv: "keeps w v" "keeps w ?r" using v by (auto intro: keeps_core [OF inv])
  have v': "core ?r = core w" using v by simp
  have ru: "w_users ?r user = Some x" "w_users v user = Some x"
    using x by (simp_all add: core_eqD(1) [OF v] core_eqD(1) [OF v'])
  have "wp (RemoveUser E user ?r) (keeps ?r)"
    using RemoveUser_inv [OF server_invD(1) counted_channel_ok [OF server_invD(2)] ru(1), of E] kv(2)
    by (auto simp: keeps_def keeps_recounted [unfolded keeps_def] elim!: wp_mono)
  then have "wp (RemoveUser E user ?r) (keeps w)" by (rule wp_mono) (erule keeps_trans [OF _ kv(2)])
  moreover have "wp (SendLoginPackets E user LoginSuccess v) (keeps v)"
    using kv ru out by (intro SendLoginPackets_step [OF E]) (auto simp: keeps_def)
  then have "wp (SendLoginPackets E user LoginSuccess v) (keeps w)"
    by (rule wp_mono) (erule keeps_trans [OF _ kv(1)])
  moreover have "keeps w (SendPacket_Character c (SendPacket_Reply c LoginSuccess [] v))"
    by (rule keeps_core [OF inv]) (simp add: v)
  ultimately show ?thesis using 1 by (simp add: login_or_create_def IsUserCharacterExists_def)
qed

text \<open>What both logins do once the database has answered.\<close>

lemma admission_inv:
  fixes w :: "'e world"
  assumes E: "schema_ok E" and inv: "server_inv w" and c: "c \<noteq> 0"
    and f: "\<And>w' x user. server_inv w' \<Longrightarrow> w_users w' user = Some x \<Longrightarrow> \<not> in_room x \<Longrightarrow> wp (f user w') (keeps w')"
  shows "wp (let (newUser, w) = alloc_user c i name (w\<lparr>w_ext := e\<rparr>) in admit_new_user E c newUser f w) (keeps w)"
proof -
  let ?w = "w\<lparr>w_ext := e\<rparr>"
  have inv': "server_inv ?w" using inv by simp
  have "wp (admit_new_user E c (w_next ?w) f (snd (alloc_user c i name ?w))) (keeps ?w)"
  proof (rule admit_new_user_wp [OF E inv' keeps_skip [OF inv']])
    fix w' :: "'e world"
    assume l: "lobby w' = lobby (admit_user (new_user c i name) ?w)" and r: "recounted ?w w'"
    note a = admitted_inv [OF inv' c l r]
    then have "wp (f (w_next ?w) w') (keeps w')" by (intro f [OF _ a(2,3)]) (simp add: keeps_def)
    then show "wp (f (w_next ?w) w') (keeps ?w)" by (rule wp_mono) (erule keeps_trans [OF _ a(1)])
  qed
  then show ?thesis by (simp add: keeps_ext) (simp add: alloc_user_def)
qed

lemma ParsePacket_Login_inv:
  fixes w :: "'e world"
  assumes E: "schema_ok E" and inv: "server_inv w"
  shows "wp (ParsePacket_Login E packet w) (keeps w)"
proof (cases "p_connection packet = 0 \<or> \<not> c_versionReceived (w_conns w (p_connection packet))")
  case False
  let ?c = "p_connection packet"
  have "wp (do { ((userID, reply), e) \<leftarrow> Login E name pw (w_ext w);
       let w = w\<lparr>w_ext := e\<rparr>;
       (if reply > LoginSuccess then Some (SendPacket_Reply ?c reply [] w)
        else let (newUser, w) = alloc_user ?c userID name w
             in admit_new_user E ?c newUser (login_or_create E ?c) w) }) (keeps w)" for name pw
    using Login_total [OF E, of name pw "w_ext w"] keeps_core [OF inv] False
      admission_inv [OF E inv, of ?c "login_or_create E ?c"] login_or_create_inv [OF E, of _ _ _ ?c]
    by (auto simp: Let_def)
  then show ?thesis using False
    by (auto simp: ParsePacket_Login_def Let_def [of ?c] split_def Let_def [of "ReadString _"]
        Let_def [of "ReadUInt32_LE _"] Let_def [of "ReadArray_UInt8 _ _"]
        intro!: unless_logged_in_keeps [OF inv])
qed (use keeps_refl [OF inv] in \<open>auto simp: ParsePacket_Login_def Let_def\<close>)

lemma ParsePacket_TransferLogin_inv:
  fixes w :: "'e world"
  assumes E: "schema_ok E" and inv: "server_inv w"
  shows "wp (ParsePacket_TransferLogin E packet w) (keeps w)"
proof (cases "p_connection packet = 0")
  case False
  let ?c = "p_connection packet"
  have "wp (do { ((userID, userName, reply), e) \<leftarrow> TransferLogin E (w_cfg w) token (w_ext w);
       let w = w\<lparr>w_ext := e\<rparr>;
       (if reply > LoginSuccess then Some (SendPacket_Reply ?c reply [] w)
        else let (newUser, w) = alloc_user ?c userID userName w
             in admit_new_user E ?c newUser (\<lambda>newUser. SendLoginPackets E newUser NoReply) w) }) (keeps w)" for token
    using TransferLogin_total [OF E, of "w_cfg w" token "w_ext w"] keeps_core [OF inv] False
      admission_inv [OF E inv, of ?c "\<lambda>newUser. SendLoginPackets E newUser NoReply"]
      SendLoginPackets_step [OF E, of _ _ _ NoReply]
    by (auto simp: Let_def)
  then show ?thesis using False
    by (auto simp: ParsePacket_TransferLogin_def Let_def [of ?c] split_def Let_def [of "ReadString _"]
        Let_def [of "ReadUInt32_LE _"] Let_def [of "ReadUInt8 _"] Let_def [of "ReadArray_UInt8 _ _"]
        intro!: unless_logged_in_keeps [OF inv])
qed (use keeps_refl [OF inv] in \<open>auto simp: ParsePacket_TransferLogin_def Let_def\<close>)

lemma enter_lobby_inv:
  fixes w :: "'e world"
  assumes E: "characters_ok E" and inv: "server_inv w" and x: "w_users w user = Some x" and out: "\<not> in_room x"
  shows "wp (enter_lobby E user c w) (keeps w)"
proof -
  let ?w = "set_user (\<lambda>u. u\<lparr>u_userStatus := InLobby\<rparr>) user w"
  have k: "keeps w ?w" by (rule keeps_status [OF inv x out]) simp
  then have "live ?w" by (intro inv_live) (simp add: keeps_def server_inv_def)
  then have "quiet ?w (do { w \<leftarrow> SendAddUserPacketToAll E user ?w; w \<leftarrow> SendFullUserListPacket E c w;
     SendFullRoomListPacket c w })" using x by (intro quiet_lobby_view [OF E]) simp_all
  then have "wp (do { w \<leftarrow> SendAddUserPacketToAll E user ?w; w \<leftarrow> SendFullUserListPacket E c w;
     SendFullRoomListPacket c w }) (keeps ?w)" by (intro keeps_quiet) (use k in \<open>simp_all add: keeps_def\<close>)
  then show ?thesis
    using x by (auto simp: enter_lobby_def SetUserStatus_eq elim!: wp_mono intro: keeps_trans [OF _ k])
qed

lemma transfer_away_inv:
  fixes w :: "'e world"
  assumes E: "characters_ok E" and inv: "server_inv w" and x: "w_users w user = Some x"
    and server: "server_at (w_cfg w) s = Some server" and channel: "channel_at (w_cfg w) s ch = Some channel"
  shows "wp (transfer_away E now user c s ch w) (keeps w)"
proof -
  obtain uc result v where 1: "user_character E user USERCHARACTER_FLAG_LEVEL w = Some ((uc, result), v)"
    and v: "core v = core w" using read_character [OF E character_info_some(2) x] .
  have xv: "w_users (v\<lparr>w_ext := e\<rparr>) user = Some x" for e using x core_eqD(1) [OF v] by simp
  have "quiet w (transfer_away E now user c s ch w)"
    unfolding transfer_away_def server channel 1 Option.bind.bind_lunit prod.case
    using v xv by (simp add: Let_def split_def split: sum.split option.split)
  then show ?thesis by (rule keeps_quiet [OF inv])
qed

lemma ParsePacket_RequestTransfer_inv:
  fixes w :: "'e world"
  assumes E: "characters_ok E" and inv: "server_inv w"
  shows "wp (ParsePacket_RequestTransfer E now packet w) (keeps w)"
  unfolding ParsePacket_RequestTransfer_def
proof (rule with_user_keeps [OF inv])
  fix user x assume x: "w_users w user = Some x"
  let ?cfg = "w_cfg w" and ?c = "p_connection packet"
  obtain s p where s: "ReadUInt8 packet = (s, p)" by (rule prod.exhaust)
  obtain ch q where ch: "ReadUInt8 p = (ch, q)" by (rule prod.exhaust)
  have reply: "keeps w (SendPacket_Reply ?c r [] w)" for r by (rule keeps_core [OF inv]) simp
  have "wp (if s = 0 \<or> unat s > length (cfg_serverList ?cfg) then Some (SendPacket_Reply ?c InvalidServer [] w)
        else do {
          server \<leftarrow> server_at ?cfg s;
          (if ch = 0 \<or> unat ch > length (sv_channels server) then Some (SendPacket_Reply ?c InvalidServer [] w)
           else if s = cfg_serverID ?cfg \<and> ch = cfg_channelID ?cfg then do {
             u \<leftarrow> w_users w user;
             (if u_userStatus u = InServerList then enter_lobby E user ?c w else Some w)
           }
           else transfer_away E now user ?c s ch w) }) (keeps w)"
  proof (cases "s = 0 \<or> unat s > length (cfg_serverList ?cfg)")
    case False
    then obtain server where server: "server_at ?cfg s = Some server" using server_at_total [of s ?cfg] by auto
    show ?thesis
    proof (cases "ch = 0 \<or> unat ch > length (sv_channels server)")
      case ch: False
      then obtain channel where channel: "channel_at ?cfg s ch = Some channel"
        using channel_at_total [OF server, of ch] by auto
      show ?thesis
        using False ch server x enter_lobby_inv [OF E inv x, of ?c] keeps_refl [OF inv]
          transfer_away_inv [OF E inv x server channel, of now ?c]
        by simp
    qed (use False server reply in simp)
  qed (use reply in simp)
  then show "wp (do {
       let connection = ?c; let (serverID, p) = ReadUInt8 packet; let (channelID, p) = ReadUInt8 p; let cfg = ?cfg;
       (if serverID = 0 \<or> unat serverID > length (cfg_serverList cfg) then
          Some (SendPacket_Reply connection InvalidServer [] w)
        else do {
          server \<leftarrow> server_at cfg serverID;
          (if channelID = 0 \<or> unat channelID > length (sv_channels server) then
             Some (SendPacket_Reply connection InvalidServer [] w)
           else if serverID = cfg_serverID cfg \<and> channelID = cfg_channelID cfg then do {
             u \<leftarrow> w_users w user;
             (if u_userStatus u = InServerList then enter_lobby E user connection w else Some w)
           }
           else transfer_away E now user connection serverID channelID w)
        }) }) (keeps w)"
    by (simp only: Let_def s ch prod.case)
qed

lemma ParsePacket_RecvCharacter_inv:
  fixes w :: "'e world"
  assumes E: "served E (w_cfg w)" and inv: "server_inv w"
  shows "wp (ParsePacket_RecvCharacter E packet w) (keeps w)"
proof (cases "p_connection packet = 0")
  case False
  let ?c = "p_connection packet"
  have sch: "schema_ok E" and menus: "menus_ok (w_cfg w)" using E by (simp_all add: served_def)
  show ?thesis
  proof (rule by_connection_cases [OF server_invD(1) [OF inv], of ?c])
    assume "GetUserByConnection ?c w = Some 0"
    then show ?thesis using keeps_refl [OF inv] by (simp add: ParsePacket_RecvCharacter_def Let_def)
  next
    fix user x assume u: "GetUserByConnection ?c w = Some user" "w_users w user = Some x" "user \<noteq> 0"
    obtain nick p where nick: "ReadString packet = (nick, p)" by (rule prod.exhaust)
    obtain uc exists v where 1: "user_character E user 0 w = Some ((uc, exists), v)" and v: "core v = core w"
      using read_character [OF schema_characters [OF sch] character_info_some(1) u(2)] .
    have cfg: "w_cfg v = w_cfg w" by (rule core_eqD(6) [OF v])
    have kv: "keeps w v" "keeps w (SendPacket_Reply ?c r [] v)" "keeps w (v\<lparr>w_ext := e\<rparr>)"
      "keeps w (SendPacket_Reply ?c r [] (v\<lparr>w_ext := e\<rparr>))" for r e
      using v by (auto intro: keeps_core [OF inv])
    obtain failed e where 2: "create_character E (w_cfg w) (u_userID x) nick (w_ext v) = Some (failed, e)"
      using create_character_total [OF menus, of E "u_userID x" nick "w_ext v"] by auto
    have "wp (SendLoginPackets E user CreateCharacterSuccess (v\<lparr>w_ext := e\<rparr>)) (keeps w)" if "\<not> in_room x"
    proof -
      have "w_users (v\<lparr>w_ext := e\<rparr>) user = Some x" using u(2) core_eqD(1) [OF v] by simp
      then have "wp (SendLoginPackets E user CreateCharacterSuccess (v\<lparr>w_ext := e\<rparr>)) (keeps (v\<lparr>w_ext := e\<rparr>))"
        using kv(3) that by (intro SendLoginPackets_step [OF sch]) (auto simp: keeps_def)
      then show ?thesis by (rule wp_mono) (erule keeps_trans [OF _ kv(3)])
    qed
    then show ?thesis
      using False u nick 1 2 kv keeps_refl [OF inv] cfg
      by (auto simp: ParsePacket_RecvCharacter_def IsUserCharacterExists_def Let_def split: option.split)
  qed
qed (use keeps_refl [OF inv] in \<open>simp add: ParsePacket_RecvCharacter_def Let_def\<close>)

lemma ParsePacket_RequestServerList_inv:
  fixes w :: "'e world"
  assumes inv: "server_inv w"
  shows "wp (ParsePacket_RequestServerList packet w) (keeps w)"
  unfolding ParsePacket_RequestServerList_def
proof (rule with_user_keeps [OF inv])
  fix user x assume x: "w_users w user = Some x"
  let ?f = "\<lambda>w :: 'e world. do {
     u \<leftarrow> w_users w user;
     Some (if u_userStatus u \<noteq> InServerList then w
           else SendPacket_ServerList (p_connection packet) (cfg_serverList (w_cfg w)) w) }"
  have f: "wp (?f v) (keeps w)" if "keeps w v" "w_users v user \<noteq> None" for v
    using that keeps_core [of v] by (auto simp: keeps_def intro: keeps_trans [unfolded keeps_def])
  show "wp (do { u \<leftarrow> w_users w user;
       w \<leftarrow> (if u_userStatus u = InLobby then do {
               w \<leftarrow> SetUserStatus InServerList user w; SendRemoveUserPacketToAll user w } else Some w);
       u \<leftarrow> w_users w user;
       Some (if u_userStatus u \<noteq> InServerList then w
             else SendPacket_ServerList (p_connection packet) (cfg_serverList (w_cfg w)) w) }) (keeps w)"
  proof (cases "u_userStatus x = InLobby")
    case True
    let ?w = "set_user (\<lambda>u. u\<lparr>u_userStatus := InServerList\<rparr>) user w"
    have k: "keeps w ?w" by (rule keeps_status [OF inv x]) (use True in simp_all)
    then have "live ?w" by (intro inv_live) (simp add: keeps_def server_inv_def)
    then obtain v where v: "SendRemoveUserPacketToAll user ?w = Some v" "core v = core ?w"
      using quiet_SendRemoveUserPacketToAll [of ?w user] x by (auto elim: quietE)
    have "keeps ?w v" using k v(2) by (intro keeps_core) (simp_all add: keeps_def)
    then have "keeps w v" by (rule keeps_trans [OF _ k])
    moreover have "w_users v user \<noteq> None" using x by (simp add: core_eqD(1) [OF v(2)])
    ultimately show ?thesis using f [of v] x True v(1) by (simp add: SetUserStatus_eq)
  qed (use x f [OF keeps_refl [OF inv]] in simp)
qed

lemma ParsePacket_RecvCrypt_inv:
  assumes inv: "server_inv w" shows "wp (ParsePacket_RecvCrypt packet w) (keeps w)"
  unfolding ParsePacket_RecvCrypt_def
  by (rule with_user_keeps [OF inv]) (simp add: keeps_refl [OF inv])

end
