(* ===== verification/ClientSafety.thy ===== *)
theory ClientSafety
  imports LoginSafety
begin

text \<open>
  The handlers of \<open>ClientPackets\<close> under \<open>server_inv\<close>, and with them every packet: the chat
  reaches live users, a search ends with an answer, and \<open>ParsePacket\<close> is defined and keeps the
  invariant on every packet that respects the two assumptions of \<open>packet_ok\<close>.
\<close>

section \<open>Chat\<close>

lemma core_client_sends [simp]:
  "core (sendPacket_Udp_ModifySocketInfo c t i ip port w) = core w"
  "core (sendPacket_Shop_ShopList c w) = core w"
  "core (sendPacket_SearchRoom_SearchRoomReply c s ch r w) = core w"
  by (simp_all add: sendPacket_Udp_ModifySocketInfo_def sendPacket_Shop_ShopList_def
      sendPacket_SearchRoom_SearchRoomReply_def)

interpretation chat: broadcast "\<lambda>c w. Some (sendPacket_UMsg_Chat c k sender txt w)" "\<lambda>w. True"
  by unfold_locales simp_all

text \<open>The search for a nickname visits live users only and finds one of them, if any.\<close>

lemma find_nickName_total:
  assumes "characters_ok E" and "users_at w users"
  shows "\<exists>found w'. find_nickName E nick users w = Some (found, w') \<and> core w' = core w \<and>
    (\<forall>u. found = Some u \<longrightarrow> u \<in> set users)"
  using assms(2)
proof (induction users arbitrary: w)
  case (Cons u users)
  then obtain x where x: "w_users w u = Some x" by (auto simp: users_at_def)
  obtain uc result v where 1: "user_character E u USERCHARACTER_FLAG_NICKNAME w = Some ((uc, result), v)"
    and v: "core v = core w" using read_character [OF assms(1) character_info_some(3) x] .
  have "users_at v users" using Cons.prems core_users_at [OF v] by (simp add: users_at_def)
  from Cons.IH [OF this] 1 v show ?case by (auto split: if_splits)
qed simp

lemma WhisperChat_quiet:
  fixes w :: "'e world"
  assumes E: "characters_ok E" and inv: "lobby_inv w" and x: "w_users w user = Some x"
  shows "quiet w (parsePacket_UMsg_WhisperChat E user packet w)"
proof -
  obtain uc result v where 1: "user_character E user USERCHARACTER_FLAG_NICKNAME w = Some ((uc, result), v)"
    and v: "core v = core w" using read_character [OF E character_info_some(3) x] .
  obtain nick p where n: "ReadString packet = (nick, p)" by (rule prod.exhaust)
  obtain msg q where t: "ReadString p = (msg, q)" by (rule prod.exhaust)
  have lv: "live v" using inv_live [OF inv] core_live [OF v] by simp
  let ?us = "filter (\<lambda>u. u_connection (the (w_users v u)) \<noteq> 0) (w_userList v)"
  have us: "filterM (keep_user (\<lambda>u x. u_connection x \<noteq> 0) v) (w_userList v) = Some ?us" "users_at v ?us"
    using filterM_keep_user [OF live_null(1) [OF lv] users_at_userList [OF lv]]
      users_at_mono [OF users_at_userList [OF lv], of ?us] by auto
  obtain found w' where 2: "find_nickName E nick ?us v = Some (found, w')" and c: "core w' = core v"
    and f: "\<And>u. found = Some u \<Longrightarrow> u \<in> set ?us" using find_nickName_total [OF E us(2)] by blast
  have "conn_of w' u \<noteq> None" if "found = Some u" for u
    using f [OF that] us(2) core_eqD(1) [OF c] by (auto simp: conn_of_def users_at_def)
  then show ?thesis
    using x 1 v c n t us(1) 2 by (auto simp: parsePacket_UMsg_WhisperChat_def Let_def split: option.split)
qed

lemma ChannelChat_quiet:
  fixes w :: "'e world"
  assumes E: "characters_ok E" and inv: "lobby_inv w" and x: "w_users w user = Some x"
  shows "quiet w (parsePacket_UMsg_ChannelChat E user packet w)"
proof -
  obtain uc result v where 1: "user_character E user USERCHARACTER_FLAG_NICKNAME w = Some ((uc, result), v)"
    and v: "core v = core w" using read_character [OF E character_info_some(3) x] .
  obtain msg q where t: "ReadString packet = (msg, q)" by (rule prod.exhaust)
  have lv: "live v" using inv_live [OF inv] core_live [OF v] by simp
  have "quiet v (Option.bind (lobby_users v) (\<lambda>vs. for_users (\<lambda>c w. Some (sendPacket_UMsg_Chat c 1 (uc_nickName uc) msg w)) vs v))"
    unfolding lobby_users_def by (rule chat.to_all_quiet [OF _ lv users_at_userList [OF lv]]) simp
  then have "quiet w (Option.bind (lobby_users v) (\<lambda>vs. for_users (\<lambda>c w. Some (sendPacket_UMsg_Chat c 1 (uc_nickName uc) msg w)) vs v))"
    using v by (rule quiet_trans)
  then show ?thesis using x 1 t v by (simp add: parsePacket_UMsg_ChannelChat_def Let_def)
qed

lemma RoomChat_quiet:
  fixes w :: "'e world"
  assumes E: "characters_ok E" and inv: "lobby_inv w" and x: "w_users w user = Some x"
  shows "quiet w (parsePacket_UMsg_RoomChat E user packet w)"
proof (cases "u_userStatus x = InRoom")
  case True
  obtain room r where room: "GetRoomByRoomID (u_currentRoomID x) w = Some room" "room \<noteq> 0" "w_rooms w room = Some r"
    using inv_own_room [OF inv x] True by blast
  obtain uc result v where 1: "user_character E user USERCHARACTER_FLAG_NICKNAME w = Some ((uc, result), v)"
    and v: "core v = core w" using read_character [OF E character_info_some(3) x] .
  obtain msg q where t: "ReadString packet = (msg, q)" by (rule prod.exhaust)
  have lv: "live v" using inv_live [OF inv] core_live [OF v] by simp
  have rv: "w_rooms v room = Some r" using room(3) core_eqD(2) [OF v] by simp
  have "users_at v (r_roomUsers r)"
    using inv_connected [OF inv room(3)] core_users_at [OF v] by (auto simp: connected_def users_at_def)
  then have "quiet v (Option.bind (filterM (keep_user (\<lambda>u x. u_connection x \<noteq> 0 \<and> u_userStatus x = InRoom) v) (r_roomUsers r))
      (\<lambda>vs. for_users (\<lambda>c w. Some (sendPacket_UMsg_Chat c 2 (uc_nickName uc) msg w)) vs v))"
    by (intro chat.to_all_quiet [OF _ lv]) simp_all
  then have "quiet w (Option.bind (filterM (keep_user (\<lambda>u x. u_connection x \<noteq> 0 \<and> u_userStatus x = InRoom) v) (r_roomUsers r))
      (\<lambda>vs. for_users (\<lambda>c w. Some (sendPacket_UMsg_Chat c 2 (uc_nickName uc) msg w)) vs v))"
    using v by (rule quiet_trans)
  then show ?thesis using True x 1 t v room rv by (simp add: parsePacket_UMsg_RoomChat_def Let_def)
qed (use x in \<open>simp add: parsePacket_UMsg_RoomChat_def Let_def\<close>)

lemma ParsePacket_UMsg_inv:
  assumes E: "characters_ok E" and inv: "server_inv w"
  shows "wp (ParsePacket_UMsg E packet w) (keeps w)"
  unfolding ParsePacket_UMsg_def
proof (rule with_user_keeps [OF inv])
  fix user x assume x: "w_users w user = Some x"
  show "wp (let (t, packet) = ReadUInt8 packet
       in if t = 0 then parsePacket_UMsg_WhisperChat E user packet w
          else if t = 1 then parsePacket_UMsg_ChannelChat E user packet w
          else if t = 2 then parsePacket_UMsg_RoomChat E user packet w
          else Some w) (keeps w)"
    using WhisperChat_quiet [OF E server_invD(1) [OF inv] x] ChannelChat_quiet [OF E server_invD(1) [OF inv] x]
      RoomChat_quiet [OF E server_invD(1) [OF inv] x]
    by (intro keeps_quiet [OF inv]) (simp add: split_def Let_def)
qed

section \<open>Peer-to-peer networking\<close>

lemma DisconnectUser_quiet:
  assumes "w_users w user = Some x" and "core v = core w" shows "quiet w (DisconnectUser user v)"
  using assms(1,2) core_eqD(1) [OF assms(2)] by (simp add: DisconnectUser_def conn_of_def)

lemma by_user_id_cases:
  assumes "lobby_inv w"
  obtains "GetUserByUserID i w = Some 0"
  | user x where "GetUserByUserID i w = Some user" "user \<noteq> 0" "w_users w user = Some x"
  by (rule users_by_id.lookup_cases [OF inv_allocated(2) [OF assms], of i]) (use that in auto)

lemma own_room_total:
  assumes "lobby_inv w" and "w_users w user = Some x"
  shows "\<exists>room. GetRoomByRoomID (u_currentRoomID x) w = Some room \<and> (room \<noteq> 0 \<longrightarrow> w_rooms w room \<noteq> None)"
  by (rule rooms_by_id.lookup_cases [OF inv_allocated(1) [OF assms(1)], of "u_currentRoomID x"]) auto

lemma HolepunchFail_quiet:
  assumes inv: "lobby_inv w" and x: "w_users w user = Some x"
  shows "quiet w (parsePacket_Udp_HolepunchFail user packet w)"
proof -
  obtain room where room: "GetRoomByRoomID (u_currentRoomID x) w = Some room" using own_room_total [OF inv x] by blast
  obtain i p where i: "ReadUInt32_LE packet = (i, p)" by (rule prod.exhaust)
  show ?thesis
  proof (rule by_user_id_cases [OF inv, of i])
    assume "GetUserByUserID i w = Some 0"
    then show ?thesis using x room i by (simp add: parsePacket_Udp_HolepunchFail_def Let_def)
  next
    fix t y assume t: "GetUserByUserID i w = Some t" "t \<noteq> 0" "w_users w t = Some y"
    obtain tr where "GetRoomByRoomID (u_currentRoomID y) w = Some tr" using own_room_total [OF inv t(3)] by blast
    with x room i t show ?thesis by (simp add: parsePacket_Udp_HolepunchFail_def Let_def)
  qed
qed

lemma ParsePacket_Udp_inv:
  assumes inv: "server_inv w"
  shows "wp (ParsePacket_Udp packet w) (keeps w)"
  unfolding ParsePacket_Udp_def
proof (rule with_user_keeps [OF inv])
  fix user x assume x: "w_users w user = Some x"
  have "quiet w (parsePacket_Udp_NetworkFailure user w)" "quiet w (parsePacket_Udp_SocketInfo user p w)" for p
    using x DisconnectUser_quiet [OF x]
    by (auto simp: parsePacket_Udp_NetworkFailure_def parsePacket_Udp_SocketInfo_def conn_of_def split: prod.split)
  then show "wp (let (t, packet) = ReadUInt8 packet
       in if t = 0 then parsePacket_Udp_NetworkFailure user w
          else if t = 1 then parsePacket_Udp_HolepunchFail user packet w
          else if t = 2 then parsePacket_Udp_SocketInfo user packet w
          else Some w) (keeps w)"
    using HolepunchFail_quiet [OF server_invD(1) [OF inv] x]
    by (intro keeps_quiet [OF inv]) (simp add: split_def Let_def)
qed

section \<open>Options, favourites, shop, search\<close>

lemma ParsePacket_Option_inv:
  assumes inv: "server_inv w"
  shows "wp (ParsePacket_Option E packet w) (keeps w)"
  unfolding ParsePacket_Option_def
proof (rule with_user_keeps [OF inv])
  fix user x assume x: "w_users w user = Some x"
  have "quiet w (parsePacket_Option_UserConfig E user p w)" "quiet w (parsePacket_Option_UserQuickStart E user p w)" for p
    using x by (auto simp: parsePacket_Option_UserConfig_def parsePacket_Option_UserQuickStart_def Let_def split: prod.split)
  then show "wp (let (t, packet) = ReadUInt8 packet
       in if t = 0 then parsePacket_Option_UserConfig E user packet w
          else if t = 1 then parsePacket_Option_UserQuickStart E user packet w
          else Some w) (keeps w)"
    by (intro keeps_quiet [OF inv]) (simp add: split_def Let_def)
qed

lemma ParsePacket_Favorite_inv:
  assumes inv: "server_inv w"
  shows "wp (ParsePacket_Favorite E packet w) (keeps w)"
  unfolding ParsePacket_Favorite_def
proof (rule with_user_keeps [OF inv])
  fix user x assume x: "w_users w user = Some x"
  have "quiet w (parsePacket_Favorite_UserBuyMenu E user p w)" "quiet w (parsePacket_Favorite_UserBookMark E user p w)" for p
    using x by (auto simp: parsePacket_Favorite_UserBuyMenu_def parsePacket_Favorite_UserBookMark_def Let_def split: prod.split)
  then show "wp (let (t, packet) = ReadUInt8 packet
       in if t = 0 then parsePacket_Favorite_UserBuyMenu E user packet w
          else if t = 1 then parsePacket_Favorite_UserBookMark E user packet w
          else Some w) (keeps w)"
    by (intro keeps_quiet [OF inv]) (simp add: split_def Let_def)
qed

lemma ParsePacket_Shop_inv:
  assumes inv: "server_inv w"
  shows "wp (ParsePacket_Shop packet w) (keeps w)"
  unfolding ParsePacket_Shop_def
proof (rule with_user_keeps [OF inv])
  fix user x assume "w_users w user = Some x"
  then show "wp (let (t, packet) = ReadUInt8 packet
       in if t = 0 then parsePacket_Shop_RequestShopList user w else Some w) (keeps w)"
    by (intro keeps_quiet [OF inv]) (simp add: split_def Let_def parsePacket_Shop_RequestShopList_def conn_of_def)
qed

text \<open>A local room that fits, or what the database says.\<close>

lemma SearchRoom_total:
  assumes E: "rooms_table_ok E (w_cfg w)" and inv: "lobby_inv w"
  shows "\<exists>res w'. SearchRoom E level mode map_id lvl clanBattle w = Some (res, w') \<and> core w' = core w"
proof -
  have "findM (\<lambda>room. map_option (room_fits mode map_id lvl) (w_rooms w room)) (w_roomList w) =
      Some (case find (\<lambda>p. room_fits mode map_id lvl (the (w_rooms w p))) (w_roomList w) of None \<Rightarrow> 0 | Some p \<Rightarrow> p)"
    using inv_allocated(1) [OF inv] by (intro findM_total) (auto simp: allocated_def)
  moreover have "w_rooms w p \<noteq> None" if "find (\<lambda>p. room_fits mode map_id lvl (the (w_rooms w p))) (w_roomList w) = Some p" for p
    using inv_allocated(1) [OF inv] find_SomeD [OF that] by (simp add: allocated_def)
  moreover obtain res e where "DB_SearchRoom E (w_cfg w) level mode map_id lvl clanBattle (w_ext w) = Some (res, e)"
    using DB_SearchRoom_total [OF E] by blast
  ultimately show ?thesis by (cases res) (auto simp: SearchRoom_def split: option.split)
qed

lemma ParsePacket_SearchRoom_inv:
  fixes w :: "'e world"
  assumes E: "served E (w_cfg w)" and inv: "server_inv w"
  shows "wp (ParsePacket_SearchRoom E packet w) (keeps w)"
  unfolding ParsePacket_SearchRoom_def
proof (rule with_user_keeps [OF inv])
  fix user x assume x: "w_users w user = Some x"
  obtain uc result v where 1: "user_character E user USERCHARACTER_FLAG_LEVEL w = Some ((uc, result), v)"
    and v: "core v = core w" using read_character [OF served_characters [OF E] character_info_some(2) x] .
  have lv: "lobby_inv v" using core_lobby_inv [OF v] inv by (simp add: server_inv_def)
  have rv: "rooms_table_ok E (w_cfg v)" using E core_eqD(6) [OF v] by (simp add: served_def)
  obtain mode p1 where r1: "ReadUInt8 packet = (mode, p1)" by (rule prod.exhaust)
  obtain map_id p2 where r2: "ReadUInt8 p1 = (map_id, p2)" by (rule prod.exhaust)
  obtain lvl p3 where r3: "ReadUInt8 p2 = (lvl, p3)" by (rule prod.exhaust)
  obtain cb p4 where r4: "ReadUInt8 p3 = (cb, p4)" by (rule prod.exhaust)
  obtain s c r w' where 2: "SearchRoom E (uc_level uc) mode map_id lvl cb v = Some ((s, c, r), w')" "core w' = core v"
    using SearchRoom_total [OF rv lv, of "uc_level uc" mode map_id lvl cb] by auto
  show "wp (do {
       let connection = p_connection packet; let (mode, p) = ReadUInt8 packet; let (map_id, p) = ReadUInt8 p;
       let (lvl, p) = ReadUInt8 p; let (clanBattle, p) = ReadUInt8 p;
       ((userCharacter, result), w) \<leftarrow> user_character E user USERCHARACTER_FLAG_LEVEL w;
       (if result \<le> 0 then Some (SendPacket_Reply connection SysError [] w)
        else do {
          ((serverID, channelID, roomID), w) \<leftarrow> SearchRoom E (uc_level userCharacter) mode map_id lvl clanBattle w;
          Some (sendPacket_SearchRoom_SearchRoomReply connection serverID channelID roomID w)
        }) }) (keeps w)"
    by (intro keeps_quiet [OF inv]) (simp add: Let_def r1 r2 r3 r4 1 2 v)
qed

lemma read_only_inv:
  assumes inv: "server_inv w"
  shows "wp (ParsePacket_ClientCheck packet w) (keeps w)" and "wp (ParsePacket_UpdateInfo packet w) (keeps w)"
    and "wp (ParsePacket_RecvReport packet w) (keeps w)"
  unfolding ParsePacket_ClientCheck_def ParsePacket_UpdateInfo_def ParsePacket_RecvReport_def
  by (rule with_user_keeps [OF inv], simp add: keeps_refl [OF inv])+

lemma ParsePacket_Item_inv:
  assumes inv: "server_inv w"
  shows "wp (ParsePacket_Item packet w) (keeps w)"
  unfolding ParsePacket_Item_def
proof (rule with_user_keeps [OF inv])
  fix user x assume x: "w_users w user = Some x"
  obtain room where "GetRoomByRoomID (u_currentRoomID x) w = Some room" "room \<noteq> 0 \<longrightarrow> w_rooms w room \<noteq> None"
    using own_room_total [OF server_invD(1) [OF inv] x] by blast
  then have "quiet w (parsePacket_Item_SelectClass user w)"
    using x by (auto simp: parsePacket_Item_SelectClass_def)
  then show "wp (let (t, packet) = ReadUInt8 packet
       in if t = 1 then parsePacket_Item_SelectClass user w
          else if t = 2 then parsePacket_Item_BuyWeapon user w
          else Some w) (keeps w)"
    by (intro keeps_quiet [OF inv]) (simp add: split_def Let_def parsePacket_Item_BuyWeapon_def)
qed

section \<open>Any packet\<close>

text \<open>
  The two assumptions the server makes about what its clients send: a player in a game does not
  ask to create or join a room, and a host that reports a failed rejoin names somebody.
\<close>

definition packet_ok :: "packet \<Rightarrow> 'e world \<Rightarrow> bool" where
  "packet_ok packet w \<longleftrightarrow> (let (packetID, packet) = ReadUInt8 packet in
     (packetID = 65 \<longrightarrow> room_packet_ok packet w) \<and> (packetID = 68 \<longrightarrow> host_packet_ok packet))"

lemma ParsePacket_inv:
  fixes w :: "'e world"
  assumes E: "served E (w_cfg w)" and inv: "server_inv w" and ok: "packet_ok packet w"
  shows "wp (ParsePacket E now packet w) (keeps w)"
proof -
  obtain i p where i: "ReadUInt8 packet = (i, p)" by (rule prod.exhaust)
  note sch = E [unfolded served_def, THEN conjunct1] and ch = served_characters [OF E]
  note lob = server_invD(1) [OF inv]
  have "wp (ParsePacket_Room E p w) (keeps w)" if "i = 65"
  proof -
    have "room_packet_ok p w" using ok i that by (simp add: packet_ok_def)
    then show ?thesis by (rule ParsePacket_Room_inv [OF ch lob, THEN wp_mono]) (rule keeps_steady [OF inv])
  qed
  moreover have "wp (ParsePacket_Host p w) (keeps w)" if "i = 68"
  proof -
    have "host_packet_ok p" using ok i that by (simp add: packet_ok_def)
    then show ?thesis by (rule ParsePacket_Host_inv [OF lob, THEN wp_mono]) (rule keeps_steady [OF inv])
  qed
  ultimately show ?thesis
    using ParsePacket_Version_inv [OF inv, of E p] ParsePacket_RecvCharacter_inv [OF E inv, of p]
      ParsePacket_Login_inv [OF sch inv, of p] ParsePacket_TransferLogin_inv [OF sch inv, of p]
      ParsePacket_RequestTransfer_inv [OF ch inv, of now p] ParsePacket_RequestServerList_inv [OF inv, of p]
      ParsePacket_RecvCrypt_inv [OF inv, of p] read_only_inv [OF inv, of p] ParsePacket_UMsg_inv [OF ch inv, of p]
      ParsePacket_Udp_inv [OF inv, of p] ParsePacket_Shop_inv [OF inv, of p] ParsePacket_Option_inv [OF inv, of E p]
      ParsePacket_Favorite_inv [OF inv, of E p] ParsePacket_Item_inv [OF inv, of p]
      ParsePacket_SearchRoom_inv [OF E inv, of p] keeps_refl [OF inv]
    unfolding ParsePacket_def i Let_def prod.case by simp
qed

end
