(* ===== verification/Dissolving.thy ===== *)
theory Dissolving
  imports ClientSafety
begin

text \<open>
  Removal of rooms with the users in them, \<open>RoomManager::RemoveRoom\<close> and \<open>RemoveAllRooms\<close>: their effect on
  the objects, stated as a state change, and the invariant kept by it.
\<close>

section \<open>Eviction\<close>

definition evict :: "ptr list \<Rightarrow> 'e world \<Rightarrow> 'e world" where
  "evict us w = w\<lparr>w_users := \<lambda>p. (if p \<in> set us then map_option to_lobby else id) (w_users w p)\<rparr>"

lemma evict_simps [simp]:
  "w_users (evict us w) p = (if p \<in> set us then map_option to_lobby (w_users w p) else w_users w p)"
  "w_rooms (evict us w) = w_rooms w" "w_userList (evict us w) = w_userList w"
  "w_roomList (evict us w) = w_roomList w" "w_next (evict us w) = w_next w" "w_cfg (evict us w) = w_cfg w"
  by (simp_all add: evict_def)

lemma core_evict: "core w' = core w \<Longrightarrow> core (evict us w') = core (evict us w)"
  by (simp add: core_def evict_def)

lemma evict_Nil [simp]: "evict [] w = w"
  by (simp add: evict_def)

lemma to_lobby_idem [simp]: "to_lobby (to_lobby u) = to_lobby u"
  by (simp add: to_lobby_def)

lemma evict_Cons: "core (evict (u # us) w) = core (evict us (set_user to_lobby u w))"
  by (auto simp: core_def evict_def fun_eq_iff option.map_comp o_def)

lemma live_evict: "live w \<Longrightarrow> live (evict us w)"
  unfolding live_def room_live_def by (auto split: if_splits)

lemma connected_evict: "connected (evict us w) vs = connected w vs"
  by (auto simp: connected_def to_lobby_def split: if_splits)

lemma evict_user_step:
  fixes w :: "'e world"
  assumes E: "characters_ok E" and live: "live w" and x: "w_users w u = Some x" "u_connection x \<noteq> 0"
  shows "wp (evict_user E u w) (\<lambda>w'. core w' = core (set_user to_lobby u w))"
proof -
  let ?v = "set_user (\<lambda>u. u\<lparr>u_currentRoomID := 0\<rparr>) u (set_user (\<lambda>u. u\<lparr>u_userStatus := InLobby\<rparr>) u w)"
  have v: "core ?v = core (set_user to_lobby u w)"
    using x by (simp add: core_def to_lobby_def)
  have "live ?v" using live by (simp only: set_user_live)
  then have "quiet ?v (do { w \<leftarrow> SendAddUserPacketToAll E u ?v;
     w \<leftarrow> SendFullUserListPacket E (u_connection x) (SendPacket_Room_LeaveRoomInGame (u_connection x) w);
     SendFullRoomListPacket (u_connection x) w })"
    by (rule quiet_back_in_lobby [OF E]) (use x in simp)
  then show ?thesis
    using x v by (simp add: evict_user_def conn_of_def SetUserStatus_eq SetCurrentRoomID_eq quiet_def Let_def)
qed

lemma evict_users_step:
  fixes w :: "'e world"
  assumes E: "characters_ok E" and "live w" and "connected w us"
  shows "wp (foldM (evict_user E) us w) (\<lambda>w'. core w' = core (evict us w))"
  using assms(2,3)
proof (induction us arbitrary: w)
  case (Cons u us)
  obtain x where x: "w_users w u = Some x" "u_connection x \<noteq> 0" using Cons.prems(2) by (auto simp: connected_def)
  obtain v where v: "evict_user E u w = Some v" "core v = core (set_user to_lobby u w)"
    using evict_user_step [OF E Cons.prems(1) x] by (auto simp: wp_iff)
  have "live v" using Cons.prems(1) core_live [OF v(2)] by (simp add: set_user_live)
  moreover have "connected v us"
    using Cons.prems(2) core_connected [OF v(2)] by (auto simp: connected_def to_lobby_def)
  ultimately have "wp (foldM (evict_user E) us v) (\<lambda>w'. core w' = core (evict us v))" by (rule Cons.IH)
  then show ?case
    using v(1) core_evict [OF v(2), of us] evict_Cons [of u us w] by simp
qed simp

section \<open>Removing a room with its users\<close>

definition dissolve :: "ptr \<Rightarrow> room \<Rightarrow> 'e world \<Rightarrow> 'e world" where
  "dissolve room r w = drop_room room (evict (r_roomUsers r) w)"

lemma delete_room_evicts:
  fixes w :: "'e world"
  assumes E: "characters_ok E" and "live w" and r: "w_rooms w room = Some r" and "connected w (r_roomUsers r)"
    and out: "room \<notin> set (w_roomList w)"
  shows "wp (delete_room E room w)
    (\<lambda>w'. core w' = core ((evict (r_roomUsers r) w)\<lparr>w_rooms := (w_rooms w)(room := None)\<rparr>))"
proof -
  let ?r = "r\<lparr>r_gameMatch := None\<rparr>"
  define v where "v = (if r_gameMatch r \<noteq> None then put_room room ?r w else w)"
  have v: "(if r_gameMatch r \<noteq> None then SetGameMatch None room w else Some w) = Some v"
    using r by (simp add: SetGameMatch_def upd_room_eq v_def)
  have "live v" using assms(2) out unfolding v_def
    using live_null [OF assms(2)] r by (auto simp: live_def room_live_def)
  moreover have "connected v (r_roomUsers r)" using assms(4) by (simp add: v_def connected_def)
  ultimately have "wp (foldM (evict_user E) (r_roomUsers r) v) (\<lambda>w'. core w' = core (evict (r_roomUsers r) v))"
    by (rule evict_users_step [OF E])
  moreover have "core (w'\<lparr>w_rooms := (w_rooms w')(room := None)\<rparr>) =
      core ((evict (r_roomUsers r) w)\<lparr>w_rooms := (w_rooms w)(room := None)\<rparr>)"
    if "core w' = core (evict (r_roomUsers r) v)" for w' :: "'e world"
    using that by (simp add: core_def v_def evict_def put_room_def split: if_splits)
  ultimately show ?thesis
    using r v by (auto simp: delete_room_def elim!: wp_mono)
qed

theorem RemoveRoom_dissolves:
  fixes w :: "'e world"
  assumes E: "characters_ok E" and inv: "lobby_inv w" and r: "w_rooms w room = Some r"
  shows "wp (RemoveRoom E room w) (\<lambda>w'. core w' = core (dissolve room r w))"
proof -
  note live = inv_live [OF inv] and listed = inv_room_listed [OF inv r] and nz = inv_null_ptr(2) [OF inv r]
  obtain w1 where w1: "SendRemoveRoomPacketToAll (r_roomID r) w = Some w1" and c: "core w1 = core w"
    using quiet_SendRemoveRoomPacketToAll [OF live] by (rule quietE)
  let ?w = "w1\<lparr>w_ext := DB_RemoveRoom E (w_cfg w1) (r_roomID r) (w_ext w1), w_roomList := remove1 room (w_roomList w)\<rparr>"
  have same: "w_users ?w = w_users w" "w_rooms ?w = w_rooms w" "w_userList ?w = w_userList w"
    using core_eqD [OF c] by simp_all
  have "distinct (w_roomList w)" using lobby_invD(1) [OF inv] by (simp add: lists_ok_def)
  then have sub: "set (w_roomList ?w) = set (w_roomList w) - {room}" by simp
  have "live ?w" using live unfolding live_def room_live_def same sub by blast
  moreover have "connected ?w (r_roomUsers r)" using inv_connected [OF inv r] by (simp add: connected_def same)
  ultimately have "wp (delete_room E room ?w)
      (\<lambda>w'. core w' = core ((evict (r_roomUsers r) ?w)\<lparr>w_rooms := (w_rooms ?w)(room := None)\<rparr>))"
    by (intro delete_room_evicts [OF E]) (use r sub in \<open>simp_all add: same\<close>)
  moreover have "core ((evict (r_roomUsers r) ?w)\<lparr>w_rooms := (w_rooms ?w)(room := None)\<rparr>) = core (dissolve room r w)"
    using c by (simp add: core_def dissolve_def drop_room_def evict_def)
  ultimately show ?thesis
    using r nz w1 listed core_eqD(4) [OF c] by (simp add: RemoveRoom_def Let_def)
qed

lemma dissolve_inv:
  assumes inv: "lobby_inv w" and r: "w_rooms w room = Some r"
  shows "lobby_inv (dissolve room r w)"
proof (rule lobby_invI)
  let ?w = "dissolve room r w"
  have users: "w_users ?w = (\<lambda>p. if p \<in> set (r_roomUsers r) then map_option to_lobby (w_users w p) else w_users w p)"
    and rooms: "w_rooms ?w = (w_rooms w)(room := None)"
    by (simp_all add: dissolve_def fun_eq_iff)
  have "dom (w_users ?w) = dom (w_users w)" by (auto simp: users split: if_splits)
  then have "lists_ok (evict (r_roomUsers r) w)"
    using lobby_invD(1) [OF inv] by (simp add: lists_ok_def dissolve_def)
  then show "lists_ok ?w" unfolding dissolve_def by (rule lists_ok_drop_room)
  show "ids_ok ?w" using lobby_invD(2) [OF inv] unfolding ids_ok_def rooms by (auto split: if_splits)
  show "user_ok ?w p u" if u: "w_users ?w p = Some u" for p u
  proof (cases "p \<in> set (r_roomUsers r)")
    case True
    then obtain x where "w_users w p = Some x" "u = to_lobby x" using u by (auto simp: users)
    then show ?thesis using lobby_invD(3) [OF inv] by (fastforce simp: user_ok_def to_lobby_def)
  next
    case False
    then have "user_ok w p u" using u lobby_invD(3) [OF inv] by (simp add: users)
    then show ?thesis using False r by (elim user_ok_frame) (auto simp: rooms)
  qed
  show "room_ok ?w s" if s: "w_rooms ?w q = Some s" for q s
  proof -
    have q: "w_rooms w q = Some s" "q \<noteq> room" using s by (auto simp: rooms split: if_splits)
    have "p \<notin> set (r_roomUsers r)" if "p \<in> set (r_roomUsers s)" for p
      using inv_one_room [OF inv r _ q(1) that] q(2) by blast
    then show ?thesis by (intro room_ok_frame [OF lobby_invD(4) [OF inv q(1)]]) (auto simp: users)
  qed
qed

section \<open>Removing all rooms\<close>

definition no_rooms :: "'e world \<Rightarrow> 'e world" where
  "no_rooms w = (evict (concat (map (\<lambda>p. r_roomUsers (the (w_rooms w p))) (w_roomList w))) w)
     \<lparr>w_rooms := (\<lambda>_. None), w_roomList := []\<rparr>"

lemma remove_rooms_step:
  fixes w :: "'e world"
  assumes E: "characters_ok E" and "live w" and "w_roomList w = []" and "distinct ps"
    and "\<And>p. p \<in> set ps \<Longrightarrow> \<exists>r. w_rooms w p = Some r \<and> connected w (r_roomUsers r)"
  shows "wp (foldM (\<lambda>room w. do { r \<leftarrow> w_rooms w room; w \<leftarrow> SendRemoveRoomPacketToAll (r_roomID r) w;
       delete_room E room w }) ps w)
    (\<lambda>w'. core w' = core ((evict (concat (map (\<lambda>p. r_roomUsers (the (w_rooms w p))) ps)) w)
       \<lparr>w_rooms := \<lambda>p. if p \<in> set ps then None else w_rooms w p\<rparr>))"
  using assms(2-5)
proof (induction ps arbitrary: w)
  case Nil
  then show ?case by (simp add: core_def)
next
  case (Cons p ps)
  obtain r where r: "w_rooms w p = Some r" "connected w (r_roomUsers r)" using Cons.prems(4) by fastforce
  obtain w1 where w1: "SendRemoveRoomPacketToAll (r_roomID r) w = Some w1" and c: "core w1 = core w"
    using quiet_SendRemoveRoomPacketToAll [OF Cons.prems(1)] by (rule quietE)
  have "wp (delete_room E p w1) (\<lambda>w'. core w' = core ((evict (r_roomUsers r) w1)\<lparr>w_rooms := (w_rooms w1)(p := None)\<rparr>))"
    using Cons.prems r core_live [OF c] core_connected [OF c] core_eqD [OF c]
    by (intro delete_room_evicts [OF E]) simp_all
  then obtain v where v: "delete_room E p w1 = Some v"
    and cv: "core v = core ((evict (r_roomUsers r) w)\<lparr>w_rooms := (w_rooms w)(p := None)\<rparr>)"
    using c by (auto simp: wp_iff core_def evict_def)
  have "live v"
    unfolding core_live [OF cv] using live_evict [OF Cons.prems(1), of "r_roomUsers r"] Cons.prems(2)
    by (auto simp: live_def)
  moreover have "\<exists>s. w_rooms v q = Some s \<and> connected v (r_roomUsers s)" if q: "q \<in> set ps" for q
  proof -
    obtain s where s: "w_rooms w q = Some s" "connected w (r_roomUsers s)" using Cons.prems(4) [of q] q by auto
    have "q \<noteq> p" using q Cons.prems(3) by auto
    then have "w_rooms v q = Some s" using s(1) core_eqD(2) [OF cv] by simp
    moreover have "connected v (r_roomUsers s)"
      using s(2) connected_evict [of "r_roomUsers r" w "r_roomUsers s"] core_connected [OF cv] by (simp add: connected_def)
    ultimately show ?thesis by blast
  qed
  ultimately have IH: "wp (foldM (\<lambda>room w. do { r \<leftarrow> w_rooms w room; w \<leftarrow> SendRemoveRoomPacketToAll (r_roomID r) w;
       delete_room E room w }) ps v)
    (\<lambda>w'. core w' = core ((evict (concat (map (\<lambda>p. r_roomUsers (the (w_rooms v p))) ps)) v)
       \<lparr>w_rooms := \<lambda>p. if p \<in> set ps then None else w_rooms v p\<rparr>))"
    using Cons.prems(2,3) core_eqD(4) [OF cv] by (intro Cons.IH) simp_all
  have same: "map (\<lambda>q. r_roomUsers (the (w_rooms v q))) ps = map (\<lambda>q. r_roomUsers (the (w_rooms w q))) ps"
    using Cons.prems(3) core_eqD(2) [OF cv] by (intro map_cong) auto
  have "core ((evict us v)\<lparr>w_rooms := \<lambda>q. if q \<in> set ps then None else w_rooms v q\<rparr>) =
      core ((evict (r_roomUsers r @ us) w)\<lparr>w_rooms := \<lambda>q. if q \<in> set (p # ps) then None else w_rooms w q\<rparr>)" for us
    using cv by (auto simp: core_def evict_def fun_eq_iff option.map_comp o_def)
  then show ?case
    using IH r w1 v core_eqD(2) [OF c] unfolding same by simp
qed

theorem RemoveAllRooms_step:
  fixes w :: "'e world"
  assumes E: "characters_ok E" and inv: "lobby_inv w"
  shows "wp (RemoveAllRooms E w) (\<lambda>w'. core w' = core (no_rooms w))"
proof -
  let ?w = "w\<lparr>w_roomList := []\<rparr>"
  have lists: "distinct (w_roomList w)" "dom (w_rooms w) = set (w_roomList w)"
    using lobby_invD(1) [OF inv] by (simp_all add: lists_ok_def)
  have "live ?w" using inv_live [OF inv] by (simp add: live_def)
  moreover have "\<exists>r. w_rooms ?w p = Some r \<and> connected ?w (r_roomUsers r)" if "p \<in> set (w_roomList w)" for p
    using that lists(2) inv_connected [OF inv] by (fastforce simp: connected_def)
  ultimately have "wp (RemoveAllRooms E w) (\<lambda>w'. core w' = core ((evict (concat (map (\<lambda>p. r_roomUsers (the (w_rooms ?w p))) (w_roomList w))) ?w)
       \<lparr>w_rooms := \<lambda>p. if p \<in> set (w_roomList w) then None else w_rooms ?w p\<rparr>))"
    unfolding RemoveAllRooms_def by (intro remove_rooms_step [OF E]) (use lists in simp_all)
  moreover have "(\<lambda>p. if p \<in> set (w_roomList w) then None else w_rooms ?w p) = (\<lambda>_. None)"
  proof
    show "(if p \<in> set (w_roomList w) then None else w_rooms ?w p) = None" for p
      using lists(2) by (cases "p \<in> set (w_roomList w)") auto
  qed
  moreover have "core ((evict us ?w)\<lparr>w_rooms := \<lambda>_. None\<rparr>) = core ((evict us w)\<lparr>w_rooms := \<lambda>_. None, w_roomList := []\<rparr>)" for us
    by (simp add: core_def evict_def)
  ultimately show ?thesis unfolding no_rooms_def by simp
qed

lemma no_rooms_inv:
  assumes inv: "lobby_inv w" shows "lobby_inv (no_rooms w)"
proof (rule lobby_invI)
  let ?us = "concat (map (\<lambda>p. r_roomUsers (the (w_rooms w p))) (w_roomList w))"
  have users: "w_users (no_rooms w) = (\<lambda>p. if p \<in> set ?us then map_option to_lobby (w_users w p) else w_users w p)"
    by (simp add: no_rooms_def fun_eq_iff)
  have "dom (w_users (no_rooms w)) = dom (w_users w)" unfolding users by (auto split: if_splits)
  then show "lists_ok (no_rooms w)" using lobby_invD(1) [OF inv] by (auto simp: lists_ok_def no_rooms_def)
  show "ids_ok (no_rooms w)" by (simp add: ids_ok_def no_rooms_def)
  show "user_ok (no_rooms w) p u" if u: "w_users (no_rooms w) p = Some u" for p u
  proof (cases "p \<in> set ?us")
    case True
    then obtain x where "w_users w p = Some x" "u = to_lobby x" using u unfolding users by auto
    then show ?thesis using lobby_invD(3) [OF inv] by (fastforce simp: user_ok_def to_lobby_def)
  next
    case False
    then have x: "w_users w p = Some u" using u unfolding users by simp
    have "u_currentRoomID u = 0"
    proof (rule ccontr)
      assume "u_currentRoomID u \<noteq> 0"
      then obtain q r where q: "w_rooms w q = Some r" "p \<in> set (r_roomUsers r)"
        using lobby_invD(3) [OF inv x] by (auto simp: user_ok_def)
      then have "q \<in> set (w_roomList w)" using inv_room_listed [OF inv] by blast
      then show False using q False by fastforce
    qed
    then show ?thesis using lobby_invD(3) [OF inv x] by (simp add: user_ok_def)
  qed
  show "room_ok (no_rooms w) s" if "w_rooms (no_rooms w) q = Some s" for q s
    using that by (simp add: no_rooms_def)
qed


text \<open>Neither touches the configuration or the list of users.\<close>

lemma dissolve_frame: "w_cfg (dissolve room r w) = w_cfg w" "w_userList (dissolve room r w) = w_userList w"
  by (simp_all add: dissolve_def)

lemma no_rooms_frame: "w_cfg (no_rooms w) = w_cfg w" "w_userList (no_rooms w) = w_userList w"
  by (simp_all add: no_rooms_def)

lemma keeps_same_roster:
  assumes "server_inv w" and "lobby_inv v" and "w_cfg v = w_cfg w" and "w_userList v = w_userList w"
  shows "keeps w v"
  using assms by (simp add: keeps_def server_inv_def counted_def)

lemma RemoveRoom_keeps:
  fixes w :: "'e world"
  assumes "characters_ok E" and inv: "server_inv w" and r: "w_rooms w room = Some r"
  shows "wp (RemoveRoom E room w) (keeps w)"
proof (rule wp_mono [OF RemoveRoom_dissolves [OF assms(1) server_invD(1) [OF inv] r]])
  have "keeps w (dissolve room r w)"
    using dissolve_inv [OF server_invD(1) [OF inv] r] by (intro keeps_same_roster [OF inv]) (simp_all add: dissolve_frame)
  then show "keeps w w'" if "core w' = core (dissolve room r w)" for w' :: "'e world"
    using keeps_core [OF _ that] keeps_trans by (auto simp: keeps_def)
qed

lemma RemoveAllRooms_keeps:
  fixes w :: "'e world"
  assumes "characters_ok E" and inv: "server_inv w"
  shows "wp (RemoveAllRooms E w) (keeps w)"
proof (rule wp_mono [OF RemoveAllRooms_step [OF assms(1) server_invD(1) [OF inv]]])
  have "keeps w (no_rooms w)"
    using no_rooms_inv [OF server_invD(1) [OF inv]] by (intro keeps_same_roster [OF inv]) (simp_all add: no_rooms_frame)
  then show "keeps w w'" if "core w' = core (no_rooms w)" for w' :: "'e world"
    using keeps_core [OF _ that] keeps_trans by (auto simp: keeps_def)
qed

end
