(* ===== verification/UdpSafety.thy ===== *)
theory UdpSafety
  imports Dissolving Udp
begin

text \<open>
  The UDP server is defined on every datagram and at every tick, in every world that satisfies
  \<open>server_inv\<close>, and keeps it: relayed datagrams have their header, peers only write the entries of
  other channels, the loops of the tick stay inside the server list.
\<close>

section \<open>How far a read gets\<close>

text \<open>
  A read of \<open>n\<close> bytes succeeds when they are there; when they are not it yields 0 and stays.
\<close>

lemma le_word_zeros: "le_word (replicate n 0) = 0"
  by (induction n) simp_all

lemma UDP_ReadBytes_cases:
  obtains "up_readOffset p + n \<le> length (up_buffer p)"
      "up_readOffset (snd (UDP_ReadBytes n LE p)) = up_readOffset p + n" "up_buffer (snd (UDP_ReadBytes n LE p)) = up_buffer p"
  | "length (up_buffer p) < up_readOffset p + n" "UDP_ReadBytes n LE p = (replicate n 0, p)"
  by (cases "up_readOffset p + n > length (up_buffer p)") (auto simp: UDP_ReadBytes_def Let_def)

lemma UDP_ReadUInt32_LE_cases:
  assumes "UDP_ReadUInt32_LE p = (v, p')"
  shows "up_buffer p' = up_buffer p \<and> (up_readOffset p' = up_readOffset p + 4 \<and> up_readOffset p + 4 \<le> length (up_buffer p) \<or>
    v = 0 \<and> p' = p \<and> length (up_buffer p) < up_readOffset p + 4)"
  using assms by (cases rule: UDP_ReadBytes_cases [of p 4 True])
    (auto simp: UDP_ReadUInt32_LE_def le_word_zeros [of 4, simplified] split: prod.splits)

lemma UDP_ReadUInt8_cases:
  assumes "UDP_ReadUInt8 p = (v, p')"
  shows "up_buffer p' = up_buffer p \<and> (up_readOffset p' = up_readOffset p + 1 \<and> up_readOffset p + 1 \<le> length (up_buffer p) \<or>
    v = 0 \<and> p' = p \<and> length (up_buffer p) < up_readOffset p + 1)"
  using assms by (cases rule: UDP_ReadBytes_cases [of p 1 True])
    (auto simp: UDP_ReadUInt8_def split: prod.splits)

text \<open>
  A relay packet whose target id is not 0 has its whole header: were a field before the target
  missing, the target would be missing too and read as 0.
\<close>

lemma relay_header:
  assumes "up_readOffset p = 1" "UDP_ReadUInt32_LE p = (userID, p1)" "UDP_ReadUInt8 p1 = (portType, p2)"
    "UDP_ReadUInt32_LE p2 = (target, p3)" "target \<noteq> 0"
  shows "RELAY_HEADER_SIZE \<le> length (up_buffer p3)"
  using assms(1,5) UDP_ReadUInt32_LE_cases [OF assms(2)] UDP_ReadUInt8_cases [OF assms(3)] UDP_ReadUInt32_LE_cases [OF assms(4)]
  by (auto simp: RELAY_HEADER_SIZE_def)

section \<open>Users change their endpoints\<close>

lemma core_sendPacket [simp]: "core (sendPacket ep ws w) = core w"
  by (simp add: sendPacket_def core_def)

lemma core_sends_udp [simp]:
  "core (sendClientPacket ep w) = core w" "core (sendPingPacket ep bs w) = core w"
  "core (sendHelloAnswerPacket ep w) = core w"
  by (simp_all add: sendClientPacket_def sendPingPacket_def sendHelloAnswerPacket_def)

lemma core_send_to_channels [simp]: "core (send_to_channels P ws w) = core w"
proof -
  have "core (fold (\<lambda>channel. sendPacket (ch_ip channel, ch_port channel) ws) cs w) = core w" for cs
    by (induction cs arbitrary: w) simp_all
  then show ?thesis by (simp add: send_to_channels_def)
qed

lemma match_user_in_game:
  assumes inv: "lobby_inv w" and x: "w_users w p = Some x" and r: "w_rooms w room = Some r" "r_gameMatch r = Some gm"
    and p: "p \<in> gmu_user ` set (gm_gameMatchUsers gm)"
  shows "u_userStatus x = InGame"
  using lobby_invD(4) [OF inv r(1)] r(2) p x by (auto simp: room_ok_def players_ok_def)

lemma keeps_set_user:
  assumes inv: "server_inv w" and x: "w_users w p = Some x"
    and same: "u_connection (f x) = u_connection x" "u_currentRoomID (f x) = u_currentRoomID x"
      "u_userStatus (f x) = u_userStatus x"
  shows "keeps w (set_user f p w)"
proof -
  have "lobby_inv (set_user f p w)"
    using same match_user_in_game [OF server_invD(1) [OF inv] x]
    by (intro set_user_inv [OF server_invD(1) [OF inv] x]) simp_all
  then show ?thesis using inv by (simp add: keeps_def server_inv_def counted_def)
qed

lemma upd_user_set: "w_users w p = Some x \<Longrightarrow> upd_user p f w = Some (set_user f p w)"
  by (simp add: upd_user_def set_user_def)

section \<open>Datagrams of clients\<close>

lemma own_room:
  assumes inv: "lobby_inv w" and x: "w_users w user = Some x"
  shows "\<exists>room. GetRoomByRoomID (u_currentRoomID x) w = Some room \<and> (room \<noteq> 0 \<longrightarrow>
    (\<exists>r. w_rooms w room = Some r \<and> user \<in> set (r_roomUsers r)))"
proof (cases "in_room x")
  case True
  from inv_own_room [OF inv x True] show ?thesis by metis
qed (simp add: inv_no_room [OF inv x])

lemma user_address_eq:
  assumes "lobby_inv w" and "w_users w user = Some x"
  shows "user_address user w = Some (c_ipAddress (w_conns w (u_connection x)))"
  using inv_conn [OF assms] assms(2) by (simp add: user_address_def conn_of_def)

text \<open>What a datagram of a client does: at most, the network data of the sender change.\<close>

definition net_changed :: "ptr \<Rightarrow> 'e world \<Rightarrow> 'e world \<Rightarrow> bool" where
  "net_changed user w w' \<longleftrightarrow> core w' = core w \<or>
     (\<exists>n. core w' = core (set_user (\<lambda>u. u\<lparr>u_userNetwork := n\<rparr>) user w))"

lemma net_changed_set:
  assumes "w_users w user = Some x" and "f x = x\<lparr>u_userNetwork := n\<rparr>" and "core w' = core (set_user f user w)"
  shows "net_changed user w w'"
proof -
  have "set_user f user w = set_user (\<lambda>u. u\<lparr>u_userNetwork := n\<rparr>) user w" using assms(1,2) by (simp add: set_user_def)
  then show ?thesis using assms(3) by (auto simp: net_changed_def)
qed

lemma SocketInfo_effect:
  assumes x: "w_users w user = Some x"
  shows "wp (SocketInfo E now ep user packet w) (net_changed user w)"
proof -
  have "net_changed user w (sendClientPacket ep (set_user (SetUserNetwork t a b c d e) user w))" for t a b c d e
    by (rule net_changed_set [OF x, of "SetUserNetwork t a b c d e" "u_userNetwork (SetUserNetwork t a b c d e x)"])
       (simp_all add: SetUserNetwork_def Let_def)
  then show ?thesis
    using upd_user_set [OF x] by (simp add: SocketInfo_def Let_def net_changed_def split: prod.split option.split)
qed

lemma Heartbeat_effect:
  assumes x: "w_users w user = Some x" shows "wp (Heartbeat now ep user w) (net_changed user w)"
proof -
  have "net_changed user w (set_user (SetUserNetworkHeartbeat t now) user w)" for t
    by (rule net_changed_set [OF x, of "SetUserNetworkHeartbeat t now" "u_userNetwork (SetUserNetworkHeartbeat t now x)"])
       (simp_all add: SetUserNetworkHeartbeat_def Let_def)
  then show ?thesis using x upd_user_set [OF x] by (simp add: Heartbeat_def Let_def net_changed_def)
qed

lemma handle_client_effect:
  fixes w :: "'e world"
  assumes inv: "lobby_inv w"
  shows "wp (handle_client E now ep packet w) (\<lambda>w'. core w' = core w \<or> (\<exists>user x.
    w_users w user = Some x \<and> u_userStatus x \<noteq> InLogin \<and> u_userID x = fst (UDP_ReadUInt32_LE packet) \<and>
    fst ep = c_ipAddress (w_conns w (u_connection x)) \<and> net_changed user w w'))" (is "wp _ ?Q")
proof -
  obtain i p where i: "UDP_ReadUInt32_LE packet = (i, p)" by (rule prod.exhaust)
  note s = handle_client_def with_sender_def i IsUserLoggedIn_def user_address_eq [OF inv]
  show ?thesis
  proof (rule users_by_id.lookup_cases [OF inv_allocated(2) [OF inv], of i])
    fix user x
    assume u: "GetUserByUserID i w = Some user" "w_users w user = Some x" "u_userID x = i" "user \<noteq> 0"
    have "wp (SocketInfo E now ep user q w) ?Q" "wp (Heartbeat now ep user w) ?Q"
      if "u_userStatus x \<noteq> InLogin" "fst ep = c_ipAddress (w_conns w (u_connection x))" for q
      using SocketInfo_effect [OF u(2)] Heartbeat_effect [OF u(2)] u(2,3) that i by (fastforce elim!: wp_mono)+
    then show ?thesis using u by (simp add: s split: prod.split)
  qed (simp add: s)
qed

lemma handle_client_keeps:
  fixes w :: "'e world"
  assumes inv: "server_inv w" shows "wp (handle_client E now ep packet w) (keeps w)"
proof (rule wp_mono [OF handle_client_effect [OF server_invD(1) [OF inv]]], elim disjE exE conjE)
  fix w' :: "'e world" and user x assume x: "w_users w user = Some x" and n: "net_changed user w w'"
  have set: "keeps w (set_user (\<lambda>u. u\<lparr>u_userNetwork := n\<rparr>) user w)" for n
    by (rule keeps_set_user [OF inv x]) simp_all
  have "keeps w w'" if "core w' = core (set_user (\<lambda>u. u\<lparr>u_userNetwork := n\<rparr>) user w)" for n
    by (rule keeps_trans [OF _ set [of n]], rule keeps_core) (use set [of n] that in \<open>simp_all add: keeps_def\<close>)
  then show "keeps w w'" using n keeps_core [OF inv] by (auto simp: net_changed_def)
qed (rule keeps_core [OF inv])

text \<open>One datagram of the relay: from a user of a room to another of the same, without the header.\<close>

definition relayed :: "endpoint \<Rightarrow> bytes \<Rightarrow> 'e world \<Rightarrow> 'e world \<Rightarrow> bool" where
  "relayed ep buffer w w' \<longleftrightarrow> (\<exists>user x target v room r port.
    w_users w user = Some x \<and> w_users w target = Some v \<and> w_rooms w room = Some r \<and>
    user \<in> set (r_roomUsers r) \<and> target \<in> set (r_roomUsers r) \<and>
    fst ep = c_ipAddress (w_conns w (u_connection x)) \<and> RELAY_HEADER_SIZE \<le> length buffer \<and>
    port \<in> {un_externalHostPort (u_userNetwork v), un_externalGuestPort (u_userNetwork v)} \<and>
    w' = sendPacket (c_ipAddress (w_conns w (u_connection v)), port) [WriteArray_UInt8 (drop RELAY_HEADER_SIZE buffer)] w)"

lemma sendRelayPacket_relayed:
  assumes "w_users w user = Some x" and "w_users w target = Some v" and "w_rooms w room = Some r"
    and "user \<in> set (r_roomUsers r)" "target \<in> set (r_roomUsers r)"
    and "fst ep = c_ipAddress (w_conns w (u_connection x))" and "RELAY_HEADER_SIZE \<le> length buffer"
    and port: "port \<in> {un_externalHostPort (u_userNetwork v), un_externalGuestPort (u_userNetwork v)}"
  shows "wp (sendRelayPacket (c_ipAddress (w_conns w (u_connection v)), port) buffer w) (relayed ep buffer w)"
proof -
  have "relayed ep buffer w (sendPacket (c_ipAddress (w_conns w (u_connection v)), port)
      [WriteArray_UInt8 (drop RELAY_HEADER_SIZE buffer)] w)"
    unfolding relayed_def
    by (intro exI [of _ user] exI [of _ x] exI [of _ target] exI [of _ v] exI [of _ room] exI [of _ r] exI [of _ port])
       (simp add: assms(1-7) port [simplified])
  then show ?thesis using assms(7) by (simp add: sendRelayPacket_def)
qed

lemma handle_relay_effect:
  fixes w :: "'e world"
  assumes inv: "lobby_inv w" and off: "up_readOffset packet = 1"
  shows "wp (handle_relay ep packet w) (\<lambda>w'. w' = w \<or> relayed ep (up_buffer packet) w w')"
proof -
  obtain i p1 where i: "UDP_ReadUInt32_LE packet = (i, p1)" by (rule prod.exhaust)
  obtain t p2 where t: "UDP_ReadUInt8 p1 = (t, p2)" by (rule prod.exhaust)
  obtain j p3 where j: "UDP_ReadUInt32_LE p2 = (j, p3)" by (rule prod.exhaust)
  note buf = UDP_ReadUInt32_LE_cases [OF i] UDP_ReadUInt8_cases [OF t] UDP_ReadUInt32_LE_cases [OF j]
    and s = handle_relay_def with_sender_def i t j IsUserLoggedIn_def user_address_eq [OF inv] Let_def
  show ?thesis
  proof (rule by_user_id_cases [OF inv, of i])
    fix user x assume u: "GetUserByUserID i w = Some user" "w_users w user = Some x" "user \<noteq> 0"
    obtain rm where rm: "GetRoomByRoomID (u_currentRoomID x) w = Some rm"
      "rm \<noteq> 0 \<longrightarrow> (\<exists>r. w_rooms w rm = Some r \<and> user \<in> set (r_roomUsers r))" using own_room [OF inv u(2)] by blast
    show ?thesis
    proof (rule by_user_id_cases [OF inv, of j])
      fix target v assume v: "GetUserByUserID j w = Some target" "w_users w target = Some v" "target \<noteq> 0"
      obtain rm' where rm': "GetRoomByRoomID (u_currentRoomID v) w = Some rm'"
        "rm' \<noteq> 0 \<longrightarrow> (\<exists>r. w_rooms w rm' = Some r \<and> target \<in> set (r_roomUsers r))" using own_room [OF inv v(2)] by blast
      have relay: "wp (sendRelayPacket (c_ipAddress (w_conns w (u_connection v)),
          if pt = Host then un_externalHostPort (u_userNetwork v) else un_externalGuestPort (u_userNetwork v)) (up_buffer p3) w)
          (\<lambda>w'. w' = w \<or> relayed ep (up_buffer packet) w w')"
        if "rm' = rm" "rm \<noteq> 0" "fst ep = c_ipAddress (w_conns w (u_connection x))" "j \<noteq> 0" for pt
      proof -
        note len = relay_header [OF off i t j that(4)] and same = that(3) and one = that(1,2)
        have "up_buffer p3 = up_buffer packet" using buf by simp
        moreover obtain r where "w_rooms w rm = Some r" "user \<in> set (r_roomUsers r)" "target \<in> set (r_roomUsers r)"
          using rm(2) rm'(2) one by auto
        ultimately show ?thesis
          using len same u(2) v(2)
          by (intro wp_mono [OF sendRelayPacket_relayed [of w user x target v rm r]]) auto
      qed
      then show ?thesis using u v rm(1) rm'(1) by (simp add: s split: option.split)
    qed (use u rm in \<open>simp add: s split: option.split\<close>)
  qed (simp add: s)
qed

lemma handle_relay_keeps:
  fixes w :: "'e world"
  assumes inv: "server_inv w" and off: "up_readOffset packet = 1"
  shows "wp (handle_relay ep packet w) (keeps w)"
  using handle_relay_effect [OF server_invD(1) [OF inv] off]
  by (rule wp_mono) (auto simp: relayed_def keeps_refl [OF inv] intro: keeps_core [OF inv])

lemma handle_ping_keeps:
  fixes w :: "'e world"
  assumes inv: "server_inv w"
  shows "wp (handle_ping ep packet (us, w)) (\<lambda>(us', w'). keeps w w')"
proof -
  note lob = server_invD(1) [OF inv]
  obtain t p1 where t: "UDP_ReadUInt8 packet = (t, p1)" by (rule prod.exhaust)
  obtain i p2 where i: "UDP_ReadUInt16_LE p1 = (i, p2)" by (rule prod.exhaust)
  have ping: "keeps w (sendPingPacket ep' buf w)" for ep' buf by (rule keeps_core [OF inv]) simp
  show ?thesis
  proof (rule rooms_by_id.lookup_cases [OF inv_allocated(1) [OF lob], of i])
    assume "GetRoomByRoomID i w = Some 0"
    then show ?thesis using t i keeps_refl [OF inv] by (simp add: handle_ping_def)
  next
    fix room r assume r: "GetRoomByRoomID i w = Some room" "w_rooms w room = Some r" "room \<noteq> 0"
    obtain h where h: "w_users w (r_roomHostUser r) = Some h"
      using inv_members [OF lob r(2) inv_host [OF lob r(2)]] by blast
    note ip = user_address_eq [OF lob h]
    then show ?thesis using t i r h keeps_refl [OF inv] ping
      by (simp add: handle_ping_def ping_request_def ping_reply_def Let_def split: option.split)
  qed
qed

section \<open>The entries of the server list\<close>

lemma minus_one_inject: "unat (a - 1 :: u8) = unat (b - 1) \<longleftrightarrow> a = b"
  by (simp add: word_unat_eq_iff [symmetric])

text \<open>An update of an entry keeps the ids, and the player count of every channel but the one updated.\<close>

lemma server_ids_upd_server:
  assumes "server_at cfg s = Some server" and "sv_id server' = sv_id server"
    and "map ch_id (sv_channels server') = map ch_id (sv_channels server)"
  shows "server_ids (cfg\<lparr>cfg_serverList := (cfg_serverList cfg)[unat (s - 1) := server']\<rparr>) = server_ids cfg"
  using assms by (auto simp: server_ids_def server_at_def vec_at_def intro!: map_update_same split: if_splits)

lemma keeps_upd_config:
  assumes inv: "server_inv w" and server: "server_at (w_cfg w) s = Some server"
    and ids: "sv_id server' = sv_id server" "map ch_id (sv_channels server') = map ch_id (sv_channels server)"
    and count: "s = cfg_serverID (w_cfg w) \<Longrightarrow>
      map_option ch_numPlayers (vec_at (sv_channels server') (unat (cfg_channelID (w_cfg w) - 1))) =
      map_option ch_numPlayers (vec_at (sv_channels server) (unat (cfg_channelID (w_cfg w) - 1)))"
  shows "keeps w (w\<lparr>w_cfg := (w_cfg w)\<lparr>cfg_serverList := (cfg_serverList (w_cfg w))[unat (s - 1) := server']\<rparr>\<rparr>)"
proof -
  let ?cfg = "(w_cfg w)\<lparr>cfg_serverList := (cfg_serverList (w_cfg w))[unat (s - 1) := server']\<rparr>"
  let ?sid = "cfg_serverID (w_cfg w)" and ?cid = "cfg_channelID (w_cfg w)"
  have "map_option ch_numPlayers (channel_at ?cfg ?sid ?cid) = map_option ch_numPlayers (channel_at (w_cfg w) ?sid ?cid)"
  proof (cases "s = ?sid")
    case True
    then have "server_at ?cfg ?sid = Some server'"
      using server by (auto simp: server_at_def vec_at_def split: if_splits)
    then show ?thesis using server count [OF True] True by (simp add: channel_at_def)
  next
    case False
    then have "server_at ?cfg ?sid = server_at (w_cfg w) ?sid"
      using minus_one_inject [of s ?sid] by (simp add: server_at_def vec_at_def)
    then show ?thesis by (simp add: channel_at_def)
  qed
  moreover have "lobby_inv (w\<lparr>w_cfg := ?cfg\<rparr>)"
    using server_invD(1) [OF inv] by (subst lobby_lobby_inv [of _ w]) (simp_all add: lobby_def)
  ultimately show ?thesis
    using inv server_ids_upd_server [OF server ids] by (simp add: keeps_def server_inv_def counted_def shape_def)
qed

lemma upd_channel_keeps:
  assumes inv: "server_inv w" and ch: "channel_at (w_cfg w) s c \<noteq> None" and f: "\<And>ch. ch_id (f ch) = ch_id ch"
    and own: "s = cfg_serverID (w_cfg w) \<Longrightarrow> c = cfg_channelID (w_cfg w) \<Longrightarrow> \<forall>ch. ch_numPlayers (f ch) = ch_numPlayers ch"
  shows "wp (upd_channel s c f w) (keeps w)"
proof -
  obtain server channel where server: "server_at (w_cfg w) s = Some server"
    and channel: "vec_at (sv_channels server) (unat (c - 1)) = Some channel"
    using ch by (auto simp: channel_at_def bind_eq_Some_conv)
  let ?server = "server\<lparr>sv_channels := (sv_channels server)[unat (c - 1) := f channel]\<rparr>"
  have "map ch_id (sv_channels ?server) = map ch_id (sv_channels server)"
    using channel f by (auto simp: vec_at_def intro!: map_update_same split: if_splits)
  moreover have "map_option ch_numPlayers (vec_at (sv_channels ?server) (unat (cfg_channelID (w_cfg w) - 1))) =
      map_option ch_numPlayers (vec_at (sv_channels server) (unat (cfg_channelID (w_cfg w) - 1)))"
    if "s = cfg_serverID (w_cfg w)"
    using own [OF that] channel minus_one_inject [of c "cfg_channelID (w_cfg w)"]
    by (cases "c = cfg_channelID (w_cfg w)") (auto simp: vec_at_def split: if_splits)
  ultimately show ?thesis
    using keeps_upd_config [OF inv server, of ?server] server channel by (simp add: upd_channel_def)
qed

lemma upd_server_keeps:
  assumes inv: "server_inv w" and server: "server_at (w_cfg w) s \<noteq> None"
    and f: "\<And>sv. sv_id (f sv) = sv_id sv" "\<And>sv. sv_channels (f sv) = sv_channels sv"
  shows "wp (upd_server s f w) (keeps w)"
  using server keeps_upd_config [OF inv] f by (auto simp: upd_server_def)

lemma wp_keeps_bind:
  assumes "wp m (keeps w)" and "\<And>v. keeps w v \<Longrightarrow> wp (f v) (keeps v)"
  shows "wp (Option.bind m f) (keeps w)"
proof -
  have "wp m (\<lambda>v. wp (f v) (keeps w))"
    using assms(1) by (rule wp_mono) (rule wp_mono [OF assms(2)], auto intro: keeps_trans)
  then show ?thesis by simp
qed

lemma keeps_server_inv: "keeps w v \<Longrightarrow> server_inv v"
  by (simp add: keeps_def)

lemma keeps_server_at: "keeps w v \<Longrightarrow> (server_at (w_cfg v) s = None) = (server_at (w_cfg w) s = None)"
proof -
  assume "keeps w v"
  then have "length (server_ids (w_cfg v)) = length (server_ids (w_cfg w))" by (simp add: keeps_def shape_def)
  then show ?thesis by (simp add: server_at_def vec_at_def server_ids_def)
qed

lemma keeps_ids: "keeps w v \<Longrightarrow> cfg_serverID (w_cfg v) = cfg_serverID (w_cfg w)"
  "keeps w v \<Longrightarrow> cfg_channelID (w_cfg v) = cfg_channelID (w_cfg w)"
  "keeps w v \<Longrightarrow> server_ids (w_cfg v) = server_ids (w_cfg w)"
  by (simp_all add: keeps_def shape_def)

lemma update_status_keeps:
  "server_inv w \<Longrightarrow> server_at (w_cfg w) s \<noteq> None \<Longrightarrow> wp (update_status s w) (keeps w)"
  by (simp add: update_status_def keeps_refl upd_server_keeps)

lemma channel_server_at: "channel_at cfg s c \<noteq> None \<Longrightarrow> server_at cfg s \<noteq> None"
  by (cases "server_at cfg s") (simp_all add: channel_at_def)

lemma go_frame [simp]:
  "ch_id (go_offline ch) = ch_id ch" "ch_id (go_online now n ch) = ch_id ch"
  by (simp_all add: go_offline_def go_online_def)

lemma set_offline_keeps:
  assumes inv: "server_inv w" and ch: "channel_at (w_cfg w) s c \<noteq> None"
    and other: "\<not> (s = cfg_serverID (w_cfg w) \<and> c = cfg_channelID (w_cfg w))"
  shows "wp (do { w \<leftarrow> upd_channel s c go_offline w; update_status s w }) (keeps w)"
proof (rule wp_keeps_bind [OF upd_channel_keeps [OF inv ch]])
  show "wp (update_status s v) (keeps v)" if "keeps w v" for v
    using keeps_server_inv [OF that] keeps_server_at [OF that] channel_server_at [OF ch]
    by (intro update_status_keeps) auto
qed (use other in simp_all)

section \<open>Datagrams of the other servers\<close>

text \<open>A peer that knows the key speaks for a channel other than this one.\<close>

definition peer_ok :: "ServerConfig \<Rightarrow> udp_packet \<Rightarrow> bool" where
  "peer_ok cfg packet \<longleftrightarrow>
     (let (authKey, packet) = UDP_ReadString packet; (serverID, packet) = UDP_ReadUInt8 packet;
          (channelID, packet) = UDP_ReadUInt8 packet
      in authKey = cfg_udpAuthKey cfg \<longrightarrow> \<not> (serverID = cfg_serverID cfg \<and> channelID = cfg_channelID cfg))"

lemma handle_server_keeps:
  fixes w :: "'e world"
  assumes inv: "server_inv w" and ok: "peer_ok (w_cfg w) packet"
  shows "wp (handle_server now ep packet w) (keeps w)"
proof -
  obtain key p1 where key: "UDP_ReadString packet = (key, p1)" by (rule prod.exhaust)
  obtain s p2 where s: "UDP_ReadUInt8 p1 = (s, p2)" by (rule prod.exhaust)
  obtain c p3 where c: "UDP_ReadUInt8 p2 = (c, p3)" by (rule prod.exhaust)
  obtain t p4 where t: "UDP_ReadUInt8 p3 = (t, p4)" by (rule prod.exhaust)
  obtain n p5 where n: "UDP_ReadUInt16_LE p4 = (n, p5)" by (rule prod.exhaust)
  note refl = keeps_refl [OF inv]
  show ?thesis
  proof (cases "key = cfg_udpAuthKey (w_cfg w) \<and> s \<noteq> 0 \<and> unat s \<le> length (cfg_serverList (w_cfg w))")
    case True
    then have foreign: "\<not> (s = cfg_serverID (w_cfg w) \<and> c = cfg_channelID (w_cfg w))"
      using ok key s c by (simp add: peer_ok_def)
    obtain server where server: "server_at (w_cfg w) s = Some server" using server_at_total True by blast
    show ?thesis
    proof (cases "c = 0 \<or> unat c > length (sv_channels server)")
      case True
      then show ?thesis using refl by (simp add: handle_server_def key s c server Let_def)
    next
      case False
      then have ch: "channel_at (w_cfg w) s c \<noteq> None" using channel_at_total [OF server, of c] by auto
      have hello: "wp (do {
          w \<leftarrow> upd_channel s c (go_online now n) w;
          w \<leftarrow> (if s \<noteq> cfg_serverID (w_cfg w) then upd_server s (\<lambda>s. s\<lparr>sv_status := Ready\<rparr>) w else Some w);
          Some (if t = HELLO then sendHelloAnswerPacket ep w else w) }) (keeps w)"
      proof (intro wp_keeps_bind upd_channel_keeps inv ch)
        fix v v' assume v: "keeps w v" "keeps v v'"
        show "wp (Some (if t = HELLO then sendHelloAnswerPacket ep v' else v')) (keeps v')"
          using keeps_core [OF keeps_server_inv [OF v(2)]] by simp
      next
        fix v assume v: "keeps w v"
        have "wp (upd_server s (\<lambda>s. s\<lparr>sv_status := Ready\<rparr>) v) (keeps v)"
          using keeps_server_at [OF v, of s] server keeps_server_inv [OF v] by (intro upd_server_keeps) auto
        then show "wp (if s \<noteq> cfg_serverID (w_cfg v) then upd_server s (\<lambda>s. s\<lparr>sv_status := Ready\<rparr>) v else Some v) (keeps v)"
          using keeps_refl [OF keeps_server_inv [OF v]] by simp
      qed (use foreign in simp_all)
      have beat: "wp (upd_channel s c (\<lambda>ch. ch\<lparr>ch_lastHeartbeat := now\<rparr>) w) (keeps w)"
        by (rule upd_channel_keeps [OF inv ch]) simp_all
      have num: "wp (upd_channel s c (\<lambda>ch. ch\<lparr>ch_numPlayers := n\<rparr>) w) (keeps w)"
        by (rule upd_channel_keeps [OF inv ch]) (use foreign in simp_all)
      have bye: "wp (do { w \<leftarrow> upd_channel s c go_offline w; update_status s w }) (keeps w)"
        by (rule set_offline_keeps [OF inv ch foreign])
      show ?thesis
        using hello beat num bye refl True False
        by (simp add: handle_server_def key s c t n server Let_def del: wp_bind)
    qed
  qed (use refl in \<open>auto simp: handle_server_def key s c\<close>)
qed

definition datagram_ok :: "ServerConfig \<Rightarrow> string \<times> u16 \<Rightarrow> bytes \<Rightarrow> bool" where
  "datagram_ok cfg ep buffer \<longleftrightarrow>
     (let (sig, packet) = UDP_ReadUInt8 (new_UDPPacket ep buffer) in
       sig = UDP_SERVER_PACKET_SIGNATURE \<longrightarrow> peer_ok cfg packet)"

lemma handleReceive_keeps:
  fixes w :: "'e world"
  assumes inv: "server_inv w" and ok: "datagram_ok (w_cfg w) ep buffer"
  shows "wp (handleReceive E ep buffer (us, w)) (\<lambda>(us', w'). keeps w w')"
proof -
  obtain g p where g: "UDP_ReadUInt8 (new_UDPPacket ep buffer) = (g, p)" by (rule prod.exhaust)
  have off: "up_readOffset p = 1" if "g \<noteq> 0"
    using UDP_ReadUInt8_cases [OF g] that by (simp add: new_UDPPacket_def)
  have lift: "wp (map_option (Pair us) m) (\<lambda>(us', w'). keeps w w')" if "wp m (keeps w)" for m
    using that by (cases m) simp_all
  have "g = UDP_RELAY_PACKET_SIGNATURE \<Longrightarrow> up_readOffset p = 1" using off by (simp add: udp_defs)
  moreover have "g = UDP_SERVER_PACKET_SIGNATURE \<Longrightarrow> peer_ok (w_cfg w) p" using ok g by (simp add: datagram_ok_def)
  ultimately show ?thesis
    using lift [OF handle_client_keeps [OF inv]] lift [OF handle_relay_keeps [OF inv]]
      lift [OF handle_server_keeps [OF inv]] handle_ping_keeps [OF inv, of ep p us] keeps_refl [OF inv]
    by (simp add: handleReceive_def g)
qed

section \<open>Sessions and rooms are renewed\<close>

lemma IsUserSessionAdded_total:
  assumes "schema_ok E" shows "\<exists>res e'. IsUserSessionAdded E cfg userID e = Some (res, e')"
proof -
  let ?q = "''SELECT serverID, channelID FROM user_sessions WHERE userID = '' @ fmt userID @ '';''"
  obtain r e' where q: "mysql_query E ?q e = (r, e')" by (cases "mysql_query E ?q e")
  have q_ok: "rows_ok E ?q [ColInt, ColInt]" using assms unfolding schema_ok_def by blast
  show ?thesis
  proof (cases "\<exists>row rows. r = Inr (row # rows)")
    case True
    then obtain row rows where r: "r = Inr (row # rows)" by blast
    have ok: "list_all2 col_ok [ColInt, ColInt] row" by (rule rows_okD [OF q_ok q [unfolded r]]) simp
    obtain s c where row: "col_byte row 0 = Some s" "col_byte row 1 = Some c"
      using read_byte [OF ok, of 0] read_byte [OF ok, of 1] by auto
    show ?thesis
    proof (cases "s = 0 \<or> unat s > length (cfg_serverList cfg)")
      case True
      then show ?thesis using q r row by (simp add: IsUserSessionAdded_def)
    next
      case False
      then obtain server where "server_at cfg s = Some server" using server_at_total [of s cfg] by auto
      then show ?thesis using False q r row by (simp add: IsUserSessionAdded_def)
    qed
  next
    case False
    then have "r = Inr [] \<or> (\<exists>n. r = Inl n)" by (cases r; cases "projr r") auto
    then show ?thesis using q by (auto simp: IsUserSessionAdded_def)
  qed
qed

lemma renew_session_quiet:
  fixes w :: "'e world"
  assumes E: "schema_ok E" and x: "w_users w user \<noteq> None"
  shows "quiet w (renew_session E user w)"
proof -
  obtain x where x: "w_users w user = Some x" using x by blast
  obtain a e1 where a: "IsUserSessionAdded E (w_cfg w) (u_userID x) (w_ext w) = Some (a, e1)"
    using IsUserSessionAdded_total [OF E] by blast
  obtain b e2 where b: "AddUserSession E (w_cfg w) (u_userID x) e1 = Some (b, e2)"
    using AddUserSession_total [OF E] by blast
  show ?thesis using x a b DisconnectUser_quiet [OF x] by (simp add: renew_session_def Let_def)
qed

lemma check_client_quiet:
  fixes w :: "'e world"
  assumes "w_users w user \<noteq> None"
  shows "quiet w (check_client now user w)"
  using assms DisconnectUser_quiet [of w user]
  by (auto simp: check_client_def Let_def SendPacket_UMsg_ServerMessage_def)

text \<open>A loop over users whose body is quiet.\<close>

lemma foldM_quiet:
  fixes w :: "'e world"
  assumes "\<And>p (v :: 'e world). w_users v p \<noteq> None \<Longrightarrow> quiet v (f p v)" and "\<And>p. p \<in> set ps \<Longrightarrow> w_users w p \<noteq> None"
  shows "quiet w (foldM f ps w)"
proof -
  have "wp (foldM f ps w) (\<lambda>v. core v = core w)"
  proof (rule foldM_inv)
    fix p and v :: "'e world" assume p: "p \<in> set ps" and v: "core v = core w"
    have "quiet v (f p v)" using assms(2) [OF p] core_eqD(1) [OF v] by (intro assms(1)) simp
    then show "wp (f p v) (\<lambda>v. core v = core w)" using v by (simp add: quiet_def)
  qed simp
  then show ?thesis by (simp add: quiet_def)
qed

definition same_but :: "ptr \<Rightarrow> 'e world \<Rightarrow> 'e world \<Rightarrow> bool" where
  "same_but room w w' \<longleftrightarrow> w_userList w' = w_userList w \<and> (\<forall>q. q \<noteq> room \<longrightarrow> w_rooms w' q = w_rooms w q)"

lemma renew_room_keeps:
  fixes w :: "'e world"
  assumes E: "characters_ok E" and inv: "server_inv w" and r: "w_rooms w room = Some r"
  shows "wp (renew_room E room w) (\<lambda>w'. keeps w w' \<and> same_but room w w')"
proof -
  obtain n e where n: "DB_AddRoom E (w_cfg w) (r_roomID r) False (password (r_roomSettings r) \<noteq> [])
      (levelLimit (r_roomSettings r)) (gameModeID (r_roomSettings r)) (mapID (r_roomSettings r))
      (of_nat (length (r_roomUsers r))) (maxPlayers (r_roomSettings r)) (w_ext w) = (n, e)" by (rule prod.exhaust)
  let ?w = "w\<lparr>w_ext := e\<rparr>"
  have k: "keeps w ?w" by (rule keeps_core [OF inv]) simp
  have "wp (RemoveRoom E room ?w) (keeps w)"
    using RemoveRoom_keeps [OF E keeps_server_inv [OF k], of room r] r
    by (auto intro: keeps_trans [OF _ k] elim!: wp_mono)
  moreover have "wp (RemoveRoom E room ?w) (same_but room w)"
  proof -
    have "wp (RemoveRoom E room ?w) (\<lambda>w'. core w' = core (dissolve room r ?w))"
      using RemoveRoom_dissolves [OF E server_invD(1) [OF keeps_server_inv [OF k]], of room r] r by simp
    then show ?thesis
      by (rule wp_mono) (auto simp: dissolve_def same_but_def dest: core_eqD(2,3))
  qed
  ultimately have "wp (RemoveRoom E room ?w) (\<lambda>w'. keeps w w' \<and> same_but room w w')" by (rule wp_conj)
  moreover have "same_but room w ?w" by (simp add: same_but_def)
  ultimately show ?thesis using k by (cases "n \<le> 0") (simp_all add: renew_room_def Let_def r n)
qed

lemma renew_rooms_keeps:
  fixes w :: "'e world"
  assumes E: "characters_ok E" and "server_inv w" and "distinct ps" and "\<And>p. p \<in> set ps \<Longrightarrow> w_rooms w p \<noteq> None"
  shows "wp (foldM (renew_room E) ps w) (\<lambda>w'. keeps w w' \<and> w_userList w' = w_userList w)"
  using assms(2-)
proof (induction ps arbitrary: w)
  case (Cons p ps)
  obtain r where r: "w_rooms w p = Some r" using Cons.prems(3) [of p] by auto
  obtain v where v: "renew_room E p w = Some v" "keeps w v" "same_but p w v"
    using renew_room_keeps [OF E Cons.prems(1) r] by (auto simp: wp_iff)
  have "w_rooms v q \<noteq> None" if "q \<in> set ps" for q
    using Cons.prems(2) Cons.prems(3) [of q] v(3) that by (auto simp: same_but_def)
  then have "wp (foldM (renew_room E) ps v) (\<lambda>w'. keeps v w' \<and> w_userList w' = w_userList v)"
    using Cons.prems(2) by (intro Cons.IH keeps_server_inv [OF v(2)]) auto
  then have "wp (foldM (renew_room E) ps v) (\<lambda>w'. keeps w w' \<and> w_userList w' = w_userList w)"
    by (rule wp_mono) (use v(2,3) keeps_trans in \<open>auto simp: same_but_def\<close>)
  then show ?case using v(1) by simp
qed (simp add: keeps_refl)

section \<open>The loops over the server list\<close>

text \<open>
  \<open>ServerConfig::Load\<close> numbers the servers from 1, and the channels of each of them, in the order of
  the list: the entry an id gives is the entry that has it.
\<close>

definition numbered :: "ServerConfig \<Rightarrow> bool" where
  "numbered cfg \<longleftrightarrow> (let ids = server_ids cfg in length ids < 256 \<and>
     (\<forall>i < length ids. fst (ids ! i) = of_nat (Suc i) \<and> length (snd (ids ! i)) < 256 \<and>
        (\<forall>j < length (snd (ids ! i)). snd (ids ! i) ! j = of_nat (Suc j))))"

lemma unat_position: "unat (of_nat (Suc i) - 1 :: u8) = i" if "i < 256"
  using that by (simp add: unat_of_nat)

lemma numbered_at:
  assumes "numbered cfg" and "i < length (cfg_serverList cfg)"
  shows "server_at cfg (sv_id (cfg_serverList cfg ! i)) = Some (cfg_serverList cfg ! i)"
proof -
  have "sv_id (cfg_serverList cfg ! i) = of_nat (Suc i)" and "i < 256"
    using assms by (auto simp: numbered_def server_ids_def Let_def)
  then show ?thesis using assms(2) unat_position [of i] by (simp add: server_at_def)
qed

lemma numbered_channel_at:
  assumes "numbered cfg" and "i < length (cfg_serverList cfg)" and "j < length (sv_channels (cfg_serverList cfg ! i))"
  shows "channel_at cfg (sv_id (cfg_serverList cfg ! i)) (ch_id (sv_channels (cfg_serverList cfg ! i) ! j)) =
    Some (sv_channels (cfg_serverList cfg ! i) ! j)"
proof -
  let ?s = "cfg_serverList cfg ! i"
  have "ch_id (sv_channels ?s ! j) = of_nat (Suc j)" and "j < 256"
    using assms by (fastforce simp: numbered_def server_ids_def Let_def)+
  then show ?thesis
    using assms(3) unat_position [of j] numbered_at [OF assms(1,2)] by (simp add: channel_at_def)
qed

lemma keeps_numbered: "keeps w v \<Longrightarrow> numbered (w_cfg v) = numbered (w_cfg w)"
  using keeps_ids(3) [of w v] by (simp add: numbered_def)

lemma keeps_lengths:
  assumes "keeps w v"
  shows "length (cfg_serverList (w_cfg v)) = length (cfg_serverList (w_cfg w))"
    and "i < length (cfg_serverList (w_cfg w)) \<Longrightarrow>
      length (sv_channels (cfg_serverList (w_cfg v) ! i)) = length (sv_channels (cfg_serverList (w_cfg w) ! i))"
proof -
  have eq: "server_ids (w_cfg v) = server_ids (w_cfg w)" by (rule keeps_ids(3) [OF assms])
  show len: "length (cfg_serverList (w_cfg v)) = length (cfg_serverList (w_cfg w))"
    using arg_cong [OF eq, of length] by (simp add: server_ids_def)
  show "length (sv_channels (cfg_serverList (w_cfg v) ! i)) = length (sv_channels (cfg_serverList (w_cfg w) ! i))"
    if "i < length (cfg_serverList (w_cfg w))"
    using arg_cong [OF eq, of "\<lambda>ids. length (snd (ids ! i))"] that len by (simp add: server_ids_def)
qed

text \<open>A loop keeps what its body keeps at every entry of the list.\<close>

lemma foldM_keeps:
  fixes w :: "'e world"
  assumes "server_inv w" and "\<And>x v. x \<in> set xs \<Longrightarrow> keeps w v \<Longrightarrow> wp (f x v) (keeps v)"
  shows "wp (foldM f xs w) (keeps w)"
proof (rule foldM_inv)
  fix x v assume "x \<in> set xs" and v: "keeps w v"
  then have "wp (f x v) (keeps v)" by (rule assms(2))
  then show "wp (f x v) (keeps w)" by (rule wp_mono) (rule keeps_trans [OF _ v])
qed (rule keeps_refl [OF assms(1)])

lemma for_servers_keeps:
  fixes w :: "'e world"
  assumes inv: "server_inv w" and num: "numbered (w_cfg w)"
    and f: "\<And>i v. keeps w v \<Longrightarrow> i < length (cfg_serverList (w_cfg v)) \<Longrightarrow>
      wp (f i (cfg_serverList (w_cfg v) ! i) v) (keeps v)"
  shows "wp (for_servers f w) (keeps w)"
  unfolding for_servers_def
proof (rule foldM_keeps [OF inv])
  fix i v assume "i \<in> set [0..<length (cfg_serverList (w_cfg w))]" and v: "keeps w v"
  then have "i < length (cfg_serverList (w_cfg v))" using keeps_lengths(1) [OF v] by simp
  then show "wp (do { server \<leftarrow> vec_at (cfg_serverList (w_cfg v)) i; f i server v }) (keeps v)"
    using f [OF v] by simp
qed

lemma for_channels_keeps:
  fixes w :: "'e world"
  assumes inv: "server_inv w" and num: "numbered (w_cfg w)" and i: "i < length (cfg_serverList (w_cfg w))"
    and f: "\<And>v server channel. keeps w v \<Longrightarrow> channel_at (w_cfg v) (sv_id server) (ch_id channel) = Some channel \<Longrightarrow>
      \<not> is_own (w_cfg v) server channel \<Longrightarrow> wp (f server channel v) (keeps v)"
  shows "wp (for_channels i f w) (keeps w)"
proof -
  have "wp (foldM (\<lambda>j w. do {
       server \<leftarrow> vec_at (cfg_serverList (w_cfg w)) i;
       channel \<leftarrow> vec_at (sv_channels server) j;
       (if is_own (w_cfg w) server channel then Some w else f server channel w)
     }) [0..<length (sv_channels (cfg_serverList (w_cfg w) ! i))] w) (keeps w)"
  proof (rule foldM_keeps [OF inv])
    fix j v assume j: "j \<in> set [0..<length (sv_channels (cfg_serverList (w_cfg w) ! i))]" and v: "keeps w v"
    have iv: "i < length (cfg_serverList (w_cfg v))" and jv: "j < length (sv_channels (cfg_serverList (w_cfg v) ! i))"
      using i j keeps_lengths [OF v] by simp_all
    show "wp (do {
       server \<leftarrow> vec_at (cfg_serverList (w_cfg v)) i;
       channel \<leftarrow> vec_at (sv_channels server) j;
       (if is_own (w_cfg v) server channel then Some v else f server channel v)
     }) (keeps v)"
      using iv jv f [OF v numbered_channel_at [OF _ iv jv]] keeps_numbered [OF v] num
        keeps_refl [OF keeps_server_inv [OF v]] by simp
  qed
  then show ?thesis using i by (simp add: for_channels_def)
qed

lemma forget_peers_keeps:
  fixes w :: "'e world"
  assumes inv: "server_inv w" and num: "numbered (w_cfg w)"
  shows "wp (forget_peers w) (keeps w)"
  unfolding forget_peers_def
proof (rule for_servers_keeps [OF inv num])
  fix i v assume v: "keeps w v" and i: "i < length (cfg_serverList (w_cfg v))"
  let ?s = "cfg_serverList (w_cfg v) ! i"
  note inv_v = keeps_server_inv [OF v]
  have num_v: "numbered (w_cfg v)" using num keeps_numbered [OF v] by simp
  show "wp (do {
     w \<leftarrow> (if sv_id ?s \<noteq> cfg_serverID (w_cfg v) then upd_server (sv_id ?s) (\<lambda>s. s\<lparr>sv_status := NotReady\<rparr>) v else Some v);
     for_channels i (\<lambda>server channel. upd_channel (sv_id server) (ch_id channel) go_offline) w }) (keeps v)"
  proof (rule wp_keeps_bind)
    show "wp (if sv_id ?s \<noteq> cfg_serverID (w_cfg v) then upd_server (sv_id ?s) (\<lambda>s. s\<lparr>sv_status := NotReady\<rparr>) v else Some v)
        (keeps v)"
      using numbered_at [OF num_v i] keeps_refl [OF inv_v] by (simp add: upd_server_keeps [OF inv_v])
  next
    fix u assume u: "keeps v u"
    show "wp (for_channels i (\<lambda>server channel. upd_channel (sv_id server) (ch_id channel) go_offline) u) (keeps u)"
    proof (rule for_channels_keeps)
      fix x server channel assume x: "keeps u x" "channel_at (w_cfg x) (sv_id server) (ch_id channel) = Some channel"
        "\<not> is_own (w_cfg x) server channel"
      then show "wp (upd_channel (sv_id server) (ch_id channel) go_offline x) (keeps x)"
        by (intro upd_channel_keeps keeps_server_inv [OF x(1)]) (auto simp: is_own_def)
    qed (use keeps_server_inv [OF u] keeps_numbered [OF u] num_v i keeps_lengths(1) [OF u] in simp_all)
  qed
qed

lemma check_peer_keeps:
  fixes w :: "'e world"
  assumes inv: "server_inv w" and ch: "channel_at (w_cfg w) (sv_id server) (ch_id channel) = Some channel"
    and other: "\<not> is_own (w_cfg w) server channel"
  shows "wp (check_peer now server channel w) (keeps w)"
  using set_offline_keeps [OF inv, of "sv_id server" "ch_id channel"] ch other keeps_refl [OF inv]
    keeps_core [OF inv core_sendPacket]
  by (simp add: check_peer_def sendHeartbeatPacket_def is_own_def)

section \<open>Every second\<close>

lemma foldM_partial:
  assumes "foldM f xs s = Some s'" and "I s" and "\<And>x s s'. f x s = Some s' \<Longrightarrow> I s \<Longrightarrow> I s'"
  shows "I s'"
  using assms(1,2) by (induction xs arbitrary: s) (auto simp: bind_eq_Some_conv intro: assms(3))

text \<open>The state shared with the peers is the configuration: the users are not touched.\<close>

lemma upd_userList:
  "upd_channel s c f w = Some w' \<Longrightarrow> w_userList w' = w_userList w"
  "upd_server s g w = Some w' \<Longrightarrow> w_userList w' = w_userList w"
  by (auto simp: upd_channel_def upd_server_def Let_def bind_eq_Some_conv)

lemma forget_peers_userList:
  fixes w :: "'e world"
  assumes "forget_peers w = Some w'" shows "w_userList w' = w_userList w"
proof -
  have channels: "w_userList v' = us" if "for_channels i (\<lambda>server channel. upd_channel (sv_id server) (ch_id channel) go_offline) v = Some v'"
    "w_userList v = us" for i us and v v' :: "'e world"
    using that unfolding for_channels_def bind_eq_Some_conv
    by (elim exE conjE, erule_tac I = "\<lambda>v. w_userList v = us" in foldM_partial)
       (auto simp: bind_eq_Some_conv upd_userList split: if_splits)
  show ?thesis
    using assms unfolding forget_peers_def for_servers_def
    by (erule_tac I = "\<lambda>v. w_userList v = w_userList w" in foldM_partial)
       (auto simp: bind_eq_Some_conv upd_userList channels split: if_splits)
qed

lemma users_listed: "server_inv w \<Longrightarrow> p \<in> set (w_userList w) \<Longrightarrow> w_users w p \<noteq> None"
  by (auto simp: server_inv_def lobby_inv_def lists_ok_def)

lemma resume_keeps:
  fixes w :: "'e world"
  assumes E: "served E (w_cfg w)" and inv: "server_inv w" and num: "numbered (w_cfg w)"
    and users: "set users \<subseteq> set (w_userList w)"
  shows "wp (resume E users w) (\<lambda>w'. keeps w w' \<and> w_userList w' = w_userList w)"
proof -
  obtain w1 where w1: "forget_peers w = Some w1" "keeps w w1" using forget_peers_keeps [OF inv num] by (auto simp: wp_iff)
  have l1: "w_userList w1 = w_userList w" by (rule forget_peers_userList [OF w1(1)])
  let ?w2 = "sendHelloPacketToAll w1"
  have c2: "core ?w2 = core w1" by (simp add: sendHelloPacketToAll_def)
  have "w_users w1 p \<noteq> None" if "p \<in> set users" for p
    using users_listed [OF keeps_server_inv [OF w1(2)], of p] users that l1 by auto
  then have "quiet ?w2 (foldM (renew_session E) users ?w2)"
    using E by (intro foldM_quiet renew_session_quiet) (auto simp: served_def core_eqD(1) [OF c2])
  then obtain w3 where w3: "foldM (renew_session E) users ?w2 = Some w3" "core w3 = core w1"
    using c2 by (auto simp: quiet_def wp_iff)
  let ?w4 = "w3\<lparr>w_ext := DB_RemoveAllRooms E (w_cfg w3) (w_ext w3)\<rparr>"
  have c4: "core ?w4 = core w1" using w3(2) by simp
  have k4: "keeps w ?w4" using keeps_core [OF keeps_server_inv [OF w1(2)] c4] w1(2) by (rule keeps_trans)
  have "lists_ok ?w4" using keeps_server_inv [OF k4] by (simp only: server_inv_def lobby_inv_def)
  then have "wp (foldM (renew_room E) (filter (\<lambda>room. room \<noteq> 0) (w_roomList ?w4)) ?w4)
      (\<lambda>w'. keeps ?w4 w' \<and> w_userList w' = w_userList ?w4)"
    using keeps_server_inv [OF k4] served_characters [OF E]
    by (intro renew_rooms_keeps) (auto simp: lists_ok_def)
  then show ?thesis
    using w1(1) w3(1) l1 core_eqD(3) [OF c4] keeps_trans [OF _ k4]
    by (auto simp: resume_def Let_def elim!: wp_mono)
qed

theorem OnSecondTick_keeps:
  fixes w :: "'e world"
  assumes E: "served E (w_cfg w)" and inv: "server_inv w" and num: "numbered (w_cfg w)"
  shows "wp (OnSecondTick E now (us, w)) (\<lambda>(us', w'). keeps w w')"
proof (cases "w_udpRunning w")
  case True
  let ?users = "filter (\<lambda>u. case w_users w u of None \<Rightarrow> False | Some x \<Rightarrow> u_connection x \<noteq> 0) (w_userList w)"
  have users: "filterM (keep_user (\<lambda>u x. u_connection x \<noteq> 0) w) (w_userList w) = Some ?users"
    using users_listed [OF inv] inv_null(1) [OF server_invD(1) [OF inv]]
    by (intro filterM_total) (fastforce simp: keep_user_def split: option.split)
  obtain w1 where w1: "(if us_currentTime us + UDP_SERVER_HEARTBEAT_TIMEOUT < now then resume E ?users w else Some w) = Some w1"
    "keeps w w1" "w_userList w1 = w_userList w"
  proof (cases "us_currentTime us + UDP_SERVER_HEARTBEAT_TIMEOUT < now")
    case True
    have "wp (resume E ?users w) (\<lambda>w'. keeps w w' \<and> w_userList w' = w_userList w)"
      by (rule resume_keeps [OF E inv num]) auto
    then show thesis using that True by (auto simp: wp_iff)
  qed (use that keeps_refl [OF inv] in simp)
  have "quiet w1 (foldM (check_client now) ?users w1)"
    using users_listed [OF keeps_server_inv [OF w1(2)]] w1(3) by (intro foldM_quiet check_client_quiet) auto
  then obtain w2 where w2: "foldM (check_client now) ?users w1 = Some w2" "core w2 = core w1"
    by (auto simp: quiet_def wp_iff)
  have k2: "keeps w w2" using keeps_core [OF keeps_server_inv [OF w1(2)] w2(2)] w1(2) by (rule keeps_trans)
  have "wp (for_servers (\<lambda>i _. for_channels i (check_peer now)) w2) (keeps w2)"
  proof (rule for_servers_keeps)
    fix i v assume v: "keeps w2 v" "i < length (cfg_serverList (w_cfg v))"
    show "wp (for_channels i (check_peer now) v) (keeps v)"
    proof (rule for_channels_keeps)
      show "wp (check_peer now server channel x) (keeps x)"
        if "keeps v x" "channel_at (w_cfg x) (sv_id server) (ch_id channel) = Some channel"
          "\<not> is_own (w_cfg x) server channel" for server channel x
        by (rule check_peer_keeps [OF keeps_server_inv [OF that(1)] that(2,3)])
    qed (use v keeps_server_inv [OF v(1)] keeps_numbered [OF v(1)] keeps_numbered [OF k2] num in simp_all)
  qed (use keeps_server_inv [OF k2] keeps_numbered [OF k2] num in simp_all)
  then have "wp (for_servers (\<lambda>i _. for_channels i (check_peer now)) w2) (keeps w)"
    by (rule wp_mono) (rule keeps_trans [OF _ k2])
  then show ?thesis using True users w1(1) w2(1) by (simp add: OnSecondTick_def Let_def)
qed (use keeps_refl [OF inv] in \<open>simp add: OnSecondTick_def\<close>)

end
