(* ===== verification/ServerSafety.thy ===== *)
theory ServerSafety
  imports Server Queues UdpSafety
begin

text \<open>
  Every event of the process is defined in a state that satisfies \<open>machine_inv\<close>, and keeps it; the
  states reachable from the start satisfy it.
\<close>

section \<open>What the outside may do\<close>

text \<open>
  A new connection is a new object; reads deliver the number of bytes asked for; clients and peers
  respect \<open>packet_ok\<close> and \<open>datagram_ok\<close>.
\<close>

definition body_ok :: "'e env \<Rightarrow> ptr \<Rightarrow> packet \<Rightarrow> bytes \<Rightarrow> 'e world \<Rightarrow> bool" where
  "body_ok E c packet buffer w \<longleftrightarrow> length buffer = unat (p_length packet) \<and>
     (case onReadBody E packet buffer (w_conns w c) (w_ext w) of
        Some (ReadDone _, k, _) \<Rightarrow> list_all (\<lambda>q. packet_ok q w) (c_incomingPackets k)
      | _ \<Rightarrow> True)"

fun event_ok :: "'e env \<Rightarrow> event \<Rightarrow> 'e machine \<Rightarrow> bool" where
  "event_ok E (Accept c ip port) m \<longleftrightarrow> c \<noteq> 0 \<and> c \<notin> set (m_connections m)"
| "event_ok E (Received_Header c bs) m \<longleftrightarrow> length bs = PACKET_HEADER_SIZE"
| "event_ok E (Received_Body now c bs) m \<longleftrightarrow>
     (case m_pending m c of None \<Rightarrow> False | Some packet \<Rightarrow> body_ok E c packet bs (m_world m))"
| "event_ok E (Read_Failed c reason) m \<longleftrightarrow> reason \<noteq> NoError"
| "event_ok E (Datagram ep bs) m \<longleftrightarrow> datagram_ok (w_cfg (m_world m)) ep bs"
| "event_ok E _ m \<longleftrightarrow> True"

section \<open>The invariant of the process\<close>

definition machine_inv :: "'e machine \<Rightarrow> bool" where
  "machine_inv m \<longleftrightarrow> server_inv (m_world m) \<and> distinct (m_connections m) \<and> m_secondCount m < 60 \<and>
     (\<forall>c p. m_pending m c = Some p \<longrightarrow> p_length p \<noteq> 0) \<and> idle (m_world m)"

definition stays :: "'e machine \<Rightarrow> 'e machine \<Rightarrow> bool" where
  "stays m m' \<longleftrightarrow> machine_inv m' \<and> shape (w_cfg (m_world m')) = shape (w_cfg (m_world m))"

lemma machine_invD:
  "machine_inv m \<Longrightarrow> server_inv (m_world m)" "machine_inv m \<Longrightarrow> m_secondCount m < 60"
  "machine_inv m \<Longrightarrow> m_pending m c = Some p \<Longrightarrow> p_length p \<noteq> 0"
  "machine_inv m \<Longrightarrow> idle (m_world m)"
  by (simp_all add: machine_inv_def)

lemma stays_refl: "machine_inv m \<Longrightarrow> stays m m"
  by (simp add: stays_def)

lemma stays_trans: "stays m1 m2 \<Longrightarrow> stays m m1 \<Longrightarrow> stays m m2"
  by (simp add: stays_def)

lemma stays_world:
  "machine_inv m \<Longrightarrow> keeps (m_world m) w \<Longrightarrow> idle w \<Longrightarrow> stays m (m\<lparr>m_world := w\<rparr>)"
  by (simp add: stays_def machine_inv_def keeps_def)

lemma stays_core:
  "machine_inv m \<Longrightarrow> core w = core (m_world m) \<Longrightarrow> idle w \<Longrightarrow> stays m (m\<lparr>m_world := w\<rparr>)"
  by (rule stays_world) (simp_all add: machine_inv_def keeps_core)

lemma map_option_world:
  assumes "machine_inv m" and "wp r (keeps (m_world m))" and "keeps_queues (m_world m) r"
  shows "wp (map_option (\<lambda>w. m\<lparr>m_world := w\<rparr>) r) (stays m)"
  using assms idle_kept [OF assms(3) machine_invD(4) [OF assms(1)]] by (cases r) (simp_all add: stays_world)

section \<open>Connections\<close>

lemma DisconnectUserByConnection_keeps:
  fixes w :: "'e world"
  assumes "server_inv w" shows "wp (DisconnectUserByConnection E c bad w) (keeps w)"
proof -
  have "lobby_inv w" "channel_ok w" "counted w"
    using assms counted_channel_ok [of w] by (auto simp: server_inv_def)
  then show ?thesis
    using DisconnectUserByConnection_inv [of w E c bad] by (auto simp: keeps_def server_inv_def elim!: wp_mono)
qed

lemma disconnect_stays:
  fixes m :: "'e machine"
  assumes inv: "machine_inv m" shows "wp (disconnect E c reason m) (stays m)"
proof -
  let ?r = "DisconnectUserByConnection E c (reason = BadDescriptor) (m_world m)"
  have "idle w" if "?r = Some w" for w
    using idle_kept [OF disconnect_frames(2) [OF link_refl] machine_invD(4) [OF inv] that] by simp
  then show ?thesis
    using DisconnectUserByConnection_keeps [OF machine_invD(1) [OF inv], of E c "reason = BadDescriptor"] inv
    by (auto simp: disconnect_def stays_def machine_inv_def keeps_def wp_iff)
qed

lemma set_conn_stays: "machine_inv m \<Longrightarrow> idle_conn k \<Longrightarrow> stays m (set_conn c k e m)"
  unfolding set_conn_def by (rule stays_core) (simp_all add: idle_upd_conn machine_invD)

lemma idle_conn_at: "machine_inv m \<Longrightarrow> idle_conn (w_conns (m_world m) c)"
  by (simp add: machine_inv_def idle_def)

lemma stays_then:
  assumes "stays m m1" and "machine_inv m1 \<Longrightarrow> wp r (stays m1)" shows "wp r (stays m)"
  using assms(2) by (rule wp_mono) (use assms(1) stays_trans in \<open>auto simp: stays_def\<close>)

lemma startAccept_stays:
  assumes "machine_inv m" and "c \<notin> set (m_connections m)" shows "stays m (startAccept c ip port m)"
  using assms stays_core [OF assms(1), of "upd_conn c (\<lambda>_. new_conn ip port) (m_world m)"]
  by (auto simp: startAccept_def stays_def machine_inv_def idle_upd_conn idle_new_conn)

lemma start_failed_stays:
  assumes inv: "machine_inv m" shows "stays m (start_failed c reason m)"
  using stays_core [OF inv, of "upd_conn c DisconnectClient (m_world m)"] inv stays_refl [OF inv]
    idle_link [OF link_DisconnectClient [OF link_refl] machine_invD(4) [OF inv]]
  by (simp add: start_failed_def stays_def machine_inv_def)

lemma onReadHeader_length:
  "onReadHeader E c bs k e = (ReadBody packet, k', e') \<Longrightarrow> p_length packet \<noteq> 0"
  by (auto simp: onReadHeader_def Let_def split: prod.splits option.splits if_splits)

lemma onReadHeader_link: "onReadHeader E c bs k e = (out, k', e') \<Longrightarrow> conn_link k k'"
  by (auto simp: onReadHeader_def Let_def conn_link_def queue_ok_def split: prod.splits option.splits if_splits)

lemma receive_header_stays:
  fixes m :: "'e machine"
  assumes inv: "machine_inv m" shows "wp (receive_header E c bs m) (stays m)"
proof -
  obtain out k e where r: "onReadHeader E c bs (w_conns (m_world m) c) (w_ext (m_world m)) = (out, k, e)"
    by (metis prod_cases3)
  have m: "stays m (set_conn c k e m)"
    by (rule set_conn_stays [OF inv idle_conn_link [OF onReadHeader_link [OF r] idle_conn_at [OF inv]]])
  have "stays m ((set_conn c k e m)\<lparr>m_pending := (m_pending (set_conn c k e m))(c \<mapsto> packet)\<rparr>)" if "out = ReadBody packet" for packet
    using m onReadHeader_length [OF r [unfolded that]] by (auto simp: stays_def machine_inv_def)
  moreover have "wp (disconnect E c NoError (set_conn c k e m)) (stays m)"
    by (rule stays_then [OF m disconnect_stays])
  ultimately show ?thesis by (simp add: receive_header_def r Let_def split: read_outcome.split)
qed

lemma core_packet_ok: "core w' = core w \<Longrightarrow> packet_ok p w' = packet_ok p w"
  by (simp add: packet_ok_def room_packet_ok_def core_def)

text \<open>The one packet of an idle queue.\<close>

lemma processPacket_keeps:
  fixes w :: "'e world"
  assumes E: "served E (w_cfg w)" and inv: "server_inv w" and q: "c_incomingPackets (w_conns w c) = [packet]"
    and ok: "packet_ok packet w"
  shows "wp (processPacket E now c w) (keeps w)"
proof -
  have "keeps w (upd_conn c f v)" if "keeps w v" for f v
    using keeps_core [OF keeps_server_inv [OF that], of "upd_conn c f v"] that by (auto intro: keeps_trans)
  then show ?thesis
    using ParsePacket_inv [OF E inv ok, of now] by (auto simp: processPacket_def q elim: wp_mono)
qed

text \<open>What is left of the queues when the one packet has been handled.\<close>

lemma processPacket_idle:
  assumes "idle (w\<lparr>w_conns := (w_conns w)(c := k\<lparr>c_incomingPackets := []\<rparr>)\<rparr>)"
    and "w_conns w c = k" and "c_incomingPackets k = [packet]" and "processPacket E now c w = Some w'"
  shows "idle w'"
proof -
  obtain v where v: "ParsePacket E now packet w = Some v"
    "w' = upd_conn c (\<lambda>k. k\<lparr>c_incomingPackets := tl (c_incomingPackets k)\<rparr>) v"
    using assms(2-4) by (auto simp: processPacket_def bind_eq_Some_conv)
  have "link w v" using ParsePacket_frame [OF link_refl, of w E now packet] v(1) by (simp add: kept_def)
  then have l: "c_incomingPackets (w_conns v d) = c_incomingPackets (w_conns w d)"
    "queue_ok (w_conns w d) \<Longrightarrow> queue_ok (w_conns v d)" for d
    by (simp_all add: link_def)
  have i: "idle_conn (if d = c then k\<lparr>c_incomingPackets := []\<rparr> else w_conns w d)" for d
    using assms(1) by (simp add: idle_def)
  have "idle_conn (w_conns w' d)" for d
    using i [of d] l [of d] assms(2,3) v(2)
    by (cases "d = c") (simp_all add: idle_conn_def upd_conn_def, simp add: queue_ok_def)
  then show ?thesis by (simp add: idle_def)
qed

lemma onReadBody_queue:
  assumes "onReadBody E packet bs k e = Some (ReadDone fresh, k', e')" and "idle_conn k"
  shows "fresh \<and> (\<exists>q. c_incomingPackets k' = [q]) \<and> idle_conn (k'\<lparr>c_incomingPackets := []\<rparr>)"
  using assms
  by (auto simp: onReadBody_def Let_def bind_eq_Some_conv idle_conn_def queue_ok_def
      split: if_splits prod.splits option.splits)

lemma onReadBody_total:
  assumes "bs \<noteq> []" shows "\<exists>out k' e'. onReadBody E packet bs k e = Some (out, k', e') \<and> (\<forall>p. out \<noteq> ReadBody p) \<and>
    (out = ReadDisconnect \<longrightarrow> k' = k)"
  using assms by (auto simp: onReadBody_def Let_def split: prod.split option.split)

lemma receive_body_stays:
  fixes m :: "'e machine"
  assumes E: "served E (w_cfg (m_world m))" and inv: "machine_inv m" and p: "m_pending m c = Some packet"
    and ok: "body_ok E c packet bs (m_world m)"
  shows "wp (receive_body E now c bs m) (stays m)"
proof -
  let ?w = "m_world m"
  have "bs \<noteq> []" using ok machine_invD(3) [OF inv p] by (auto simp: body_ok_def unat_eq_0)
  then obtain out k e where r: "onReadBody E packet bs (w_conns ?w c) (w_ext ?w) = Some (out, k, e)"
    "\<forall>p. out \<noteq> ReadBody p" "out = ReadDisconnect \<longrightarrow> k = w_conns ?w c"
    using onReadBody_total [of bs E packet "w_conns ?w c" "w_ext ?w"] by blast
  let ?m = "(set_conn c k e m)\<lparr>m_pending := (m_pending m)(c := None)\<rparr>"
  have c: "core (m_world ?m) = core ?w" by (simp add: set_conn_def)
  show ?thesis
  proof (cases out)
    case (ReadDone fresh)
    obtain q where q: "c_incomingPackets k = [q]" "fresh" "idle_conn (k\<lparr>c_incomingPackets := []\<rparr>)"
      using onReadBody_queue [OF r(1) [unfolded ReadDone] idle_conn_at [OF inv]] by blast
    have inv': "server_inv (m_world ?m)"
      using keeps_core [OF machine_invD(1) [OF inv] c] by (simp add: keeps_def)
    have "packet_ok q ?w" using ok r(1) q ReadDone by (simp add: body_ok_def)
    then have kp: "wp (processPacket E now c (m_world ?m)) (keeps (m_world ?m))"
      using inv' E core_packet_ok [OF c] core_eqD(6) [OF c] q
      by (intro processPacket_keeps [of _ _ _ q]) (auto simp: set_conn_def upd_conn_def)
    have "idle w'" if "processPacket E now c (m_world ?m) = Some w'" for w'
    proof (rule processPacket_idle [OF _ _ q(1) that])
      show "idle ((m_world ?m)\<lparr>w_conns := (w_conns (m_world ?m))(c := k\<lparr>c_incomingPackets := []\<rparr>)\<rparr>)"
        using machine_invD(4) [OF inv] q(3) by (simp add: idle_def set_conn_def upd_conn_def)
      show "w_conns (m_world ?m) c = k" by (simp add: set_conn_def upd_conn_def)
    qed
    then have "wp (map_option (\<lambda>w. ?m\<lparr>m_world := w\<rparr>) (processPacket E now c (m_world ?m))) (stays m)"
      using kp inv core_eqD(6) [OF c] by (auto simp: wp_iff stays_def machine_inv_def keeps_def set_conn_def)
    then show ?thesis using p r ReadDone q(2) by (simp add: receive_body_def Let_def)
  next
    case ReadDisconnect
    have "stays m ?m"
      using set_conn_stays [OF inv idle_conn_at [OF inv], of c c e] r(3) ReadDisconnect
      by (auto simp: stays_def machine_inv_def set_conn_def)
    then have "wp (disconnect E c NoError ?m) (stays m)" by (rule stays_then [OF _ disconnect_stays])
    then show ?thesis using p r ReadDisconnect by (simp add: receive_body_def Let_def)
  qed (use r in simp)
qed

lemma asyncWrite_total:
  assumes "queue_ok k"
  shows "\<exists>out k' e'. asyncWrite E ssl k e = Some (out, k', e') \<and> conn_link k k'"
  using assms
  by (cases "c_outgoingPackets k")
     (auto simp: asyncWrite_def queue_ok_def conn_link_def PACKET_HEADER_SIZE_def Let_def split: prod.split option.split)

lemma write_front_stays:
  fixes m :: "'e machine"
  assumes inv: "machine_inv m"
  shows "wp (write_front E c m) (stays m)"
proof -
  note k = idle_conn_at [OF inv, of c]
  obtain out k e where r: "asyncWrite E (cfg_ssl (w_cfg (m_world m))) (w_conns (m_world m) c) (w_ext (m_world m)) =
      Some (out, k, e)" "conn_link (w_conns (m_world m) c) k"
    using asyncWrite_total [of "w_conns (m_world m) c" E "cfg_ssl (w_cfg (m_world m))" "w_ext (m_world m)"] k
    by (auto simp: idle_conn_def)
  note s = set_conn_stays [OF inv idle_conn_link [OF r(2) k], of c e]
  show ?thesis
    using s stays_then [OF s disconnect_stays] r(1) by (simp add: write_front_def Let_def)
qed

lemma idle_onWrite: "idle_conn k \<Longrightarrow> idle_conn (snd (onWrite k))"
  by (cases "c_outgoingPackets k") (simp_all add: idle_conn_def onWrite_def queue_ok_def Let_def)

lemma written_stays: "machine_inv m \<Longrightarrow> stays m (written c m)"
  unfolding written_def
  by (rule stays_core) (simp_all add: idle_upd_conn machine_invD idle_onWrite idle_conn_at)

section \<open>Console\<close>

lemma drop_connections_stays: "machine_inv m \<Longrightarrow> stays m (drop_connections cs m)"
proof (induction cs arbitrary: m)
  case (Cons c cs)
  let ?m = "m\<lparr>m_connections := remove1 c (m_connections m), m_world := upd_conn c DisconnectClient (m_world m)\<rparr>"
  have "stays m ?m" using start_failed_stays [OF Cons.prems, of c SocketError] by (simp add: start_failed_def)
  then show ?case
    using Cons.IH [of ?m] by (auto simp: drop_connections_def stays_def)
qed (simp add: drop_connections_def stays_refl)

lemma clear_rooms_keeps:
  fixes w :: "'e world"
  assumes E: "characters_ok E" and inv: "server_inv w"
  shows "wp (clear_rooms E w) (keeps w)"
proof -
  have "keeps w (v\<lparr>w_ext := e\<rparr>)" if "keeps w v" for v e
    using keeps_core [OF keeps_server_inv [OF that], of "v\<lparr>w_ext := e\<rparr>"] that by (auto intro: keeps_trans)
  then show ?thesis
    using keeps_refl [OF inv] RemoveAllRooms_keeps [OF E inv] by (auto simp: clear_rooms_def elim: wp_mono)
qed

lemma clear_rooms_frame [frames]: "link w0 w \<Longrightarrow> keeps_queues w0 (clear_rooms E w)"
  unfolding clear_rooms_def by (rule frames kept_rules | assumption | simp)+

lemma strangers_total:
  assumes "lobby_inv w" shows "\<exists>ds. strangers w cs = Some ds"
proof -
  have "\<exists>b. map_option (\<lambda>user. user = 0) (GetUserByConnection c w) = Some b" for c
    by (rule by_connection_cases [OF assms, of c]) auto
  then obtain q where "\<And>c. map_option (\<lambda>user. user = 0) (GetUserByConnection c w) = Some (q c)" by metis
  then show ?thesis unfolding strangers_def by (subst filterM_total) auto
qed

lemma DisconnectAllUsers_quiet:
  fixes w :: "'e world"
  assumes "server_inv w" shows "quiet w (DisconnectAllUsers w)"
  unfolding DisconnectAllUsers_def
proof (rule foldM_quiet)
  show "quiet v (DisconnectUser p v)" if "w_users v p \<noteq> None" for p and v :: "'e world"
    using that DisconnectUser_quiet [of v p _ v] by auto
qed (use users_listed [OF assms] in auto)

lemma disconnect_all_clients_stays:
  fixes m :: "'e machine"
  assumes E: "characters_ok E" and inv: "machine_inv m"
  shows "wp (disconnect_all_clients E m) (stays m)"
proof -
  obtain w where w: "clear_rooms E (m_world m) = Some w" "keeps (m_world m) w"
    using clear_rooms_keeps [OF E machine_invD(1) [OF inv]] by (auto simp: wp_iff)
  obtain cs where cs: "strangers w (m_connections m) = Some cs"
    using strangers_total server_invD(1) [OF keeps_server_inv [OF w(2)]] by blast
  let ?m1 = "m\<lparr>m_world := w\<rparr>" and ?m = "drop_connections cs (m\<lparr>m_world := w\<rparr>)"
  have 1: "stays m ?m1"
    using idle_kept [OF clear_rooms_frame [OF link_refl] machine_invD(4) [OF inv] w(1)] by (rule stays_world [OF inv w(2)])
  have 2: "stays ?m1 ?m" by (rule drop_connections_stays) (use 1 in \<open>simp add: stays_def\<close>)
  then have inv2: "machine_inv ?m" by (simp add: stays_def)
  have "quiet (m_world ?m) (DisconnectAllUsers (m_world ?m))"
    by (rule DisconnectAllUsers_quiet [OF machine_invD(1) [OF inv2]])
  then obtain v where v: "DisconnectAllUsers (m_world ?m) = Some v" "core v = core (m_world ?m)"
    by (auto simp: quiet_def wp_iff)
  have "idle v"
    using idle_kept [OF disconnect_frames(1) [OF link_refl] machine_invD(4) [OF inv2] v(1)] .
  then have "stays m (?m\<lparr>m_world := v\<rparr>)"
    using stays_trans [OF stays_core [OF inv2 v(2)] stays_trans [OF 2 1]] by simp
  then show ?thesis using stays_refl [OF inv] w cs v by (simp add: disconnect_all_clients_def Let_def)
qed

lemma run_command_stays:
  fixes m :: "'e machine"
  assumes E: "characters_ok E" and inv: "machine_inv m"
  shows "wp (run_command E cmd m) (stays m)"
  using stays_refl [OF inv] disconnect_all_clients_stays [OF E inv]
    map_option_world [OF inv clear_rooms_keeps [OF E machine_invD(1) [OF inv]] clear_rooms_frame [OF link_refl]]
  by (cases cmd) simp_all

lemma console_second_tick_stays:
  fixes m :: "'e machine"
  assumes E: "served E (w_cfg (m_world m))" and num: "numbered (w_cfg (m_world m))" and inv: "machine_inv m"
  shows "wp (console_second_tick E now m) (stays m)"
proof -
  obtain us w where w: "OnSecondTick E now (m_udp m, m_world m) = Some (us, w)" "keeps (m_world m) w"
    using OnSecondTick_keeps [OF E machine_invD(1) [OF inv] num, of now "m_udp m"] by (auto simp: wp_iff)
  have "keeps (m_world m) (OnMinuteTick E now w)"
    using keeps_core [OF keeps_server_inv [OF w(2)], of "OnMinuteTick E now w"] w(2)
    by (auto simp: OnMinuteTick_def intro: keeps_trans)
  moreover have "idle w"
    using idle_kept [OF OnSecondTick_frame [OF link_refl] machine_invD(4) [OF inv] w(1)] by simp
  ultimately show ?thesis
    using inv w by (auto simp: console_second_tick_def stays_def machine_inv_def keeps_def OnMinuteTick_def)
qed

section \<open>Any event\<close>

lemma keeps_served: "stays m m' \<Longrightarrow> served E (w_cfg (m_world m')) = served E (w_cfg (m_world m))"
  unfolding stays_def by (intro served_shape) simp

lemma stays_numbered: "stays m m' \<Longrightarrow> numbered (w_cfg (m_world m')) = numbered (w_cfg (m_world m))"
  by (simp add: stays_def numbered_def shape_def)

lemma perform_stays:
  fixes m :: "'e machine"
  assumes E: "served E (w_cfg (m_world m))" and num: "numbered (w_cfg (m_world m))" and inv: "machine_inv m"
    and ok: "event_ok E ev m"
  shows "wp (perform E ev m) (stays m)"
proof (cases ev)
  case (Received_Body now c bs)
  then show ?thesis using ok receive_body_stays [OF E inv] by (auto split: option.splits)
next
  case (Datagram ep bs)
  then have "datagram_ok (w_cfg (m_world m)) ep bs" using ok by simp
  then have "wp (handleReceive E ep bs (m_udp m, m_world m)) (\<lambda>(us, w). keeps (m_world m) w)"
    by (rule handleReceive_keeps [OF machine_invD(1) [OF inv]])
  moreover have "idle w" if "handleReceive E ep bs (m_udp m, m_world m) = Some (us, w)" for us w
    using idle_kept [OF handleReceive_frame [OF link_refl] machine_invD(4) [OF inv] that] by simp
  ultimately show ?thesis using Datagram inv
    by (auto simp: wp_iff stays_def machine_inv_def keeps_def)
qed (use ok startAccept_stays [OF inv] start_failed_stays [OF inv] receive_header_stays [OF inv] disconnect_stays [OF inv]
    write_front_stays [OF inv] written_stays [OF inv] console_second_tick_stays [OF E num inv]
    run_command_stays [OF served_characters [OF E] inv] in simp_all)

section \<open>Runs of the server\<close>

inductive server_step :: "'e env \<Rightarrow> 'e machine \<Rightarrow> 'e machine \<Rightarrow> bool" for E where
  step: "event_ok E ev m \<Longrightarrow> perform E ev m = Some m' \<Longrightarrow> server_step E m m'"

inductive reachable :: "'e env \<Rightarrow> 'e machine \<Rightarrow> 'e machine \<Rightarrow> bool" for E m0 where
  start: "reachable E m0 m0"
| more: "reachable E m0 m \<Longrightarrow> server_step E m m' \<Longrightarrow> reachable E m0 m'"

inductive_cases server_stepE: "server_step E m m'"
inductive_simps server_step_iff: "server_step E m m'"

text \<open>A configuration under which the server can run: \<open>ServerConfig::Load\<close> and a valid own channel.\<close>

definition configured :: "'e env \<Rightarrow> ServerConfig \<Rightarrow> bool" where
  "configured E cfg \<longleftrightarrow> served E cfg \<and> numbered cfg \<and>
     map_option ch_numPlayers (channel_at cfg (cfg_serverID cfg) (cfg_channelID cfg)) = Some 0"

lemma start_server_inv:
  assumes "configured E cfg"
  shows "machine_inv (start_server E now cfg e)" and "w_cfg (m_world (start_server E now cfg e)) = cfg"
proof -
  let ?w = "\<lparr>w_users = (\<lambda>_. None), w_rooms = (\<lambda>_. None), w_conns = (\<lambda>_. new_conn [] 0), w_userList = [],
     w_roomList = [], w_next = 1, w_cfg = cfg, w_udpRunning = True, w_udpOut = [], w_ext = clean_database E cfg e\<rparr>"
  have "lobby_inv ?w" by (simp add: lobby_inv_def lists_ok_def ids_ok_def)
  then have "server_inv ?w" using assms by (simp add: server_inv_def counted_def configured_def)
  moreover have c: "core (sendHelloPacketToAll ?w) = core ?w" by (simp add: sendHelloPacketToAll_def)
  ultimately have "server_inv (sendHelloPacketToAll ?w)" using keeps_core [OF _ c] by (auto simp: keeps_def)
  moreover have "idle (sendHelloPacketToAll ?w)"
    by (rule idle_link [of ?w]) (simp_all add: idle_def idle_new_conn)
  ultimately show "machine_inv (start_server E now cfg e)"
    by (simp add: start_server_def udp_start_def machine_inv_def)
  show "w_cfg (m_world (start_server E now cfg e)) = cfg"
    using core_eqD(6) [OF c] by (simp add: start_server_def udp_start_def)
qed

lemma reachable_stays:
  assumes cfg: "configured E cfg" and "reachable E (start_server E now cfg e) m"
  shows "stays (start_server E now cfg e) m"
  using assms(2)
proof (induction rule: reachable.induct)
  case start
  show ?case by (rule stays_refl [OF start_server_inv(1) [OF cfg]])
next
  case (more m m')
  have "served E (w_cfg (m_world m))" "numbered (w_cfg (m_world m))" "machine_inv m"
    using cfg keeps_served [OF more.IH, of E] stays_numbered [OF more.IH] more.IH start_server_inv(2) [OF cfg, of now e]
    by (simp_all add: configured_def stays_def)
  then have "wp (perform E ev m) (stays m)" if "event_ok E ev m" for ev
    using perform_stays that by blast
  then have "stays m m'"
    using more.hyps(2) by (fastforce elim: server_stepE simp: wp_def)
  then show ?case using more.IH by (rule stays_trans)
qed

lemma reachable_perform:
  assumes cfg: "configured E cfg" and r: "reachable E (start_server E now cfg e) m" and ok: "event_ok E ev m"
  shows "wp (perform E ev m) (stays m)"
proof -
  note s = reachable_stays [OF cfg r]
  show ?thesis
    using cfg keeps_served [OF s, of E] stays_numbered [OF s] s start_server_inv(2) [OF cfg, of now e] ok
    by (intro perform_stays) (simp_all add: configured_def stays_def)
qed

end
