(* ===== verification/Samples.thy ===== *)
theory Samples
  imports ServerSafety
begin

text \<open>
  A small configuration, environment and world that satisfy the hypotheses of the properties.
\<close>

definition sample_cfg :: ServerConfig where
  "sample_cfg = \<lparr>cfg_ip = 0, cfg_port = 8001, cfg_ssl = False, cfg_decryptCipherMethod = CipherNull,
     cfg_encryptCipherMethod = CipherNull, cfg_udpAuthKey = ''key'', cfg_maxPlayers = 600, cfg_serverID = 1,
     cfg_channelID = 1, cfg_serverList = [\<lparr>sv_id = 1, sv_status = Ready, sv_type = Normal, sv_name = ''s'',
       sv_channels = [\<lparr>ch_id = 1, ch_name = ''c1'', ch_numPlayers = 4, ch_maxPlayers = 0, ch_ip = [], ch_port = 0,
           ch_isOnline = True, ch_lastHeartbeat = 0\<rparr>,
         \<lparr>ch_id = 2, ch_name = ''c2'', ch_numPlayers = 0, ch_maxPlayers = 600, ch_ip = ''127.0.0.1'', ch_port = 8002,
           ch_isOnline = True, ch_lastHeartbeat = 0\<rparr>]\<rparr>],
     cfg_sqlServer = [], cfg_sqlUser = [], cfg_sqlPassword = [], cfg_sqlDatabase = [],
     cfg_prohibitedNames = [], cfg_defaultBuyMenus = [], cfg_defaultInventory = []\<rparr>"

definition empty_cfg :: ServerConfig where
  "empty_cfg = sample_cfg\<lparr>cfg_serverList := map (\<lambda>s. s\<lparr>sv_channels := map (\<lambda>c. c\<lparr>ch_numPlayers := 0\<rparr>) (sv_channels s)\<rparr>)
     (cfg_serverList sample_cfg)\<rparr>"

text \<open>
  Four users: 1 is in the lobby, 2 plays in the room at address 4 and hosts it, 3 waits there; 5 has
  the room at address 6 to itself.
\<close>

definition sample_user :: "ptr \<Rightarrow> u32 \<Rightarrow> UserStatus \<Rightarrow> u16 \<Rightarrow> user" where
  "sample_user c i s room = (new_user c i ''name'')\<lparr>u_userStatus := s, u_currentRoomID := room\<rparr>"

definition sample_match :: GameMatch where
  "sample_match = \<lparr>gm_roomID = 1, gm_saveData = [1], gm_gameMatchUsers = [new_GameMatchUser 2]\<rparr>"

definition sample_room :: room where
  "sample_room = (new_room 1 2)\<lparr>r_roomUsers := [2, 3], r_gameMatch := Some sample_match,
     r_roomSettings := new_RoomSettings\<lparr>maxPlayers := 10\<rparr>\<rparr>"

definition other_room :: room where
  "other_room = (new_room 2 5)\<lparr>r_roomUsers := [5]\<rparr>"

definition sample_world :: "unit world" where
  "sample_world = \<lparr>w_users = [1 \<mapsto> sample_user 11 101 InLobby 0, 2 \<mapsto> sample_user 12 102 InGame 1,
       3 \<mapsto> sample_user 13 103 InRoom 1, 5 \<mapsto> sample_user 15 105 InRoom 2],
     w_rooms = [4 \<mapsto> sample_room, 6 \<mapsto> other_room], w_conns = (\<lambda>_. new_conn ''127.0.0.1'' 0), w_userList = [1, 2, 3, 5], w_roomList = [4, 6],
     w_next = 7, w_cfg = sample_cfg, w_udpRunning = True, w_udpOut = [], w_ext = ()\<rparr>"

lemmas sample_defs = sample_world_def sample_room_def sample_match_def sample_user_def new_user_def new_room_def
  new_GameMatchUser_def

lemma sample_users: "w_users sample_world 1 = Some (sample_user 11 101 InLobby 0)"
  "w_users sample_world 2 = Some (sample_user 12 102 InGame 1)"
  "w_users sample_world 3 = Some (sample_user 13 103 InRoom 1)"
  "w_rooms sample_world 4 = Some sample_room" "w_cfg sample_world = sample_cfg"
  "w_rooms sample_world 6 = Some other_room"
  by (simp_all add: sample_world_def)

lemma sample_status [simp]: "u_userStatus (sample_user c i s r) = s" "u_currentRoomID (sample_user c i s r) = r"
  "u_connection (sample_user c i s r) = c" "u_userID (sample_user c i s r) = i"
  by (simp_all add: sample_user_def new_user_def)

lemma sample_room_simps [simp]: "r_roomUsers sample_room = [2, 3]" "r_roomHostUser sample_room = 2"
  "r_roomID sample_room = 1" "r_gameMatch sample_room = Some sample_match"
  "gm_gameMatchUsers sample_match = [new_GameMatchUser 2]" "gm_roomID sample_match = 1" "gm_saveData sample_match = [1]"
  "r_roomUsers other_room = [5]" "r_roomHostUser other_room = 5" "r_roomID other_room = 2" "r_gameMatch other_room = None"
  by (simp_all add: sample_room_def other_room_def sample_match_def new_room_def)

lemma sample_lobby_inv: "lobby_inv sample_world"
proof (rule lobby_invI)
  show "lists_ok sample_world" by (auto simp: lists_ok_def sample_world_def)
  show "ids_ok sample_world" by (simp add: ids_ok_def sample_world_def)
  show "user_ok sample_world p u" if "w_users sample_world p = Some u" for p u
    using that by (auto simp: user_ok_def sample_world_def split: if_splits) presburger
  show "room_ok sample_world r" if "w_rooms sample_world q = Some r" for q r
    using that by (auto simp: room_ok_def member_ok_def match_ok_def players_ok_def sample_world_def new_GameMatchUser_def
        split: if_splits)
qed

lemma sample_inv: "server_inv sample_world"
  using sample_lobby_inv
  by (simp add: server_inv_def counted_def channel_at_def server_at_def sample_world_def sample_cfg_def)

lemma sample_idle: "idle sample_world"
  by (simp add: idle_def sample_world_def idle_new_conn)

lemma null_rows_ok: "rows_ok null_env q ks"
  by (simp add: rows_ok_def null_env_def)

lemma null_characters: "characters_ok null_env"
  by (simp add: characters_ok_def null_env_def)

lemma sample_served: "served null_env sample_cfg" "served null_env empty_cfg"
  by (simp_all add: served_def schema_ok_def null_rows_ok null_characters rooms_table_ok_def menus_ok_def
      sample_cfg_def empty_cfg_def) (simp_all add: null_env_def)

lemma sample_numbered: "numbered sample_cfg" "numbered empty_cfg"
  by (simp_all add: numbered_def server_ids_def sample_cfg_def empty_cfg_def Let_def less_Suc_eq)

lemma empty_configured: "configured null_env empty_cfg"
  using sample_served(2) sample_numbered(2)
  by (simp add: configured_def channel_at_def server_at_def empty_cfg_def sample_cfg_def)

end
