(* ===== verification/RoomProperties.thy ===== *)
theory RoomProperties
  imports Samples
begin

text \<open>
  Rooms and matches: leaving and host changes, removing rooms, creating and joining them, and what
  the host alone may do.
\<close>

section \<open>Leaving\<close>

text \<open>
  C4: \<open>Room::RemoveRoomUser\<close> refines the abstract leave. With all its messages, database updates and
  host changes, its effect on users, rooms, lists and configuration is exactly \<open>quit_room\<close>: the user
  goes back to the lobby, and the room either loses the user (\<open>leave_room\<close>) or, when it was the last
  one, disappears.
\<close>

theorem leaving_refines_quit_room:
  assumes "lobby_inv w" and "w_rooms w room = Some r" and "user \<in> set (r_roomUsers r)"
  shows "wp (RemoveRoomUser E user room w) (\<lambda>w'. core w' = core (quit_room user room r w))"
  using assms by (rule RemoveRoomUser_inv)

lemma leaving_refines_quit_room_witness:
  "wp (RemoveRoomUser null_env 2 4 sample_world) (\<lambda>w'. core w' = core (quit_room 2 4 sample_room sample_world) \<and>
    w_rooms w' 4 = Some (leave_room 2 sample_room))"
proof -
  have "wp (RemoveRoomUser null_env 2 4 sample_world) (\<lambda>w'. core w' = core (quit_room 2 4 sample_room sample_world))"
    by (rule leaving_refines_quit_room [OF sample_lobby_inv sample_users(4)]) simp
  then show ?thesis by (rule wp_mono) (auto dest!: core_eqD(2) simp: quit_room_def Let_def)
qed

text \<open>
  C5: a room always has a host. When the host leaves and somebody stays, the new host is the first
  player of the match if one goes on with players, the user who has been in the room longest
  otherwise; the other users keep their order. When a guest leaves, the host stays.
\<close>

theorem host_handed_over:
  fixes w :: "'e world"
  assumes inv: "lobby_inv w" and r: "w_rooms w room = Some r" and user: "user \<in> set (r_roomUsers r)"
    and rest: "remove1 user (r_roomUsers r) \<noteq> []"
  shows "wp (RemoveRoomUser E user room w) (\<lambda>w'. \<exists>r'. w_rooms w' room = Some r' \<and>
    r_roomUsers r' = remove1 user (r_roomUsers r) \<and> r_roomHostUser r' \<in> set (r_roomUsers r') \<and>
    r_roomHostUser r' = (if r_roomHostUser r \<noteq> user then r_roomHostUser r
      else case r_gameMatch r of None \<Rightarrow> hd (r_roomUsers r')
        | Some gm \<Rightarrow> (case filter (\<lambda>p. p \<noteq> user) (map gmu_user (gm_gameMatchUsers gm)) of
            [] \<Rightarrow> hd (r_roomUsers r') | p # _ \<Rightarrow> p)))"
proof -
  have "r_roomHostUser (leave_room user r) = (if r_roomHostUser r \<noteq> user then r_roomHostUser r
      else case r_gameMatch r of None \<Rightarrow> hd (remove1 user (r_roomUsers r))
        | Some gm \<Rightarrow> (case filter (\<lambda>p. p \<noteq> user) (map gmu_user (gm_gameMatchUsers gm)) of
            [] \<Rightarrow> hd (remove1 user (r_roomUsers r)) | p # _ \<Rightarrow> p))"
  proof (cases "r_gameMatch r")
    case (Some gm)
    then show ?thesis
      by (cases "filter (\<lambda>g. gmu_user g \<noteq> user) (gm_gameMatchUsers gm)")
         (simp_all add: leave_room_def hand_over_def hand_over_match_def drop_match_user_def filter_map o_def)
  qed (simp add: leave_room_def hand_over_def)
  moreover have "r_roomHostUser (leave_room user r) \<in> set (remove1 user (r_roomUsers r))"
    by (rule leave_room_host [OF rest inv_match_ok [OF inv r] inv_host [OF inv r]])
  ultimately have "r_roomHostUser (leave_room user r) \<in> set (r_roomUsers (leave_room user r)) \<and>
    r_roomHostUser (leave_room user r) = (if r_roomHostUser r \<noteq> user then r_roomHostUser r
      else case r_gameMatch r of None \<Rightarrow> hd (r_roomUsers (leave_room user r))
        | Some gm \<Rightarrow> (case filter (\<lambda>p. p \<noteq> user) (map gmu_user (gm_gameMatchUsers gm)) of
            [] \<Rightarrow> hd (r_roomUsers (leave_room user r)) | p # _ \<Rightarrow> p))" unfolding leave_room_simps by fast
  moreover have "w_rooms w' room = Some (leave_room user r)" if "core w' = core (quit_room user room r w)" for w' :: "'e world"
    using core_eqD(2) [OF that] rest by (simp add: quit_room_def Let_def)
  ultimately show ?thesis
    using RemoveRoomUser_inv [OF inv r user, of E] by (elim wp_mono) auto
qed

lemma host_handed_over_witness:
  "wp (RemoveRoomUser null_env 2 4 sample_world) (\<lambda>w'. \<exists>r'. w_rooms w' 4 = Some r' \<and> r_roomUsers r' = [3] \<and>
    r_roomHostUser r' = 3)"
  using host_handed_over [OF sample_lobby_inv sample_users(4), of 2 null_env]
  by (rule wp_mono) (auto simp: new_GameMatchUser_def)

text \<open>
  C34: joining and leaving again gives back the room and every user as they were, apart from the
  match and messages: a user of the lobby who is put in a room without a match by \<open>AddRoomUser\<close> and
  removed by \<open>RemoveRoomUser\<close> leaves no trace in the shared objects.
\<close>

theorem join_then_leave_restores:
  fixes w :: "'e world"
  assumes inv: "lobby_inv w" and x: "w_users w user = Some x" "u_userStatus x = InLobby"
    and r: "w_rooms w room = Some r" "r_gameMatch r = None"
  shows "wp (do { (added, w) \<leftarrow> AddRoomUser user room w; RemoveRoomUser E user room w }) (\<lambda>w'. core w' = core w)"
proof -
  have out: "\<not> in_room x" "u_currentRoomID x = 0" using x(2) inv_outside [OF inv x(1)] by simp_all
  note new = outside_rooms [OF inv x(1) out(2) r(1)]
  let ?j = "join_room user room r w" and ?r = "r\<lparr>r_roomUsers := r_roomUsers r @ [user]\<rparr>"
  have add: "AddRoomUser user room w = Some (1, ?j)"
    using x r new inv_null_ptr [OF inv] by (intro join_entered) auto
  have inv': "lobby_inv ?j" using join_room_inv [OF inv x(1) out(2) r(1)] by simp
  have "r_roomUsers r \<noteq> []" using inv_host [OF inv r(1)] by auto
  then have rem: "remove1 user (r_roomUsers ?r) = r_roomUsers r" "r_roomUsers r \<noteq> []"
    using new by (simp_all add: remove1_append remove1_idem)
  have "r_roomHostUser r \<noteq> user" using inv_host [OF inv r(1)] new by auto
  then have leave: "leave_room user ?r = r" using rem r(2) by (simp add: leave_room_def Let_def)
  have "wp (RemoveRoomUser E user room ?j) (\<lambda>w'. core w' = core (quit_room user room ?r ?j))"
    by (rule RemoveRoomUser_inv [OF inv']) (simp_all add: join_room_def)
  moreover have "to_lobby (enter (r_roomID r) x) = x"
    using x(2) out(2) by (simp add: to_lobby_def enter_def)
  then have "core (quit_room user room ?r ?j) = core w"
    using rem leave x(1) r(1) by (auto simp: quit_room_def join_room_def core_def Let_def fun_eq_iff)
  ultimately show ?thesis using add by simp
qed

lemma join_then_leave_restores_witness:
  "wp (do { (added, w) \<leftarrow> AddRoomUser 1 6 sample_world; RemoveRoomUser null_env 1 6 w })
    (\<lambda>w'. core w' = core sample_world)"
  by (rule join_then_leave_restores [OF sample_lobby_inv sample_users(1) _ sample_users(6)]) simp_all

section \<open>Removing rooms\<close>

text \<open>
  C27: \<open>RoomManager::RemoveRoom\<close> refines the abstract removal: the room and its address disappear, its
  users, and only they, are put back in the lobby, and nothing else changes.
\<close>

theorem remove_room_refines:
  fixes w :: "'e world"
  assumes "characters_ok E" and "lobby_inv w" and "w_rooms w room = Some r"
  shows "wp (RemoveRoom E room w) (\<lambda>w'. w_rooms w' = (w_rooms w)(room := None) \<and>
    w_roomList w' = remove1 room (w_roomList w) \<and> w_userList w' = w_userList w \<and> w_cfg w' = w_cfg w \<and>
    (\<forall>p. w_users w' p = (if p \<in> set (r_roomUsers r) then map_option to_lobby (w_users w p) else w_users w p)))"
proof (rule wp_mono [OF RemoveRoom_dissolves [OF assms]])
  fix w' :: "'e world" assume c: "core w' = core (dissolve room r w)"
  show "w_rooms w' = (w_rooms w)(room := None) \<and> w_roomList w' = remove1 room (w_roomList w) \<and>
      w_userList w' = w_userList w \<and> w_cfg w' = w_cfg w \<and>
      (\<forall>p. w_users w' p = (if p \<in> set (r_roomUsers r) then map_option to_lobby (w_users w p) else w_users w p))"
    using core_eqD [OF c] by (simp add: dissolve_def)
qed

lemma remove_room_refines_witness:
  "wp (RemoveRoom null_env 4 sample_world) (\<lambda>w'. w_roomList w' = [6] \<and>
    w_users w' 3 = Some (to_lobby (sample_user 13 103 InRoom 1)) \<and> w_users w' 1 = w_users sample_world 1)"
  using remove_room_refines [OF null_characters sample_lobby_inv sample_users(4)]
  by (rule wp_mono) (simp add: sample_world_def)

text \<open>
  \<open>RoomManager::RemoveAllRooms\<close> ends, on every consistent server, with no room at all and every
  user who was in one back in the lobby; users elsewhere are untouched.
\<close>

theorem remove_all_rooms_refines:
  fixes w :: "'e world"
  assumes "characters_ok E" and "lobby_inv w"
  shows "wp (RemoveAllRooms E w) (\<lambda>w'. w_rooms w' = (\<lambda>_. None) \<and> w_roomList w' = [] \<and> w_userList w' = w_userList w \<and>
    (\<forall>p u. w_users w p = Some u \<longrightarrow> w_users w' p = Some (if in_room u then to_lobby u else u)))"
proof (rule wp_mono [OF RemoveAllRooms_step [OF assms]])
  fix w' :: "'e world" assume c: "core w' = core (no_rooms w)"
  let ?us = "concat (map (\<lambda>q. r_roomUsers (the (w_rooms w q))) (w_roomList w))"
  have users: "w_users w' = (\<lambda>p. if p \<in> set ?us then map_option to_lobby (w_users w p) else w_users w p)"
    using core_eqD(1) [OF c] by (simp add: no_rooms_def fun_eq_iff)
  have "p \<in> set ?us \<longleftrightarrow> in_room u"
    if u: "w_users w p = Some u" for p u
  proof
    assume "p \<in> set ?us"
    then obtain q where q: "q \<in> set (w_roomList w)" "p \<in> set (r_roomUsers (the (w_rooms w q)))" by auto
    then have "q \<in> dom (w_rooms w)" using lobby_invD(1) [OF assms(2)] by (simp add: lists_ok_def)
    then obtain r where r: "w_rooms w q = Some r" by blast
    then show "in_room u" using inv_members [OF assms(2) r, of p] q(2) u by auto
  next
    assume "in_room u"
    then obtain q r where "w_rooms w q = Some r" "p \<in> set (r_roomUsers r)"
      using lobby_invD(3) [OF assms(2) u] by (auto simp: user_ok_def)
    then show "p \<in> set ?us"
      using inv_room_listed [OF assms(2), of q r] by force
  qed
  then have "w_users w' p = Some (if in_room u then to_lobby u else u)" if "w_users w p = Some u" for p u
    using that unfolding users by (simp del: set_concat set_map)
  moreover have "w_rooms w' = (\<lambda>_. None)" "w_roomList w' = []" "w_userList w' = w_userList w"
    using core_eqD(2-4) [OF c] by (simp_all add: no_rooms_def)
  ultimately show "w_rooms w' = (\<lambda>_. None) \<and> w_roomList w' = [] \<and> w_userList w' = w_userList w \<and>
      (\<forall>p u. w_users w p = Some u \<longrightarrow> w_users w' p = Some (if in_room u then to_lobby u else u))"
    by blast
qed

section \<open>Rooms come and fill\<close>

text \<open>
  C20: \<open>GetFreeRoomID\<close> always ends, and hands out the smallest id between 1 and 65534 that no room of
  the list has; 0 means that all of them are taken.
\<close>

theorem free_room_id_smallest:
  assumes "lobby_inv w"
  shows "\<exists>i. GetFreeRoomID w = Some i \<and>
    (if i = 0 then \<forall>k. k \<noteq> 0 \<and> k \<noteq> 65535 \<longrightarrow> (\<exists>p r. w_rooms w p = Some r \<and> r_roomID r = k)
     else i \<noteq> 65535 \<and> (\<forall>p r. w_rooms w p = Some r \<longrightarrow> r_roomID r \<noteq> i) \<and>
       (\<forall>k. k \<noteq> 0 \<and> k < i \<longrightarrow> (\<exists>p r. w_rooms w p = Some r \<and> r_roomID r = k)))"
proof -
  have used: "room_id_used w k \<longleftrightarrow> (\<exists>p r. w_rooms w p = Some r \<and> r_roomID r = k)" for k
    using inv_room_listed [OF assms] by (auto simp: room_id_used_def)
  show ?thesis
    using GetFreeRoomID_spec [OF inv_allocated(1) [OF assms]] unfolding wp_iff used
    by (auto split: if_splits)
qed

lemma free_room_id_smallest_witness:
  "\<exists>i. GetFreeRoomID sample_world = Some i \<and> i \<noteq> 1"
  using free_room_id_smallest [OF sample_lobby_inv] sample_users(4) sample_room_simps(3)
  by (metis zero_neq_one)





text \<open>
  C38: a defect. \<open>CreateRoom\<close> and \<open>JoinRoom\<close> turn away a user who waits in a room but not one who plays
  in one, and \<open>AddRoomUser\<close> only looks into the new room: a player ends up in two rooms at once, and the
  server is no longer consistent.
\<close>

theorem player_can_be_in_two_rooms:
  assumes "lobby_inv w" and "w_users w user = Some x" and "w_rooms w p = Some r" and "user \<in> set (r_roomUsers r)"
    and "w_rooms w q = Some s" and "q \<noteq> p"
  shows "wp (AddRoomUser user q w) (\<lambda>(added, w'). added = 1 \<and> \<not> lobby_inv w' \<and>
    (\<exists>r s. w_rooms w' p = Some r \<and> w_rooms w' q = Some s \<and> user \<in> set (r_roomUsers r) \<and> user \<in> set (r_roomUsers s)))"
proof -
  have new: "user \<notin> set (r_roomUsers s)" using inv_one_room [OF assms(1,3,4,5)] assms(6) by auto
  let ?w = "join_room user q s w"
  have "AddRoomUser user q w = Some (1, ?w)"
    using assms(2,5) new inv_null_ptr(1) [OF assms(1,2)] by (intro join_entered) auto
  moreover have "w_rooms ?w p = Some r" "w_rooms ?w q = Some (s\<lparr>r_roomUsers := r_roomUsers s @ [user]\<rparr>)"
    using assms(3,6) by (simp_all add: join_room_def)
  moreover from this have "\<not> lobby_inv ?w"
    using inv_one_room [of ?w p r user q] assms(4,6) by auto
  ultimately show ?thesis using assms(4) by simp
qed

lemma player_can_be_in_two_rooms_witness:
  "wp (AddRoomUser 2 6 sample_world) (\<lambda>(added, w'). added = 1 \<and> \<not> lobby_inv w')"
  by (rule wp_mono [OF player_can_be_in_two_rooms [OF sample_lobby_inv sample_users(2,4) _ sample_users(6)]]) auto

text \<open>
  A defect. The host of a running match that reports a failed rejoin of nobody makes the handler
  write before the start of an empty string: the behaviour is undefined.
\<close>

lemma empty_rejoin_report_is_undefined:
  assumes inv: "lobby_inv w" and x: "w_users w user = Some x" "in_game x" and r: "w_rooms w room = Some r"
    and host: "r_roomHostUser r = user" and gm: "r_gameMatch r = Some gm" and none: "fst (ReadUInt8 packet) = 0"
  shows "parsePacket_Host_RejoinFail user packet w = None"
proof -
  have mem: "user \<in> set (r_roomUsers r)" using inv_host [OF inv r] host by simp
  have "u_currentRoomID x = r_roomID r" using inv_members [OF inv r mem] x(1) by auto
  then have "GetRoomByRoomID (u_currentRoomID x) w = Some room"
    using inv_own_room [OF inv x(1)] x(2) inv_one_room [OF inv r mem] by metis
  moreover obtain n p where "ReadUInt8 packet = (n, p)" by (rule prod.exhaust)
  ultimately show ?thesis
    using x r host gm none inv_null_ptr [OF inv]
    by (auto simp: parsePacket_Host_RejoinFail_def with_match_def set_last_def Let_def)
qed

lemma empty_rejoin_report_is_undefined_witness:
  "parsePacket_Host_RejoinFail 2 (Packet_Server 12 [0]) sample_world = None"
  by (rule empty_rejoin_report_is_undefined [OF sample_lobby_inv sample_users(2) _ sample_users(4)])
     (simp_all add: Packet_Server_def ReadUInt8_def ReadBytes_def)

section \<open>Authority of the host\<close>

text \<open>
  What a host may do to its room: replace the room object by one with the same id, users and host,
  and touch users of that room only.
\<close>

definition host_effect :: "ptr \<Rightarrow> 'e world \<Rightarrow> 'e world \<Rightarrow> bool" where
  "host_effect user w w' \<longleftrightarrow> core w' = core w \<or>
     (\<exists>room r r'. w_rooms w room = Some r \<and> r_roomHostUser r = user \<and> w_rooms w' = (w_rooms w)(room \<mapsto> r') \<and>
       r_roomID r' = r_roomID r \<and> r_roomUsers r' = r_roomUsers r \<and> r_roomHostUser r' = user \<and>
       (\<forall>p. p \<notin> set (r_roomUsers r) \<longrightarrow> w_users w' p = w_users w p))"

lemma host_effectI:
  assumes "w_rooms w room = Some r" and "r_roomHostUser r = user" and "w_rooms w' = (w_rooms w)(room \<mapsto> r')"
    and "r_roomID r' = r_roomID r" "r_roomUsers r' = r_roomUsers r" "r_roomHostUser r' = user"
    and "\<And>p. p \<notin> set (r_roomUsers r) \<Longrightarrow> w_users w' p = w_users w p"
  shows "host_effect user w w'"
  using assms unfolding host_effect_def by blast

lemma host_effect_refl: "core w' = core w \<Longrightarrow> host_effect user w w'"
  by (simp add: host_effect_def)

lemma host_effect_put:
  assumes "core w' = core (put_room room r' w)" and "w_rooms w room = Some r" and "r_roomHostUser r = user"
    and "r_roomID r' = r_roomID r" "r_roomUsers r' = r_roomUsers r" "r_roomHostUser r' = user"
  shows "host_effect user w w'"
  using core_eqD(1,2) [OF assms(1)] assms(2-) by (intro host_effectI [of w room r user w' r']) simp_all

lemma ServerIsActivated_host:
  assumes "lobby_inv w" and "w_users w user = Some x"
  shows "wp (parsePacket_Host_ServerIsActivated user w) (host_effect user w)"
proof (rule wp_mono [OF ServerIsActivated_step [OF assms]], elim disjE exE conjE)
  fix w' :: "'a world" and room r
  assume r: "w_rooms w room = Some r" "r_roomHostUser r = user" "core w' = core (put_room room (activated_room r) w)"
  show "host_effect user w w'" by (rule host_effect_put [OF r(3,1,2)]) (simp_all add: activated_room_def r)
qed (rule host_effect_refl)

lemma SaveData_host:
  assumes "lobby_inv w" and "w_users w user = Some x"
  shows "wp (parsePacket_Host_SaveData user packet w) (host_effect user w)"
proof (rule wp_mono [OF SaveData_step [OF assms, of packet]], elim disjE exE conjE)
  fix w' room r gm sd
  assume r: "w_rooms w room = Some r" "r_roomHostUser r = user"
    and w': "w' = put_room room (r\<lparr>r_gameMatch := Some (gm\<lparr>gm_saveData := sd\<rparr>)\<rparr>) w"
  show "host_effect user w w'" by (rule host_effect_put [OF arg_cong [OF w', of core] r]) (simp_all add: r)
qed (simp add: host_effect_refl)

lemma SelectTeam_host:
  assumes "lobby_inv w" and "w_users w user = Some x"
  shows "wp (parsePacket_Host_SelectTeam user packet w) (host_effect user w)"
proof (rule wp_mono [OF SelectTeam_step [OF assms, of packet]], elim disjE exE conjE)
  fix w' room r gm target team
  assume r: "w_rooms w room = Some r" "r_roomHostUser r = user"
    and w': "w' = put_room room (r\<lparr>r_gameMatch := Some (gm\<lparr>gm_gameMatchUsers :=
      update_first (\<lambda>g. gmu_user g = target) (\<lambda>g. g\<lparr>gmu_team := team\<rparr>) (gm_gameMatchUsers gm)\<rparr>)\<rparr>) w"
  show "host_effect user w w'" by (rule host_effect_put [OF arg_cong [OF w', of core] r]) (simp_all add: r)
qed (simp add: host_effect_refl)

lemma UpdateRoomSettings_host:
  assumes "lobby_inv w" and "w_users w user = Some x"
  shows "wp (parsePacket_Room_UpdateRoomSettings E user packet w) (host_effect user w)"
proof (rule wp_mono [OF UpdateRoomSettings_step [OF assms, of E packet]], elim disjE exE conjE)
  fix w' :: "'a world" and room r
  assume r: "w_rooms w room = Some r" "r_roomHostUser r = user" and c: "core w' = core (put_room room (r\<lparr>r_roomSettings :=
      UpdateRoomSettings (fst (fst (readRoomSettings packet))) (r_roomSettings r)\<rparr>) w)"
  show "host_effect user w w'" by (rule host_effect_put [OF c r]) (simp_all add: r)
qed (rule host_effect_refl)

lemma SendUserStatus_host:
  assumes "lobby_inv w" and "w_users w user = Some x"
  shows "wp (parsePacket_Host_SendUserStatus user packet w) (host_effect user w)"
proof (rule wp_mono [OF SendUserStatus_step [OF assms, of packet]], elim disjE exE conjE)
  fix w' :: "'a world" and room r gm target
  assume r: "w_rooms w room = Some r" "r_gameMatch r = Some gm" "r_roomHostUser r = user" "target \<in> set (r_roomUsers r)"
    and c: "core w' = core (enter_game target room r gm w)"
  show "host_effect user w w'"
    using core_eqD(1,2) [OF c] r
    by (intro host_effectI [of w room r user w' "r\<lparr>r_gameMatch := Some (AddGameMatchUser (new_GameMatchUser target) gm)\<rparr>"])
       (auto simp: enter_game_def)
qed (rule host_effect_refl)

lemma EndGame_host:
  assumes inv: "lobby_inv w" and x: "w_users w user = Some x"
  shows "wp (parsePacket_Host_EndGame user packet w) (host_effect user w)"
proof (rule wp_mono [OF EndGame_step [OF assms, of packet]], elim disjE exE conjE)
  fix w' :: "'a world" and room r gm
  assume r: "w_rooms w room = Some r" "r_gameMatch r = Some gm" "r_roomHostUser r = user"
    and c: "core w' = core (end_match room r gm w)"
  have "set (map gmu_user (gm_gameMatchUsers gm)) \<subseteq> set (r_roomUsers r)"
    using match_ok_SomeD [OF inv_match_ok [OF inv r(1)] r(2)] by simp
  then show "host_effect user w w'"
    using core_eqD(1,2) [OF c] r
    by (intro host_effectI [of w room r user w' "(set_state RoomState_Waiting r)\<lparr>r_gameMatch := None\<rparr>"])
       (auto simp: end_match_def all_in_room_users)
qed (rule host_effect_refl)

lemmas host_steps = ServerIsActivated_host SaveData_host SendUserStatus_host SelectTeam_host EndGame_host
  UpdateRoomSettings_host





lemma set_state_roomState: "roomState (r_roomSettings (set_state st r)) = st"
  by (simp add: set_state_def UpdateRoomSettings_def state_settings_def copy_if_def upd_if_def has_def lflag_defs Let_def)

text \<open>
  C28: a match ends for everybody. When the host in the game reports its end, the match is gone, the room
  waits again, every player is back in the room and nobody else's status changes.
\<close>

theorem end_game_returns_players:
  fixes w :: "'e world"
  assumes inv: "lobby_inv w" and x: "w_users w user = Some x" "u_userStatus x = InGame"
    and r: "w_rooms w room = Some r" "r_roomHostUser r = user" and gm: "r_gameMatch r = Some gm"
  shows "wp (parsePacket_Host_EndGame user packet w) (\<lambda>w'.
    (\<exists>r'. w_rooms w' room = Some r' \<and> r_gameMatch r' = None \<and> roomState (r_roomSettings r') = RoomState_Waiting \<and>
      r_roomUsers r' = r_roomUsers r \<and> r_roomHostUser r' = user) \<and>
    (\<forall>p u. w_users w p = Some u \<longrightarrow> w_users w' p = Some (if p \<in> gmu_user ` set (gm_gameMatchUsers gm)
       then u\<lparr>u_userStatus := InRoom\<rparr> else u)))"
proof (rule wp_mono [OF EndGame_ends [OF inv with_match_host [of w user x in_game room r gm, OF inv x r gm] r(1) gm, of packet]])
  fix w' :: "'e world" assume c: "core w' = core (end_match room r gm w)"
  have "w_rooms w' room = Some ((set_state RoomState_Waiting r)\<lparr>r_gameMatch := None\<rparr>)"
    using core_eqD(2) [OF c] by (simp add: end_match_def)
  moreover have "roomState (r_roomSettings (set_state RoomState_Waiting r)) = RoomState_Waiting"
    by (rule set_state_roomState)
  moreover have "w_users w' p = Some (if p \<in> gmu_user ` set (gm_gameMatchUsers gm) then u\<lparr>u_userStatus := InRoom\<rparr> else u)"
    if "w_users w p = Some u" for p u
    using core_eqD(1) [OF c] that by (simp add: end_match_def all_in_room_users)
  ultimately show "(\<exists>r'. w_rooms w' room = Some r' \<and> r_gameMatch r' = None \<and> roomState (r_roomSettings r') = RoomState_Waiting \<and>
      r_roomUsers r' = r_roomUsers r \<and> r_roomHostUser r' = user) \<and>
    (\<forall>p u. w_users w p = Some u \<longrightarrow> w_users w' p = Some (if p \<in> gmu_user ` set (gm_gameMatchUsers gm)
       then u\<lparr>u_userStatus := InRoom\<rparr> else u))"
    using r(2) by auto
qed

lemma end_game_returns_players_witness:
  "wp (parsePacket_Host_EndGame 2 (Packet_Server 12 []) sample_world) (\<lambda>w'.
    w_users w' 2 = Some (sample_user 12 102 InRoom 1))"
proof (rule wp_mono [OF end_game_returns_players [OF sample_lobby_inv sample_users(2) _ sample_users(4)]])
  fix w' assume "(\<exists>r'. w_rooms w' 4 = Some r' \<and> r_gameMatch r' = None \<and> roomState (r_roomSettings r') = RoomState_Waiting \<and>
      r_roomUsers r' = r_roomUsers sample_room \<and> r_roomHostUser r' = 2) \<and>
    (\<forall>p u. w_users sample_world p = Some u \<longrightarrow> w_users w' p = Some (if p \<in> gmu_user ` set (gm_gameMatchUsers sample_match)
       then u\<lparr>u_userStatus := InRoom\<rparr> else u))"
  then have "w_users w' 2 = Some ((sample_user 12 102 InGame 1)\<lparr>u_userStatus := InRoom\<rparr>)"
    using sample_users(2) by (auto simp: new_GameMatchUser_def)
  then show "w_users w' 2 = Some (sample_user 12 102 InRoom 1)" by (simp add: sample_user_def)
qed simp_all

end
