(* ===== verification/LoginProperties.thy ===== *)
theory LoginProperties
  imports Samples
begin

text \<open>
  Who is heard and who gets in: unauthenticated packets, the version gate, logins, disconnection,
  nicknames, and what clients may store and search.
\<close>

section \<open>Who is heard\<close>

text \<open>
  C29: without a login nothing happens. Every packet of a connection that has no logged-in user, the
  ones for version, login, transfer login and character creation apart, is ignored: no state changes
  and nothing is sent, whatever its bytes (unregistered packet ids included).
\<close>

theorem unauthenticated_packets_ignored:
  assumes user: "GetUserByConnection (p_connection packet) w = Some user" "IsUserLoggedIn user w = Some False"
    and i: "fst (ReadUInt8 packet) \<notin> {0, 2, 3, 5}"
  shows "ParsePacket E now packet w = Some w"
proof -
  obtain t p where t: "ReadUInt8 packet = (t, p)" by (rule prod.exhaust)
  have c: "p_connection p = p_connection packet"
    using t by (auto simp: ReadUInt8_def ReadBytes_def Let_def split: prod.splits if_splits)
  have "with_user p w f = Some w" for f using user by (simp add: with_user_def c)
  moreover have "ParsePacket_Room E p w = Some w" "ParsePacket_Host p w = Some w"
    using user by (simp_all add: ParsePacket_Room_def ParsePacket_Host_def c)
  ultimately show ?thesis
    using i t
    by (simp add: ParsePacket_def ParsePacket_RequestTransfer_def ParsePacket_RequestServerList_def
        ParsePacket_RecvCrypt_def ParsePacket_ClientCheck_def ParsePacket_UMsg_def ParsePacket_UpdateInfo_def
        ParsePacket_Udp_def ParsePacket_Shop_def ParsePacket_Option_def ParsePacket_Favorite_def ParsePacket_Item_def
        ParsePacket_SearchRoom_def ParsePacket_RecvReport_def)
qed

lemma sample_lookup: "GetUserByConnection 11 sample_world = Some 1" "GetUserByConnection 99 sample_world = Some 0"
  by (simp_all add: GetUserByConnection_def sample_world_def)

lemma unauthenticated_packets_ignored_witness:
  "ParsePacket null_env 0 (Packet_Server 99 [65, 0]) sample_world = Some sample_world"
  by (rule unauthenticated_packets_ignored [of _ _ 0])
     (simp_all add: sample_lookup Packet_Server_def IsUserLoggedIn_def ReadUInt8_def ReadBytes_def)

text \<open>
  Nobody logs in twice on a connection. For a connection with a logged-in user, the version, login
  and transfer login packets are ignored, whatever they hold.
\<close>

theorem no_second_login:
  assumes "GetUserByConnection (p_connection packet) w = Some user" "IsUserLoggedIn user w = Some True"
  shows "ParsePacket_Version E packet w = Some w \<and> ParsePacket_Login E packet w = Some w \<and>
    ParsePacket_TransferLogin E packet w = Some w"
  using assms
  by (simp add: ParsePacket_Version_def ParsePacket_Login_def ParsePacket_TransferLogin_def unless_logged_in_def
      Let_def split: prod.split)

lemma sample_logged_in: "IsUserLoggedIn 1 sample_world = Some True" "IsUserLoggedIn 0 sample_world = Some False"
  by (simp_all add: IsUserLoggedIn_def sample_world_def sample_user_def)

text \<open>
  The version gate. A first version packet of a connection without a logged-in user opens the gate
  exactly when launcher version, client version, build date and archive checksum are the expected ones;
  until it is open, login packets are ignored. Nothing shared changes.
\<close>

lemma version_gate:
  assumes c: "p_connection packet = c" "c \<noteq> 0" and closed: "\<not> c_versionReceived (w_conns w c)"
    and user: "GetUserByConnection c w = Some user" "IsUserLoggedIn user w = Some False"
    and reads: "ReadUInt8 packet = (launcher, p1)" "ReadUInt16_LE p1 = (version, p2)"
      "ReadUInt32_LE p2 = (built, p3)" "ReadUInt32_LE p3 = (checksum, p4)"
  shows "wp (ParsePacket_Version E packet w) (\<lambda>w'. core w' = core w \<and>
      (c_versionReceived (w_conns w' c) \<longleftrightarrow> launcher = 67 \<and> version = 11 \<and>
        date_string (localtime_s E built) = ''11.06.08'' \<and> checksum = 1860010506)) \<and>
    ParsePacket_Login E packet w = Some w"
proof -
  have kept: "c_versionReceived (w_conns (send d pid ws v) c) = c_versionReceived (w_conns v c)" for d pid ws and v :: "'a world"
    by (simp add: send_def upd_conn_def WritePacket_def Let_def)
  have opened: "core (upd_conn c f v) = core v" "w_conns (upd_conn c f v) c = f (w_conns v c)" for f and v :: "'a world"
    by (simp_all add: upd_conn_def)
  have refused: "core (SendPacket_Reply c code [] w) = core w"
    "\<not> c_versionReceived (w_conns (SendPacket_Reply c code [] w) c)" for code
    using closed by (simp_all add: SendPacket_Reply_def kept)
  show ?thesis
    using c closed user reads refused
    by (simp add: ParsePacket_Version_def ParsePacket_Login_def unless_logged_in_def LAUNCHER_VERSION_def
        CLIENT_VERSION_def CLIENT_BUILD_TIMESTAMP_def CLIENT_NAR_CHECKSUM_def sendPacket_Version_def kept opened Let_def)
qed

lemma version_gate_witness:
  "wp (ParsePacket_Version null_env
      (pos [0] ([67] @ le_bytes 2 (11 :: u16) @ le_bytes 4 (0 :: u32) @ le_bytes 4 (1860010506 :: u32) @ []) (Packet_Server 99 [])) sample_world)
    (\<lambda>w'. c_versionReceived (w_conns w' 99))"
proof -
  let ?p = "Packet_Server 99 []"
  let ?a = "[0] @ [67] :: bytes" and ?b = "le_bytes 2 (11 :: u16)" and ?c = "le_bytes 4 (0 :: u32)" and ?d = "le_bytes 4 (1860010506 :: u32)"
  have reads: "ReadUInt8 (pos [0] ([67] @ ?b @ ?c @ ?d @ []) ?p) = (67, pos ?a (?b @ ?c @ ?d @ []) ?p)"
    "ReadUInt16_LE (pos ?a (?b @ ?c @ ?d @ []) ?p) = (11, pos (?a @ ?b) (?c @ ?d @ []) ?p)"
    "ReadUInt32_LE (pos (?a @ ?b) (?c @ ?d @ []) ?p) = (0, pos ((?a @ ?b) @ ?c) (?d @ []) ?p)"
    "ReadUInt32_LE (pos ((?a @ ?b) @ ?c) (?d @ []) ?p) = (1860010506, pos (((?a @ ?b) @ ?c) @ ?d) [] ?p)"
    by (rule u8.read_back u16.read_back u32.read_back, rule TrueI)+
  have date: "date_string (localtime_s null_env 0) = ''11.06.08''"
    by code_simp
  have c: "p_connection (pos pre post ?p) = 99" for pre post by (simp add: Packet_Server_def pos_def)
  have closed: "\<not> c_versionReceived (w_conns sample_world 99)" by (simp add: sample_world_def new_conn_def)
  from version_gate [OF c _ closed sample_lookup(2) sample_logged_in(2) reads, of null_env, unfolded date]
  show ?thesis by (auto elim!: wp_mono)
qed

section \<open>What a login does\<close>

text \<open>
  The two ways a login ends for the shared objects: nothing is left of it, or the new user is the last
  of the list, with the given connection and the id and name of the database, and nothing else changed.
\<close>

definition admission :: "ptr \<Rightarrow> u32 \<Rightarrow> string \<Rightarrow> 'e world \<Rightarrow> 'e world \<Rightarrow> bool" where
  "admission c i name w w' \<longleftrightarrow>
     w_rooms w' = w_rooms w \<and> w_roomList w' = w_roomList w \<and>
     (w_users w' = w_users w \<and> w_userList w' = w_userList w \<or>
      length (w_userList w) < unat (cfg_maxPlayers (w_cfg w)) \<and> w_userList w' = w_userList w @ [w_next w] \<and>
      (\<exists>s. w_users w' = (w_users w)(w_next w \<mapsto> (new_user c i name)\<lparr>u_userStatus := s\<rparr>) \<and>
        s \<notin> {InRoom, InGame}))"

lemma admitted_admission:
  assumes "length (w_userList w) < unat (cfg_maxPlayers (w_cfg w))"
    and "lobby v = lobby (admit_user (new_user c i name) w)" and "core w' = core v"
  shows "admission c i name w w'"
  using assms core_eqD(1-4) [OF assms(3)]
  by (auto simp: admission_def lobby_def admit_user_def new_user_def intro!: exI [of _ InLogin])

lemma admitted_status_admission:
  assumes "length (w_userList w) < unat (cfg_maxPlayers (w_cfg w))" and "s \<notin> {InRoom, InGame}"
    and "lobby v = lobby (admit_user (new_user c i name) w)"
    and "core w' = core (set_user (\<lambda>u. u\<lparr>u_userStatus := s\<rparr>) (w_next w) v)"
  shows "admission c i name w w'"
proof -
  have "w_users w' = (w_users w)(w_next w \<mapsto> (new_user c i name)\<lparr>u_userStatus := s\<rparr>)"
    "w_userList w' = w_userList w @ [w_next w]" "w_rooms w' = w_rooms w" "w_roomList w' = w_roomList w"
    using assms(3) core_eqD(1-4) [OF assms(4)] by (simp_all add: lobby_def admit_user_def set_user_def)
  then show ?thesis using assms(1,2) by (auto simp: admission_def)
qed

lemma admission_skip: "core w' = core (skip_address w) \<Longrightarrow> admission c i name w w'"
  using core_eqD(1-4) [of w' "skip_address w"] by (simp add: admission_def skip_address_def)

lemma admission_same: "core w' = core w \<Longrightarrow> admission c i name w w'"
  using core_eqD(1-4) [of w' w] by (simp add: admission_def)

lemma login_packets_admission:
  fixes w :: "'e world"
  assumes E: "schema_ok E" and inv: "server_inv w" and c: "c \<noteq> 0"
    and free: "length (w_userList w) < unat (cfg_maxPlayers (w_cfg w))"
    and l: "lobby v = lobby (admit_user (new_user c i name) w)" and r: "recounted w v" and v1: "core v1 = core v"
  shows "wp (SendLoginPackets E (w_next w) reply v1) (admission c i name w)"
proof -
  let ?n = "w_next w"
  note a = admitted_inv [OF inv c l r]
  have inv1: "server_inv v1" using keeps_core [OF _ v1] a(1) by (simp add: keeps_def)
  have u1: "w_users v1 ?n = Some (new_user c i name)" using a(2) by (simp add: core_eqD(1) [OF v1])
  show ?thesis
  proof (rule wp_mono [OF SendLoginPackets_effect [OF E inv1 u1 a(3), of reply]], elim disjE)
    show "admission c i name w w'" if "core w' = core v1" for w'
      using that v1 by (intro admitted_admission [OF free l]) simp
    show "admission c i name w w'"
      if "core w' = core (set_user (\<lambda>u. u\<lparr>u_userStatus := login_status reply\<rparr>) ?n v1)" for w'
      using that core_set_user [OF v1]
      by (intro admitted_status_admission [OF free _ l, of "login_status reply"]) (simp_all add: login_status_def)
  qed
qed

lemma login_or_create_admission:
  fixes w :: "'e world"
  assumes E: "schema_ok E" and inv: "server_inv w" and c: "c \<noteq> 0"
    and free: "length (w_userList w) < unat (cfg_maxPlayers (w_cfg w))"
    and l: "lobby v = lobby (admit_user (new_user c i name) w)" and r: "recounted w v"
  shows "wp (login_or_create E c (w_next w) v) (admission c i name w)"
proof -
  let ?n = "w_next w"
  note a = admitted_inv [OF inv c l r]
  have vinv: "server_inv v" using a(1) by (simp add: keeps_def)
  obtain uc exists v1 where 1: "user_character E ?n 0 v = Some ((uc, exists), v1)" and v1: "core v1 = core v"
    using read_character [OF schema_characters [OF E] character_info_some(1) a(2)] .
  have "wp (SendLoginPackets E ?n LoginSuccess v1) (admission c i name w)"
    by (rule login_packets_admission [OF E inv c free l r v1])
  moreover
  let ?r = "SendPacket_Reply c SysError [] v1"
  have rc: "core ?r = core v" using v1 by simp
  have ru: "w_users ?r ?n = Some (new_user c i name)" "server_inv ?r"
    using a(2) keeps_core [OF vinv rc] by (simp_all add: core_eqD(1) [OF rc] keeps_def)
  have "wp (RemoveUser E ?n ?r) (admission c i name w)"
  proof (rule wp_mono [OF RemoveUser_step [OF server_invD(1) counted_channel_ok [OF server_invD(2)] ru(1), of E]])
    fix w' assume "recounted ?r w' \<and>
      (if in_room (new_user c i name) then \<exists>room r. w_rooms ?r room = Some r \<and> ?n \<in> set (r_roomUsers r) \<and>
          lobby w' = lobby (forget_user ?n (quit_room ?n room r ?r))
       else lobby w' = lobby (forget_user ?n ?r))"
    then have "lobby w' = lobby (forget_user ?n ?r)" using a(3) by simp
    also have "\<dots> = lobby (forget_user ?n (admit_user (new_user c i name) w))"
      using core_lobby [OF rc] l by (intro lobby_forget) simp
    finally have l': "lobby w' = lobby (forget_user ?n (admit_user (new_user c i name) w))" .
    have "?n \<notin> set (w_userList w)" "w_users w ?n = None"
      using inv_next_fresh [OF server_invD(1) [OF inv]] lobby_invD(1) [OF server_invD(1) [OF inv]]
      by (auto simp: lists_ok_def)
    then show "admission c i name w w'"
      using l' by (simp add: admission_def lobby_def forget_user_def admit_user_def remove1_append fun_upd_idem)
  qed (use ru in auto)
  moreover have "admission c i name w (SendPacket_Character c (SendPacket_Reply c LoginSuccess [] v1))"
    using v1 by (intro admitted_admission [OF free l]) simp
  ultimately show ?thesis using 1 by (simp add: login_or_create_def IsUserCharacterExists_def)
qed

lemma admit_new_user_admission:
  fixes w :: "'e world"
  assumes E: "schema_ok E" and inv: "server_inv w"
    and f: "\<And>v. lobby v = lobby (admit_user (new_user c i name) w) \<Longrightarrow> recounted w v \<Longrightarrow>
      length (w_userList w) < unat (cfg_maxPlayers (w_cfg w)) \<Longrightarrow> wp (f (w_next w) v) (admission c i name w)"
  shows "wp (let (newUser, w) = alloc_user c i name (w\<lparr>w_ext := e\<rparr>) in admit_new_user E c newUser f w)
    (admission c i name w)"
proof -
  let ?w = "w\<lparr>w_ext := e\<rparr>"
  have "wp (admit_new_user E c (w_next ?w) f (snd (alloc_user c i name ?w))) (admission c i name w)"
  proof (rule admit_new_user_wp [OF E])
    show "server_inv ?w" using inv by simp
    show "admission c i name w w'" if "core w' = core (skip_address ?w)" for w'
      using that by (intro admission_skip) (simp add: skip_address_def core_def)
    fix v assume "lobby v = lobby (admit_user (new_user c i name) ?w)" "recounted ?w v"
      "length (w_userList ?w) < unat (cfg_maxPlayers (w_cfg ?w))"
    then show "wp (f (w_next ?w) v) (admission c i name w)"
      using f [of v] by (simp add: lobby_def admit_user_def recounted_def)
  qed
  then show ?thesis by (simp add: alloc_user_def)
qed

lemma login_admission:
  assumes "schema_ok E" and "server_inv w" and "c \<noteq> 0"
  shows "wp (let (newUser, w) = alloc_user c i name (w\<lparr>w_ext := e\<rparr>)
      in admit_new_user E c newUser (login_or_create E c) w) (admission c i name w)"
    and "wp (let (newUser, w) = alloc_user c i name (w\<lparr>w_ext := e\<rparr>)
      in admit_new_user E c newUser (\<lambda>newUser. SendLoginPackets E newUser NoReply) w) (admission c i name w)"
  by (rule admit_new_user_admission [OF assms(1,2)];
      rule login_or_create_admission [OF assms] login_packets_admission [OF assms], assumption+, (rule refl)?)+



section \<open>Disconnection\<close>

text \<open>
  C25: removing a user leaves no dangling pointer. After \<open>RemoveUser\<close>, from any consistent server, the
  object is freed and off the list, and no room has it as a user, as its host or among the players of its
  match; every other user object stays allocated, and the announced player count is right again.
\<close>

theorem no_dangling_user:
  assumes inv: "server_inv w" and x: "w_users w user = Some x"
  shows "wp (RemoveUser E user w) (\<lambda>w'. server_inv w' \<and> w_users w' = (w_users w)(user := None) \<and>
    w_userList w' = remove1 user (w_userList w) \<and> user \<notin> set (w_userList w') \<and>
    (\<forall>room r. w_rooms w' room = Some r \<longrightarrow> user \<notin> set (r_roomUsers r) \<and> r_roomHostUser r \<noteq> user \<and>
      (\<forall>gm. r_gameMatch r = Some gm \<longrightarrow> user \<notin> gmu_user ` set (gm_gameMatchUsers gm))))"
proof (rule wp_mono [OF RemoveUser_inv [OF server_invD(1) [OF inv] counted_channel_ok [OF server_invD(2) [OF inv]] x, of E]])
  fix w' assume w': "lobby_inv w' \<and> recounted w w' \<and> w_users w' = (w_users w)(user := None) \<and>
      w_userList w' = remove1 user (w_userList w)"
  then have inv': "lobby_inv w'" and gone: "w_users w' user = None" by simp_all
  have "user \<notin> set (w_userList w')"
    using w' lobby_invD(1) [OF server_invD(1) [OF inv]] by (simp add: lists_ok_def)
  moreover have "user \<notin> set (r_roomUsers r) \<and> r_roomHostUser r \<noteq> user \<and>
      (\<forall>gm. r_gameMatch r = Some gm \<longrightarrow> user \<notin> gmu_user ` set (gm_gameMatchUsers gm))"
    if r: "w_rooms w' room = Some r" for room r
  proof -
    have "user \<notin> set (r_roomUsers r)" using inv_members [OF inv' r] gone by fastforce
    then show ?thesis using inv_host [OF inv' r] match_ok_SomeD [OF inv_match_ok [OF inv' r]] by fastforce
  qed
  ultimately show "server_inv w' \<and> w_users w' = (w_users w)(user := None) \<and>
    w_userList w' = remove1 user (w_userList w) \<and> user \<notin> set (w_userList w') \<and>
    (\<forall>room r. w_rooms w' room = Some r \<longrightarrow> user \<notin> set (r_roomUsers r) \<and> r_roomHostUser r \<noteq> user \<and>
      (\<forall>gm. r_gameMatch r = Some gm \<longrightarrow> user \<notin> gmu_user ` set (gm_gameMatchUsers gm)))"
    using w' by (simp add: server_inv_def recounted_def)
qed

lemma no_dangling_user_witness:
  "wp (RemoveUser null_env 2 sample_world) (\<lambda>w'. w_userList w' = [1, 3, 5] \<and>
    (\<forall>room r. w_rooms w' room = Some r \<longrightarrow> 2 \<notin> set (r_roomUsers r)))"
  using no_dangling_user [OF sample_inv sample_users(2)]
  by (rule wp_mono) (simp add: sample_world_def)

section \<open>Nicknames\<close>

lemma find_first_of_Some:
  "find_first_of cs s = Some i \<longleftrightarrow> i < length s \<and> s ! i \<in> set cs \<and> (\<forall>j < i. s ! j \<notin> set cs)"
  by (auto simp: find_first_of_def find_Some_iff)

lemma find_first_of_None: "find_first_of cs s = None \<longleftrightarrow> (\<forall>c \<in> set s. c \<notin> set cs)"
  by (simp add: find_first_of_def find_None_iff all_set_conv_all_nth)

lemma find_last_not_of_Some:
  "find_last_not_of cs s = Some i \<longleftrightarrow> i < length s \<and> s ! i \<notin> set cs \<and> (\<forall>j. i < j \<longrightarrow> j < length s \<longrightarrow> s ! j \<in> set cs)"
  (is "?l \<longleftrightarrow> ?r")
proof
  assume ?l
  then obtain k where k: "k < length s" "i = length s - Suc k" "s ! i \<notin> set cs"
    "\<forall>j < k. s ! (length s - Suc j) \<in> set cs"
    by (auto simp: find_last_not_of_def find_Some_iff rev_nth)
  have "s ! j \<in> set cs" if "i < j" "j < length s" for j
    using k(4)[rule_format, of "length s - Suc j"] that k(1,2) by simp
  then show ?r using k by auto
next
  assume r: ?r
  then have "s ! (length s - Suc j) \<in> set cs" if "j < length s - Suc i" for j using that by simp
  then show ?l using r
    by (auto simp: find_last_not_of_def find_Some_iff rev_nth intro!: exI [of _ "length s - Suc i"])
qed

lemma find_last_not_of_None: "find_last_not_of cs s = None \<longleftrightarrow> (\<forall>c \<in> set s. c \<in> set cs)"
  by (simp add: find_last_not_of_def find_None_iff all_set_conv_all_nth)

text \<open>The digits of a name come last and not first, exactly when the code's comparison of positions lets it pass.\<close>

lemma digits_last_iff:
  assumes "s \<noteq> []"
  shows "\<not> (find_first_of ds s \<noteq> None \<and> pos_greater (find_last_not_of ds s) (find_first_of ds s)) \<longleftrightarrow>
    (\<exists>a d. s = a @ d \<and> a \<noteq> [] \<and> set a \<inter> set ds = {} \<and> set d \<subseteq> set ds)" (is "\<not> ?bad \<longleftrightarrow> ?good")
proof (cases "find_first_of ds s")
  case None
  then have "s = s @ [] \<and> set s \<inter> set ds = {}" by (auto simp: find_first_of_None)
  then have ?good using assms by (intro exI [of _ s] exI [of _ "[]"]) simp
  then show ?thesis using None by simp
next
  case (Some i)
  note i = Some [unfolded find_first_of_Some]
  show ?thesis
  proof (cases "find_last_not_of ds s")
    case None
    then have "set s \<subseteq> set ds" by (auto simp: find_last_not_of_None)
    then have "\<not> ?good" by (auto simp: neq_Nil_conv)
    then show ?thesis using Some None by simp
  next
    case (Some k)
    note k = this [unfolded find_last_not_of_Some]
    have "\<not> ?bad \<longleftrightarrow> k < i"
      using \<open>find_first_of ds s = Some i\<close> Some i k nat_neq_iff [of k i] by auto
    also have "\<dots> \<longleftrightarrow> ?good"
    proof
      assume "k < i"
      then have "set (take i s) \<inter> set ds = {}" "set (drop i s) \<subseteq> set ds" "take i s \<noteq> []"
        using i k by (auto simp: in_set_conv_nth)
      then show ?good by (intro exI [of _ "take i s"] exI [of _ "drop i s"]) simp
    next
      assume ?good
      then obtain a d where s: "s = a @ d" "set a \<inter> set ds = {}" "set d \<subseteq> set ds" by blast
      have "k < length a"
      proof (rule ccontr)
        assume "\<not> k < length a"
        then have "s ! k \<in> set d" using k s(1) by (auto simp: nth_append)
        then show False using k s(3) by blast
      qed
      moreover have "\<not> i < length a"
      proof
        assume "i < length a"
        then have "s ! i \<in> set a" using s(1) by (simp add: nth_append)
        then show False using i s(2) by blast
      qed
      ultimately show "k < i" by simp
    qed
    finally show ?thesis .
  qed
qed

text \<open>
  C21: which nicknames are accepted, exactly: those of 4 to 16 characters without a forbidden one, whose
  digits all come after at least one other character, in which no character occurs more than three times,
  and which, in lower case, contain no prohibited name. In particular a name of digits only is refused,
  and a prohibited name that has an upper case letter forbids nothing.
\<close>

theorem nickname_accepted_iff:
  "check_nickName prohibited nick = None \<longleftrightarrow>
    4 \<le> length nick \<and> length nick \<le> 16 \<and> set nick \<inter> set forbidden_chars = {} \<and>
    (\<exists>a d. nick = a @ d \<and> a \<noteq> [] \<and> set a \<inter> set digit_chars = {} \<and> set d \<subseteq> set digit_chars) \<and>
    (\<forall>c. count_list nick c \<le> 3) \<and>
    (\<forall>name \<in> set prohibited. \<not> sublist name (map tolower nick))"
proof (cases "4 \<le> length nick")
  case True
  then have ne: "nick \<noteq> []" by auto
  have "list_ex (\<lambda>c. count_list nick c > 3) nick \<longleftrightarrow> \<not> (\<forall>c. count_list nick c \<le> 3)"
  proof -
    have "c \<in> set nick" if "3 < count_list nick c" for c using that count_notin [of c nick] by (metis not_less0)
    then show ?thesis by (auto simp: list_ex_iff not_le)
  qed
  moreover have "find_first_of forbidden_chars nick \<noteq> None \<longleftrightarrow> set nick \<inter> set forbidden_chars \<noteq> {}"
    using find_first_of_None [of forbidden_chars nick] by auto
  ultimately show ?thesis
    using True digits_last_iff [OF ne, of digit_chars]
    unfolding check_nickName_def NICKNAME_MIN_SIZE_def NICKNAME_MAX_SIZE_def NICKNAME_MAX_CHAR_COUNT_def
    by (auto simp: list_ex_iff)
qed (simp add: check_nickName_def NICKNAME_MIN_SIZE_def)

lemma nickname_examples:
  "check_nickName [''admin''] ''Player42'' = None" "check_nickName [''admin''] ''1234'' = Some ID_DIGIT_BEFORE_CHAR"
  "check_nickName [''admin''] ''MyADMIN'' = Some ID_PROHIBITED" "check_nickName [''Admin''] ''MyAdmin'' = None"
  by code_simp+

section \<open>What clients may store\<close>

text \<open>The four groups of a quick-start number are its digits, when the first fits a byte.\<close>

lemma byte_back: "x < 256 \<Longrightarrow> (ucast (ucast (x :: u32) :: u8) :: u32) = x"
  by (rule word_unat_eq_iff [THEN iffD2]) (simp add: unsigned_ucast_eq take_bit_eq_mod unat_mod word_less_nat_alt)

lemma quickstart_split:
  fixes q :: u32
  assumes "q < 2560000"
  shows "quickstart_fields q = (ucast (q div 10000), ucast (q mod 10000 div 100), ucast (q mod 10000 mod 100 div 10),
    ucast (q mod 10000 mod 100 mod 10))"
proof -
  have g: "q div 10000 < 256" "q mod 10000 div 100 < 256" "q mod 10000 mod 100 div 10 < 256"
    using assms by (simp_all add: word_less_nat_alt unat_div unat_mod less_mult_imp_div_less)
  have sub: "x - x div y * y = x mod y" for x y :: u32 by (rule minus_div_mult_eq_mod)
  have "q - (q div 10000 * 10000 + q mod 10000 div 100 * 100) = q mod 10000 mod 100"
    using sub [of q 10000] sub [of "q mod 10000" 100] by (simp only: diff_diff_eq [symmetric])
  moreover from this have "q - (q div 10000 * 10000 + q mod 10000 div 100 * 100 + q mod 10000 mod 100 div 10 * 10)
      = q mod 10000 mod 100 mod 10"
    using sub [of "q mod 10000 mod 100" 10] by (simp only: diff_diff_eq [symmetric])
  ultimately show ?thesis
    by (simp add: quickstart_fields_def Let_def byte_back g sub)
qed

lemma nickname_accepted_iff_witness: "check_nickName [''admin''] ''player1'' = None"
proof -
  have d: "\<exists>a d. ''player1'' = a @ d \<and> a \<noteq> [] \<and> set a \<inter> set digit_chars = {} \<and> set d \<subseteq> set digit_chars"
    by (rule exI [of _ "''player''"], rule exI [of _ "''1''"]) (simp add: digit_chars_def)
  have "count_list ''player1'' c \<le> 3" for c by (cases "c \<in> set ''player1''") auto
  moreover have "set ''player1'' \<inter> set forbidden_chars = {}" by (simp add: forbidden_chars_def squote_def)
  moreover have "\<not> sublist ''admin'' (map tolower ''player1'')" by (simp add: tolower_def sublist_Cons_right)
  ultimately show ?thesis using d by (subst nickname_accepted_iff) simp
qed

lemma unat_numeral_words: "unat (10000 :: u32) = 10000" "unat (100 :: u32) = 100" "unat (10 :: u32) = 10"
  by simp_all

lemma quickstart_recombined:
  fixes q :: u32
  assumes "q < 2560000" and f: "quickstart_fields q = (a, b, c, d)"
  shows "uint a * 10000 + uint b * 100 + uint c * 10 + uint d = uint q" and "uint q < 2 ^ 31"
proof -
  have q: "unat q < 2560000" using assms(1) by (simp add: word_less_nat_alt)
  have small: "unat (ucast (x :: u32) :: u8) = unat x" if "unat x < 256" for x
    using that by (simp add: unsigned_ucast_eq take_bit_eq_mod)
  have g: "unat q div 10000 < 256" "unat q mod 10000 div 100 < 256" "unat q mod 10000 mod 100 div 10 < 256"
    "unat q mod 10000 mod 100 mod 10 < 256" using q by (simp_all add: less_mult_imp_div_less)
  have d: "unat (q div 10000) = unat q div 10000" "unat (q mod 10000 div 100) = unat q mod 10000 div 100"
    "unat (q mod 10000 mod 100 div 10) = unat q mod 10000 mod 100 div 10"
    "unat (q mod 10000 mod 100 mod 10) = unat q mod 10000 mod 100 mod 10"
    by (simp_all only: unat_div unat_mod unat_numeral_words)
  have ucasts: "a = ucast (q div 10000)" "b = ucast (q mod 10000 div 100)" "c = ucast (q mod 10000 mod 100 div 10)"
    "d = ucast (q mod 10000 mod 100 mod 10)"
    using f unfolding quickstart_split [OF assms(1)] by simp_all
  have abcd: "unat a = unat q div 10000" "unat b = unat q mod 10000 div 100"
    "unat c = unat q mod 10000 mod 100 div 10" "unat d = unat q mod 10000 mod 100 mod 10"
    unfolding ucasts by (rule small [of "q div 10000", unfolded d, OF g(1)]
      small [of "q mod 10000 div 100", unfolded d, OF g(2)] small [of "q mod 10000 mod 100 div 10", unfolded d, OF g(3)]
      small [of "q mod 10000 mod 100 mod 10", unfolded d, OF g(4)])+
  have "unat a * 10000 + unat b * 100 + unat c * 10 + unat d = unat q"
    using div_mult_mod_eq [of "unat q" 10000] div_mult_mod_eq [of "unat q mod 10000" 100]
      div_mult_mod_eq [of "unat q mod 10000 mod 100" 10]
    unfolding abcd by linarith
  then have "int (unat a) * 10000 + int (unat b) * 100 + int (unat c) * 10 + int (unat d) = int (unat q)" by presburger
  then show "uint a * 10000 + uint b * 100 + uint c * 10 + uint d = uint q" by simp
  have "int (unat q) < 2560000" using q by linarith
  then have "uint q < 2560000" by simp
  then show "uint q < 2 ^ 31" by simp
qed

lemma int_ok_sums:
  assumes "A * 10000 + B * 100 + C * 10 + D = Q" "Q < 2 ^ 31" "0 \<le> A" "0 \<le> B" "0 \<le> C" "0 \<le> D"
  shows "int_ok (A * 10000) = Some (A * 10000)" "int_ok (B * 100) = Some (B * 100)" "int_ok (C * 10) = Some (C * 10)"
    "int_ok (A * 10000 + B * 100) = Some (A * 10000 + B * 100)"
    "int_ok (A * 10000 + B * 100 + C * 10) = Some (A * 10000 + B * 100 + C * 10)"
    "int_ok (A * 10000 + B * 100 + C * 10 + D) = Some Q"
  using assms unfolding int_ok_def by auto

text \<open>
  Quick-start settings survive the database. For a number below 2560000, whose first group fits a
  byte, a database that gives back the four columns \<open>SaveUserQuickStart\<close> stores makes
  \<open>GetUserQuickStart\<close> return the number that was saved.
\<close>

lemma quickstart_roundtrip:
  assumes "q < 2560000" and f: "quickstart_fields q = (a, b, c, d)"
    and db: "mysql_query E (''SELECT gameModeID, mapID, levelLimit, clanBattle FROM user_quickstarts WHERE userID = ''
      @ fmt userID @ '';'') e = (Inr [[Some (fmt a), Some (fmt b), Some (fmt c), Some (fmt d)]], e')"
  shows "GetUserQuickStart E userID e = Some (q, e')"
proof -
  note q = quickstart_recombined [OF assms(1) f]
  have cols: "col_int [Some (fmt a), Some (fmt b), Some (fmt c), Some (fmt d)] 0 = Some (uint a)"
    "col_int [Some (fmt a), Some (fmt b), Some (fmt c), Some (fmt d)] (Suc 0) = Some (uint b)"
    "col_int [Some (fmt a), Some (fmt b), Some (fmt c), Some (fmt d)] 2 = Some (uint c)"
    "col_int [Some (fmt a), Some (fmt b), Some (fmt c), Some (fmt d)] 3 = Some (uint d)"
    by (simp_all add: col_int_def col_text_def vec_at_def)
  note ok = int_ok_sums [OF q unsigned_greater_eq unsigned_greater_eq unsigned_greater_eq unsigned_greater_eq]
  show ?thesis by (simp only: GetUserQuickStart_def db) (simp add: cols ok)
qed

lemma quickstart_roundtrip_witness:
  "GetUserQuickStart (null_env\<lparr>mysql_query := (\<lambda>_ e. (Inr [[Some (fmt (3 :: u8)), Some (fmt (12 :: u8)),
    Some (fmt (4 :: u8)), Some (fmt (1 :: u8))]], e))\<rparr>) 7 () = Some (31241, ())"
proof (rule quickstart_roundtrip)
  show "quickstart_fields 31241 = (3, 12, 4, 1)" by (simp add: quickstart_split)
qed simp_all

lemma UserConfig_bounded:
  assumes x: "w_users w user = Some x"
  shows "wp (parsePacket_Option_UserConfig E user p w) (\<lambda>w'. w' = w \<or> (\<exists>cs. 0 < length cs \<and> length cs \<le> 5120 \<and>
    w' = w\<lparr>w_ext := snd (SaveUserConfig E (u_userID x) cs (w_ext w))\<rparr>))"
proof -
  have "0 < length cs \<and> length cs \<le> 5120"
    if "ReadArray_UInt8 (unat sz) p' = (cs, p'')" "sz \<noteq> 0" "\<not> sz > USERCONFIG_MAX_SIZE" for sz p' cs p''
    using length_ReadArray_UInt8 [OF that(1)] that(2,3)
    by (simp add: USERCONFIG_MAX_SIZE_def word_less_nat_alt not_less unat_gt_0 flip: length_greater_0_conv)
  then show ?thesis
    using x by (auto simp: parsePacket_Option_UserConfig_def Let_def split_def) (metis prod.collapse)
qed

lemma UserQuickStart_bounded:
  assumes "w_users w user = Some x"
  shows "wp (parsePacket_Option_UserQuickStart E user p w) (\<lambda>w'. w' = w \<or>
    (\<exists>q. w' = w\<lparr>w_ext := snd (SaveUserQuickStart E (u_userID x) q (w_ext w))\<rparr>))"
  using assms by (auto simp: parsePacket_Option_UserQuickStart_def Let_def split_def)

lemma UserBuyMenu_bounded:
  assumes x: "w_users w user = Some x"
  shows "wp (parsePacket_Favorite_UserBuyMenu E user p w) (\<lambda>w'. w' = w \<or> (\<exists>cat slot item. cat < 14 \<and> slot < 9 \<and>
    w' = w\<lparr>w_ext := snd (SaveUserBuyMenu E (u_userID x) cat slot item (w_ext w))\<rparr>))"
proof -
  obtain cat p1 where 1: "ReadUInt8 p = (cat, p1)" by (rule prod.exhaust)
  obtain slot p2 where 2: "ReadUInt8 p1 = (slot, p2)" by (rule prod.exhaust)
  obtain item p3 where 3: "ReadUInt8 p2 = (item, p3)" by (rule prod.exhaust)
  note s = parsePacket_Favorite_UserBuyMenu_def BUYMENU_MAX_CATEGORY_def BUYMENU_MAX_SLOT_def
    word_less_nat_alt word_le_nat_alt
  show ?thesis
  proof (cases "user \<noteq> 0 \<and> cat < 14 \<and> slot < 9")
    case True
    then have "parsePacket_Favorite_UserBuyMenu E user p w =
        Some (w\<lparr>w_ext := snd (SaveUserBuyMenu E (u_userID x) cat slot item (w_ext w))\<rparr>)"
      using x 1 2 3 by (simp add: s split_def)
    then show ?thesis using True unfolding wp_iff by blast
  next
    case False
    then have "parsePacket_Favorite_UserBuyMenu E user p w = Some w"
      using x 1 2 3 by (cases "user = 0"; cases "cat < 14") (simp_all add: s)
    then show ?thesis by simp
  qed
qed

lemma read_bookmark_bounded:
  "length (bk_name (read_bookmark s p)) \<le> 12 \<and> bk_flashbang (read_bookmark s p) \<le> 2 \<and>
    bk_kevlar (read_bookmark s p) \<le> 2 \<and> bk_slotID (read_bookmark s p) = s"
  by (simp add: read_bookmark_def Let_def split_def BOOKMARK_NAME_MAX_SIZE_def BOOKMARK_FLASHBANG_MAX_def
      BOOKMARK_KEVLAR_MAX_def not_less)

lemma UserBookMark_bounded:
  assumes x: "w_users w user = Some x"
  shows "wp (parsePacket_Favorite_UserBookMark E user p w) (\<lambda>w'. w' = w \<or> (\<exists>b. bk_slotID b < 5 \<and>
    length (bk_name b) \<le> 12 \<and> bk_flashbang b \<le> 2 \<and> bk_kevlar b \<le> 2 \<and>
    w' = w\<lparr>w_ext := snd (SaveUserBookMark E (u_userID x) b (w_ext w))\<rparr>))"
proof -
  obtain slot p1 where 1: "ReadUInt8 p = (slot, p1)" by (rule prod.exhaust)
  note s = parsePacket_Favorite_UserBookMark_def BOOKMARK_MAX_SLOT_def word_less_nat_alt word_le_nat_alt
  show ?thesis
  proof (cases "user \<noteq> 0 \<and> slot < 5")
    case True
    then have "parsePacket_Favorite_UserBookMark E user p w =
        Some (w\<lparr>w_ext := snd (SaveUserBookMark E (u_userID x) (read_bookmark slot p1) (w_ext w))\<rparr>)"
      using x 1 by (simp add: s split_def)
    then show ?thesis using True read_bookmark_bounded [of slot p1] unfolding wp_iff by metis
  next
    case False
    then have "parsePacket_Favorite_UserBookMark E user p w = Some w" using x 1 by (cases "user = 0") (simp_all add: s)
    then show ?thesis by simp
  qed
qed

text \<open>
  C35: what a client can make the database store is bounded. Whatever the bytes of an option or favourite
  packet, either nothing is stored, or one of: a configuration of 1 to 5120 bytes, a quick-start number, a
  buy menu slot below 9 of a category below 14, a bookmark with a slot below 5, a name of at most 12
  characters and at most 2 flashbangs and kevlars. Nothing but the database changes.
\<close>

theorem stored_options_bounded:
  assumes inv: "lobby_inv w"
  shows "wp (ParsePacket_Option E packet w) (\<lambda>w'. w' = w \<or> (\<exists>i.
      (\<exists>cs. 0 < length cs \<and> length cs \<le> 5120 \<and> w' = w\<lparr>w_ext := snd (SaveUserConfig E i cs (w_ext w))\<rparr>) \<or>
      (\<exists>q. w' = w\<lparr>w_ext := snd (SaveUserQuickStart E i q (w_ext w))\<rparr>))) \<and>
    wp (ParsePacket_Favorite E packet w) (\<lambda>w'. w' = w \<or> (\<exists>i.
      (\<exists>cat slot item. cat < 14 \<and> slot < 9 \<and> w' = w\<lparr>w_ext := snd (SaveUserBuyMenu E i cat slot item (w_ext w))\<rparr>) \<or>
      (\<exists>b. bk_slotID b < 5 \<and> length (bk_name b) \<le> 12 \<and> bk_flashbang b \<le> 2 \<and> bk_kevlar b \<le> 2 \<and>
        w' = w\<lparr>w_ext := snd (SaveUserBookMark E i b (w_ext w))\<rparr>)))"
    (is "wp _ ?O \<and> wp _ ?F")
proof -
  have "wp (parsePacket_Option_UserConfig E user p w) ?O" "wp (parsePacket_Option_UserQuickStart E user p w) ?O"
    "wp (parsePacket_Favorite_UserBuyMenu E user p w) ?F" "wp (parsePacket_Favorite_UserBookMark E user p w) ?F"
    if x: "w_users w user = Some x" for user x p
    using UserConfig_bounded [OF x] UserQuickStart_bounded [OF x] UserBuyMenu_bounded [OF x] UserBookMark_bounded [OF x]
    by (blast intro: wp_mono)+
  note o = this
  show ?thesis
    by (rule by_connection_cases [OF inv, of "p_connection packet"])
       (use o in \<open>auto simp: ParsePacket_Option_def ParsePacket_Favorite_def with_user_def split_def Let_def\<close>)
qed

lemma stored_options_bounded_witness:
  "wp (ParsePacket_Favorite null_env (Packet_Server 11 [1, 9]) sample_world) (\<lambda>w'. w_users w' = w_users sample_world)"
  using stored_options_bounded [OF sample_lobby_inv, of null_env "Packet_Server 11 [1, 9]"]
  by (auto elim!: wp_mono)

section \<open>Searching a room\<close>

lemma findM_hit: "findM p xs = Some q \<Longrightarrow> q = 0 \<or> q \<in> set xs \<and> p q = Some True"
  by (induction xs) (auto simp: bind_eq_Some_conv split: if_splits)

lemma search_rows:
  assumes "foldM (search_row cfg level) rows res = Some (s, c, i)"
  shows "(s, c, i) = res \<or> (\<exists>ch sv. channel_at cfg s c = Some ch \<and> server_at cfg s = Some sv \<and> ch_isOnline ch \<and>
    (sv_type sv = Newbie \<longrightarrow> level < LIMIT_NEWBIE_LEVEL))"
  using assms
proof (induction rows arbitrary: res)
  case (Cons row rows)
  then obtain res' where r: "search_row cfg level row res = Some res'" "foldM (search_row cfg level) rows res' = Some (s, c, i)"
    by (auto simp: bind_eq_Some_conv)
  then show ?case
    using Cons.IH [OF r(2)] by (fastforce simp: search_row_def bind_eq_Some_conv not_le split: if_splits)
qed simp

lemma DB_SearchRoom_rows:
  assumes "DB_SearchRoom E cfg level mode map_id lvl clan e = Some (res, e')"
  shows "res = (0, 0, 0) \<or> (\<exists>rows. foldM (search_row cfg level) rows (0, 0, 0) = Some res)"
proof -
  obtain q where "(case mysql_query E q e of (Inl _, e) \<Rightarrow> Some ((0, 0, 0), e)
      | (Inr rows, e) \<Rightarrow> do { res \<leftarrow> foldM (search_row cfg level) rows (0, 0, 0); Some (res, e) }) = Some (res, e')"
    using assms unfolding DB_SearchRoom_def bind_eq_Some_conv by blast
  then show ?thesis by (auto simp: bind_eq_Some_conv split: sum.splits prod.splits)
qed



end
