(* ===== verification/PeerList.thy ===== *)
theory PeerList
  imports UdpSafety
begin

text \<open>
  The server list as a map from ids to channels: what a datagram of a peer and the tick of a second
  make of it.
\<close>

section \<open>One entry of the server list\<close>

text \<open>
  The list of servers as a map from ids to channels. An update of one entry, and a change of the status of a
  server, on that map; \<open>servers_only\<close> says that nothing but the list changed.
\<close>

definition servers_only :: "'e world \<Rightarrow> 'e world \<Rightarrow> bool" where
  "servers_only w w' \<longleftrightarrow>
     w' = w\<lparr>w_cfg := (w_cfg w)\<lparr>cfg_serverList := cfg_serverList (w_cfg w')\<rparr>, w_udpOut := w_udpOut w'\<rparr>"

lemma servers_only_refl [simp]: "servers_only w w"
  by (simp add: servers_only_def)

lemma servers_only_trans: "servers_only w v \<Longrightarrow> servers_only v u \<Longrightarrow> servers_only w u"
  by (cases w; cases v; cases u; cases "w_cfg w"; cases "w_cfg v"; cases "w_cfg u") (simp add: servers_only_def)

lemma servers_only_sendPacket [simp]: "servers_only w (sendPacket ep ws w)" "w_cfg (sendPacket ep ws w) = w_cfg w"
  by (simp_all add: servers_only_def sendPacket_def)

lemma channel_at_server: "channel_at cfg s c = Option.bind (server_at cfg s) (\<lambda>sv. vec_at (sv_channels sv) (unat (c - 1)))"
  by (simp add: channel_at_def)

lemma server_at_update:
  assumes "server_at cfg s = Some sv"
  shows "server_at (cfg\<lparr>cfg_serverList := (cfg_serverList cfg)[unat (s - 1) := sv']\<rparr>) s' =
    (if s' = s then Some sv' else server_at cfg s')"
  using assms minus_one_inject [of s' s] by (auto simp: server_at_def vec_at_def nth_list_update split: if_splits)

text \<open>The two effects of a step on that map: none, or one channel replaced.\<close>

definition same_channels :: "'e world \<Rightarrow> 'e world \<Rightarrow> bool" where
  "same_channels w w' \<longleftrightarrow> servers_only w w' \<and> (\<forall>s c. channel_at (w_cfg w') s c = channel_at (w_cfg w) s c)"

definition set_channel :: "u8 \<Rightarrow> u8 \<Rightarrow> Channel \<Rightarrow> 'e world \<Rightarrow> 'e world \<Rightarrow> bool" where
  "set_channel s c ch w w' \<longleftrightarrow> servers_only w w' \<and> (\<forall>s' c'. channel_at (w_cfg w') s' c' =
     (if s' = s \<and> c' = c then Some ch else channel_at (w_cfg w) s' c'))"

lemma same_channels_refl [simp]: "same_channels w w"
  by (simp add: same_channels_def)

lemma same_channels_sendPacket [simp]: "same_channels w (sendPacket ep ws w)"
  by (simp add: same_channels_def)

lemma set_channel_then: "set_channel s c ch w v \<Longrightarrow> same_channels v u \<Longrightarrow> set_channel s c ch w u"
  using servers_only_trans [of w v u] by (simp add: set_channel_def same_channels_def)

lemma upd_channel_at:
  fixes w :: "'e world"
  assumes "channel_at (w_cfg w) s c = Some ch"
  shows "wp (upd_channel s c f w) (\<lambda>w'. set_channel s c (f ch) w w' \<and> server_at (w_cfg w') s \<noteq> None)"
proof -
  obtain sv where sv: "server_at (w_cfg w) s = Some sv" and ch: "vec_at (sv_channels sv) (unat (c - 1)) = Some ch"
    using assms by (auto simp: channel_at_server bind_eq_Some_conv)
  have "vec_at ((sv_channels sv)[unat (c - 1) := f ch]) (unat (c' - 1)) =
      (if c' = c then Some (f ch) else vec_at (sv_channels sv) (unat (c' - 1)))" for c'
    using ch minus_one_inject [of c' c] by (auto simp: vec_at_def nth_list_update split: if_splits)
  then show ?thesis
    using sv ch server_at_update [OF sv]
    by (auto simp: upd_channel_def set_channel_def servers_only_def channel_at_server)
qed

lemma upd_server_at:
  fixes w :: "'e world"
  assumes "server_at (w_cfg w) s \<noteq> None" and "\<And>sv. sv_channels (f sv) = sv_channels sv"
  shows "wp (upd_server s f w) (same_channels w)"
  using assms server_at_update [of "w_cfg w" s]
  by (auto simp: upd_server_def servers_only_def same_channels_def channel_at_server)

lemma update_status_at: "server_at (w_cfg w) s \<noteq> None \<Longrightarrow> wp (update_status s w) (same_channels w)"
  by (simp add: update_status_def upd_server_at)

text \<open>What a datagram of type \<open>t\<close> with the count \<open>n\<close> says about the channel it names.\<close>

definition peer_says :: "u64 \<Rightarrow> u8 \<Rightarrow> u16 \<Rightarrow> Channel \<Rightarrow> Channel" where
  "peer_says now t n ch =
     (if t = HELLO \<or> t = HELLO_ANSWER then go_online now n ch
      else if t = GOODBYE then go_offline ch
      else if t = HEARTBEAT then ch\<lparr>ch_lastHeartbeat := now\<rparr>
      else if t = NUMPLAYERS then ch\<lparr>ch_numPlayers := n\<rparr>
      else ch)"

definition with_count :: "u8 \<Rightarrow> bool" where
  "with_count t \<longleftrightarrow> t \<in> {HELLO, HELLO_ANSWER, NUMPLAYERS}"

lemma wp_then: "wp m P \<Longrightarrow> (\<And>x. P x \<Longrightarrow> wp (f x) Q) \<Longrightarrow> wp (Option.bind m f) Q"
  by (cases m) simp_all

lemma hello_at:
  fixes w :: "'e world"
  assumes "channel_at (w_cfg w) s c = Some ch"
  shows "wp (do {
      w \<leftarrow> upd_channel s c f w;
      w \<leftarrow> (if s \<noteq> cfg_serverID (w_cfg w) then upd_server s (\<lambda>s. s\<lparr>sv_status := Ready\<rparr>) w else Some w);
      Some (if b then sendHelloAnswerPacket ep w else w) }) (set_channel s c (f ch) w)"
proof (rule wp_then [OF upd_channel_at [OF assms]])
  fix v assume v: "set_channel s c (f ch) w v \<and> server_at (w_cfg v) s \<noteq> None"
  then have "wp (if s \<noteq> cfg_serverID (w_cfg v) then upd_server s (\<lambda>s. s\<lparr>sv_status := Ready\<rparr>) v else Some v) (same_channels v)"
    by (simp add: upd_server_at)
  then show "wp (do {
      w \<leftarrow> (if s \<noteq> cfg_serverID (w_cfg v) then upd_server s (\<lambda>s. s\<lparr>sv_status := Ready\<rparr>) v else Some v);
      Some (if b then sendHelloAnswerPacket ep w else w) }) (set_channel s c (f ch) w)"
  proof (rule wp_then)
    fix u assume "same_channels v u"
    then have u: "set_channel s c (f ch) w u" using v set_channel_then by blast
    then have "set_channel s c (f ch) w (sendHelloAnswerPacket ep u)"
      unfolding sendHelloAnswerPacket_def by (rule set_channel_then) simp
    then show "wp (Some (if b then sendHelloAnswerPacket ep u else u)) (set_channel s c (f ch) w)" using u by simp
  qed
qed

lemma offline_at:
  assumes "channel_at (w_cfg w) s c = Some ch"
  shows "wp (do { w \<leftarrow> upd_channel s c f w; update_status s w }) (set_channel s c (f ch) w)"
proof (rule wp_then [OF upd_channel_at [OF assms]])
  fix v assume "set_channel s c (f ch) w v \<and> server_at (w_cfg v) s \<noteq> None"
  then show "wp (update_status s v) (set_channel s c (f ch) w)"
    using wp_mono [OF update_status_at] set_channel_then by blast
qed

lemma handle_server_says:
  fixes w :: "'e world"
  assumes key: "CHR 0x00 \<notin> set (cfg_udpAuthKey (w_cfg w))" and ch: "channel_at (w_cfg w) s c = Some ch"
    and s: "s \<noteq> 0" "c \<noteq> 0" and t: "t \<in> {HELLO, HELLO_ANSWER, GOODBYE, HEARTBEAT, NUMPLAYERS}"
  shows "wp (handle_server now ep (upos pre (map byte_of (cfg_udpAuthKey (w_cfg w)) @ [0] @ [s] @ [c] @ [t] @
      (if with_count t then le_bytes 2 n else []) @ []) p) w)
    (set_channel s c (peer_says now t n ch) w)"
proof -
  obtain sv where sv: "server_at (w_cfg w) s = Some sv" and cv: "vec_at (sv_channels sv) (unat (c - 1)) = Some ch"
    using ch by (auto simp: channel_at_server bind_eq_Some_conv)
  have "unat (x - 1 :: u8) = unat x - 1" if "x \<noteq> 0" for x using that by (simp add: unat_minus_one)
  then have in_range: "unat s \<le> length (cfg_serverList (w_cfg w))" "unat c \<le> length (sv_channels sv)"
    using sv cv s by (auto simp: server_at_def vec_at_def split: if_splits)
  have plain: "wp (upd_channel s c f w) (set_channel s c (f ch) w)" for f by (rule wp_mono [OF upd_channel_at [OF ch]]) simp
  have n: "UDP_ReadUInt16_LE (upos pre (le_bytes 2 n) p) = (n, upos (pre @ le_bytes 2 n) [] p)" for pre p
    using UDP_ReadUInt16_LE_pos [of pre n "[]" p] by simp
  note reads = UDP_ReadString_pos [OF key] UDP_ReadUInt8_pos n
  have off: "\<not> length (cfg_serverList (w_cfg w)) < unat s" "\<not> length (sv_channels sv) < unat c" using in_range by simp_all
  note shape = handle_server_def reads Let_def s off sv peer_says_def with_count_def udp_defs
  show ?thesis
    using t plain hello_at [OF ch, of "go_online now n" True] hello_at [OF ch, of "go_online now n" False]
      offline_at [OF ch, of go_offline]
    by (elim insertE emptyE) (simp_all add: shape del: wp_bind wp_if)
qed

section \<open>Peers that fall silent\<close>

text \<open>What a second makes of the entry of another channel, and of the entries of a set of ids.\<close>

definition aged :: "u64 \<Rightarrow> Channel \<Rightarrow> Channel" where
  "aged now ch = (if ch_isOnline ch \<and> ch_lastHeartbeat ch + UDP_SERVER_HEARTBEAT_TIMEOUT < now then go_offline ch else ch)"

definition own_ids :: "ServerConfig \<Rightarrow> u8 \<times> u8" where
  "own_ids cfg = (cfg_serverID cfg, cfg_channelID cfg)"

definition ages :: "u64 \<Rightarrow> (u8 \<times> u8) set \<Rightarrow> 'e world \<Rightarrow> 'e world \<Rightarrow> bool" where
  "ages now X w w' \<longleftrightarrow> (\<forall>s c. channel_at (w_cfg w') s c =
     (if (s, c) \<in> X \<and> (s, c) \<noteq> own_ids (w_cfg w) then map_option (aged now) (channel_at (w_cfg w) s c)
      else channel_at (w_cfg w) s c))"

lemma aged_aged [simp]: "aged now (aged now ch) = aged now ch"
  by (simp add: aged_def go_offline_def)

lemma ages_none: "ages now {} w w"
  by (simp add: ages_def)

lemma ages_trans: "ages now X w v \<Longrightarrow> ages now Y v u \<Longrightarrow> keeps w v \<Longrightarrow> ages now (X \<union> Y) w u"
  using keeps_ids(1,2) [of w v] by (auto simp: ages_def own_ids_def option.map_comp o_def)

lemma foldM_ages:
  fixes w :: "'e world"
  assumes "server_inv w"
    and "\<And>x v. x \<in> set xs \<Longrightarrow> keeps w v \<Longrightarrow> wp (f x v) (\<lambda>v'. keeps v v' \<and> ages now (X x) v v')"
  shows "wp (foldM f xs w) (\<lambda>w'. keeps w w' \<and> ages now (\<Union>x \<in> set xs. X x) w w')"
  using assms
proof (induction xs arbitrary: w)
  case (Cons x xs)
  have "wp (f x w) (\<lambda>v'. keeps w v' \<and> ages now (X x) w v')"
    using Cons.prems(2) [of x w] keeps_refl [OF Cons.prems(1)] by simp
  then show ?case unfolding foldM.simps
  proof (rule wp_then)
    fix v assume v: "keeps w v \<and> ages now (X x) w v"
    have "wp (foldM f xs v) (\<lambda>w'. keeps v w' \<and> ages now (\<Union>x \<in> set xs. X x) v w')"
    proof (rule Cons.IH)
      show "server_inv v" using v keeps_server_inv by blast
      show "wp (f y u) (\<lambda>v'. keeps u v' \<and> ages now (X y) u v')" if "y \<in> set xs" "keeps v u" for y u
        using Cons.prems(2) [of y u] that keeps_trans [of v u w] v by simp
    qed
    then show "wp (foldM f xs v) (\<lambda>w'. keeps w w' \<and> ages now (\<Union>x \<in> set (x # xs). X x) w w')"
      using v by (elim wp_mono) (auto intro: keeps_trans dest: ages_trans)
  qed
qed (simp add: keeps_refl ages_none)

lemma check_peer_ages:
  fixes w :: "'e world"
  assumes inv: "server_inv w" and ch: "channel_at (w_cfg w) (sv_id server) (ch_id channel) = Some channel"
    and other: "\<not> is_own (w_cfg w) server channel"
  shows "wp (check_peer now server channel w) (\<lambda>w'. keeps w w' \<and> ages now {(sv_id server, ch_id channel)} w w')"
proof (rule wp_conj [OF check_peer_keeps [OF assms]])
  let ?x = "(sv_id server, ch_id channel)"
  have set: "ages now {?x} w w'" if "set_channel (sv_id server) (ch_id channel) (aged now channel) w w'" for w'
    using that ch other by (auto simp: set_channel_def ages_def own_ids_def is_own_def)
  have same: "ages now {?x} w w'" if "w_cfg w' = w_cfg w" "aged now channel = channel" for w'
    using that ch by (simp add: ages_def)
  show "wp (check_peer now server channel w) (ages now {?x} w)"
  proof (cases "ch_isOnline channel \<and> ch_lastHeartbeat channel + UDP_SERVER_HEARTBEAT_TIMEOUT < now")
    case True
    then have "wp (check_peer now server channel w) (set_channel (sv_id server) (ch_id channel) (aged now channel) w)"
      using offline_at [OF ch, of go_offline] by (simp add: check_peer_def aged_def del: wp_bind)
    then show ?thesis by (rule wp_mono) (rule set)
  next
    case False
    then have "aged now channel = channel" by (auto simp: aged_def)
    then show ?thesis using False ch same by (auto simp: check_peer_def sendHeartbeatPacket_def)
  qed
qed

text \<open>All ids of a numbered list are visited: the positions of the loops are the ids.\<close>

definition ids_of :: "nat \<Rightarrow> nat \<Rightarrow> (u8 \<times> u8) set" where
  "ids_of i n = (\<lambda>j. (of_nat (Suc i), of_nat (Suc j))) ` {..<n}"

lemma numbered_ids:
  assumes "numbered cfg" "i < length (cfg_serverList cfg)" "j < length (sv_channels (cfg_serverList cfg ! i))"
  shows "sv_id (cfg_serverList cfg ! i) = of_nat (Suc i)" "ch_id (sv_channels (cfg_serverList cfg ! i) ! j) = of_nat (Suc j)"
  using assms by (auto simp: numbered_def server_ids_def Let_def)

lemma for_channels_ages:
  fixes w :: "'e world"
  assumes inv: "server_inv w" and num: "numbered (w_cfg w)" and i: "i < length (cfg_serverList (w_cfg w))"
  shows "wp (for_channels i (check_peer now) w)
    (\<lambda>w'. keeps w w' \<and> ages now (ids_of i (length (sv_channels (cfg_serverList (w_cfg w) ! i)))) w w')"
proof -
  let ?n = "length (sv_channels (cfg_serverList (w_cfg w) ! i))"
  have "wp (foldM (\<lambda>j w. do {
       server \<leftarrow> vec_at (cfg_serverList (w_cfg w)) i;
       channel \<leftarrow> vec_at (sv_channels server) j;
       (if is_own (w_cfg w) server channel then Some w else check_peer now server channel w)
     }) [0..<?n] w) (\<lambda>w'. keeps w w' \<and> ages now (\<Union>j \<in> set [0..<?n]. {(of_nat (Suc i), of_nat (Suc j))}) w w')"
  proof (rule foldM_ages [OF inv])
    fix j v assume j: "j \<in> set [0..<?n]" and v: "keeps w v"
    have iv: "i < length (cfg_serverList (w_cfg v))" and jv: "j < length (sv_channels (cfg_serverList (w_cfg v) ! i))"
      using i j keeps_lengths [OF v] by simp_all
    have num_v: "numbered (w_cfg v)" using num keeps_numbered [OF v] by simp
    note at = numbered_channel_at [OF num_v iv jv] and ids = numbered_ids [OF num_v iv jv]
    let ?s = "cfg_serverList (w_cfg v) ! i"
    let ?c = "sv_channels ?s ! j"
    have "ages now {(of_nat (Suc i), of_nat (Suc j))} v v" if "is_own (w_cfg v) ?s ?c"
      using that ids by (auto simp: ages_def own_ids_def is_own_def)
    then show "wp (do {
       server \<leftarrow> vec_at (cfg_serverList (w_cfg v)) i;
       channel \<leftarrow> vec_at (sv_channels server) j;
       (if is_own (w_cfg v) server channel then Some v else check_peer now server channel v)
     }) (\<lambda>v'. keeps v v' \<and> ages now {(of_nat (Suc i), of_nat (Suc j))} v v')"
      using iv jv check_peer_ages [OF keeps_server_inv [OF v] at] keeps_refl [OF keeps_server_inv [OF v]] ids by simp
  qed
  moreover have "(\<Union>j \<in> set [0..<?n]. {(of_nat (Suc i), of_nat (Suc j))}) = ids_of i ?n"
    by (auto simp: ids_of_def)
  ultimately show ?thesis using i by (simp add: for_channels_def)
qed

lemma for_servers_ages:
  fixes w :: "'e world"
  assumes inv: "server_inv w" and num: "numbered (w_cfg w)"
  shows "wp (for_servers (\<lambda>i _. for_channels i (check_peer now)) w) (\<lambda>w'. keeps w w' \<and> ages now UNIV w w')"
proof -
  let ?S = "cfg_serverList (w_cfg w)"
  let ?X = "\<lambda>i. ids_of i (length (sv_channels (?S ! i)))"
  have "wp (foldM (\<lambda>i w. do { server \<leftarrow> vec_at (cfg_serverList (w_cfg w)) i; for_channels i (check_peer now) w })
     [0..<length ?S] w) (\<lambda>w'. keeps w w' \<and> ages now (\<Union>i \<in> set [0..<length ?S]. ?X i) w w')"
  proof (rule foldM_ages [OF inv])
    fix i v assume i: "i \<in> set [0..<length ?S]" and v: "keeps w v"
    have iv: "i < length (cfg_serverList (w_cfg v))" using i keeps_lengths(1) [OF v] by simp
    have "numbered (w_cfg v)" using num keeps_numbered [OF v] by simp
    from for_channels_ages [OF keeps_server_inv [OF v] this iv, of now]
    show "wp (do { server \<leftarrow> vec_at (cfg_serverList (w_cfg v)) i; for_channels i (check_peer now) v })
        (\<lambda>v'. keeps v v' \<and> ages now (?X i) v v')"
      using iv i keeps_lengths(2) [OF v] by simp
  qed
  moreover have "ages now UNIV w w'" if a: "ages now (\<Union>i \<in> set [0..<length ?S]. ?X i) w w'" for w'
  proof -
    have "(s, c) \<in> (\<Union>i \<in> set [0..<length ?S]. ?X i)" if "channel_at (w_cfg w) s c \<noteq> None" for s c
    proof -
      have r: "unat (s - 1) < length ?S" "unat (c - 1) < length (sv_channels (?S ! unat (s - 1)))"
        using that by (auto simp: channel_at_server server_at_def vec_at_def split: if_splits)
      then have "length ?S < 256" "length (sv_channels (?S ! unat (s - 1))) < 256"
        using num by (auto simp: numbered_def server_ids_def Let_def)
      then have "of_nat (Suc (unat (x - 1))) = x" for x :: u8 by simp
      then show ?thesis using r by (force simp: ids_of_def)
    qed
    then have "channel_at (w_cfg w) s c = None" if "(s, c) \<notin> (\<Union>i \<in> set [0..<length ?S]. ?X i)" for s c
      using that by blast
    then show ?thesis using a unfolding ages_def by (metis (no_types, lifting) UNIV_I option.map_disc_iff)
  qed
  ultimately show ?thesis unfolding for_servers_def by (elim wp_mono) blast
qed

end
