(* ===== verification/UdpProperties.thy ===== *)
theory UdpProperties
  imports Samples PeerList
begin

text \<open>
  The UDP server: what the datagrams of peers and clients may change, where relayed data goes, and
  when a silent peer is given up.
\<close>

section \<open>The protocol between the servers\<close>

text \<open>
  C22: the protocol between the servers agrees with itself. A datagram that one server writes for any of its
  five messages, received by another that has the same key and knows the sender's channel, does to that
  channel, and to no other, what the message says: online with the count, offline, heard of now, or the new
  count. Nothing else of the receiver changes but the status of the server.
\<close>

theorem peer_datagram_roundtrip:
  fixes w :: "'e world"
  assumes run: "w_udpRunning w" and key: "cfg_udpAuthKey (w_cfg w) = cfg_udpAuthKey peer"
      "CHR 0x00 \<notin> set (cfg_udpAuthKey peer)"
    and ch: "channel_at (w_cfg w) (cfg_serverID peer) (cfg_channelID peer) = Some ch"
    and ids: "cfg_serverID peer \<noteq> 0" "cfg_channelID peer \<noteq> 0"
    and t: "t \<in> {HELLO, HELLO_ANSWER, GOODBYE, HEARTBEAT, NUMPLAYERS}"
  shows "wp (handleReceive E ep (encodes (peer_header peer t @ (if with_count t then [WriteUInt16_LE n] else []))) (us, w))
    (\<lambda>(us', w'). us' = us \<and>
      (\<forall>s c. channel_at (w_cfg w') s c = (if s = cfg_serverID peer \<and> c = cfg_channelID peer
         then Some (peer_says (us_currentTime us) t n ch) else channel_at (w_cfg w) s c)) \<and>
      servers_only w w')"
proof -
  let ?key = "cfg_udpAuthKey peer" and ?s = "cfg_serverID peer" and ?c = "cfg_channelID peer"
  let ?rest = "map byte_of ?key @ [0] @ [?s] @ [?c] @ [t] @ (if with_count t then le_bytes 2 n else []) @ []"
  let ?bs = "encodes (peer_header peer t @ (if with_count t then [WriteUInt16_LE n] else []))"
  have bs: "?bs = UDP_SERVER_PACKET_SIGNATURE # ?rest" by (simp add: peer_header_def)
  have "new_UDPPacket ep ?bs = upos [] ?bs (new_UDPPacket ep ?bs)" by (simp add: upos_def new_UDPPacket_def)
  then have sig: "UDP_ReadUInt8 (new_UDPPacket ep ?bs) =
      (UDP_SERVER_PACKET_SIGNATURE, upos [UDP_SERVER_PACKET_SIGNATURE] ?rest (new_UDPPacket ep ?bs))"
    using UDP_ReadUInt8_pos [of "[]" UDP_SERVER_PACKET_SIGNATURE ?rest "new_UDPPacket ep ?bs"] bs by simp
  have "wp (handle_server (us_currentTime us) ep (upos [UDP_SERVER_PACKET_SIGNATURE] ?rest (new_UDPPacket ep ?bs)) w)
      (set_channel ?s ?c (peer_says (us_currentTime us) t n ch) w)"
    using handle_server_says [OF _ ch ids t] key by simp
  then obtain w' where w': "handle_server (us_currentTime us) ep
      (upos [UDP_SERVER_PACKET_SIGNATURE] ?rest (new_UDPPacket ep ?bs)) w = Some w'"
    "set_channel ?s ?c (peer_says (us_currentTime us) t n ch) w w'" by (auto simp: wp_iff)
  have "handleReceive E ep ?bs (us, w) = Some (us, w')"
    using run sig w'(1)
    by (simp add: handleReceive_def UDP_CLIENT_PACKET_SIGNATURE_def UDP_RELAY_PACKET_SIGNATURE_def
        UDP_PING_PACKET_SIGNATURE_def UDP_SERVER_PACKET_SIGNATURE_def del: append_assoc)
  then show ?thesis using w'(2) by (simp add: set_channel_def)
qed

lemma peer_datagram_roundtrip_witness:
  "wp (handleReceive null_env ([], 0) (encodes (peer_header (sample_cfg\<lparr>cfg_channelID := 2\<rparr>) HELLO @ [WriteUInt16_LE 7]))
      (\<lparr>us_currentTime = 100, us_pingRequests = []\<rparr>, sample_world))
    (\<lambda>(us', w'). \<exists>ch. channel_at (w_cfg w') 1 2 = Some ch \<and> ch_isOnline ch \<and> ch_numPlayers ch = 7 \<and>
      ch_lastHeartbeat ch = 100)"
proof -
  obtain ch where "channel_at (w_cfg sample_world) 1 2 = Some ch"
    by (simp add: channel_at_def server_at_def sample_world_def sample_cfg_def)
  then show ?thesis
    using peer_datagram_roundtrip [of sample_world "sample_cfg\<lparr>cfg_channelID := 2\<rparr>" ch HELLO null_env "([], 0)" 7
        "\<lparr>us_currentTime = 100, us_pingRequests = []\<rparr>"]
    by (auto simp: sample_world_def sample_cfg_def with_count_def peer_says_def go_online_def elim!: wp_mono)
qed



section \<open>Relayed data\<close>

text \<open>
  C30: the relay serves the players of one room only and never reads past a datagram. Whatever the bytes of
  a relay datagram, either nothing happens, or its sender is a logged-in user who sent it from its own
  address, and what follows the ten bytes of the header goes, unchanged, to the address of a logged-in user of
  the same room.
\<close>

theorem relay_stays_in_room:
  fixes w :: "'e world"
  assumes inv: "lobby_inv w" and off: "up_readOffset packet = 1"
  shows "wp (handle_relay ep packet w) (\<lambda>w'. w' = w \<or> relayed ep (up_buffer packet) w w')"
  by (rule handle_relay_effect [OF assms])

lemma relay_stays_in_room_witness:
  "wp (handle_relay (''127.0.0.1'', 0) ((new_UDPPacket (''127.0.0.1'', 0) [89, 102, 0, 0, 0, 0, 103, 0, 0, 0, 7])\<lparr>up_readOffset := 1\<rparr>) sample_world)
    (\<lambda>w'. w' = sample_world \<or>
      relayed (''127.0.0.1'', 0) [89, 102, 0, 0, 0, 0, 103, 0, 0, 0, 7] sample_world w')"
  using relay_stays_in_room [OF sample_lobby_inv, of "(new_UDPPacket (''127.0.0.1'', 0) [89, 102, 0, 0, 0, 0, 103, 0, 0, 0, 7])\<lparr>up_readOffset := 1\<rparr>"]
  by (simp add: new_UDPPacket_def)

section \<open>Datagrams of clients\<close>

text \<open>
  C36: a client datagram speaks for its sender only. Whatever its bytes, either nothing shared changes, or
  the network data, and nothing else, of one user change: a logged-in user that has the id the datagram names
  and the address it came from.
\<close>

theorem client_datagram_frame:
  fixes w :: "'e world"
  assumes inv: "lobby_inv w"
  shows "wp (handle_client E now ep packet w) (\<lambda>w'. core w' = core w \<or> (\<exists>user x n.
    w_users w user = Some x \<and> u_userStatus x \<noteq> InLogin \<and> u_userID x = fst (UDP_ReadUInt32_LE packet) \<and>
    fst ep = c_ipAddress (w_conns w (u_connection x)) \<and> core w' = core (set_user (\<lambda>u. u\<lparr>u_userNetwork := n\<rparr>) user w)))"
  using handle_client_effect [OF inv] by (rule wp_mono) (auto simp: net_changed_def)

lemma client_datagram_frame_witness:
  "wp (handle_client null_env 7 (''127.0.0.1'', 5) (new_UDPPacket (''127.0.0.1'', 5) [102, 0, 0, 0, 1]) sample_world)
    (\<lambda>w'. w_rooms w' = w_rooms sample_world)"
proof (rule wp_mono [OF client_datagram_frame [OF sample_lobby_inv]], elim disjE exE conjE)
  show "w_rooms w' = w_rooms sample_world" if "core w' = core sample_world" for w' by (rule core_eqD(2) [OF that])
  show "w_rooms w' = w_rooms sample_world"
    if "core w' = core (set_user (\<lambda>u. u\<lparr>u_userNetwork := n\<rparr>) user sample_world)" for w' user n
    using core_eqD(2) [OF that] by simp
qed

text \<open>
  C39: a defect. Ping requests are stored with the time 0 and the test that should drop old ones keeps
  those whose time has passed: from the third second on no request is ever dropped by the tick, so a request
  that no host answers stays in the list for good.
\<close>

theorem ping_requests_never_expire:
  assumes fresh: "\<forall>p \<in> set (us_pingRequests us). pr_timestamp p = 0" and "3 \<le> now"
  shows "(OnSecondTick E now (us, w) = Some (us1, w1) \<longrightarrow> us_pingRequests us1 = us_pingRequests us) \<and>
    (handleReceive E ep buffer (us, w) = Some (us2, w2) \<longrightarrow> (\<forall>p \<in> set (us_pingRequests us2). pr_timestamp p = 0))"
proof (intro conjI impI)
  have "us_pingRequests (expire_pings now us') = us_pingRequests us" if "us_pingRequests us' = us_pingRequests us" for us'
    using fresh assms(2) that by (auto simp: expire_pings_def filter_id_conv not_less)
  then show "us_pingRequests us1 = us_pingRequests us" if "OnSecondTick E now (us, w) = Some (us1, w1)"
    using that by (auto simp: OnSecondTick_def bind_eq_Some_conv Let_def split: if_splits)
  have ping: "\<forall>p \<in> set (us_pingRequests us2). pr_timestamp p = 0" if "handle_ping ep q (us, w) = Some (us2, w2)" for q
    using that fresh
    by (auto simp: handle_ping_def ping_request_def ping_reply_def bind_eq_Some_conv Let_def
        split: prod.splits if_splits option.splits dest: notin_set_remove1)
  show "\<forall>p \<in> set (us_pingRequests us2). pr_timestamp p = 0" if "handleReceive E ep buffer (us, w) = Some (us2, w2)"
    using that fresh ping by (auto simp: handleReceive_def split: prod.splits if_splits)
qed

lemma ping_requests_never_expire_witness:
  "wp (OnSecondTick null_env 100 (\<lparr>us_currentTime = 99, us_pingRequests = [\<lparr>pr_requestEndpoint = ([], 1),
      pr_replyEndpoint = ([], 2), pr_timestamp = 0\<rparr>]\<rparr>, sample_world)) (\<lambda>(us1, w1). length (us_pingRequests us1) = 1)"
proof -
  let ?us = "\<lparr>us_currentTime = 99, us_pingRequests = [\<lparr>pr_requestEndpoint = ([], 1), pr_replyEndpoint = ([], 2),
      pr_timestamp = 0\<rparr>]\<rparr> :: udp"
  have fresh: "\<forall>p \<in> set (us_pingRequests ?us). pr_timestamp p = 0" by simp
  have "served null_env (w_cfg sample_world)" "numbered (w_cfg sample_world)"
    using sample_served(1) sample_numbered(1) by (simp_all add: sample_users(5))
  from OnSecondTick_keeps [OF this(1) sample_inv this(2), of 100 ?us] obtain us1 w1
    where tick: "OnSecondTick null_env 100 (?us, sample_world) = Some (us1, w1)" by (auto simp: wp_iff)
  have "us_pingRequests us1 = us_pingRequests ?us"
    using ping_requests_never_expire [OF fresh, of 100 null_env sample_world us1 w1] tick by simp
  then show ?thesis using tick by simp
qed

end
