(* ===== verification/UdpQueues.thy ===== *)
theory UdpQueues
  imports Udp
begin

text \<open>
  The four queues of \<open>UDPServer\<close>: what is received waits in \<open>_clientIncomingQueue\<close> or
  \<open>_serverIncomingQueue\<close>, what is sent in \<open>_clientOutgoingQueue\<close> or \<open>_serverOutgoingQueue\<close>.
  The call that finds its queue empty works it off. The locale \<open>worked_off\<close> is what the four have
  in common; with it the theory \<open>Udp\<close>, which knows no queues, is what these definitions do
  whenever the queues are empty, and they are empty again after each call.
\<close>

section \<open>The queues\<close>

text \<open>\<open>q_socket\<close> is what \<open>async_send_to\<close> was given, in order.\<close>

record udp_queues =
  q_clientIncoming :: "udp_packet list"
  q_serverIncoming :: "udp_packet list"
  q_clientOutgoing :: "udp_packet list"
  q_serverOutgoing :: "udp_packet list"
  q_socket :: "(endpoint \<times> bytes) list"

definition queues_idle :: "udp_queues \<Rightarrow> bool" where
  "queues_idle q \<longleftrightarrow> q_clientIncoming q = [] \<and> q_serverIncoming q = [] \<and>
     q_clientOutgoing q = [] \<and> q_serverOutgoing q = []"

definition async_send_to :: "udp_packet \<Rightarrow> udp_queues \<Rightarrow> udp_queues" where
  "async_send_to p q = q\<lparr>q_socket := q_socket q @ [(up_endpoint p, up_buffer p)]\<rparr>"

section \<open>Sending\<close>

text \<open>The loops send the front packet and take it out until the queue is empty.\<close>

function drain_client :: "udp_queues \<Rightarrow> udp_queues" where
  "drain_client q = (case q_clientOutgoing q of [] \<Rightarrow> q
     | packet # _ \<Rightarrow>
         drain_client ((async_send_to packet q)\<lparr>q_clientOutgoing := tl (q_clientOutgoing q)\<rparr>))"
  by pat_completeness auto
termination by (relation "measure (\<lambda>q. length (q_clientOutgoing q))") simp_all

function drain_server :: "udp_queues \<Rightarrow> udp_queues" where
  "drain_server q = (case q_serverOutgoing q of [] \<Rightarrow> q
     | packet # _ \<Rightarrow>
         drain_server ((async_send_to packet q)\<lparr>q_serverOutgoing := tl (q_serverOutgoing q)\<rparr>))"
  by pat_completeness auto
termination by (relation "measure (\<lambda>q. length (q_serverOutgoing q))") simp_all

declare drain_client.simps [simp del] drain_server.simps [simp del]

definition handleOutgoingClientPacket :: "bool \<Rightarrow> udp_queues \<Rightarrow> udp_queues" where
  "handleOutgoingClientPacket isShuttingDown q = (if isShuttingDown then q else drain_client q)"

definition handleOutgoingServerPacket :: "bool \<Rightarrow> udp_queues \<Rightarrow> udp_queues" where
  "handleOutgoingServerPacket isShuttingDown q = (if isShuttingDown then q else drain_server q)"

definition sendPacket_queued :: "bool \<Rightarrow> udp_packet \<Rightarrow> bool \<Rightarrow> udp_queues \<Rightarrow> udp_queues" where
  "sendPacket_queued isShuttingDown packet isServer q =
     (if isShuttingDown then q
      else if isServer then
        (let queueIdle = (q_serverOutgoing q = []);
             q = q\<lparr>q_serverOutgoing := q_serverOutgoing q @ [packet]\<rparr>
         in if queueIdle then handleOutgoingServerPacket isShuttingDown q else q)
      else
        (let queueIdle = (q_clientOutgoing q = []);
             q = q\<lparr>q_clientOutgoing := q_clientOutgoing q @ [packet]\<rparr>
         in if queueIdle then handleOutgoingClientPacket isShuttingDown q else q))"

section \<open>Receiving\<close>

text \<open>
  What is done with one packet of each queue, and the loops over the queues. The state of the
  server and of the managers is passed along; a handler puts nothing into an incoming queue.
\<close>

definition handle_client_packet :: "'e env \<Rightarrow> udp_packet \<Rightarrow> udp \<times> 'e world \<Rightarrow> (udp \<times> 'e world) option" where
  "handle_client_packet E packet = (\<lambda>(us, w).
     if up_signature packet = UDP_CLIENT_PACKET_SIGNATURE then
       map_option (Pair us) (handle_client E (us_currentTime us) (up_endpoint packet) packet w)
     else if up_signature packet = UDP_RELAY_PACKET_SIGNATURE then
       map_option (Pair us) (handle_relay (up_endpoint packet) packet w)
     else if up_signature packet = UDP_PING_PACKET_SIGNATURE then handle_ping (up_endpoint packet) packet (us, w)
     else Some (us, w))"

definition handle_server_packet :: "udp_packet \<Rightarrow> udp \<times> 'e world \<Rightarrow> (udp \<times> 'e world) option" where
  "handle_server_packet packet = (\<lambda>(us, w).
     map_option (Pair us) (handle_server (us_currentTime us) (up_endpoint packet) packet w))"

function handle_clients ::
  "'e env \<Rightarrow> udp_queues \<times> udp \<times> 'e world \<Rightarrow> (udp_queues \<times> udp \<times> 'e world) option" where
  "handle_clients E (q, s) = (case q_clientIncoming q of [] \<Rightarrow> Some (q, s)
     | packet # _ \<Rightarrow> Option.bind (handle_client_packet E packet s) (\<lambda>s.
         handle_clients E (q\<lparr>q_clientIncoming := tl (q_clientIncoming q)\<rparr>, s)))"
  by pat_completeness auto
termination by (relation "measure (\<lambda>(E, q, s). length (q_clientIncoming q))") simp_all

function handle_servers ::
  "udp_queues \<times> udp \<times> 'e world \<Rightarrow> (udp_queues \<times> udp \<times> 'e world) option" where
  "handle_servers (q, s) = (case q_serverIncoming q of [] \<Rightarrow> Some (q, s)
     | packet # _ \<Rightarrow> Option.bind (handle_server_packet packet s) (\<lambda>s.
         handle_servers (q\<lparr>q_serverIncoming := tl (q_serverIncoming q)\<rparr>, s)))"
  by pat_completeness auto
termination by (relation "measure (\<lambda>(q, s). length (q_serverIncoming q))") simp_all

declare handle_clients.simps [simp del] handle_servers.simps [simp del]

definition handleIncomingClientPacket ::
  "'e env \<Rightarrow> udp_queues \<times> udp \<times> 'e world \<Rightarrow> (udp_queues \<times> udp \<times> 'e world) option" where
  "handleIncomingClientPacket E s = (if \<not> w_udpRunning (snd (snd s)) then Some s else handle_clients E s)"

definition handleIncomingServerPacket ::
  "udp_queues \<times> udp \<times> 'e world \<Rightarrow> (udp_queues \<times> udp \<times> 'e world) option" where
  "handleIncomingServerPacket s = (if \<not> w_udpRunning (snd (snd s)) then Some s else handle_servers s)"

definition handleReceive_queued ::
  "'e env \<Rightarrow> endpoint \<Rightarrow> bytes \<Rightarrow> udp_queues \<times> udp \<times> 'e world \<Rightarrow> (udp_queues \<times> udp \<times> 'e world) option" where
  "handleReceive_queued E ep buffer = (\<lambda>(q, s).
     if \<not> w_udpRunning (snd s) then Some (q, s)
     else
       let (signature, packet) = UDP_ReadUInt8 (new_UDPPacket ep buffer) in
       if signature = UDP_CLIENT_PACKET_SIGNATURE \<or> signature = UDP_RELAY_PACKET_SIGNATURE \<or>
          signature = UDP_PING_PACKET_SIGNATURE then
         let queueIdle = (q_clientIncoming q = []);
             q = q\<lparr>q_clientIncoming := q_clientIncoming q @ [packet]\<rparr>
         in if queueIdle then handleIncomingClientPacket E (q, s) else Some (q, s)
       else if signature = UDP_SERVER_PACKET_SIGNATURE then
         let queueIdle = (q_serverIncoming q = []);
             q = q\<lparr>q_serverIncoming := q_serverIncoming q @ [packet]\<rparr>
         in if queueIdle then handleIncomingServerPacket (q, s) else Some (q, s)
       else Some (q, s))"

section \<open>Queues that are worked off\<close>

text \<open>
  \<open>queue\<close> is the field, \<open>setq\<close> its update, \<open>work\<close> what is done with the front packet, which does not
  depend on the queue, and \<open>drain\<close> the loop. The loop handles all packets in the order of the queue
  and leaves it empty.
\<close>

locale worked_off =
  fixes queue :: "'s \<Rightarrow> 'p list"
    and setq :: "'p list \<Rightarrow> 's \<Rightarrow> 's"
    and work :: "'p \<Rightarrow> 's \<Rightarrow> 's option"
    and drain :: "'s \<Rightarrow> 's option"
  assumes empty: "queue s = [] \<Longrightarrow> drain s = Some s"
    and front: "queue s = p # ps \<Longrightarrow> drain s = Option.bind (work p s) (\<lambda>s. drain (setq ps s))"
    and queue_setq [simp]: "queue (setq ps s) = ps"
    and setq_setq [simp]: "setq ps (setq qs s) = setq ps s"
    and setq_queue: "setq (queue s) s = s"
    and work_setq: "work p (setq ps s) = map_option (setq ps) (work p s)"
begin

lemma foldM_setq: "foldM work qs (setq ps s) = map_option (setq ps) (foldM work qs s)"
proof (induction qs arbitrary: s)
  case (Cons q qs)
  then show ?case by (cases "work q s") (simp_all add: work_setq)
qed simp

lemma in_order: "drain s = map_option (setq []) (foldM work (queue s) s)"
proof (induction "queue s" arbitrary: s)
  case Nil
  then show ?case using empty setq_queue [of s] by simp
next
  case (Cons p ps)
  have "drain (setq ps t) = map_option (setq []) (foldM work ps t)" for t
    using Cons.hyps(1) [of "setq ps t"] by (simp add: foldM_setq option.map_comp comp_def)
  then show ?case
    using front [OF Cons.hyps(2) [symmetric]]
    by (cases "work p s") (simp_all flip: Cons.hyps(2))
qed

lemma emptied: "drain s = Some s' \<Longrightarrow> queue s' = []"
  by (auto simp: in_order)

lemma only:
  assumes "queue s = []"
  shows "drain (setq [p] s) = work p s"
proof -
  have "work p s = map_option (setq []) (work p s)"
    using setq_queue [of s] work_setq [of p "[]" s] by (simp add: assms)
  then show ?thesis by (cases "work p s") (simp_all add: in_order work_setq)
qed

end

interpretation clients_out: worked_off q_clientOutgoing "\<lambda>ps. q_clientOutgoing_update (\<lambda>_. ps)"
  "\<lambda>p q. Some (async_send_to p q)" "\<lambda>q. Some (drain_client q)"
  by unfold_locales (auto simp: drain_client.simps async_send_to_def)

interpretation servers_out: worked_off q_serverOutgoing "\<lambda>ps. q_serverOutgoing_update (\<lambda>_. ps)"
  "\<lambda>p q. Some (async_send_to p q)" "\<lambda>q. Some (drain_server q)"
  by unfold_locales (auto simp: drain_server.simps async_send_to_def)

lemma handle_clients_Nil: "q_clientIncoming q = [] \<Longrightarrow> handle_clients E (q, s) = Some (q, s)"
  by (simp add: handle_clients.simps)

lemma handle_clients_Cons:
  "q_clientIncoming q = p # ps \<Longrightarrow> handle_clients E (q, s) =
    Option.bind (handle_client_packet E p s) (\<lambda>s. handle_clients E (q\<lparr>q_clientIncoming := ps\<rparr>, s))"
  by (subst handle_clients.simps) simp

lemma handle_servers_Nil: "q_serverIncoming q = [] \<Longrightarrow> handle_servers (q, s) = Some (q, s)"
  by (simp add: handle_servers.simps)

lemma handle_servers_Cons:
  "q_serverIncoming q = p # ps \<Longrightarrow> handle_servers (q, s) =
    Option.bind (handle_server_packet p s) (\<lambda>s. handle_servers (q\<lparr>q_serverIncoming := ps\<rparr>, s))"
  by (subst handle_servers.simps) simp

interpretation clients_in: worked_off "\<lambda>s. q_clientIncoming (fst s)"
  "\<lambda>ps s. ((fst s)\<lparr>q_clientIncoming := ps\<rparr>, snd s)"
  "\<lambda>p s. map_option (Pair (fst s)) (handle_client_packet E p (snd s))" "handle_clients E" for E
  by unfold_locales
    (auto simp: handle_clients_Nil handle_clients_Cons map_option_case split: option.splits)

interpretation servers_in: worked_off "\<lambda>s. q_serverIncoming (fst s)"
  "\<lambda>ps s. ((fst s)\<lparr>q_serverIncoming := ps\<rparr>, snd s)"
  "\<lambda>p s. map_option (Pair (fst s)) (handle_server_packet p (snd s))" "handle_servers"
  by unfold_locales
    (auto simp: handle_servers_Nil handle_servers_Cons map_option_case split: option.splits)

section \<open>What the queues come to\<close>

text \<open>The datagrams of a list of sends, as the socket gets them.\<close>

definition wires :: "(string \<times> u16 \<times> wcall list) list \<Rightarrow> (endpoint \<times> bytes) list" where
  "wires outs = map (\<lambda>(ip, port, ws). ((ip, port), encodes ws)) outs"

lemma sendPacket_idle:
  assumes "queues_idle q"
  shows "sendPacket_queued down p isServer q = (if down then q else async_send_to p q)"
  using assms clients_out.only [of q p] servers_out.only [of q p]
  by (simp add: sendPacket_queued_def handleOutgoingClientPacket_def handleOutgoingServerPacket_def
      queues_idle_def)

lemma queues_idle_sendPacket: "queues_idle q \<Longrightarrow> queues_idle (sendPacket_queued down p isServer q)"
  by (simp add: sendPacket_idle) (simp add: queues_idle_def async_send_to_def)

lemma encodes_array: "encodes (WriteArray_UInt8 bs # ws) = bs @ encodes ws"
  by (simp add: encodes_def)

lemma signature_read:
  assumes "UDP_ReadUInt8 (new_UDPPacket ep buffer) = (b, p)"
  shows "up_signature p = b" "up_endpoint p = ep"
  using assms
  by (auto simp: UDP_ReadUInt8_def UDP_ReadBytes_def new_UDPPacket_def split: if_splits;
      cases buffer; simp)+

lemma receive_idle:
  assumes "queues_idle q"
  shows "handleReceive_queued E ep buffer (q, us, w) = map_option (Pair q) (handleReceive E ep buffer (us, w))"
proof -
  obtain b p where b: "UDP_ReadUInt8 (new_UDPPacket ep buffer) = (b, p)" by (rule prod.exhaust)
  note sig = signature_read [OF b]
  show ?thesis
    using assms clients_in.only [of "(q, us, w)" E p] servers_in.only [of "(q, us, w)" p]
    by (simp add: handleReceive_queued_def handleReceive_def b queues_idle_def handleIncomingClientPacket_def
        handleIncomingServerPacket_def handle_client_packet_def handle_server_packet_def sig udp_defs)
qed

text \<open>
  C24: the queues of the UDP server do what the model without queues does. A datagram that finds
  the queues empty is handled by the call that received it, with the effect of \<open>handleReceive\<close>,
  and leaves them empty; a packet that is sent then is on the socket when the call returns, after
  everything sent before it, with the bytes of its writes, and nothing is sent once the server shuts down.
\<close>

theorem udp_queues_refine:
  assumes "queues_idle q"
  shows "handleReceive_queued E ep buffer (q, us, w) = map_option (Pair q) (handleReceive E ep buffer (us, w)) \<and>
    (let q' = sendPacket_queued (\<not> w_udpRunning w) (UDP_run_writes ws (new_UDPPacket dest bs)) isServer q
     in queues_idle q' \<and>
       (q_socket q = wires (w_udpOut w) \<longrightarrow>
        q_socket q' = wires (w_udpOut (sendPacket dest (WriteArray_UInt8 bs # ws) w))))"
  using receive_idle [OF assms, of E ep buffer us w] queues_idle_sendPacket [OF assms]
  by (auto simp: Let_def sendPacket_idle [OF assms] async_send_to_def sendPacket_def wires_def encodes_array
      UDP_run_writes_append UDP_at_end_def new_UDPPacket_def UDP_append_def)

lemma udp_queues_refine_witness:
  "q_socket (sendPacket_queued False (UDP_run_writes [WriteUInt8 0, WriteUInt8 1] (new_UDPPacket (''10.0.0.1'', 5) [87]))
     False \<lparr>q_clientIncoming = [], q_serverIncoming = [], q_clientOutgoing = [], q_serverOutgoing = [], q_socket = []\<rparr>) =
   [((''10.0.0.1'', 5), [87, 0, 1])]"
proof -
  let ?q = "\<lparr>q_clientIncoming = [], q_serverIncoming = [], q_clientOutgoing = [], q_serverOutgoing = [], q_socket = []\<rparr>"
  let ?w = "\<lparr>w_users = (\<lambda>_. None), w_rooms = (\<lambda>_. None), w_conns = (\<lambda>_. new_conn [] 0), w_userList = [],
     w_roomList = [], w_next = 1, w_cfg = new_ServerConfig, w_udpRunning = True, w_udpOut = [], w_ext = ()\<rparr>"
  have idle: "queues_idle ?q" by (simp add: queues_idle_def)
  show ?thesis
    using udp_queues_refine [OF idle, of null_env "([], 0)" "[]" "\<lparr>us_currentTime = 0, us_pingRequests = []\<rparr>"
        ?w "[WriteUInt8 0, WriteUInt8 1]" "(''10.0.0.1'', 5)" "[87]" False]
    by (simp add: wires_def sendPacket_def encodes_def Let_def)
qed

end
