(* ===== verification/Connecting.thy ===== *)
theory Connecting
  imports Samples
begin

text \<open>
  What a TCP connection waits for: \<open>TCPConnection::Start\<close> sends the greeting, makes the TLS handshake when
  the server uses TLS, and only then reads; \<open>asyncRead\<close> and \<open>onReadHeader\<close> post a read through TLS or
  past it. The operation whose completion a connection waits for is part of the state, and only its
  completion can happen; \<open>Server\<close> leaves out the operations and allows more.
\<close>

section \<open>Operations\<close>

text \<open>The flag of a read says whether it goes through the TLS stream.\<close>

datatype io = Write_Greeting | Tls_Handshake | Read_Header bool | Read_Body bool

record 'e wired =
  wi_machine :: "'e machine"
  wi_io :: "ptr \<Rightarrow> io option"

definition through_tls :: "ServerConfig \<Rightarrow> conn \<Rightarrow> bool" where
  "through_tls cfg k \<longleftrightarrow> cfg_ssl cfg \<and> \<not> c_decrypt k"

definition asyncRead :: "ServerConfig \<Rightarrow> conn \<Rightarrow> io" where
  "asyncRead cfg k = Read_Header (through_tls cfg k)"

definition await :: "ptr \<Rightarrow> io option \<Rightarrow> 'e machine \<Rightarrow> 'e wired \<Rightarrow> 'e wired" where
  "await c next m s = \<lparr>wi_machine = m, wi_io = (wi_io s)(c := next)\<rparr>"

definition conn_at :: "ptr \<Rightarrow> 'e machine \<Rightarrow> conn" where
  "conn_at c m = w_conns (m_world m) c"

definition config_at :: "'e machine \<Rightarrow> ServerConfig" where
  "config_at m = w_cfg (m_world m)"

section \<open>Start\<close>

definition Start :: "ptr \<Rightarrow> string \<Rightarrow> u16 \<Rightarrow> 'e wired \<Rightarrow> 'e wired" where
  "Start c ip port s = await c (Some Write_Greeting) (startAccept c ip port (wi_machine s)) s"

definition greeting_sent :: "ptr \<Rightarrow> 'e wired \<Rightarrow> 'e wired" where
  "greeting_sent c s = (let m = wi_machine s in
     await c (Some (if cfg_ssl (config_at m) then Tls_Handshake else asyncRead (config_at m) (conn_at c m))) m s)"

definition handshake_done :: "ptr \<Rightarrow> 'e wired \<Rightarrow> 'e wired" where
  "handshake_done c s = (let m = wi_machine s in await c (Some (asyncRead (config_at m) (conn_at c m))) m s)"

section \<open>Reading\<close>

text \<open>After a good header the body is read; after a body the next header, posted before the packet is handled.\<close>

definition after_header :: "'e env \<Rightarrow> ptr \<Rightarrow> bytes \<Rightarrow> 'e machine \<Rightarrow> io option" where
  "after_header E c bs m =
     (case onReadHeader E c bs (conn_at c m) (w_ext (m_world m)) of
        (ReadBody _, k, _) \<Rightarrow> Some (Read_Body (through_tls (config_at m) k))
      | _ \<Rightarrow> None)"

definition after_body :: "'e env \<Rightarrow> ptr \<Rightarrow> bytes \<Rightarrow> 'e machine \<Rightarrow> io option" where
  "after_body E c bs m =
     (case m_pending m c of None \<Rightarrow> None
      | Some packet \<Rightarrow>
          (case onReadBody E packet bs (conn_at c m) (w_ext (m_world m)) of
             Some (ReadDone _, k, _) \<Rightarrow> Some (asyncRead (config_at m) k)
           | _ \<Rightarrow> None))"

section \<open>Steps\<close>

text \<open>What is not a completion of the reading side is an event of \<open>Server\<close> as it is.\<close>

fun other_event :: "event \<Rightarrow> bool" where
  "other_event (Accept _ _ _) = False"
| "other_event (Start_Failed _ _) = False"
| "other_event (Received_Header _ _) = False"
| "other_event (Received_Body _ _ _) = False"
| "other_event (Read_Failed _ _) = False"
| "other_event _ = True"

inductive wired_step :: "'e env \<Rightarrow> 'e wired \<Rightarrow> 'e wired \<Rightarrow> bool" for E where
  accepted: "event_ok E (Accept c ip port) (wi_machine s) \<Longrightarrow> wired_step E s (Start c ip port s)"
| greeted: "wi_io s c = Some Write_Greeting \<Longrightarrow> wired_step E s (greeting_sent c s)"
| shaken: "wi_io s c = Some Tls_Handshake \<Longrightarrow> wired_step E s (handshake_done c s)"
| failed: "wi_io s c \<in> {Some Write_Greeting, Some Tls_Handshake} \<Longrightarrow> reason \<noteq> NoError \<Longrightarrow>
    wired_step E s (await c None (start_failed c reason (wi_machine s)) s)"
| header: "wi_io s c = Some (Read_Header tls) \<Longrightarrow> event_ok E (Received_Header c bs) (wi_machine s) \<Longrightarrow>
    receive_header E c bs (wi_machine s) = Some m \<Longrightarrow>
    wired_step E s (await c (after_header E c bs (wi_machine s)) m s)"
| body: "wi_io s c = Some (Read_Body tls) \<Longrightarrow> event_ok E (Received_Body now c bs) (wi_machine s) \<Longrightarrow>
    receive_body E now c bs (wi_machine s) = Some m \<Longrightarrow>
    wired_step E s (await c (after_body E c bs (wi_machine s)) m s)"
| read_failed: "wi_io s c \<in> {Some (Read_Header tls), Some (Read_Body tls)} \<Longrightarrow> reason \<noteq> NoError \<Longrightarrow>
    disconnect E c reason (wi_machine s) = Some m \<Longrightarrow> wired_step E s (await c None m s)"
| other: "other_event ev \<Longrightarrow> event_ok E ev (wi_machine s) \<Longrightarrow> perform E ev (wi_machine s) = Some m \<Longrightarrow>
    wired_step E s (s\<lparr>wi_machine := m\<rparr>)"

inductive wired_reachable :: "'e env \<Rightarrow> 'e machine \<Rightarrow> 'e wired \<Rightarrow> bool" for E m0 where
  start: "wired_reachable E m0 \<lparr>wi_machine = m0, wi_io = (\<lambda>_. None)\<rparr>"
| more: "wired_reachable E m0 s \<Longrightarrow> wired_step E s s' \<Longrightarrow> wired_reachable E m0 s'"

inductive_cases wired_stepE: "wired_step E s s'"

section \<open>The steps are steps of the server\<close>

lemma wi_await [simp]: "wi_machine (await c next m s) = m" "wi_io (await c next m s) = (wi_io s)(c := next)"
  by (simp_all add: await_def)

lemma wired_step_server:
  "wired_step E s s' \<Longrightarrow> wi_machine s' = wi_machine s \<or> server_step E (wi_machine s) (wi_machine s')"
proof (induction rule: wired_step.induct)
  case (accepted c ip port s)
  then show ?case using server_step.step [OF accepted] by (simp add: Start_def)
next
  case (failed s c reason)
  then show ?case using server_step.step [of E "Start_Failed c reason" "wi_machine s"] by simp
next
  case (header s c tls bs m)
  then show ?case using server_step.step [of E "Received_Header c bs" "wi_machine s" m] by simp
next
  case (body s c tls now bs m)
  then show ?case using server_step.step [of E "Received_Body now c bs" "wi_machine s" m] by simp
next
  case (read_failed s c tls reason m)
  then show ?case using server_step.step [of E "Read_Failed c reason" "wi_machine s" m] by simp
next
  case (other ev s m)
  then show ?case using server_step.step [OF other(2,3)] by simp
qed (simp_all add: greeting_sent_def handshake_done_def Let_def)

lemma wired_reachable_server: "wired_reachable E m0 s \<Longrightarrow> reachable E m0 (wi_machine s)"
proof (induction rule: wired_reachable.induct)
  case (more s s')
  then show ?case using wired_step_server [OF more.hyps(2)] by (auto intro: reachable.more)
qed (simp add: reachable.start)

section \<open>Only a body turns decryption on\<close>

text \<open>Decryption is as it was on every connection, and the headers that were read are kept.\<close>

definition unturned :: "'e machine \<Rightarrow> 'e machine \<Rightarrow> bool" where
  "unturned m m' \<longleftrightarrow> (\<forall>c. c_decrypt (conn_at c m') = c_decrypt (conn_at c m)) \<and> m_pending m' = m_pending m"

lemma unturned_refl [simp]: "unturned m m"
  by (simp add: unturned_def)

lemma unturned_trans: "unturned m m' \<Longrightarrow> unturned m' m'' \<Longrightarrow> unturned m m''"
  by (simp add: unturned_def)

lemma unturned_link: "link (m_world m) w \<Longrightarrow> m_world m' = w \<Longrightarrow> m_pending m' = m_pending m \<Longrightarrow> unturned m m'"
  by (simp add: unturned_def link_def conn_at_def)

lemma unturned_frame:
  "kept g (m_world m) r \<Longrightarrow> r = Some x \<Longrightarrow> m_world m' = g x \<Longrightarrow> m_pending m' = m_pending m \<Longrightarrow> unturned m m'"
  by (rule unturned_link [of m "g x"]) (simp_all add: kept_def)

lemma disconnect_unturned: "disconnect E c reason m = Some m' \<Longrightarrow> unturned m m'"
proof -
  assume "disconnect E c reason m = Some m'"
  then obtain w where w: "DisconnectUserByConnection E c (reason = BadDescriptor) (m_world m) = Some w"
      "m_world m' = w" "m_pending m' = m_pending m"
    by (auto simp: disconnect_def bind_eq_Some_conv)
  show ?thesis by (rule unturned_frame [OF disconnect_frames(2) [OF link_refl] w])
qed

lemma set_conn_unturned:
  "c_decrypt k = c_decrypt (conn_at c m) \<Longrightarrow> unturned m (set_conn c k e m)"
  by (simp add: unturned_def conn_at_def set_conn_def upd_conn_def)

lemma asyncWrite_decrypt: "asyncWrite E ssl k e = Some (out, k', e') \<Longrightarrow> c_decrypt k' = c_decrypt k"
  by (auto simp: asyncWrite_def Let_def bind_eq_Some_conv split: list.splits if_splits prod.splits option.splits)

lemma onWrite_decrypt: "c_decrypt (snd (onWrite k)) = c_decrypt k"
  by (cases "c_outgoingPackets k") (simp_all add: onWrite_def Let_def)

lemma write_front_unturned: "write_front E c m = Some m' \<Longrightarrow> unturned m m'"
proof -
  assume run: "write_front E c m = Some m'"
  then obtain out k e where w: "asyncWrite E (cfg_ssl (w_cfg (m_world m))) (conn_at c m) (w_ext (m_world m)) = Some (out, k, e)"
      "(if out = WriteDisconnect then disconnect E c NoError (set_conn c k e m) else Some (set_conn c k e m)) = Some m'"
    by (auto simp: write_front_def Let_def bind_eq_Some_conv conn_at_def)
  have k: "unturned m (set_conn c k e m)" by (rule set_conn_unturned [OF asyncWrite_decrypt [OF w(1)]])
  then show ?thesis
    using w(2) unturned_trans [OF k disconnect_unturned [of E c NoError]] by (auto split: if_splits)
qed

lemma written_unturned: "unturned m (written c m)"
  by (simp add: unturned_def conn_at_def written_def upd_conn_def onWrite_decrypt)

lemma drop_connections_unturned: "unturned m (drop_connections cs m)"
proof (induction cs arbitrary: m)
  case (Cons c cs)
  let ?m = "m\<lparr>m_connections := remove1 c (m_connections m), m_world := upd_conn c DisconnectClient (m_world m)\<rparr>"
  have "unturned m ?m"
    by (rule unturned_link [OF link_DisconnectClient [OF link_refl]]) simp_all
  then show ?case using unturned_trans Cons.IH [of ?m] by (simp add: drop_connections_def)
qed (simp add: drop_connections_def)

lemma run_command_unturned: "run_command E cmd m = Some m' \<Longrightarrow> unturned m m'"
proof (cases cmd)
  case DisconnectAllClients
  assume run: "run_command E cmd m = Some m'"
  show ?thesis
  proof (cases "m_connections m = []")
    case False
    then obtain w cs v where w: "clear_rooms E (m_world m) = Some w" "strangers w (m_connections m) = Some cs"
        and v: "DisconnectAllUsers (m_world (drop_connections cs (m\<lparr>m_world := w\<rparr>))) = Some v"
        and m': "m' = (drop_connections cs (m\<lparr>m_world := w\<rparr>))\<lparr>m_world := v\<rparr>"
      using run DisconnectAllClients by (auto simp: disconnect_all_clients_def Let_def bind_eq_Some_conv)
    have "unturned m (m\<lparr>m_world := w\<rparr>)" by (rule unturned_frame [OF clear_rooms_frame [OF link_refl] w(1)]) simp_all
    moreover have "unturned (drop_connections cs (m\<lparr>m_world := w\<rparr>)) m'"
      by (rule unturned_frame [OF disconnect_frames(1) [OF link_refl] v]) (simp_all add: m')
    ultimately show ?thesis using drop_connections_unturned unturned_trans by blast
  qed (use run DisconnectAllClients in \<open>simp add: disconnect_all_clients_def\<close>)
next
  case RemoveAllRoomsCommand
  assume "run_command E cmd m = Some m'"
  then obtain w where w: "clear_rooms E (m_world m) = Some w" "m_world m' = w" "m_pending m' = m_pending m"
    using RemoveAllRoomsCommand by auto
  show ?thesis by (rule unturned_frame [OF clear_rooms_frame [OF link_refl] w])
qed auto

lemma other_unturned:
  assumes "other_event ev" and "perform E ev m = Some m'"
  shows "unturned m m'"
proof (cases ev)
  case (Datagram ep bs)
  then obtain us w where w: "handleReceive E ep bs (m_udp m, m_world m) = Some (us, w)" "m_world m' = snd (us, w)"
      "m_pending m' = m_pending m"
    using assms(2) by auto
  show ?thesis by (rule unturned_frame [OF handleReceive_frame [OF link_refl] w])
next
  case (Second_Tick now)
  then obtain us w where w: "OnSecondTick E now (m_udp m, m_world m) = Some (us, w)"
      and m': "w_conns (m_world m') = w_conns w" "m_pending m' = m_pending m"
    using assms(2) by (auto simp: console_second_tick_def Let_def bind_eq_Some_conv OnMinuteTick_def split: if_splits)
  have "link (m_world m) w" using OnSecondTick_frame [OF link_refl, of "m_world m" E now "m_udp m"] w by (simp add: kept_def)
  then show ?thesis using m' by (simp add: unturned_def link_def conn_at_def)
qed (use assms write_front_unturned written_unturned run_command_unturned in auto)

section \<open>What is read through TLS\<close>

definition posted :: "bool \<Rightarrow> 'e wired \<Rightarrow> bool" where
  "posted ssl s \<longleftrightarrow> (\<forall>c tls.
     (wi_io s c = Some (Read_Header tls) \<longrightarrow> tls = (ssl \<and> \<not> c_decrypt (conn_at c (wi_machine s)))) \<and>
     (wi_io s c = Some (Read_Body tls) \<longrightarrow> tls = (ssl \<and> \<not> c_decrypt (conn_at c (wi_machine s))) \<and>
        m_pending (wi_machine s) c \<noteq> None))"

lemma posted_unturned:
  assumes "posted ssl s" and "unturned (wi_machine s) m"
    and "next \<notin> range (Some \<circ> Read_Body)" and "\<And>tls. next = Some (Read_Header tls) \<Longrightarrow> tls = (ssl \<and> \<not> c_decrypt (conn_at c m))"
  shows "posted ssl (await c next m s)"
  using assms by (auto simp: posted_def unturned_def)

text \<open>The step of one connection: the others are as before, its next read is posted as its state says.\<close>

definition turn :: "bool \<Rightarrow> ptr \<Rightarrow> io option \<Rightarrow> 'e machine \<Rightarrow> 'e machine \<Rightarrow> bool" where
  "turn ssl c next m m' \<longleftrightarrow>
     (\<forall>d. d \<noteq> c \<longrightarrow> c_decrypt (conn_at d m') = c_decrypt (conn_at d m) \<and> m_pending m' d = m_pending m d) \<and>
     (\<forall>tls. next = Some (Read_Header tls) \<longrightarrow> tls = (ssl \<and> \<not> c_decrypt (conn_at c m'))) \<and>
     (\<forall>tls. next = Some (Read_Body tls) \<longrightarrow> tls = (ssl \<and> \<not> c_decrypt (conn_at c m')) \<and> m_pending m' c \<noteq> None)"

lemma posted_turn: "posted ssl s \<Longrightarrow> turn ssl c next (wi_machine s) m \<Longrightarrow> posted ssl (await c next m s)"
  by (auto simp: posted_def turn_def)

lemma turn_unturned: "turn ssl c next m m1 \<Longrightarrow> unturned m1 m' \<Longrightarrow> turn ssl c next m m'"
  by (simp add: turn_def unturned_def)

lemma header_turn:
  assumes "receive_header E c bs m = Some m'" and ssl: "ssl = cfg_ssl (config_at m)"
  shows "turn ssl c (after_header E c bs m) m m'"
proof -
  obtain out k e where r: "onReadHeader E c bs (w_conns (m_world m) c) (w_ext (m_world m)) = (out, k, e)"
    by (metis prod_cases3)
  have k: "c_decrypt k = c_decrypt (conn_at c m)"
    using onReadHeader_link [OF r] by (simp add: conn_link_def conn_at_def)
  have m1: "unturned m (set_conn c k e m)" by (rule set_conn_unturned [OF k])
  show ?thesis
  proof (cases "\<exists>packet. out = ReadBody packet")
    case True
    then obtain packet where out: "out = ReadBody packet" by blast
    have m': "m' = (set_conn c k e m)\<lparr>m_pending := (m_pending (set_conn c k e m))(c \<mapsto> packet)\<rparr>"
      using assms(1) by (simp add: receive_header_def r out Let_def)
    have "after_header E c bs m = Some (Read_Body (ssl \<and> \<not> c_decrypt (conn_at c m)))"
      using r k by (simp add: after_header_def conn_at_def out through_tls_def ssl)
    moreover have "c_decrypt (conn_at d m') = c_decrypt (conn_at d m)" for d
      using m1 by (simp add: m' unturned_def conn_at_def)
    ultimately show ?thesis by (simp add: turn_def) (simp add: m' set_conn_def)
  next
    case False
    then have "after_header E c bs m = None" and d: "disconnect E c NoError (set_conn c k e m) = Some m'"
      using assms(1) r by (auto simp: after_header_def receive_header_def Let_def conn_at_def split: read_outcome.splits)
    then show ?thesis
      using unturned_trans [OF m1 disconnect_unturned [OF d]] by (simp add: turn_def unturned_def)
  qed
qed

lemma processPacket_decrypt:
  assumes "processPacket E now c w = Some w'"
  shows "c_decrypt (w_conns w' d) = c_decrypt (w_conns w d)"
proof -
  let ?f = "\<lambda>packet w. do {
     w \<leftarrow> ParsePacket E now packet w;
     Some (upd_conn c (\<lambda>k. k\<lparr>c_incomingPackets := tl (c_incomingPackets k)\<rparr>) w) }"
  have one: "c_decrypt (w_conns v' d) = c_decrypt (w_conns v d)" if "?f p v = Some v'" for p v v'
  proof -
    obtain u where "ParsePacket E now p v = Some u" and v': "v' = upd_conn c (\<lambda>k. k\<lparr>c_incomingPackets := tl (c_incomingPackets k)\<rparr>) u"
      using \<open>?f p v = Some v'\<close> by (auto simp: bind_eq_Some_conv)
    then have "c_decrypt (w_conns u d) = c_decrypt (w_conns v d)"
      using ParsePacket_frame [OF link_refl, of v E now p] by (simp add: kept_def link_def)
    then show ?thesis by (cases "d = c") (simp_all add: v' upd_conn_def)
  qed
  show ?thesis
    by (rule foldM_same [where g = "\<lambda>w. c_decrypt (w_conns w d)", OF one])
      (use assms in \<open>simp_all add: processPacket_def\<close>)
qed

lemma body_turn:
  assumes run: "receive_body E now c bs m = Some m'" and ssl: "ssl = cfg_ssl (config_at m)" and "m_pending m c \<noteq> None"
  shows "turn ssl c (after_body E c bs m) m m'"
proof -
  obtain packet where p: "m_pending m c = Some packet" using assms(3) by blast
  then obtain out k e where r: "onReadBody E packet bs (w_conns (m_world m) c) (w_ext (m_world m)) = Some (out, k, e)"
    using run by (auto simp: receive_body_def bind_eq_Some_conv)
  let ?m = "(set_conn c k e m)\<lparr>m_pending := (m_pending m)(c := None)\<rparr>"
  have m1: "turn ssl c (after_body E c bs m) m ?m"
    using ssl r p
    by (auto simp: turn_def after_body_def conn_at_def set_conn_def upd_conn_def asyncRead_def through_tls_def
        config_at_def split: read_outcome.splits)
  consider "unturned ?m m'" | w where "processPacket E now c (m_world ?m) = Some w" "m' = ?m\<lparr>m_world := w\<rparr>"
    using run p r disconnect_unturned [of E c NoError ?m m']
    by (auto simp: receive_body_def Let_def split: read_outcome.splits if_splits bool.splits)
  then show ?thesis
  proof cases
    case 1
    then show ?thesis by (rule turn_unturned [OF m1])
  next
    case 2
    then have "unturned ?m m'" using processPacket_decrypt [OF 2(1)] by (simp add: unturned_def conn_at_def)
    then show ?thesis by (rule turn_unturned [OF m1])
  qed
qed

lemma wired_step_posted:
  assumes "wired_step E s s'" and "posted ssl s" and "ssl = cfg_ssl (config_at (wi_machine s))"
  shows "posted ssl s'"
  using assms
proof (induction rule: wired_step.induct)
  case (accepted c ip port s)
  then show ?case
    by (auto simp: posted_def Start_def startAccept_def conn_at_def upd_conn_def)
next
  case (greeted s c)
  then show ?case
    by (auto simp: greeting_sent_def Let_def asyncRead_def through_tls_def intro!: posted_unturned)
next
  case (shaken s c)
  then show ?case
    by (auto simp: handshake_done_def Let_def asyncRead_def through_tls_def intro!: posted_unturned)
next
  case (failed s c reason)
  have "unturned (wi_machine s) (start_failed c reason (wi_machine s))"
    by (auto simp: start_failed_def intro: unturned_link [OF link_DisconnectClient [OF link_refl]])
  then show ?case using failed by (auto intro!: posted_unturned)
next
  case (header s c tls bs m)
  then show ?case by (intro posted_turn header_turn)
next
  case (body s c tls now bs m)
  then show ?case by (intro posted_turn body_turn) (auto simp: posted_def)
next
  case (read_failed s c tls reason m)
  then show ?case using disconnect_unturned by (auto intro!: posted_unturned)
next
  case (other ev s m)
  have "unturned (wi_machine s) m" by (rule other_unturned [OF other(1,3)])
  then show ?case using other(4) by (simp add: posted_def unturned_def)
qed

lemma wired_reachable_posted:
  assumes cfg: "configured E cfg" and "wired_reachable E (start_server E now cfg e) s"
  shows "posted (cfg_ssl cfg) s"
  using assms(2)
proof (induction rule: wired_reachable.induct)
  case (more s s')
  have "stays (start_server E now cfg e) (wi_machine s)"
    by (rule reachable_stays [OF cfg wired_reachable_server [OF more.hyps(1)]])
  then have "cfg_ssl (config_at (wi_machine s)) = cfg_ssl cfg"
    using start_server_inv(2) [OF cfg] by (simp add: stays_def shape_def config_at_def)
  then show ?case using wired_step_posted [OF more.hyps(2) more.IH] by simp
qed (simp add: posted_def)



end
