(* ===== verification/Console.thy ===== *)
theory Console
  imports Samples
begin

text \<open>
  The console of \<open>serverconsole.{h,cpp}\<close>: lines with a time stamp and a prefix, on the screen and in
  the log file, the answers to the commands, and the loop \<open>StartRead\<close> over what is typed. Whether
  the log file can be opened is an argument; the screen and the file are lists of what was written.
\<close>

section \<open>Lines\<close>

datatype PrefixType = NoPrefix | Info | Warn | Error | Fatal | Debug

fun prefix_text :: "PrefixType \<Rightarrow> string" where
  "prefix_text NoPrefix = []"
| "prefix_text Info = ''[ Info ]''"
| "prefix_text Warn = ''[ Warn ]''"
| "prefix_text Error = ''[ Error ]''"
| "prefix_text Fatal = ''[ Fatal ]''"
| "prefix_text Debug = ''[ Debug ]''"

text \<open>The bits \<open>FOREGROUND_BLUE\<close>, \<open>_GREEN\<close>, \<open>_RED\<close> and \<open>_INTENSITY\<close> are 1, 2, 4 and 8.\<close>

fun prefix_color :: "PrefixType \<Rightarrow> u16" where
  "prefix_color Warn = 14"
| "prefix_color Error = 12"
| "prefix_color Fatal = 4"
| "prefix_color Debug = 8"
| "prefix_color _ = 15"

datatype screen = Attribute u16 | Text string

record console =
  con_timeStr :: string
  con_logFile :: string
  con_screen :: "screen list"
  con_log :: string
  con_thread :: bool
  con_running :: bool

definition newline :: string where
  "newline = [CHR 0x0A]"

definition console_line :: "console \<Rightarrow> PrefixType \<Rightarrow> string \<Rightarrow> string" where
  "console_line con t txt = ''[ '' @ con_timeStr con @ '' ]'' @ prefix_text t @ txt"

definition show_line :: "PrefixType \<Rightarrow> string \<Rightarrow> console \<Rightarrow> console" where
  "show_line t txt con = con\<lparr>con_screen := con_screen con @
     [Attribute (prefix_color t), Text (console_line con t txt), Attribute 15]\<rparr>"

definition cannot_open :: "console \<Rightarrow> string" where
  "cannot_open con = ''[ ServerConsole ] Can't open '' @ con_logFile con @ '' to write server log!'' @ newline"

text \<open>
  \<open>Print\<close> and \<open>log\<close> call each other: a log file that cannot be opened is reported on the screen, and
  that report is not logged.
\<close>

function Print :: "(string \<Rightarrow> bool) \<Rightarrow> PrefixType \<Rightarrow> string \<Rightarrow> bool \<Rightarrow> console \<Rightarrow> console"
  and log_text :: "(string \<Rightarrow> bool) \<Rightarrow> string \<Rightarrow> console \<Rightarrow> console" where
  "Print opens t txt logToFile con =
     (let output = console_line con t txt;
          con = show_line t txt con
      in if logToFile then log_text opens output con else con)"
| "log_text opens txt con =
     (if \<not> opens (con_logFile con) then Print opens Warn (cannot_open con) False con
      else con\<lparr>con_log := con_log con @ txt\<rparr>)"
  by pat_completeness auto
termination
  by (relation "measure (case_sum (\<lambda>(_, _, _, logToFile, _). if logToFile then 2 else 0) (\<lambda>_. 1))") auto

definition Log :: "(string \<Rightarrow> bool) \<Rightarrow> PrefixType \<Rightarrow> string \<Rightarrow> console \<Rightarrow> console" where
  "Log opens t txt con = log_text opens (console_line con t txt) con"

definition say :: "(string \<Rightarrow> bool) \<Rightarrow> PrefixType \<Rightarrow> string \<Rightarrow> console \<Rightarrow> console" where
  "say opens t txt = Print opens t (txt @ newline) True"

section \<open>Answers\<close>

definition status_line :: "'e machine \<Rightarrow> string" where
  "status_line m = (let (connections, users, others, rooms) = console_status m in
     ''[ ServerConsole ] Clients: '' @ fmt connections @ '' ('' @ fmt users @ '' logged-in, '' @ fmt others @
     '' not logged-in), rooms: '' @ fmt rooms)"

definition clients_line :: "'e machine \<Rightarrow> string" where
  "clients_line m = (let (connections, users, others, _) = console_status m in
     ''[ ServerConsole ] Clients: '' @ fmt connections @ '' ('' @ fmt users @ '' logged-in, '' @ fmt others @
     '' not logged-in)'')"

definition client_line :: "'e world \<Rightarrow> ptr \<Rightarrow> string option" where
  "client_line w connection = do {
     user \<leftarrow> GetUserByConnection connection w;
     (if user \<noteq> 0 then do {
        u \<leftarrow> w_users w user;
        ip \<leftarrow> user_address user w;
        Some (''[ ServerConsole ] '' @ fmt (u_userID u) @ '', '' @ u_userName u @ '', '' @ ip @ '', '' @
          fmt (UserStatus_num (u_userStatus u)))
      }
      else Some (''[ ServerConsole ] 0, Not logged-in, '' @ c_ipAddress (w_conns w connection) @ '', -1''))
   }"

definition plural :: "nat \<Rightarrow> string" where
  "plural n = (if n > 1 then ''s'' else [])"

text \<open>What a command prints; the counts of the last two are taken before they act.\<close>

fun answer :: "command \<Rightarrow> 'e machine \<Rightarrow> string list option" where
  "answer Stop m = Some []"
| "answer Status m = Some [status_line m]"
| "answer Clients m = do {
     lines \<leftarrow> mapM (client_line (m_world m)) (m_connections m);
     Some ([clients_line m] @
       (if m_connections m = [] then [] else [''[ ServerConsole ] UserID, UserName, IP, Status'']) @ lines)
   }"
| "answer DisconnectAllClients m = Some [let n = length (m_connections m) in
     if n \<noteq> 0 then ''[ ServerConsole ] Disconnected '' @ dec n @ '' client'' @ plural n
     else ''[ ServerConsole ] There are no clients to disconnect'']"
| "answer RemoveAllRoomsCommand m = Some [let n = length (w_roomList (m_world m)) in
     if n \<noteq> 0 then ''[ ServerConsole ] Removed '' @ dec n @ '' room'' @ plural n
     else ''[ ServerConsole ] There are no rooms to remove'']"
| "answer Unknown m = Some [''[ ServerConsole ] Available commands: stop, status, clients, disconectallclients, removeallrooms'']"

section \<open>Reading commands\<close>

text \<open>
  \<open>getline(cin >> ws, command)\<close>: white space, line ends included, is skipped, then the rest of the
  line is taken; it fails at the end of the input.
\<close>

definition next_command :: "string \<Rightarrow> (string \<times> string) option" where
  "next_command input =
     (let s = dropWhile is_space input; stays = (\<lambda>c. c \<noteq> CHR 0x0A)
      in if s = [] then None else Some (takeWhile stays s, drop 1 (dropWhile stays s)))"

lemma next_command_shorter: "next_command s = Some (line, rest) \<Longrightarrow> length rest < length s"
proof -
  assume *: "next_command s = Some (line, rest)"
  have "length (dropWhile (\<lambda>c. c \<noteq> CHR 0x0A) (dropWhile is_space s)) \<le> length (dropWhile is_space s)"
    by (rule length_dropWhile_le)
  moreover have "length (dropWhile is_space s) \<le> length s" by (rule length_dropWhile_le)
  ultimately show ?thesis using * by (cases "dropWhile is_space s") (auto simp: next_command_def Let_def split: if_splits)
qed

definition obey :: "'e env \<Rightarrow> (string \<Rightarrow> bool) \<Rightarrow> command \<Rightarrow> 'e machine \<times> console \<Rightarrow> ('e machine \<times> console) option" where
  "obey E opens cmd = (\<lambda>(m, con). do {
     lines \<leftarrow> answer cmd m;
     m \<leftarrow> run_command E cmd m;
     Some (m, fold (say opens Info) lines con)
   })"

function StartRead ::
  "'e env \<Rightarrow> (string \<Rightarrow> bool) \<Rightarrow> string \<Rightarrow> 'e machine \<times> console \<Rightarrow> ('e machine \<times> console) option" where
  "StartRead E opens input s = (case next_command input of
       None \<Rightarrow> Some s
     | Some (line, rest) \<Rightarrow>
         if command_of line = Stop then Some s
         else Option.bind (obey E opens (command_of line) s) (StartRead E opens rest))"
  by pat_completeness auto
termination by (relation "measure (\<lambda>(_, _, input, _). length input)") (auto dest: next_command_shorter)

declare StartRead.simps [simp del]

text \<open>The commands that are obeyed: those before the first \<open>stop\<close>.\<close>

function commands :: "string \<Rightarrow> command list" where
  "commands input = (case next_command input of
       None \<Rightarrow> []
     | Some (line, rest) \<Rightarrow> if command_of line = Stop then [] else command_of line # commands rest)"
  by pat_completeness auto
termination by (relation "measure length") (auto dest: next_command_shorter)

declare commands.simps [simp del]

lemma StartRead_commands: "StartRead E opens input s = foldM (obey E opens) (commands input) s"
proof (induction E opens input s rule: StartRead.induct)
  case (1 E opens input s)
  show ?case
  proof (cases "next_command input")
    case None
    then show ?thesis by (simp add: StartRead.simps commands.simps)
  next
    case (Some lr)
    obtain line rest where lr: "lr = (line, rest)" by (rule prod.exhaust)
    then show ?thesis
      using 1 [OF Some lr [symmetric]] Some
      by (cases "obey E opens (command_of line) s")
        (simp_all add: StartRead.simps [of E opens input] commands.simps [of input])
  qed
qed

section \<open>What is printed\<close>

lemma con_log_file [simp]: "con_logFile (show_line t txt con) = con_logFile con"
  "con_timeStr (show_line t txt con) = con_timeStr con" "con_log (show_line t txt con) = con_log con"
  by (simp_all add: show_line_def)

lemma cannot_open_show [simp]: "cannot_open (show_line t txt con) = cannot_open con"
  by (simp add: cannot_open_def)

lemma con_screen_show: "con_screen (show_line t txt con) = con_screen con @
    [Attribute (prefix_color t), Text (console_line con t txt), Attribute 15]"
  by (simp add: show_line_def)

lemma console_line_show [simp]: "console_line (show_line t txt con) = console_line con"
  by (simp add: fun_eq_iff console_line_def)

lemma Print_unlogged: "Print opens t txt False con = show_line t txt con"
  by simp

text \<open>
  Printing ends, and no line is lost. A line that is printed is on the screen, with its time stamp,
  prefix and colour, and the colour is white again afterwards; when it is to be logged, the same text is
  appended to the log file, or, when the file cannot be opened, exactly one warning follows on the screen.
\<close>

lemma printed_lines:
  "con_screen (Print opens t txt logToFile con) = con_screen con @
     [Attribute (prefix_color t), Text (console_line con t txt), Attribute 15] @
     (if logToFile \<and> \<not> opens (con_logFile con)
      then [Attribute 14, Text (console_line con Warn (cannot_open con)), Attribute 15] else []) \<and>
   con_log (Print opens t txt logToFile con) = con_log con @
     (if logToFile \<and> opens (con_logFile con) then console_line con t txt else [])"
  by (simp add: con_screen_show)

lemma say_keeps: "con_logFile (say opens t txt con) = con_logFile con"
  "\<exists>ts. con_log (say opens t txt con) = con_log con @ ts"
  by (simp_all add: say_def Let_def)

lemma fold_say_log: "\<exists>ts. con_log (fold (say opens t) lines con) = con_log con @ ts"
proof (induction lines arbitrary: con)
  case (Cons l ls)
  obtain t1 where "con_log (say opens t l con) = con_log con @ t1" using say_keeps(2) by blast
  then show ?case using Cons.IH [of "say opens t l con"] by auto
qed simp

section \<open>A session at the console\<close>

lemma client_line_total:
  assumes "lobby_inv w" shows "client_line w c \<noteq> None"
proof -
  have al: "allocated w_users w_userList w" by (rule inv_allocated(2) [OF assms])
  show ?thesis
  proof (rule users_by_connection.lookup_cases [OF al, of c])
    fix p x assume hit: "GetUserByConnection c w = Some p" "w_users w p = Some x" "p \<noteq> 0"
    then have "user_ok w p x" using lobby_invD(3) [OF assms] by blast
    then show ?thesis using hit by (simp add: client_line_def user_address_def conn_of_def user_ok_def)
  qed (simp add: client_line_def)
qed

text \<open>\<open>clients\<close> prints a line for every connection.\<close>

lemma answer_total:
  fixes m :: "'e machine"
  assumes "lobby_inv (m_world m)"
  shows "wp (answer cmd m) (\<lambda>ls. cmd = Clients \<longrightarrow>
    length ls = (if m_connections m = [] then 1 else 2 + length (m_connections m)))"
  using mapM_total [of "m_connections m" "client_line (m_world m)"] client_line_total [OF assms]
  by (cases cmd) (auto simp: wp_iff)

lemma obey_steps:
  assumes cfg: "configured E cfg" and r: "reachable E (start_server E now cfg e) m"
  shows "wp (obey E opens cmd (m, con)) (\<lambda>(m', con').
    reachable E (start_server E now cfg e) m' \<and> (\<exists>ts. con_log con' = con_log con @ ts))"
proof -
  have ok: "event_ok E (Command cmd) m" by simp
  have s: "machine_inv m" using reachable_stays [OF cfg r] by (simp add: stays_def)
  obtain m' where m': "run_command E cmd m = Some m'"
    using reachable_perform [OF cfg r ok] by (auto simp: wp_iff)
  then have "server_step E m m'" using server_step.step [OF ok] by simp
  then have "reachable E (start_server E now cfg e) m'" by (rule reachable.more [OF r])
  moreover obtain ls where "answer cmd m = Some ls"
    using answer_total [OF server_invD(1) [OF machine_invD(1) [OF s]], of cmd] by (auto simp: wp_iff)
  ultimately show ?thesis using m' fold_say_log by (simp add: obey_def)
qed

lemma commands_no_stop: "Stop \<notin> set (commands input)"
proof (induction input rule: commands.induct)
  case (1 input)
  show ?case
  proof (cases "next_command input")
    case (Some lr)
    then show ?thesis using 1 by (cases lr) (auto simp: commands.simps [of input])
  qed (simp add: commands.simps)
qed

text \<open>
  Whatever is typed at the console, the loop over the input ends in a state the server can reach.
\<close>

lemma console_session:
  assumes cfg: "configured E cfg" and r: "reachable E (start_server E now cfg e) m"
  shows "wp (foldM (obey E opens) cmds (m, con)) (\<lambda>(m', con').
    reachable E (start_server E now cfg e) m' \<and> (\<exists>ts. con_log con' = con_log con @ ts))"
    (is "wp _ ?I")
proof (rule foldM_inv)
  show "wp (obey E opens cmd s) ?I" if "?I s" for cmd s
    using obey_steps [OF cfg, of now e "fst s" opens cmd "snd s"] that by (auto simp: wp_iff split_beta)
qed (simp add: r)

text \<open>
  Whatever is typed at the console, the loop over the input ends, in a state the server can
  reach: it obeys the commands before the first \<open>stop\<close> in their order and nothing else, none of them runs
  into undefined behaviour, and what was logged stays in the log file.
\<close>

lemma console_session_safe:
  assumes cfg: "configured E cfg" and r: "reachable E (start_server E now cfg e) m"
  shows "wp (StartRead E opens input (m, con)) (\<lambda>(m', con').
      foldM (obey E opens) (commands input) (m, con) = Some (m', con') \<and> Stop \<notin> set (commands input) \<and>
      reachable E (start_server E now cfg e) m' \<and> (\<exists>ts. con_log con' = con_log con @ ts))"
  using console_session [OF assms, of opens "commands input" con] commands_no_stop [of input]
  by (auto simp: StartRead_commands wp_iff)

definition new_console :: console where
  "new_console = \<lparr>con_timeStr = [], con_logFile = [], con_screen = [], con_log = [], con_thread = False,
     con_running = False\<rparr>"

lemma console_session_safe_witness:
  "wp (StartRead null_env (\<lambda>_. False) (''  clients'' @ newline @ newline @ ''removeallrooms'' @ newline @ ''stop'')
      (start_server null_env 0 empty_cfg (), new_console))
    (\<lambda>(m', con'). reachable null_env (start_server null_env 0 empty_cfg ()) m')"
  by (rule wp_mono [OF console_session_safe [OF empty_configured reachable.start]]) auto

end
