(* ===== verification/LoadConfig.thy ===== *)
theory LoadConfig
  imports Config Text "HOL-Library.List_Lexorder" "HOL-Library.Char_ord"
begin

text \<open>
  \<open>ServerConfig::Load\<close> (\<open>serverconfig.cpp\<close>) and what it uses of the JSON library in
  \<open>thirdparty/nlohmann/json.hpp\<close>: values, \<open>contains\<close>, \<open>value\<close>, \<open>operator[]\<close>, \<open>get\<close>, iteration and
  \<open>update\<close>. The parser is not modelled: a file is given by what reading it comes to. \<open>None\<close> stands for
  an exception \<open>Load\<close> does not catch (it only catches \<open>json::parse_error\<close>), which ends the process, and
  for an undefined conversion.
\<close>

section \<open>JSON values\<close>

text \<open>
  An object is a \<open>std::map\<close>: a list sorted by key. A floating point number is given by its integral
  part, the only thing a conversion to an integer reads.
\<close>

datatype json =
    JNull
  | JBool bool
  | JInt int
  | JFloat int
  | JString string
  | JArray "json list"
  | JObject "(string \<times> json) list"

text \<open>\<open>std::map::operator[]\<close> as a target.\<close>

fun map_insert :: "string \<Rightarrow> 'a \<Rightarrow> (string \<times> 'a) list \<Rightarrow> (string \<times> 'a) list" where
  "map_insert k v [] = [(k, v)]"
| "map_insert k v ((k', v') # m) =
     (if k = k' then (k, v) # m else if k < k' then (k, v) # (k', v') # m else (k', v') # map_insert k v m)"

definition json_object :: "(string \<times> json) list \<Rightarrow> json" where
  "json_object kvs = JObject (fold (\<lambda>(k, v). map_insert k v) kvs [])"

definition json_contains :: "string \<Rightarrow> json \<Rightarrow> bool" where
  "json_contains key j = (case j of JObject m \<Rightarrow> map_of m key \<noteq> None | _ \<Rightarrow> False)"

text \<open>\<open>j[key]\<close> for a key that is there.\<close>

definition json_at :: "string \<Rightarrow> json \<Rightarrow> json option" where
  "json_at key j = (case j of JObject m \<Rightarrow> map_of m key | _ \<Rightarrow> None)"

text \<open>The elements a range-based \<open>for\<close> visits.\<close>

fun json_elements :: "json \<Rightarrow> json list" where
  "json_elements (JArray js) = js"
| "json_elements (JObject m) = map snd m"
| "json_elements JNull = []"
| "json_elements j = [j]"

text \<open>\<open>get<T>()\<close>: conversions from double are undefined when the integral part does not fit.\<close>

fun get_int :: "json \<Rightarrow> u32 option" where
  "get_int (JInt i) = Some (word_of_int i)"
| "get_int (JFloat i) = (if - (2 ^ 31) \<le> i \<and> i < 2 ^ 31 then Some (word_of_int i) else None)"
| "get_int (JBool b) = Some (if b then 1 else 0)"
| "get_int _ = None"

fun get_u8 :: "json \<Rightarrow> u8 option" where
  "get_u8 (JInt i) = Some (word_of_int i)"
| "get_u8 (JFloat i) = (if 0 \<le> i \<and> i < 256 then Some (word_of_int i) else None)"
| "get_u8 (JBool b) = Some (if b then 1 else 0)"
| "get_u8 _ = None"

fun get_bool :: "json \<Rightarrow> bool option" where
  "get_bool (JBool b) = Some b"
| "get_bool _ = None"

fun get_string :: "json \<Rightarrow> string option" where
  "get_string (JString s) = Some s"
| "get_string _ = None"

fun get_all :: "('a \<Rightarrow> 'b option) \<Rightarrow> 'a list \<Rightarrow> 'b list option" where
  "get_all get [] = Some []"
| "get_all get (x # xs) = do { y \<leftarrow> get x; ys \<leftarrow> get_all get xs; Some (y # ys) }"

fun get_vector :: "(json \<Rightarrow> 'a option) \<Rightarrow> json \<Rightarrow> 'a list option" where
  "get_vector get (JArray js) = get_all get js"
| "get_vector get _ = None"

definition json_value :: "(json \<Rightarrow> 'a option) \<Rightarrow> string \<Rightarrow> 'a \<Rightarrow> json \<Rightarrow> 'a option" where
  "json_value get key dflt j =
     (case j of JObject m \<Rightarrow> (case map_of m key of None \<Rightarrow> Some dflt | Some v \<Rightarrow> get v) | _ \<Rightarrow> None)"

text \<open>\<open>d.update(c, true)\<close>: objects are merged, other values of \<open>c\<close> replace those of \<open>d\<close>.\<close>

fun object_of :: "json \<Rightarrow> (string \<times> json) list option" where
  "object_of (JObject m) = Some m"
| "object_of JNull = Some []"
| "object_of _ = None"

definition is_object :: "json \<Rightarrow> bool" where
  "is_object j \<longleftrightarrow> (case j of JObject _ \<Rightarrow> True | _ \<Rightarrow> False)"

fun json_update :: "json \<Rightarrow> json \<Rightarrow> json option"
  and json_update_entries :: "(string \<times> json) list \<Rightarrow> (string \<times> json) list \<Rightarrow> (string \<times> json) list option" where
  "json_update d (JObject cs) =
     (case object_of d of None \<Rightarrow> None | Some m \<Rightarrow> map_option JObject (json_update_entries m cs))"
| "json_update d _ = None"
| "json_update_entries m [] = Some m"
| "json_update_entries m ((k, v) # cs) =
     (case (if is_object v then map_of m k else None) of
        Some d \<Rightarrow> do { d \<leftarrow> json_update d v; json_update_entries (map_insert k d m) cs }
      | None \<Rightarrow> json_update_entries (map_insert k v m) cs)"

section \<open>Default configuration\<close>

definition new_Channel :: Channel where
  "new_Channel = \<lparr>ch_id = 0, ch_name = [], ch_numPlayers = 0, ch_maxPlayers = 0, ch_ip = [], ch_port = 0,
     ch_isOnline = True, ch_lastHeartbeat = 0\<rparr>"

definition new_ServerConfig :: ServerConfig where
  "new_ServerConfig = \<lparr>cfg_ip = 0, cfg_port = 0, cfg_ssl = False, cfg_decryptCipherMethod = CleanUp,
     cfg_encryptCipherMethod = CleanUp, cfg_udpAuthKey = [], cfg_maxPlayers = 0, cfg_serverID = 0, cfg_channelID = 0,
     cfg_serverList = [], cfg_sqlServer = [], cfg_sqlUser = [], cfg_sqlPassword = [], cfg_sqlDatabase = [],
     cfg_prohibitedNames = [], cfg_defaultBuyMenus = [], cfg_defaultInventory = []\<rparr>"

definition json_ints :: "int list \<Rightarrow> json" where
  "json_ints is = JArray (map JInt is)"

text \<open>The value the literal \<open>defaultServerConfig\<close> parses to.\<close>

definition defaultServerConfig :: json where
  "defaultServerConfig = json_object [
     (''IP'', JString ''127.0.0.1''),
     (''Port'', JInt 8001),
     (''SSL'', JBool True),
     (''DecryptCipherMethod'', JInt 1),
     (''EncryptCipherMethod'', JInt 1),
     (''UDPAuthKey'', JString []),
     (''MaxPlayers'', JInt 600),
     (''ServerID'', JInt 1),
     (''ChannelID'', JInt 1),
     (''ServerList'', JArray [
        json_object [
          (''Type'', JInt 0),
          (''Name'', JString ''Server 1''),
          (''Channels'', JArray [json_object [(''Name'', JString ''Channel 1-1'')]])]]),
     (''SQL'', json_object [
        (''Server'', JString ''localhost''),
        (''User'', JString ''root''),
        (''Password'', JString []),
        (''Database'', JString ''csodatabase'')]),
     (''ProhibitedNames'', JArray []),
     (''DefaultBuyMenus'', json_object [
        (''Terrorist'', json_object [
          (''Pistol'', json_ints [3, 6, 2, 4, 1]),
          (''ShotGun'', json_ints [7, 8, 38]),
          (''SubMachineGun'', json_ints [10, 12, 13, 11, 37]),
          (''Rifle'', json_ints [23, 21, 17, 19, 14, 22, 34, 39]),
          (''MachineGun'', json_ints [24, 32]),
          (''Equipment'', json_ints [27, 28, 30, 31, 26, 25]),
          (''Class'', json_ints [41, 42, 43, 40, 44, 45, 46, 47, 48])]),
        (''Counter-Terrorist'', json_object [
          (''Pistol'', json_ints [3, 6, 2, 4, 5]),
          (''ShotGun'', json_ints [7, 8]),
          (''SubMachineGun'', json_ints [9, 12, 13, 11, 36, 37]),
          (''Rifle'', json_ints [20, 17, 15, 16, 18, 14, 33, 35]),
          (''MachineGun'', json_ints [24, 32]),
          (''Equipment'', json_ints [27, 28, 30, 31, 26, 25, 29]),
          (''Class'', json_ints [49, 50, 52, 51, 53, 54, 55, 56, 57])])]),
     (''DefaultInventory'', json_ints [1..57])]"

definition buyMenuCategories :: "string list" where
  "buyMenuCategories =
     [''Pistol'', ''ShotGun'', ''SubMachineGun'', ''Rifle'', ''MachineGun'', ''Equipment'', ''Class'']"

section \<open>Load\<close>

definition cipher_method :: "u8 \<Rightarrow> CipherMethod" where
  "cipher_method m = (if m = 1 then RC4 else if m = 2 then RC4_40 else CipherNull)"

text \<open>An \<open>int\<close> that is no \<open>ServerType\<close>: the conversion is undefined.\<close>

definition server_type :: "u32 \<Rightarrow> ServerType option" where
  "server_type t = (if t = 0 then Some Normal else if t = 1 then Some Newbie else None)"

text \<open>\<open>if (config.contains(key)) field = config.value(key, dflt);\<close>\<close>

definition load_field ::
  "(json \<Rightarrow> 'a option) \<Rightarrow> string \<Rightarrow> 'a \<Rightarrow> ('a \<Rightarrow> ServerConfig \<Rightarrow> ServerConfig) \<Rightarrow> json \<Rightarrow> ServerConfig \<Rightarrow> ServerConfig option"
where
  "load_field get key dflt assign config cfg =
     (if json_contains key config then map_option (\<lambda>v. assign v cfg) (json_value get key dflt config) else Some cfg)"

definition load_network :: "'e env \<Rightarrow> json \<Rightarrow> ServerConfig \<Rightarrow> ServerConfig option" where
  "load_network E config cfg = do {
     cfg \<leftarrow> load_field get_string ''IP'' ''127.0.0.1''
              (\<lambda>ipStr cfg. cfg\<lparr>cfg_ip := (case inet_pton E ipStr of None \<Rightarrow> 0 | Some a \<Rightarrow> a)\<rparr>) config cfg;
     cfg \<leftarrow> load_field get_int ''Port'' 8001 (\<lambda>v cfg. cfg\<lparr>cfg_port := ucast v\<rparr>) config cfg;
     cfg \<leftarrow> load_field get_bool ''SSL'' True (\<lambda>v cfg. cfg\<lparr>cfg_ssl := v\<rparr>) config cfg;
     cfg \<leftarrow> load_field get_int ''DecryptCipherMethod'' 1
              (\<lambda>v cfg. cfg\<lparr>cfg_decryptCipherMethod := cipher_method (ucast v)\<rparr>) config cfg;
     cfg \<leftarrow> load_field get_int ''EncryptCipherMethod'' 1
              (\<lambda>v cfg. cfg\<lparr>cfg_encryptCipherMethod := cipher_method (ucast v)\<rparr>) config cfg;
     cfg \<leftarrow> load_field get_string ''UDPAuthKey'' [] (\<lambda>v cfg. cfg\<lparr>cfg_udpAuthKey := v\<rparr>) config cfg;
     cfg \<leftarrow> load_field get_int ''MaxPlayers'' 600 (\<lambda>v cfg. cfg\<lparr>cfg_maxPlayers := ucast v\<rparr>) config cfg;
     cfg \<leftarrow> load_field get_int ''ServerID'' 1 (\<lambda>v cfg. cfg\<lparr>cfg_serverID := ucast v\<rparr>) config cfg;
     load_field get_int ''ChannelID'' 1 (\<lambda>v cfg. cfg\<lparr>cfg_channelID := ucast v\<rparr>) config cfg
   }"

definition load_channel :: "ServerConfig \<Rightarrow> u8 \<Rightarrow> u8 \<Rightarrow> json \<Rightarrow> Channel option" where
  "load_channel cfg sid channelID channel = do {
     name \<leftarrow> json_value get_string ''Name'' (''Channel '' @ fmt sid @ ''-'' @ fmt channelID) channel;
     let ch = new_Channel\<lparr>ch_id := channelID, ch_name := name\<rparr>;
     (if sid \<noteq> cfg_serverID cfg \<or> sid = cfg_serverID cfg \<and> channelID \<noteq> cfg_channelID cfg then do {
        maxPlayers \<leftarrow> json_value get_int ''MaxPlayers'' 600 channel;
        ip \<leftarrow> json_value get_string ''IP'' ''127.0.0.1'' channel;
        port \<leftarrow> json_value get_int ''Port'' 8001 channel;
        Some (ch\<lparr>ch_maxPlayers := ucast maxPlayers, ch_ip := ip, ch_port := ucast port, ch_isOnline := False\<rparr>)
      }
      else Some ch)
   }"

fun load_channels :: "ServerConfig \<Rightarrow> u8 \<Rightarrow> u8 \<Rightarrow> json list \<Rightarrow> Channel list option" where
  "load_channels cfg sid channelID [] = Some []"
| "load_channels cfg sid channelID (channel # channels) = do {
     ch \<leftarrow> load_channel cfg sid channelID channel;
     chs \<leftarrow> load_channels cfg sid (channelID + 1) channels;
     Some (ch # chs)
   }"

definition load_server :: "ServerConfig \<Rightarrow> u8 \<Rightarrow> json \<Rightarrow> Server option" where
  "load_server cfg serverID server = do {
     type \<leftarrow> json_value get_int ''Type'' 0 server;
     type \<leftarrow> server_type type;
     name \<leftarrow> json_value get_string ''Name'' (''Server '' @ fmt serverID) server;
     channels \<leftarrow> (if json_contains ''Channels'' server then do {
                    channels \<leftarrow> json_at ''Channels'' server;
                    load_channels cfg serverID 1 (json_elements channels)
                  } else Some []);
     Some \<lparr>sv_id = serverID, sv_status = (if serverID = cfg_serverID cfg then Ready else NotReady),
       sv_type = type, sv_name = name, sv_channels = channels\<rparr>
   }"

fun load_servers :: "ServerConfig \<Rightarrow> u8 \<Rightarrow> json list \<Rightarrow> Server list option" where
  "load_servers cfg serverID [] = Some []"
| "load_servers cfg serverID (server # servers) = do {
     s \<leftarrow> load_server cfg serverID server;
     ss \<leftarrow> load_servers cfg (serverID + 1) servers;
     Some (s # ss)
   }"

definition load_serverList :: "json \<Rightarrow> ServerConfig \<Rightarrow> ServerConfig option" where
  "load_serverList config cfg =
     (if json_contains ''ServerList'' config then do {
        serverList \<leftarrow> json_at ''ServerList'' config;
        ss \<leftarrow> load_servers cfg 1 (json_elements serverList);
        Some (cfg\<lparr>cfg_serverList := cfg_serverList cfg @ ss\<rparr>)
      }
      else Some cfg)"

definition load_sql :: "json \<Rightarrow> ServerConfig \<Rightarrow> ServerConfig option" where
  "load_sql config cfg =
     (if json_contains ''SQL'' config then do {
        sql \<leftarrow> json_at ''SQL'' config;
        server \<leftarrow> json_value get_string ''Server'' ''localhost'' sql;
        user \<leftarrow> json_value get_string ''User'' ''root'' sql;
        password \<leftarrow> json_value get_string ''Password'' [] sql;
        database \<leftarrow> json_value get_string ''Database'' ''csodatabase'' sql;
        Some (cfg\<lparr>cfg_sqlServer := server, cfg_sqlUser := user, cfg_sqlPassword := password,
          cfg_sqlDatabase := database\<rparr>)
      }
      else Some cfg)"

text \<open>\<open>v.resize(n)\<close> on bytes.\<close>

definition resize :: "nat \<Rightarrow> u8 list \<Rightarrow> u8 list" where
  "resize n v = take n v @ replicate (n - length v) 0"

text \<open>The categories of one team, numbered from the first argument on.\<close>

fun load_menus :: "u8 \<Rightarrow> json \<Rightarrow> string list \<Rightarrow> BuyMenu list option" where
  "load_menus categoryID menu [] = Some []"
| "load_menus categoryID menu (categoryName # names) = do {
     bms \<leftarrow> (if json_contains categoryName menu then do {
               v \<leftarrow> json_at categoryName menu;
               items \<leftarrow> get_vector get_u8 v;
               Some [\<lparr>bm_categoryID = categoryID, bm_items = resize BUYMENU_MAX_SLOT items\<rparr>]
             } else Some []);
     rest \<leftarrow> load_menus (categoryID + 1) menu names;
     Some (bms @ rest)
   }"

definition load_team :: "string \<Rightarrow> u8 \<Rightarrow> json \<Rightarrow> ServerConfig \<Rightarrow> ServerConfig option" where
  "load_team team first menus cfg =
     (if json_contains team menus then do {
        menu \<leftarrow> json_at team menus;
        bms \<leftarrow> load_menus first menu buyMenuCategories;
        Some (cfg\<lparr>cfg_defaultBuyMenus := cfg_defaultBuyMenus cfg @ bms\<rparr>)
      }
      else Some cfg)"

definition load_defaults :: "json \<Rightarrow> ServerConfig \<Rightarrow> ServerConfig option" where
  "load_defaults config cfg = do {
     cfg \<leftarrow> (if json_contains ''ProhibitedNames'' config then do {
               v \<leftarrow> json_at ''ProhibitedNames'' config;
               names \<leftarrow> get_vector get_string v;
               Some (cfg\<lparr>cfg_prohibitedNames := names\<rparr>)
             } else Some cfg);
     cfg \<leftarrow> (if json_contains ''DefaultBuyMenus'' config then do {
               menus \<leftarrow> json_at ''DefaultBuyMenus'' config;
               cfg \<leftarrow> load_team ''Terrorist'' 0 menus cfg;
               load_team ''Counter-Terrorist'' 7 menus cfg
             } else Some cfg);
     (if json_contains ''DefaultInventory'' config then do {
        v \<leftarrow> json_at ''DefaultInventory'' config;
        items \<leftarrow> get_vector get_u8 v;
        Some (cfg\<lparr>cfg_defaultInventory := items\<rparr>)
      }
      else Some cfg)
   }"

text \<open>
  What opening and parsing the file comes to: it cannot be opened, it is malformed (the exception
  \<open>Load\<close> catches), it holds a number out of range (one it does not catch), or it is a value.
\<close>

datatype config_file = CannotOpen | ParseError | OutOfRange | Parsed json

definition load_json :: "'e env \<Rightarrow> json \<Rightarrow> ServerConfig \<Rightarrow> ServerConfig option" where
  "load_json E config cfg = do {
     cfg \<leftarrow> load_network E config cfg;
     cfg \<leftarrow> load_serverList config cfg;
     cfg \<leftarrow> load_sql config cfg;
     load_defaults config cfg
   }"

fun Load :: "'e env \<Rightarrow> config_file \<Rightarrow> ServerConfig \<Rightarrow> (bool \<times> ServerConfig) option" where
  "Load E CannotOpen cfg = map_option (Pair True) (load_json E defaultServerConfig cfg)"
| "Load E (Parsed c) cfg = do {
     config \<leftarrow> json_update defaultServerConfig c;
     map_option (Pair True) (load_json E config cfg)
   }"
| "Load E ParseError cfg = Some (False, cfg)"
| "Load E OutOfRange cfg = None"

end
