(* ===== verification/Process.thy ===== *)
theory Process
  imports Console LoadConfig
begin

text \<open>
  The process: \<open>Start\<close>, \<open>Stop\<close> and \<open>shutdown\<close> of the three threads (console, TCP server and UDP
  server), \<open>main\<close> with everything that can fail on the way, and the control handler. What the
  operating system and the libraries answer is the record \<open>boot\<close>.
\<close>

section \<open>The state\<close>

text \<open>
  The console, whether the threads of the servers are joinable, whether the database manager has a
  connection, and the machine of \<open>Server\<close>.
\<close>

record 'e process =
  pr_console :: console
  pr_tcpThread :: bool
  pr_udpThread :: bool
  pr_database :: bool
  pr_machine :: "'e machine"

definition tell :: "(string \<Rightarrow> bool) \<Rightarrow> PrefixType \<Rightarrow> string \<Rightarrow> 'e process \<Rightarrow> 'e process" where
  "tell opens t txt p = p\<lparr>pr_console := say opens t txt (pr_console p)\<rparr>"

definition on_machine :: "('e machine \<Rightarrow> 'e machine) \<Rightarrow> 'e process \<Rightarrow> 'e process" where
  "on_machine f p = p\<lparr>pr_machine := f (pr_machine p)\<rparr>"

definition config :: "'e process \<Rightarrow> ServerConfig" where
  "config p = w_cfg (m_world (pr_machine p))"

definition database :: "'e process \<Rightarrow> 'e" where
  "database p = w_ext (m_world (pr_machine p))"

section \<open>The console\<close>

definition console_Start :: "(string \<Rightarrow> bool) \<Rightarrow> 'e process \<Rightarrow> 'e process" where
  "console_Start opens p =
     (if con_thread (pr_console p) then tell opens Warn ''[ ServerConsole ] Thread is already running!'' p
      else let p = tell opens Info ''[ ServerConsole ] Starting!'' p
           in p\<lparr>pr_console := (pr_console p)\<lparr>con_thread := True, con_running := True\<rparr>\<rparr>)"

definition console_shutdown :: "(string \<Rightarrow> bool) \<Rightarrow> 'e process \<Rightarrow> 'e process" where
  "console_shutdown opens p =
     (if con_thread (pr_console p) then
        let p = tell opens Info ''[ ServerConsole ] Shutting down!'' p
        in p\<lparr>pr_console := (pr_console p)\<lparr>con_running := False, con_thread := False\<rparr>\<rparr>
      else p)"

definition console_Stop :: "(string \<Rightarrow> bool) \<Rightarrow> 'e process \<Rightarrow> 'e process" where
  "console_Stop opens p =
     (if \<not> con_thread (pr_console p) then tell opens Warn ''[ ServerConsole ] Thread is already shut down!'' p
      else console_shutdown opens p)"

section \<open>The TCP server\<close>

text \<open>\<open>Init\<close> of both servers takes a port and reports what the library throws.\<close>

definition server_Init :: "(string \<Rightarrow> bool) \<Rightarrow> string \<Rightarrow> string option \<Rightarrow> 'e process \<Rightarrow> bool \<times> 'e process" where
  "server_Init opens name thrown p =
     (case thrown of None \<Rightarrow> (True, p)
      | Some what \<Rightarrow> (False, tell opens Error (''[ '' @ name @ '' ] Error on Init: '' @ what) p))"

definition tcp_Start :: "(string \<Rightarrow> bool) \<Rightarrow> 'e process \<Rightarrow> 'e process" where
  "tcp_Start opens p =
     (if pr_tcpThread p then tell opens Warn ''[ TCPServer ] Thread is already running!'' p
      else (tell opens Info (''[ TCPServer ] Starting on port '' @ fmt (cfg_port (config p)) @ ''!'') p)
             \<lparr>pr_tcpThread := True\<rparr>)"

definition tcp_stop_thread :: "(string \<Rightarrow> bool) \<Rightarrow> 'e process \<Rightarrow> 'e process" where
  "tcp_stop_thread opens p =
     (if pr_tcpThread p then
        (on_machine tcp_shutdown (tell opens Info ''[ TCPServer ] Shutting down!'' p))\<lparr>pr_tcpThread := False\<rparr>
      else p)"

definition tcp_Stop :: "(string \<Rightarrow> bool) \<Rightarrow> 'e process \<Rightarrow> 'e process" where
  "tcp_Stop opens p =
     (if \<not> pr_tcpThread p then tell opens Warn ''[ TCPServer ] Thread is already shut down!'' p
      else tcp_stop_thread opens p)"

section \<open>The UDP server\<close>

definition on_udp :: "(udp \<times> 'e world \<Rightarrow> udp \<times> 'e world) \<Rightarrow> 'e machine \<Rightarrow> 'e machine" where
  "on_udp f m = (let (us, w) = f (m_udp m, m_world m) in m\<lparr>m_udp := us, m_world := w\<rparr>)"

definition udp_Start :: "(string \<Rightarrow> bool) \<Rightarrow> u64 \<Rightarrow> 'e process \<Rightarrow> 'e process" where
  "udp_Start opens now p =
     (if pr_udpThread p then tell opens Warn ''[ UDPServer ] Thread is already running!'' p
      else (on_machine (on_udp (udp_start now))
             (tell opens Info (''[ UDPServer ] Starting on port '' @ fmt (cfg_port (config p)) @ ''!'') p))
             \<lparr>pr_udpThread := True\<rparr>)"

definition udp_stop_thread :: "(string \<Rightarrow> bool) \<Rightarrow> 'e process \<Rightarrow> 'e process" where
  "udp_stop_thread opens p =
     (if pr_udpThread p then
        (on_machine (on_udp udp_shutdown) (tell opens Info ''[ UDPServer ] Shutting down!'' p))\<lparr>pr_udpThread := False\<rparr>
      else p)"

definition udp_Stop :: "(string \<Rightarrow> bool) \<Rightarrow> 'e process \<Rightarrow> 'e process" where
  "udp_Stop opens p =
     (if \<not> pr_udpThread p then tell opens Warn ''[ UDPServer ] Thread is already shut down!'' p
      else udp_stop_thread opens p)"

section \<open>The database manager\<close>

text \<open>\<open>Init\<close> keeps the handle also when the connection fails; \<open>Shutdown\<close> cleans up once.\<close>

definition DB_Init :: "(string \<Rightarrow> bool) \<Rightarrow> string option \<Rightarrow> 'e process \<Rightarrow> bool \<times> 'e process" where
  "DB_Init opens failed p =
     (let p = p\<lparr>pr_database := True\<rparr>
      in case failed of None \<Rightarrow> (True, p)
         | Some what \<Rightarrow> (False, tell opens Error (''[ DatabaseManager ] Connection error on Init: '' @ what) p))"

definition set_ext :: "('e \<Rightarrow> 'e) \<Rightarrow> 'e machine \<Rightarrow> 'e machine" where
  "set_ext f m = m\<lparr>m_world := (m_world m)\<lparr>w_ext := f (w_ext (m_world m))\<rparr>\<rparr>"

definition DB_Stop :: "'e env \<Rightarrow> 'e process \<Rightarrow> 'e process" where
  "DB_Stop E p =
     (if pr_database p then (on_machine (set_ext (DB_Shutdown E (config p))) p)\<lparr>pr_database := False\<rparr> else p)"

section \<open>The main function\<close>

record boot =
  bt_console :: bool
  bt_file :: config_file
  bt_parse_error :: string
  bt_mutex :: bool
  bt_wait :: u32
  bt_mysql_error :: "string option"
  bt_tcp_error :: "string option"
  bt_udp_error :: "string option"

definition WAIT_ABANDONED :: u32 where "WAIT_ABANDONED = 128"

definition mutex_name :: "ServerConfig \<Rightarrow> string" where
  "mutex_name cfg = ''cso-master-server-'' @ fmt (cfg_serverID cfg) @ ''-'' @ fmt (cfg_channelID cfg)"

text \<open>\<open>hMutex\<close> could be created and is free, or its last owner ended without releasing it.\<close>

definition mutex_owned :: "boot \<Rightarrow> bool" where
  "mutex_owned b \<longleftrightarrow> bt_mutex b \<and> (bt_wait b = 0 \<or> bt_wait b = WAIT_ABANDONED)"

definition load_config :: "'e env \<Rightarrow> (string \<Rightarrow> bool) \<Rightarrow> boot \<Rightarrow> 'e process \<Rightarrow> (bool \<times> 'e process) option" where
  "load_config E opens b p = do {
     let p = (if bt_file b = CannotOpen
              then tell opens Warn ''[ ServerConfig ] Couldn't open serverconfig.json, using default values!'' p else p);
     (ok, cfg) \<leftarrow> Load E (bt_file b) (config p);
     let p = on_machine (\<lambda>m. m\<lparr>m_world := (m_world m)\<lparr>w_cfg := cfg\<rparr>\<rparr>) p;
     Some (ok, if ok then tell opens Info ''[ ServerConfig ] Loaded server configs!'' p
       else tell opens Error (''[ ServerConfig ] Error in parsing serverconfig.json: '' @ bt_parse_error b) p)
   }"

definition main :: "'e env \<Rightarrow> (string \<Rightarrow> bool) \<Rightarrow> u64 \<Rightarrow> boot \<Rightarrow> string \<Rightarrow> 'e process \<Rightarrow> (int \<times> 'e process) option" where
  "main E opens now b input p =
     (if \<not> bt_console b then
        Some (-1, tell opens Fatal ''[ ServerConsole ] Failed to initialize server console!''
          (tell opens Error ''[ ServerConsole ] Failed to get console output handle!'' p))
      else do {
        (loaded, p) \<leftarrow> load_config E opens b (console_Start opens p);
        (if \<not> loaded then Some (-1, tell opens Fatal ''[ ServerConfig ] Failed to load server configs!'' p)
         else if \<not> bt_mutex b then
           Some (-1, tell opens Fatal ''[ Main ] Failed to create mutex for server instance!'' p)
         else if \<not> mutex_owned b then
           Some (-1, tell opens Fatal ''[ Main ] This server channel is already running in another process!'' p)
         else
           let (connected, p) = DB_Init opens (bt_mysql_error b) p in
           if \<not> connected then
             Some (-1, tell opens Fatal ''[ DatabaseManager ] Failed to initialize database manager!'' p)
           else
             let p = on_machine (set_ext (clean_database E (config p))) p;
                 (listening, p) = server_Init opens ''TCPServer'' (bt_tcp_error b) p
             in if \<not> listening then
               Some (-1, tell opens Fatal ''[ TCPServer ] Failed to initialize TCP server!'' p)
             else
               let p = tcp_Start opens p;
                   (bound, p) = server_Init opens ''UDPServer'' (bt_udp_error b) p
               in if \<not> bound then
                 Some (-1, tell opens Fatal ''[ UDPServer ] Failed to initialize UDP server!'' p)
               else do {
                 let p = udp_Start opens now p;
                 (m, con) \<leftarrow> StartRead E opens input (pr_machine p, pr_console p);
                 Some (0, p\<lparr>pr_machine := m, pr_console := con\<rparr>)
               })
      })"

section \<open>The control handler\<close>

datatype ctrl = CTRL_C_EVENT | CTRL_BREAK_EVENT | CTRL_CLOSE_EVENT | CTRL_LOGOFF_EVENT | CTRL_SHUTDOWN_EVENT

definition close_process :: "'e env \<Rightarrow> (string \<Rightarrow> bool) \<Rightarrow> 'e process \<Rightarrow> 'e process option" where
  "close_process E opens p = do {
     let p = console_Stop opens p;
     w \<leftarrow> RemoveAllRooms E (m_world (pr_machine p));
     w \<leftarrow> DisconnectAllUsers w;
     let p = DB_Stop E (on_machine (\<lambda>m. m\<lparr>m_world := w\<rparr>) p);
     Some (udp_Stop opens (tcp_Stop opens p))
   }"

fun ConsoleCtrlHandler :: "'e env \<Rightarrow> (string \<Rightarrow> bool) \<Rightarrow> ctrl \<Rightarrow> 'e process \<Rightarrow> (bool \<times> 'e process) option" where
  "ConsoleCtrlHandler E opens CTRL_C_EVENT p = Some (True, p)"
| "ConsoleCtrlHandler E opens CTRL_BREAK_EVENT p = Some (True, p)"
| "ConsoleCtrlHandler E opens _ p = map_option (Pair True) (close_process E opens p)"

end
