(* ===== verification/ConfigProperties.thy ===== *)
theory ConfigProperties
  imports Samples LoadConfig
begin

text \<open>
  What \<open>ServerConfig::Load\<close> guarantees: the configurations it returns are those the server is
  correct under.
\<close>

section \<open>Merging the file with the defaults\<close>

lemma map_of_map_insert [simp]: "map_of (map_insert k v m) = (map_of m)(k \<mapsto> v)"
  by (induction k v m rule: map_insert.induct) auto

lemma json_contains_at: "json_contains key j \<longleftrightarrow> json_at key j \<noteq> None"
  by (simp add: json_contains_def json_at_def split: json.split)

text \<open>An entry of the file that is no object replaces the one of the defaults; the others stay.\<close>

lemma json_update_entries_at:
  assumes "json_update_entries m cs = Some m'" and "distinct (map fst cs)"
    and "\<And>v. (key, v) \<in> set cs \<Longrightarrow> \<not> is_object v"
  shows "map_of m' key = (case map_of cs key of None \<Rightarrow> map_of m key | v \<Rightarrow> v)"
  using assms
proof (induction cs arbitrary: m)
  case (Cons c cs)
  obtain k v where c: "c = (k, v)" by fastforce
  obtain m1 x where m1: "m1 = map_insert k x m" "\<not> is_object v \<longrightarrow> x = v"
      and rest: "json_update_entries m1 cs = Some m'"
    using Cons.prems(1) c by (auto simp: bind_eq_Some_conv split: if_splits option.splits)
  have "map_of m' key = (case map_of cs key of None \<Rightarrow> map_of m1 key | v \<Rightarrow> v)"
    using Cons.prems(2,3) c by (intro Cons.IH [OF rest]) (auto split: if_splits)
  moreover have "map_of cs k = None" using Cons.prems(2) c by (simp add: map_of_eq_None_iff)
  ultimately show ?case using c m1 Cons.prems(3) [of v] by (cases "key = k") (simp_all split: option.split)
qed simp

section \<open>What the other fields leave alone\<close>

definition lists :: "ServerConfig \<Rightarrow> Server list \<times> BuyMenu list" where
  "lists cfg = (cfg_serverList cfg, cfg_defaultBuyMenus cfg)"

lemma load_field_lists:
  assumes "load_field get key dflt assign config cfg = Some cfg'" and "\<And>v. lists (assign v cfg) = lists cfg"
  shows "lists cfg' = lists cfg"
  using assms by (auto simp: load_field_def split: if_splits)

lemma load_network_lists: "load_network E config cfg = Some cfg' \<Longrightarrow> lists cfg' = lists cfg"
  unfolding load_network_def bind_eq_Some_conv
  by (elim exE conjE, (drule load_field_lists, simp add: lists_def)+) simp

lemma load_sql_keeps: "load_sql config cfg = Some cfg' \<Longrightarrow>
    lists cfg' = lists cfg \<and> cfg_serverID cfg' = cfg_serverID cfg \<and> cfg_channelID cfg' = cfg_channelID cfg"
  by (auto simp: load_sql_def lists_def bind_eq_Some_conv split: if_splits)

section \<open>The list of servers\<close>

text \<open>What \<open>Load\<close> makes of a channel: the id given, no players, online exactly when it is our own.\<close>

definition fresh_channel :: "ServerConfig \<Rightarrow> u8 \<Rightarrow> u8 \<Rightarrow> Channel \<Rightarrow> bool" where
  "fresh_channel cfg sid cid ch \<longleftrightarrow> ch_id ch = cid \<and> ch_numPlayers ch = 0 \<and>
     ch_isOnline ch = (sid = cfg_serverID cfg \<and> cid = cfg_channelID cfg)"

definition fresh_server :: "ServerConfig \<Rightarrow> u8 \<Rightarrow> Server \<Rightarrow> bool" where
  "fresh_server cfg sid s \<longleftrightarrow> sv_id s = sid \<and>
     (\<forall>j < length (sv_channels s). fresh_channel cfg sid (of_nat (Suc j)) (sv_channels s ! j))"

lemma load_channel_fresh: "load_channel cfg sid cid j = Some ch \<Longrightarrow> fresh_channel cfg sid cid ch"
  by (auto simp: load_channel_def fresh_channel_def new_Channel_def bind_eq_Some_conv Let_def split: if_splits)

lemma load_channels_fresh:
  assumes "load_channels cfg sid (of_nat k) js = Some chs" and "j < length chs"
  shows "fresh_channel cfg sid (of_nat (k + j)) (chs ! j)"
  using assms
proof (induction js arbitrary: k j chs)
  case (Cons c js)
  obtain ch rest where *: "load_channel cfg sid (of_nat k) c = Some ch"
      "load_channels cfg sid (of_nat (Suc k)) js = Some rest" "chs = ch # rest"
    using Cons.prems(1) by (auto simp: bind_eq_Some_conv add.commute)
  show ?case
  proof (cases j)
    case (Suc i)
    then show ?thesis using Cons.IH [OF *(2), of i] Cons.prems(2) *(3) by simp
  qed (use load_channel_fresh [OF *(1)] *(3) in simp)
qed simp

lemma load_server_fresh:
  assumes "load_server cfg sid j = Some s" shows "fresh_server cfg sid s"
proof -
  have "fresh_channel cfg sid (of_nat (Suc i)) (chs ! i)"
    if "load_channels cfg sid 1 js = Some chs" "i < length chs" for js chs i
    using load_channels_fresh [of cfg sid 1 js chs i] that by simp
  then show ?thesis using assms
    by (auto simp: load_server_def fresh_server_def bind_eq_Some_conv split: if_splits)
qed

lemma load_servers_fresh:
  assumes "load_servers cfg (of_nat k) js = Some ss" and "i < length ss"
  shows "fresh_server cfg (of_nat (k + i)) (ss ! i)"
  using assms
proof (induction js arbitrary: k i ss)
  case (Cons c js)
  obtain s rest where *: "load_server cfg (of_nat k) c = Some s"
      "load_servers cfg (of_nat (Suc k)) js = Some rest" "ss = s # rest"
    using Cons.prems(1) by (auto simp: bind_eq_Some_conv add.commute)
  show ?case
  proof (cases i)
    case (Suc n)
    then show ?thesis using Cons.IH [OF *(2), of n] Cons.prems(2) *(3) by simp
  qed (use load_server_fresh [OF *(1)] *(3) in simp)
qed simp

section \<open>The default buy menus\<close>

definition full_menus :: "BuyMenu list \<Rightarrow> bool" where
  "full_menus bms \<longleftrightarrow> (\<forall>bm \<in> set bms. length (bm_items bm) = BUYMENU_MAX_SLOT)"

lemma load_menus_full: "load_menus c menu names = Some bms \<Longrightarrow> full_menus bms"
proof (induction names arbitrary: c bms)
  case (Cons n names)
  then show ?case by (fastforce simp: bind_eq_Some_conv full_menus_def resize_def split: if_splits)
qed (simp add: full_menus_def)

definition full_like :: "ServerConfig \<Rightarrow> ServerConfig \<Rightarrow> bool" where
  "full_like cfg c \<longleftrightarrow> full_menus (cfg_defaultBuyMenus c) \<and> cfg_serverList c = cfg_serverList cfg \<and>
     cfg_serverID c = cfg_serverID cfg \<and> cfg_channelID c = cfg_channelID cfg"

lemma full_like_simps [simp]: "full_like cfg (c\<lparr>cfg_prohibitedNames := ns\<rparr>) = full_like cfg c"
  "full_like cfg (c\<lparr>cfg_defaultInventory := xs\<rparr>) = full_like cfg c"
  by (simp_all add: full_like_def)

lemma load_team_full: "load_team team first menus c = Some c' \<Longrightarrow> full_like cfg c \<Longrightarrow> full_like cfg c'"
  using load_menus_full
  by (fastforce simp: load_team_def full_like_def bind_eq_Some_conv full_menus_def split: if_splits)

lemma load_defaults_full: "load_defaults config c = Some c' \<Longrightarrow> full_like cfg c \<Longrightarrow> full_like cfg c'"
  unfolding load_defaults_def
  by (auto simp: bind_eq_Some_conv split: if_splits dest!: load_team_full [of _ _ _ _ _ cfg])

section \<open>Every configuration loaded\<close>

lemma load_json_fresh:
  assumes "load_json E config new_ServerConfig = Some cfg"
  shows "full_menus (cfg_defaultBuyMenus cfg) \<and>
    (\<forall>i < length (cfg_serverList cfg). fresh_server cfg (of_nat (Suc i)) (cfg_serverList cfg ! i))"
proof -
  obtain c1 c2 c3 where *: "load_network E config new_ServerConfig = Some c1" "load_serverList config c1 = Some c2"
      "load_sql config c2 = Some c3" "load_defaults config c3 = Some cfg"
    using assms by (auto simp: load_json_def bind_eq_Some_conv)
  have c1: "cfg_serverList c1 = []" "cfg_defaultBuyMenus c1 = []"
    using load_network_lists [OF *(1)] by (simp_all add: lists_def new_ServerConfig_def)
  have c2: "cfg_defaultBuyMenus c2 = [] \<and> cfg_serverID c2 = cfg_serverID c1 \<and> cfg_channelID c2 = cfg_channelID c1 \<and>
      (\<forall>i < length (cfg_serverList c2). fresh_server c1 (of_nat (Suc i)) (cfg_serverList c2 ! i))"
    using *(2) c1 load_servers_fresh [of c1 1]
    by (auto simp: load_serverList_def bind_eq_Some_conv split: if_splits)
  have "full_like c3 c3" using load_sql_keeps [OF *(3)] c2 by (simp add: full_like_def lists_def full_menus_def)
  then have "full_like c3 cfg" by (rule load_defaults_full [OF *(4)])
  then show ?thesis using load_sql_keeps [OF *(3)] c2
    by (simp add: full_like_def lists_def fresh_server_def fresh_channel_def)
qed

lemma Load_fresh:
  assumes "Load E f new_ServerConfig = Some (True, cfg)"
  shows "full_menus (cfg_defaultBuyMenus cfg) \<and>
    (\<forall>i < length (cfg_serverList cfg). fresh_server cfg (of_nat (Suc i)) (cfg_serverList cfg ! i))"
  using assms load_json_fresh by (cases f) (fastforce simp: bind_eq_Some_conv)+

text \<open>
  A field of the wrong type ends the process: \<open>Load\<close> only catches parse errors, while \<open>value\<close> throws a
  type error. The port written as a string is an instance.
\<close>

lemma wrong_type_ends_process:
  assumes "distinct (map fst cs)" and "map_of cs ''Port'' = Some (JString s)"
  shows "Load E (Parsed (JObject cs)) cfg = None"
proof (cases "json_update defaultServerConfig (JObject cs)")
  case (Some config)
  have "(''Port'', v) \<in> set cs \<Longrightarrow> v = JString s" for v using map_of_is_SomeI [OF assms(1)] assms(2) by fastforce
  then have "json_at ''Port'' config = Some (JString s)"
    using Some json_update_entries_at [OF _ assms(1), of _ _ "''Port''"] assms(2)
    by (fastforce simp: json_at_def is_object_def split: option.splits)
  then have "load_field get_int ''Port'' 8001 assign config c = None" for assign c
    by (auto simp: load_field_def json_contains_at json_at_def json_value_def split: json.splits)
  then show ?thesis using Some by (simp add: load_json_def load_network_def)
qed simp

lemma fresh_menus:
  assumes "Load E f new_ServerConfig = Some (True, cfg)"
  shows "\<forall>bm \<in> set (cfg_defaultBuyMenus cfg). length (bm_items bm) = BUYMENU_MAX_SLOT"
  using Load_fresh [OF assms] by (simp add: full_menus_def)

lemma fresh_at:
  assumes load: "Load E f new_ServerConfig = Some (True, cfg)" and ch: "channel_at cfg s c = Some ch"
  shows "fresh_channel cfg s c ch"
proof -
  obtain sv where sv: "server_at cfg s = Some sv" "vec_at (sv_channels sv) (unat (c - 1)) = Some ch"
    using ch by (auto simp: channel_at_def bind_eq_Some_conv)
  have id: "of_nat (Suc (unat (x - 1))) = x" for x :: u8 by simp
  have "fresh_server cfg s sv" using Load_fresh [OF load] sv(1) id [of s]
    by (auto simp: server_at_def vec_at_def split: if_splits)
  then show ?thesis using sv(2) id [of c] by (auto simp: fresh_server_def vec_at_def split: if_splits)
qed

lemma loaded_configured:
  assumes load: "Load E f new_ServerConfig = Some (True, cfg)"
    and size: "length (cfg_serverList cfg) < 256" "\<forall>s \<in> set (cfg_serverList cfg). length (sv_channels s) < 256"
    and own: "channel_at cfg (cfg_serverID cfg) (cfg_channelID cfg) \<noteq> None"
    and db: "schema_ok E" "rooms_table_ok E cfg"
  shows "configured E cfg"
proof -
  have "numbered cfg" using Load_fresh [OF load] size
    by (auto simp: numbered_def server_ids_def Let_def fresh_server_def fresh_channel_def)
  then show ?thesis using db fresh_menus [OF load] own fresh_at [OF load]
    by (auto simp: configured_def served_def menus_ok_def fresh_channel_def)
qed


text \<open>Without a file the server starts as channel 1 of server 1, with the default menus filled up to nine slots.\<close>

lemma default_config_loads:
  "map_option (\<lambda>(ok, cfg). (ok, (cfg_serverID cfg, cfg_channelID cfg, cfg_port cfg, cfg_maxPlayers cfg),
       cfg_decryptCipherMethod cfg,
       map (\<lambda>s. (sv_id s, sv_name s, map (\<lambda>c. (ch_id c, ch_name c)) (sv_channels s))) (cfg_serverList cfg),
       map bm_items (cfg_defaultBuyMenus cfg) ! 1, length (cfg_defaultBuyMenus cfg)))
     (Load null_env CannotOpen new_ServerConfig) =
   Some (True, (1, 1, 8001, 600), RC4, [(1, ''Server 1'', [(1, ''Channel 1-1'')])], [7, 8, 38, 0, 0, 0, 0, 0, 0], 14)"
  by code_simp

lemma default_config_facts:
  "\<exists>cfg. Load null_env CannotOpen new_ServerConfig = Some (True, cfg) \<and> length (cfg_serverList cfg) < 256 \<and>
    (\<forall>s \<in> set (cfg_serverList cfg). length (sv_channels s) < 256) \<and>
    channel_at cfg (cfg_serverID cfg) (cfg_channelID cfg) \<noteq> None \<and> schema_ok null_env \<and> rooms_table_ok null_env cfg"
proof -
  obtain cfg where load: "Load null_env CannotOpen new_ServerConfig = Some (True, cfg)"
      and ids: "cfg_serverID cfg = 1" "cfg_channelID cfg = 1"
      and list: "map (\<lambda>s. (sv_id s, sv_name s, map (\<lambda>c. (ch_id c, ch_name c)) (sv_channels s))) (cfg_serverList cfg) =
        [(1, ''Server 1'', [(1, ''Channel 1-1'')])]"
    using default_config_loads by (auto simp: map_option_case split: option.splits)
  obtain s c where s: "cfg_serverList cfg = [s]" "sv_channels s = [c]" using list by auto
  have "rooms_table_ok null_env cfg" by (simp add: rooms_table_ok_def null_env_def)
  then show ?thesis
    using load s ids sample_served(1) by (simp add: served_def channel_at_def server_at_def vec_at_def)
qed


end
