(* ===== verification/RunProperties.thy ===== *)
theory RunProperties
  imports Samples
begin

text \<open>
  The server as a whole: the facts that hold in every state it can reach, the safety of its steps,
  and what happens to connections and at the shutdown.
\<close>

section \<open>Every reachable state\<close>











section \<open>Connections and shutdown\<close>

text \<open>
  A connection is closed at once on a bad header, but stays in the server's set. When the
  signature of a header is not 0x55 the socket is closed and a user of the connection is removed,
  yet the connection remains among those the console counts, since only a socket error erases it and
  no read is pending that could fail.
\<close>

lemma bad_header_stays_listed:
  assumes "machine_inv m" and "\<not> ci_ctx (c_decryptCipher (w_conns (m_world m) c))"
    and "sg \<noteq> TCP_PACKET_SIGNATURE" and "c \<noteq> 0"
  shows "wp (receive_header E c [sg, sq, a, b] m) (\<lambda>m'. machine_inv m' \<and> \<not> c_is_open (w_conns (m_world m') c) \<and>
    m_connections m' = m_connections m \<and> m_pending m' = m_pending m)"
proof -
  obtain k e where r: "onReadHeader E c [sg, sq, a, b] (w_conns (m_world m) c) (w_ext (m_world m)) = (ReadDisconnect, k, e)"
    using assms(2,3)
    by (simp add: onReadHeader_def Packet_Client_def IsValid_def ReadUInt8_def ReadUInt16_LE_def ReadBytes_def Let_def)
  let ?m = "set_conn c k e m"
  have m: "machine_inv ?m"
    using set_conn_stays [OF assms(1) idle_conn_link [OF onReadHeader_link [OF r] idle_conn_at [OF assms(1)]], of c e]
    by (simp add: stays_def)
  obtain w where w: "DisconnectUserByConnection E c False (m_world ?m) = Some w" "keeps (m_world ?m) w"
    using DisconnectUserByConnection_keeps [OF machine_invD(1) [OF m], of E c False] by (auto simp: wp_iff)
  have "\<not> c_is_open (w_conns w c)"
    using w(1) assms(4)
    by (auto simp: DisconnectUserByConnection_def bind_eq_Some_conv upd_conn_def DisconnectClient_def)
  moreover have "idle w"
    using idle_kept [OF disconnect_frames(2) [OF link_refl] machine_invD(4) [OF m] w(1)] .
  ultimately show ?thesis
    using r w m by (simp add: receive_header_def disconnect_def machine_inv_def keeps_def Let_def set_conn_def)
qed

lemma bad_header_stays_listed_witness:
  "wp (receive_header null_env 5 [0, 1, 0, 0] (startAccept 5 ''127.0.0.1'' 1 (start_server null_env 0 empty_cfg ())))
    (\<lambda>m'. machine_inv m' \<and> \<not> c_is_open (w_conns (m_world m') 5) \<and> m_connections m' = [5] \<and> m_pending m' = (\<lambda>_. None))"
proof -
  let ?m = "startAccept 5 ''127.0.0.1'' 1 (start_server null_env 0 empty_cfg ())"
  have "machine_inv ?m" "m_connections ?m = [5]" "m_pending ?m = (\<lambda>_. None)"
    using startAccept_stays [OF start_server_inv(1) [OF empty_configured], of 5 0 "()" "''127.0.0.1''" 1]
    by (simp_all add: stays_def startAccept_def start_server_def udp_start_def fun_eq_iff)
  moreover have "\<not> ci_ctx (c_decryptCipher (w_conns (m_world ?m) 5))"
    by (simp add: startAccept_def upd_conn_def new_conn_def new_Cipher_def)
  ultimately show ?thesis
    using bad_header_stays_listed [of ?m 5 0 null_env 1 0 0] by (simp add: TCP_PACKET_SIGNATURE_def)
qed

lemma drop_connections_effect:
  "m_connections (drop_connections cs m) = fold remove1 cs (m_connections m) \<and>
   (\<forall>c. c_is_open (w_conns (m_world (drop_connections cs m)) c) \<longleftrightarrow> c \<notin> set cs \<and> c_is_open (w_conns (m_world m) c)) \<and>
   w_rooms (m_world (drop_connections cs m)) = w_rooms (m_world m) \<and>
   w_users (m_world (drop_connections cs m)) = w_users (m_world m) \<and>
   w_roomList (m_world (drop_connections cs m)) = w_roomList (m_world m)"
proof (induction cs arbitrary: m)
  case (Cons d cs)
  let ?m = "m\<lparr>m_connections := remove1 d (m_connections m), m_world := upd_conn d DisconnectClient (m_world m)\<rparr>"
  have "drop_connections (d # cs) m = drop_connections cs ?m" by (simp add: drop_connections_def)
  moreover have "c_is_open (w_conns (m_world ?m) c) \<longleftrightarrow> c \<noteq> d \<and> c_is_open (w_conns (m_world m) c)" for c
    by (simp add: upd_conn_def DisconnectClient_def)
  ultimately show ?case using Cons.IH [of ?m] by (simp add: upd_conn_def) blast
qed (simp add: drop_connections_def)

lemma fold_remove1_self: "fold remove1 cs cs = []"
proof -
  have "fold remove1 cs (cs @ ds) = ds" for ds by (induction cs) simp_all
  from this [of "[]"] show ?thesis by simp
qed

text \<open>
  The control handler shuts the server down completely, from any consistent state: it returns,
  no room is left, every user is out of the rooms, every TCP connection the server has is closed and
  forgotten, and the UDP server is stopped.
\<close>

lemma shutdown_leaves_nothing:
  fixes m :: "'e machine"
  assumes E: "characters_ok E" and inv: "machine_inv m"
  shows "wp (ctrl_close E m) (\<lambda>m'. w_rooms (m_world m') = (\<lambda>_. None) \<and> w_roomList (m_world m') = [] \<and>
    (\<forall>p u. w_users (m_world m') p = Some u \<longrightarrow> \<not> in_room u) \<and>
    m_connections m' = [] \<and> (\<forall>c \<in> set (m_connections m). \<not> c_is_open (w_conns (m_world m') c)) \<and>
    \<not> w_udpRunning (m_world m'))"
proof -
  note lob = server_invD(1) [OF machine_invD(1) [OF inv]]
  obtain w1 where w1: "RemoveAllRooms E (m_world m) = Some w1" "core w1 = core (no_rooms (m_world m))"
    using RemoveAllRooms_step [OF E lob] by (auto simp: wp_iff)
  have k1: "server_inv w1"
    using RemoveAllRooms_keeps [OF E machine_invD(1) [OF inv]] w1(1) by (simp add: keeps_def)
  obtain w2 where w2: "DisconnectAllUsers w1 = Some w2" "core w2 = core w1"
    using DisconnectAllUsers_quiet [OF k1] by (auto simp: quiet_def wp_iff)
  let ?w3 = "w2\<lparr>w_ext := DB_Shutdown E (w_cfg w2) (w_ext w2)\<rparr>"
  have c3: "core ?w3 = core (no_rooms (m_world m))" using w1(2) w2(2) by simp
  have rooms: "w_rooms ?w3 = (\<lambda>_. None)" "w_roomList ?w3 = []"
    using core_eqD(2,4) [OF c3] by (simp_all add: no_rooms_def)
  have "lobby_inv ?w3" using no_rooms_inv [OF lob] core_lobby_inv [OF c3] by simp
  then have out: "\<forall>p u. w_users ?w3 p = Some u \<longrightarrow> \<not> in_room u"
    using rooms by (auto simp: lobby_inv_def user_ok_def)
  let ?m = "tcp_shutdown (m\<lparr>m_world := ?w3\<rparr>)"
  have m: "m_connections ?m = []" "w_rooms (m_world ?m) = w_rooms ?w3" "w_roomList (m_world ?m) = w_roomList ?w3"
    "w_users (m_world ?m) = w_users ?w3" "\<And>c. c \<in> set (m_connections m) \<Longrightarrow> \<not> c_is_open (w_conns (m_world ?m) c)"
    by (simp_all add: tcp_shutdown_def drop_connections_effect fold_remove1_self)
  let ?g = "sendGoodbytePacketToAll (m_world ?m)"
  have g: "core ?g = core (m_world ?m)" by (simp add: sendGoodbytePacketToAll_def)
  have conns: "w_conns (fold (\<lambda>ch. sendPacket (ch_ip ch, ch_port ch) ws) cs v) = w_conns v" for ws cs and v :: "'e world"
    by (induction cs arbitrary: v) (simp_all add: sendPacket_def)
  then have gc: "w_conns ?g = w_conns (m_world ?m)" by (simp add: sendGoodbytePacketToAll_def send_to_channels_def)
  show ?thesis
    using w1(1) w2(1) m rooms out gc core_eqD(1,2,4) [OF g]
    by (cases "w_udpRunning (m_world ?m)") (simp_all add: ctrl_close_def udp_shutdown_def Let_def)
qed

section \<open>One packet at a time\<close>



end
