(* ===== verification/ProcessProperties.thy ===== *)
theory ProcessProperties
  imports Process ConfigProperties RunProperties
begin

text \<open>
  What holds of the process: starting and stopping a thread twice does nothing (the locale \<open>service\<close>),
  one process per channel touches the database, and \<open>main\<close> ends in the states of the other theories.
\<close>

section \<open>Threads\<close>

text \<open>The same process but for what was printed.\<close>

definition same_process :: "'e process \<Rightarrow> 'e process \<Rightarrow> bool" where
  "same_process p q \<longleftrightarrow> pr_tcpThread q = pr_tcpThread p \<and> pr_udpThread q = pr_udpThread p \<and>
     pr_database q = pr_database p \<and> pr_machine q = pr_machine p \<and>
     con_thread (pr_console q) = con_thread (pr_console p) \<and> con_running (pr_console q) = con_running (pr_console p)"

lemma same_process_refl [simp]: "same_process p p"
  by (simp add: same_process_def)

lemma Print_thread [simp]: "con_thread (Print opens t txt b con) = con_thread con"
  "con_running (Print opens t txt b con) = con_running con"
  by (simp_all add: Let_def show_line_def)

lemma say_thread [simp]: "con_thread (say opens t txt con) = con_thread con"
  "con_running (say opens t txt con) = con_running con"
  by (simp_all add: say_def del: Print.simps)

lemma tell_same [simp]: "same_process p (tell opens t txt p)"
  by (simp add: same_process_def tell_def)

lemma tell_simps [simp]:
  "pr_tcpThread (tell opens t txt p) = pr_tcpThread p" "pr_udpThread (tell opens t txt p) = pr_udpThread p"
  "pr_database (tell opens t txt p) = pr_database p" "pr_machine (tell opens t txt p) = pr_machine p"
  "config (tell opens t txt p) = config p" "database (tell opens t txt p) = database p"
  "con_thread (pr_console (tell opens t txt p)) = con_thread (pr_console p)"
  by (simp_all add: tell_def config_def database_def)

locale service =
  fixes joinable :: "'e process \<Rightarrow> bool"
    and start :: "'e process \<Rightarrow> 'e process"
    and stop :: "'e process \<Rightarrow> 'e process"
  assumes started: "joinable (start p)"
    and stopped: "\<not> joinable (stop p)"
    and start_running: "joinable p \<Longrightarrow> same_process p (start p)"
    and stop_idle: "\<not> joinable p \<Longrightarrow> same_process p (stop p)"
begin

lemma start_twice: "same_process (start p) (start (start p))"
  by (rule start_running [OF started])

lemma stop_twice: "same_process (stop p) (stop (stop p))"
  by (rule stop_idle [OF stopped])

end

interpretation console_thread: service "\<lambda>p. con_thread (pr_console p)" "console_Start opens" "console_Stop opens" for opens
  by unfold_locales (auto simp: console_Start_def console_Stop_def console_shutdown_def Let_def)

interpretation tcp_thread: service pr_tcpThread "tcp_Start opens" "tcp_Stop opens" for opens
  by unfold_locales (auto simp: tcp_Start_def tcp_Stop_def tcp_stop_thread_def)

interpretation udp_thread: service pr_udpThread "udp_Start opens now" "udp_Stop opens" for opens now
  by unfold_locales (auto simp: udp_Start_def udp_Stop_def udp_stop_thread_def)

section \<open>One process per channel\<close>

lemma fmt_no_dash: "CHR ''-'' \<notin> set (fmt (w :: 'a::len word))"
  using dec_digits [of "unat w"] by (auto simp: fmt_def list_all_iff is_digit_def)

lemma fmt_inject: "fmt (v :: 'a::len word) = fmt w \<longleftrightarrow> v = w"
  by (metis digits_val_dec fmt_def of_nat_eq_iff word_unat_eq_iff)

lemma mutex_name_eq:
  "mutex_name cfg = mutex_name cfg' \<longleftrightarrow>
     cfg_serverID cfg = cfg_serverID cfg' \<and> cfg_channelID cfg = cfg_channelID cfg'"
  by (auto simp: mutex_name_def append_Cons_eq_iff fmt_no_dash fmt_inject)

text \<open>What \<open>main\<close> has done to the process when it gives up before the database.\<close>

definition untouched :: "'e process \<Rightarrow> 'e process \<Rightarrow> bool" where
  "untouched p p' \<longleftrightarrow> database p' = database p \<and> pr_database p' = pr_database p \<and>
     pr_tcpThread p' = pr_tcpThread p \<and> pr_udpThread p' = pr_udpThread p"

lemma untouched_tell [simp]: "untouched p (tell opens t txt p') = untouched p p'"
  by (simp add: untouched_def)

lemma untouched_start [simp]: "untouched p (console_Start opens p)"
  by (simp add: untouched_def console_Start_def Let_def database_def)

lemma load_config_untouched: "load_config E opens b p = Some (ok, p') \<Longrightarrow> untouched p p'"
  by (auto simp: load_config_def Let_def bind_eq_Some_conv untouched_def on_machine_def database_def tell_def
      split: if_splits)

lemma untouched_trans: "untouched p q \<Longrightarrow> untouched q r \<Longrightarrow> untouched p r"
  by (simp add: untouched_def)

text \<open>
  C14: a second process for a channel does no harm. The mutexes of two configurations have the same
  name exactly when they are for the same channel of the same server; and a process that does not get its mutex
  (or has no console or no valid configuration) gives up with -1, opens no connection to the database, starts no server and
  leaves the database as it was, also when its objects are destroyed at the end.
\<close>

theorem second_process_harmless:
  assumes run: "main E opens now b input p = Some (code, p')" and fresh: "\<not> pr_database p"
  shows "(mutex_name cfg = mutex_name cfg' \<longleftrightarrow>
      cfg_serverID cfg = cfg_serverID cfg' \<and> cfg_channelID cfg = cfg_channelID cfg') \<and>
    (\<not> mutex_owned b \<or> bt_file b = ParseError \<or> \<not> bt_console b \<longrightarrow> code = -1 \<and>
      pr_tcpThread p' = pr_tcpThread p \<and> pr_udpThread p' = pr_udpThread p \<and> \<not> pr_database p' \<and>
      database (DB_Stop E p') = database p)"
proof (intro conjI impI)
  assume no: "\<not> mutex_owned b \<or> bt_file b = ParseError \<or> \<not> bt_console b"
  have "code = -1 \<and> untouched p p'"
  proof (cases "bt_console b")
    case True
    then obtain ok q where q: "load_config E opens b (console_Start opens p) = Some (ok, q)"
      using run by (auto simp: main_def bind_eq_Some_conv)
    have "untouched p q" by (rule untouched_trans [OF untouched_start load_config_untouched [OF q]])
    moreover have "\<not> ok" if "bt_file b = ParseError"
      using q that by (auto simp: load_config_def Let_def bind_eq_Some_conv)
    ultimately show ?thesis using run no True q by (auto simp: main_def split: if_splits)
  qed (use run in \<open>auto simp: main_def untouched_def\<close>)
  then show "code = -1" "pr_tcpThread p' = pr_tcpThread p" "pr_udpThread p' = pr_udpThread p" "\<not> pr_database p'"
    "database (DB_Stop E p') = database p"
    using fresh by (simp_all add: untouched_def DB_Stop_def)
qed (rule mutex_name_eq)

definition new_process :: "'e \<Rightarrow> 'e process" where
  "new_process e = \<lparr>pr_console = new_console, pr_tcpThread = False, pr_udpThread = False, pr_database = False,
     pr_machine = \<lparr>m_connections = [], m_pending = (\<lambda>_. None), m_secondCount = 0,
       m_udp = \<lparr>us_currentTime = 0, us_pingRequests = []\<rparr>,
       m_world = \<lparr>w_users = (\<lambda>_. None), w_rooms = (\<lambda>_. None), w_conns = (\<lambda>_. new_conn [] 0), w_userList = [],
         w_roomList = [], w_next = 1, w_cfg = new_ServerConfig, w_udpRunning = False, w_udpOut = [], w_ext = e\<rparr>\<rparr>\<rparr>"

lemma console_Start_simps [simp]:
  "pr_machine (console_Start opens p) = pr_machine p" "config (console_Start opens p) = config p"
  "pr_tcpThread (console_Start opens p) = pr_tcpThread p" "pr_udpThread (console_Start opens p) = pr_udpThread p"
  by (simp_all add: console_Start_def Let_def config_def)

lemma load_config_machine:
  assumes "Load E (bt_file b) (config p) = Some (ok, cfg)"
  shows "\<exists>q. load_config E opens b p = Some (ok, q) \<and>
    pr_machine q = (pr_machine p)\<lparr>m_world := (m_world (pr_machine p))\<lparr>w_cfg := cfg\<rparr>\<rparr>"
proof -
  define q where "q = (if bt_file b = CannotOpen
    then tell opens Warn ''[ ServerConfig ] Couldn't open serverconfig.json, using default values!'' p else p)"
  have "config q = config p" "pr_machine q = pr_machine p" by (simp_all add: q_def)
  with assms show ?thesis
    unfolding load_config_def q_def [symmetric] by (cases ok) (simp_all add: Let_def on_machine_def)
qed

lemma load_config_new:
  assumes load: "Load E (bt_file b) new_ServerConfig = Some (True, cfg)"
  obtains p where "load_config E opens b (console_Start opens (new_process e)) = Some (True, p)"
    and "config p = cfg" and "untouched (new_process e) p"
    and "pr_machine p = (pr_machine (new_process e))\<lparr>m_world := (m_world (pr_machine (new_process e)))\<lparr>w_cfg := cfg\<rparr>\<rparr>"
proof -
  have "config (new_process e) = new_ServerConfig" by (simp add: config_def new_process_def)
  then have "\<exists>p. load_config E opens b (console_Start opens (new_process e)) = Some (True, p) \<and>
      pr_machine p = (pr_machine (new_process e))\<lparr>m_world := (m_world (pr_machine (new_process e)))\<lparr>w_cfg := cfg\<rparr>\<rparr>"
    using load_config_machine [of E b "console_Start opens (new_process e)" True cfg opens] load by simp
  then obtain p where p: "load_config E opens b (console_Start opens (new_process e)) = Some (True, p)"
    "pr_machine p = (pr_machine (new_process e))\<lparr>m_world := (m_world (pr_machine (new_process e)))\<lparr>w_cfg := cfg\<rparr>\<rparr>"
    by blast
  moreover have "untouched (new_process e) p"
    by (rule untouched_trans [OF untouched_start load_config_untouched [OF p(1)]])
  ultimately show ?thesis using that by (simp add: config_def)
qed

definition good_boot :: "config_file \<Rightarrow> boot" where
  "good_boot f = \<lparr>bt_console = True, bt_file = f, bt_parse_error = [], bt_mutex = True, bt_wait = 0,
     bt_mysql_error = None, bt_tcp_error = None, bt_udp_error = None\<rparr>"

definition late_boot :: boot where
  "late_boot = (good_boot CannotOpen)\<lparr>bt_wait := 258\<rparr>"

lemma second_process_harmless_witness:
  "wp (main null_env (\<lambda>_. True) 0 late_boot [] (new_process ())) (\<lambda>(code, p'). code = -1 \<and> \<not> pr_tcpThread p')"
proof -
  obtain cfg where "Load null_env (bt_file late_boot) new_ServerConfig = Some (True, cfg)"
    using default_config_loads by (auto simp: late_boot_def good_boot_def)
  then obtain q where q: "load_config null_env (\<lambda>_. True) late_boot (console_Start (\<lambda>_. True) (new_process ())) = Some (True, q)"
    by (rule load_config_new)
  have "main null_env (\<lambda>_. True) 0 late_boot [] (new_process ()) =
    Some (-1, tell (\<lambda>_. True) Fatal ''[ Main ] This server channel is already running in another process!'' q)"
    using q by (simp add: main_def late_boot_def good_boot_def mutex_owned_def WAIT_ABANDONED_def)
  note run = this
  have "\<not> pr_database (new_process ())" by (simp add: new_process_def)
  from second_process_harmless [OF run this, of new_ServerConfig new_ServerConfig] run show ?thesis
    by (simp add: late_boot_def good_boot_def mutex_owned_def WAIT_ABANDONED_def new_process_def)
qed

section \<open>Starting\<close>



section \<open>The end of the process\<close>

lemma console_Stop_simps [simp]:
  "pr_machine (console_Stop opens p) = pr_machine p" "pr_database (console_Stop opens p) = pr_database p"
  "pr_tcpThread (console_Stop opens p) = pr_tcpThread p" "pr_udpThread (console_Stop opens p) = pr_udpThread p"
  by (simp_all add: console_Stop_def console_shutdown_def Let_def)

text \<open>With everything running the handler does to the machine what \<open>ctrl_close\<close> does.\<close>

lemma close_process_machine:
  assumes "pr_tcpThread p" and "pr_udpThread p" and "pr_database p" and "ctrl_close E (pr_machine p) = Some m"
  shows "\<exists>p'. close_process E opens p = Some p' \<and> pr_machine p' = m \<and> \<not> con_thread (pr_console p') \<and>
    \<not> pr_tcpThread p' \<and> \<not> pr_udpThread p' \<and> \<not> pr_database p'"
proof -
  obtain w1 w2 where w: "RemoveAllRooms E (m_world (pr_machine p)) = Some w1" "DisconnectAllUsers w1 = Some w2"
    and m: "m = (let m = tcp_shutdown ((pr_machine p)\<lparr>m_world := w2\<lparr>w_ext := DB_Shutdown E (w_cfg w2) (w_ext w2)\<rparr>\<rparr>);
       (us, w) = udp_shutdown (m_udp m, m_world m) in m\<lparr>m_udp := us, m_world := w\<rparr>)"
    using assms(4) by (auto simp: ctrl_close_def bind_eq_Some_conv Let_def split_def)
  have "\<not> con_thread (pr_console (console_Stop opens p))" by (rule console_thread.stopped)
  then show ?thesis
    using assms(1-3) w
    by (simp add: close_process_def DB_Stop_def tcp_Stop_def tcp_stop_thread_def udp_Stop_def udp_stop_thread_def
        on_machine_def set_ext_def on_udp_def m Let_def split_def tell_def config_def)
qed

text \<open>
  C37: the control handler shuts the server down completely, from any consistent state with everything
  running: when the console is closed, the user logs off or the machine shuts down, it returns, no room is left,
  every user is out of the rooms, every TCP connection is closed and forgotten, and the three threads and the
  database connection are stopped. Ctrl-C and Ctrl-Break change nothing.
\<close>

theorem control_handler_shuts_down:
  fixes p :: "'e process"
  assumes E: "characters_ok E" and inv: "machine_inv (pr_machine p)"
    and up: "pr_tcpThread p" "pr_udpThread p" "pr_database p"
  shows "wp (ConsoleCtrlHandler E opens ev p) (\<lambda>(handled, p'). let w = m_world (pr_machine p') in handled \<and>
    (if ev = CTRL_C_EVENT \<or> ev = CTRL_BREAK_EVENT then p' = p
     else \<not> con_thread (pr_console p') \<and> \<not> pr_tcpThread p' \<and> \<not> pr_udpThread p' \<and> \<not> pr_database p' \<and>
       w_rooms w = (\<lambda>_. None) \<and> w_roomList w = [] \<and> (\<forall>q u. w_users w q = Some u \<longrightarrow> \<not> in_room u) \<and>
       m_connections (pr_machine p') = [] \<and> \<not> w_udpRunning w \<and>
       (\<forall>c \<in> set (m_connections (pr_machine p)). \<not> c_is_open (w_conns w c))))"
proof -
  from shutdown_leaves_nothing [OF E inv] obtain m where m: "ctrl_close E (pr_machine p) = Some m"
    "w_rooms (m_world m) = (\<lambda>_. None)" "w_roomList (m_world m) = []" "m_connections m = []"
    "\<forall>q u. w_users (m_world m) q = Some u \<longrightarrow> \<not> in_room u" "\<not> w_udpRunning (m_world m)"
    "\<forall>c \<in> set (m_connections (pr_machine p)). \<not> c_is_open (w_conns (m_world m) c)"
    unfolding wp_iff by blast
  obtain p' where "close_process E opens p = Some p'" "pr_machine p' = m" "\<not> con_thread (pr_console p')"
    "\<not> pr_tcpThread p'" "\<not> pr_udpThread p'" "\<not> pr_database p'"
    using close_process_machine [OF up m(1)] by blast
  with m(2-) show ?thesis by (cases ev) simp_all
qed

lemma control_handler_shuts_down_witness:
  "wp (ConsoleCtrlHandler null_env (\<lambda>_. True) CTRL_CLOSE_EVENT
      \<lparr>pr_console = new_console, pr_tcpThread = True, pr_udpThread = True, pr_database = True,
       pr_machine = (start_server null_env 0 sample_cfg ())\<lparr>m_connections := [11, 12, 13], m_world := sample_world\<rparr>\<rparr>)
    (\<lambda>(handled, p'). handled \<and> w_roomList (m_world (pr_machine p')) = [] \<and> \<not> pr_tcpThread p')"
proof (rule wp_mono [OF control_handler_shuts_down [OF null_characters]])
  show "machine_inv (pr_machine \<lparr>pr_console = new_console, pr_tcpThread = True, pr_udpThread = True, pr_database = True,
      pr_machine = (start_server null_env 0 sample_cfg ())\<lparr>m_connections := [11, 12, 13], m_world := sample_world\<rparr>\<rparr>)"
    using sample_inv sample_idle by (simp add: machine_inv_def start_server_def udp_start_def)
qed (auto simp: Let_def)

end
