(* ===== verification/Spec2Isabelle.thy ===== *)
theory Spec2Isabelle
  imports Transport RoomProperties LoginProperties UdpProperties UdpQueues Connecting ProcessProperties
begin

text \<open>
  Verification of the CSO master server: the lobby server of an online shooter, in C++ under \<open>src/\<close>.
  Clients connect over TCP, log in, chat, open and join rooms and start matches that one of them hosts;
  over UDP they tell the server their endpoints and have data relayed; several such servers, one per
  channel, keep each other informed over UDP. Accounts and preferences are in a MySQL database.

  The theories follow the program from the bottom up.

  Prelude: widths of integers (\<open>unsigned long\<close> has 32 bits, as on the Windows target), addresses of
  objects (\<open>ptr\<close>, 0 is NULL), undefined behaviour as \<open>None\<close>, \<open>wp m Q\<close> (the step \<open>m\<close> is defined and its
  result satisfies \<open>Q\<close>) and monadic list loops. Environment: everything the code calls and does not
  contain (MySQL client, OpenSSL, bcrypt, clock, \<open>inet_pton\<close>, \<open>localtime_s\<close>) as the record \<open>env\<close>, an
  argument of the definitions that use it, with a state threaded through the calls. Text: what is used of
  \<open>std::format\<close>, \<open>atoi\<close> and \<open>atoll\<close>.

  Packet and Connection: \<open>networking/tcp_connection.{h,cpp}\<close>. The packet buffer with its readers and
  writers, the locale \<open>codec\<close> (reading takes back what writing appended) interpreted on every width (floating
  point numbers are their bit patterns), the framing, the sequence numbers, the write queue and the switch to
  encryption. UdpPacket: \<open>UDPPacket\<close> of \<open>networking/udp_server.h\<close>, a second class with the same readers and
  writers; the locale \<open>same_reads\<close>, interpreted on every reader, says that it reads what the first reads. Transport: what leaves and
  enters a connection once its ciphers are set up, for any stream cipher.

  Config, LoadConfig: \<open>serverconfig.{h,cpp}\<close>, with what \<open>Load\<close> uses of the JSON library.
  RoomSettings: the settings of \<open>room/room.h\<close>, their partial update and their wire format. UserModel:
  \<open>user/user.{h,cpp}\<close>, with the statuses in the order of their enumeration. Database: \<open>managers/databasemanager.cpp\<close>, every operation as the SQL text it
  builds and the reading of the rows. World: the heaps of users, rooms and connections, the lists of the
  managers and the configuration, as one record.

  Packets: the messages the managers build. Managers: what \<open>usermanager.cpp\<close> and \<open>roommanager.cpp\<close> send
  to groups of users. Rooms: \<open>room/room.cpp\<close>, \<open>room/gamematch.cpp\<close> and the changes of
  \<open>managers/roommanager.cpp\<close>. Users: the changes of \<open>managers/usermanager.cpp\<close>. RoomPackets, HostPackets,
  LoginPackets and ClientPackets: the handlers of \<open>managers/packet_*manager.cpp\<close>, each with its guards, reads
  and effects in the order of the code, and their dispatch \<open>ParsePacket\<close>. Udp: \<open>networking/udp_server.cpp\<close>.
  Server: \<open>networking/tcp_server.cpp\<close>, the timer and the commands of \<open>serverconsole.cpp\<close>, and the events of
  the outside as the function \<open>perform\<close> on the state \<open>machine\<close>.

  Three theories detail what these leave out. UdpQueues: the four queues of the UDP server; the locale
  \<open>worked_off\<close>, interpreted on each, shows that the queue-free model is what they do. Connecting: the greeting, the
  TLS handshake and the one operation a connection waits for, as the step relation \<open>wired_step\<close>, whose runs are runs of
  \<open>perform\<close>. Console and Process: what \<open>serverconsole.cpp\<close> prints and reads, \<open>Start\<close> and \<open>Stop\<close> of the three threads
  (the locale \<open>service\<close>), \<open>main\<close> and the control handler of \<open>main.cpp\<close>.

  Sends: every message to a group is defined and leaves the shared objects alone (locales \<open>broadcast\<close>
  for loops over users, \<open>registry\<close> for the searches of the managers). RoomSpec: the abstract room, without
  messages (\<open>leave_room\<close>, \<open>hand_over\<close>, \<open>quit_room\<close>), which \<open>Room::RemoveRoomUser\<close> refines. Invariant: the
  invariant \<open>lobby_inv\<close> over users, rooms and matches and the abstract changes that keep it. Leaving,
  Entering, Dissolving, RoomSafety, HostSafety, LoginSafety, ClientSafety, UdpSafety: every operation is
  defined under the invariant and keeps it (\<open>server_inv\<close> adds the announced player count). Schema: the
  hypotheses on the tables. ServerSafety: steps and reachable states of the process. PeerList: the server
  list as a map from ids to channels. Queues: no handler touches the incoming queues and the decryption
  switch of a connection, and every buffer that is queued is longer than a header (\<open>link\<close>). Samples: a small world that satisfies the hypotheses.

  RunProperties holds what is true in every reachable state; ProcessProperties how the process starts and
  ends; RoomProperties what rooms
  and matches do; LoginProperties who is heard and who gets in, what is stored and what a search finds;
  UdpProperties the UDP server; ConfigProperties the configuration. Properties of packets, connections and
  settings are in the theories of these. Two of the properties and some of the lemmas are defects of the program, stated as such;
  the hypotheses \<open>packet_ok\<close>, \<open>host_packet_ok\<close> and \<open>datagram_ok\<close> of the others exclude just the inputs that
  trigger them.
\<close>

text \<open>
  What the model assumes.

  Handlers are atomic: the mutexes and threads of the program are not modelled, a run is a sequence of
  events, and in \<open>main\<close> the session at the console is run without events of the network in between
  (\<open>console_session_safe\<close> starts it in any reachable state). A read of a header or a body is two events with the
  packet in \<open>m_pending\<close>. \<open>DisconnectUser\<close> closes the socket only, as the code does: the user is removed by the event of the
  failing read. Connections are reference counted in the code and never dangle; users and rooms are freed
  explicitly and a use after that is \<open>None\<close>. An address is never used twice. A match is part of its room.

  The result of \<open>atoi\<close> and \<open>atoll\<close> out of range, a NULL column, an index out of range, the erasure of
  something that is not in a vector and a dangling pointer are undefined behaviour, hence \<open>None\<close>. \<open>schema_ok\<close> and
  \<open>rooms_table_ok\<close> say that the tables have the columns the code reads, not NULL and in range; \<open>null_env\<close>, whose
  queries return no rows, satisfies them.

  Addresses of configured channels and of clients are taken to be valid for \<open>make_address\<close>; \<open>tolower\<close> is the
  one of the C locale. The loop of \<open>GetFreeRoomID\<close> runs over the ids from 1 to 65534, with the number of
  ids left as fuel, which is exactly the bound of the loop; all other loops run over lists, counters or what is left of the input and have a measure.
\<close>

text \<open>
  Not modelled: debug logging, the lines handlers print about the packets they refuse (they change no state),
  TLS, the sockets and the certificates themselves, the protocol of MySQL, the JSON parser, the text of
  \<open>localtime\<close> and \<open>strftime\<close>, threads and locks, the order in which global objects are destroyed, and the
  third-party code.
\<close>

end
